(* ===== verification/Prelude.thy ===== *)
theory Prelude
  imports Main "HOL-Library.Word"
begin

text \<open>
  Shared base of the nftlb development: C strings as Isabelle strings, the fragments of the C
  standard library the sources use (\<open>strstr\<close>, \<open>strchr\<close>, \<open>atoi\<close> and \<open>sscanf\<close> with \<open>%d\<close>,
  \<open>printf\<close> with \<open>%d\<close> and \<open>%x\<close>), lists of objects addressed by key (the role the kernel-style
  \<open>list_head\<close> lists play in the C code), and the interfaces other theories instantiate:
  \<open>value_codec\<close> for a printer and the parser of the same configuration value, and \<open>keyed_list\<close>
  for a list of objects with an identity.
\<close>

unbundle bit_operations_syntax

named_theorems cstr_simps \<open>evaluation of C string helpers\<close>
named_theorems key_simps \<open>lists of objects addressed by key\<close>

type_synonym cptr = "string option"
type_synonym flags = "32 word"
type_synonym oid = nat

section \<open>C strings\<close>

text \<open>\<open>strncmp(token, p, strlen(token)) == 0\<close>: the text at \<open>p\<close> starts with the token.\<close>

definition starts_with :: "string \<Rightarrow> string \<Rightarrow> bool" where
  "starts_with tok p = (take (length tok) p = tok)"

text \<open>\<open>strstr\<close>: the rest of the haystack from the first occurrence on, or NULL.\<close>

fun strstr :: "string \<Rightarrow> string \<Rightarrow> string option" where
  "strstr [] needle = (if needle = [] then Some [] else None)"
| "strstr (c # cs) needle =
     (if starts_with needle (c # cs) then Some (c # cs) else strstr cs needle)"

abbreviation has_substr :: "string \<Rightarrow> string \<Rightarrow> bool" where
  "has_substr hay needle \<equiv> strstr hay needle \<noteq> None"

text \<open>\<open>strchr\<close>: the rest of the string from the first occurrence of the character on, or NULL.\<close>

fun strchr :: "string \<Rightarrow> char \<Rightarrow> string option" where
  "strchr [] c = None"
| "strchr (x # xs) c = (if x = c then Some (x # xs) else strchr xs c)"

lemma strchr_length: "strchr s c = Some t \<Longrightarrow> length t \<le> length s \<and> t \<noteq> []"
  by (induction s) (auto split: if_splits)

lemma strchr_None_iff: "strchr s c = None \<longleftrightarrow> c \<notin> set s"
  by (induction s) auto

lemma strchr_append: "c \<notin> set s \<Longrightarrow> strchr (s @ c # t) c = Some (c # t)"
  by (induction s) auto

lemma starts_with_append [simp]: "starts_with s (s @ t)"
  by (simp add: starts_with_def)

lemma strstr_Some: "strstr hay needle = Some t \<Longrightarrow> \<exists>u v. hay = u @ t \<and> t = needle @ v"
proof (induction hay)
  case Nil
  then show ?case by (auto split: if_splits)
next
  case (Cons c cs)
  show ?case
  proof (cases "starts_with needle (c # cs)")
    case True
    then have "c # cs = needle @ drop (length needle) (c # cs)"
      by (metis append_take_drop_id starts_with_def)
    with True Cons.prems show ?thesis
      by (metis append_Nil option.inject strstr.simps(2))
  next
    case False
    with Cons.prems have "strstr cs needle = Some t" by simp
    from Cons.IH [OF this] obtain u v where "cs = u @ t" "t = needle @ v" by blast
    then show ?thesis by (metis append_Cons)
  qed
qed

section \<open>Decimal and hexadecimal text\<close>

definition digit_char :: "nat \<Rightarrow> char" where
  "digit_char d = (if d < 10 then char_of (48 + d) else char_of (87 + d))"

text \<open>The digits \<open>printf\<close> writes for an unsigned value in the given base.\<close>

function print_base :: "nat \<Rightarrow> nat \<Rightarrow> string" where
  "print_base b n =
     (if b < 2 \<or> n < b then [digit_char n] else print_base b (n div b) @ [digit_char (n mod b)])"
  by pat_completeness auto
termination
  by (relation "measure snd") auto

declare print_base.simps [simp del]

definition print_u :: "nat \<Rightarrow> string" where
  "print_u n = print_base 10 n"

text \<open>\<open>%d\<close>.\<close>

definition print_d :: "int \<Rightarrow> string" where
  "print_d i = (if i < 0 then CHR ''-'' # print_u (nat (- i)) else print_u (nat i))"

text \<open>\<open>%x\<close> of a 32-bit value, which C reads as unsigned.\<close>

definition print_x :: "flags \<Rightarrow> string" where
  "print_x w = print_base 16 (unat w)"

definition is_digit :: "char \<Rightarrow> bool" where
  "is_digit c = (48 \<le> (of_char c :: nat) \<and> (of_char c :: nat) \<le> 57)"

definition digit_val :: "char \<Rightarrow> nat" where
  "digit_val c = (of_char c :: nat) - 48"

text \<open>\<open>%d\<close> of \<open>sscanf\<close> on unsigned input: the longest run of digits, with the rest of the text.\<close>

fun scan_digits :: "nat \<Rightarrow> string \<Rightarrow> nat \<times> string" where
  "scan_digits acc [] = (acc, [])"
| "scan_digits acc (c # cs) =
     (if is_digit c then scan_digits (10 * acc + digit_val c) cs else (acc, c # cs))"

definition is_space :: "char \<Rightarrow> bool" where
  "is_space c = (let n = (of_char c :: nat) in n = 32 \<or> (9 \<le> n \<and> n \<le> 13))"

text \<open>
  \<open>%d\<close> in full: leading white space, an optional sign, then at least one digit. \<open>None\<close> is a
  matching failure, in which \<open>sscanf\<close> leaves the target untouched.
\<close>

fun scan_d :: "string \<Rightarrow> (int \<times> string) option" where
  "scan_d s =
     (let t = dropWhile is_space s;
          neg = (t \<noteq> [] \<and> hd t = CHR ''-'');
          u = (if t \<noteq> [] \<and> (hd t = CHR ''-'' \<or> hd t = CHR ''+'') then tl t else t)
      in if u = [] \<or> \<not> is_digit (hd u) then None
         else let (n, rest) = scan_digits 0 u
              in Some (if neg then - int n else int n, rest))"

declare scan_d.simps [simp del]

text \<open>
  A number read from text is first a 64-bit \<open>long\<close> (out of range it sticks at the ends) and then
  stored as a 32-bit \<open>int\<close>, which keeps its low 32 bits.
\<close>

definition long_clamp :: "int \<Rightarrow> int" where
  "long_clamp i = max (- (2 ^ 63)) (min (2 ^ 63 - 1) i)"

definition int_of_long :: "int \<Rightarrow> int" where
  "int_of_long i = (let n = i mod 2 ^ 32 in if n < 2 ^ 31 then n else n - 2 ^ 32)"

abbreviation c_int_range :: "int \<Rightarrow> bool" where
  "c_int_range i \<equiv> - (2 ^ 31) \<le> i \<and> i < 2 ^ 31"

text \<open>\<open>atoi\<close>: 0 when no number can be read.\<close>

definition atoi :: "string \<Rightarrow> int" where
  "atoi s = (case scan_d s of None \<Rightarrow> 0 | Some (i, _) \<Rightarrow> int_of_long (long_clamp i))"

text \<open>\<open>strtol\<close> in base 16: white space, a sign, an optional \<open>0x\<close>, then hexadecimal digits.\<close>

definition hex_val :: "char \<Rightarrow> nat option" where
  "hex_val c =
     (let n = (of_char c :: nat)
      in if 48 \<le> n \<and> n \<le> 57 then Some (n - 48)
         else if 97 \<le> n \<and> n \<le> 102 then Some (n - 87)
         else if 65 \<le> n \<and> n \<le> 70 then Some (n - 55)
         else None)"

fun scan_hex :: "nat \<Rightarrow> string \<Rightarrow> nat" where
  "scan_hex acc [] = acc"
| "scan_hex acc (c # cs) = (case hex_val c of None \<Rightarrow> acc | Some d \<Rightarrow> scan_hex (16 * acc + d) cs)"

fun skip_0x :: "string \<Rightarrow> string" where
  "skip_0x (z # x # h # cs) =
     (if z = CHR ''0'' \<and> (x = CHR ''x'' \<or> x = CHR ''X'') \<and> hex_val h \<noteq> None then h # cs
      else z # x # h # cs)"
| "skip_0x cs = cs"

definition strtol16 :: "string \<Rightarrow> int" where
  "strtol16 s =
     (let t = dropWhile is_space s;
          neg = (t \<noteq> [] \<and> hd t = CHR ''-'');
          u = (if t \<noteq> [] \<and> (hd t = CHR ''-'' \<or> hd t = CHR ''+'') then tl t else t);
          n = int (scan_hex 0 (skip_0x u))
      in long_clamp (if neg then - n else n))"

lemma int_of_long_id: "c_int_range i \<Longrightarrow> int_of_long (long_clamp i) = i"
proof -
  assume r: "c_int_range i"
  then have "long_clamp i = i" by (simp add: long_clamp_def)
  moreover have "i mod 4294967296 = (if 0 \<le> i then i else i + 4294967296)"
  proof (cases "0 \<le> i")
    case False
    then have "(i + 4294967296) mod 4294967296 = i + 4294967296"
      using r by (intro mod_pos_pos_trivial) auto
    with False show ?thesis by simp
  qed (use r in \<open>simp add: mod_pos_pos_trivial\<close>)
  ultimately show ?thesis using r by (auto simp: int_of_long_def Let_def)
qed

lemma int_of_long_range: "c_int_range (int_of_long i)"
proof -
  have "0 \<le> i mod 2 ^ 32" "i mod 2 ^ 32 < 2 ^ 32" by (simp_all del: power_numeral)
  then show ?thesis by (auto simp: int_of_long_def Let_def)
qed

lemma digit_char_dec: "d < 10 \<Longrightarrow> is_digit (digit_char d) \<and> digit_val (digit_char d) = d"
  by (simp add: digit_char_def is_digit_def digit_val_def of_char_of)

lemma print_base_nonempty [simp]: "print_base b n \<noteq> []"
  by (subst print_base.simps) simp

lemma print_u_digits: "\<forall>c \<in> set (print_u n). is_digit c"
  unfolding print_u_def
proof (induction "10::nat" n rule: print_base.induct)
  case (1 n)
  show ?case
  proof (cases "n < 10")
    case True
    then show ?thesis by (subst print_base.simps) (simp add: digit_char_dec)
  next
    case False
    with 1 show ?thesis
      by (subst print_base.simps) (auto simp: digit_char_dec)
  qed
qed

lemma scan_digits_append:
  "\<forall>c \<in> set ds. is_digit c \<Longrightarrow> scan_digits acc (ds @ rest) = scan_digits (fst (scan_digits acc ds)) rest"
  by (induction ds arbitrary: acc) auto

lemma scan_digits_print_base:
  "fst (scan_digits 0 (print_u n)) = n"
  unfolding print_u_def
proof (induction "10::nat" n rule: print_base.induct)
  case (1 n)
  show ?case
  proof (cases "n < 10")
    case True
    then show ?thesis by (subst print_base.simps) (simp add: digit_char_dec)
  next
    case False
    have digits: "\<forall>c \<in> set (print_base 10 (n div 10)). is_digit c"
      using print_u_digits by (simp add: print_u_def)
    from 1 False have "fst (scan_digits 0 (print_base 10 (n div 10))) = n div 10" by simp
    with False digits show ?thesis
      by (subst print_base.simps) (simp add: scan_digits_append digit_char_dec)
  qed
qed

text \<open>What \<open>%d\<close> printed, \<open>%d\<close> reads back, up to the first character that is no digit.\<close>

lemma scan_digits_print:
  assumes "rest = [] \<or> \<not> is_digit (hd rest)"
  shows "scan_digits 0 (print_u n @ rest) = (n, rest)"
proof -
  have "scan_digits 0 (print_u n @ rest) = scan_digits n rest"
    using print_u_digits by (simp add: scan_digits_append scan_digits_print_base)
  then show ?thesis using assms by (cases rest) auto
qed

lemma is_digit_not_space: "is_digit c \<Longrightarrow> \<not> is_space c"
  by (auto simp: is_digit_def is_space_def Let_def)

lemma is_digit_not_sign: "is_digit c \<Longrightarrow> c \<noteq> CHR ''-'' \<and> c \<noteq> CHR ''+''"
  by (auto simp: is_digit_def)

lemma print_u_Cons: "\<exists>c cs. print_u n = c # cs \<and> is_digit c"
proof -
  obtain c cs where "print_u n = c # cs"
    by (metis neq_Nil_conv print_base_nonempty print_u_def)
  with print_u_digits [of n] show ?thesis by auto
qed

lemma scan_d_print_d:
  assumes "rest = [] \<or> \<not> is_digit (hd rest)"
  shows "scan_d (print_d i @ rest) = Some (i, rest)"
proof -
  obtain c cs where p: "print_u (nat \<bar>i\<bar>) = c # cs" and c: "is_digit c"
    using print_u_Cons by blast
  have scan: "scan_digits 0 (c # cs @ rest) = (nat \<bar>i\<bar>, rest)"
    using scan_digits_print [OF assms, of "nat \<bar>i\<bar>"] p by simp
  have minus: "\<not> is_space (CHR ''-'')" by (simp add: is_space_def)
  show ?thesis
  proof (cases "i < 0")
    case True
    then have "print_d i = CHR ''-'' # c # cs" using p by (simp add: print_d_def)
    then show ?thesis using c scan True minus by (simp add: scan_d.simps Let_def)
  next
    case False
    then have "print_d i = c # cs" using p by (simp add: print_d_def)
    then show ?thesis using c scan False
      by (simp add: scan_d.simps Let_def is_digit_not_space is_digit_not_sign)
  qed
qed

lemma atoi_print_d: "c_int_range i \<Longrightarrow> atoi (print_d i) = i"
  using scan_d_print_d [of "[]" i] by (simp add: atoi_def int_of_long_id)

lemma digit_char_zero: "0 < d \<Longrightarrow> d < 10 \<Longrightarrow> digit_char d \<noteq> CHR ''0''"
proof
  assume "0 < d" "d < 10" "digit_char d = CHR ''0''"
  with digit_char_dec [of d] have "digit_val (CHR ''0'') = d" by simp
  with \<open>0 < d\<close> show False by (simp add: digit_val_def)
qed

lemma hd_print_base: "hd (print_base b n) = (if b < 2 \<or> n < b then digit_char n else hd (print_base b (n div b)))"
  by (subst print_base.simps) simp

lemma print_u_no_leading_zero: "0 < n \<Longrightarrow> hd (print_u n) \<noteq> CHR ''0''"
  unfolding print_u_def
proof (induction "10::nat" n rule: print_base.induct)
  case (1 n)
  show ?case
  proof (cases "n < 10")
    case True
    with 1 show ?thesis by (simp add: hd_print_base [of _ n] digit_char_zero)
  next
    case False
    then have "0 < n div 10" by (simp add: div_greater_zero_iff)
    with 1 False show ?thesis by (simp add: hd_print_base [of _ n])
  qed
qed

lemma length_print_u: "n < 10 ^ Suc k \<Longrightarrow> length (print_u n) \<le> Suc k"
  unfolding print_u_def
proof (induction k arbitrary: n)
  case 0
  then show ?case by (subst print_base.simps) simp
next
  case (Suc k)
  then have "n div 10 < 10 ^ Suc k" by (simp add: less_mult_imp_div_less)
  with Suc.IH show ?case by (subst print_base.simps) auto
qed

lemma hex_val_digit_char: "d < 16 \<Longrightarrow> hex_val (digit_char d) = Some d"
  by (auto simp: digit_char_def hex_val_def Let_def of_char_of)

lemma scan_hex_snoc:
  "\<forall>c \<in> set ds. hex_val c \<noteq> None \<Longrightarrow> scan_hex acc (ds @ cs) = scan_hex (scan_hex acc ds) cs"
  by (induction ds arbitrary: acc) (auto split: option.splits)

lemma print_base_16: "(\<forall>c \<in> set (print_base 16 n). hex_val c \<noteq> None) \<and> scan_hex 0 (print_base 16 n) = n"
proof (induction "16::nat" n rule: print_base.induct)
  case (1 n)
  show ?case
  proof (cases "n < 16")
    case True
    then show ?thesis by (subst (1 2) print_base.simps) (simp add: hex_val_digit_char)
  next
    case False
    with 1 show ?thesis
      by (subst (1 2) print_base.simps) (auto simp: hex_val_digit_char scan_hex_snoc)
  qed
qed

text \<open>\<open>0x%x\<close> is read back by \<open>strtol\<close> in base 16.\<close>

lemma strtol16_print_x: "strtol16 (''0x'' @ print_x w) = int (unat w)"
proof -
  obtain c cs where p: "print_x w = c # cs"
    by (metis neq_Nil_conv print_base_nonempty print_x_def)
  have h: "hex_val c \<noteq> None" using print_base_16 [of "unat w"] p by (simp add: print_x_def)
  have "scan_hex 0 (c # cs) = unat w" using print_base_16 [of "unat w"] p by (simp add: print_x_def)
  moreover have "long_clamp (uint w) = uint w"
  proof -
    have "uint w < 4294967296" using uint_bounded [of w] by simp
    moreover have "- 9223372036854775808 \<le> uint w" using uint_ge_0 [of w] by linarith
    ultimately show ?thesis by (simp add: long_clamp_def max_def)
  qed
  ultimately show ?thesis
    using p h by (simp add: strtol16_def is_space_def)
qed

section \<open>Lists of objects addressed by key\<close>

text \<open>
  The C objects hang off \<open>list_head\<close> lists and are reached by pointer. Here each object carries an
  identity (an \<open>oid\<close> in the role of its address, or its name where the code searches by name) and
  the lists are Isabelle lists in the same order. \<open>kfind\<close> is a \<open>list_for_each_entry\<close> search,
  \<open>kupd\<close> a write through the pointer, \<open>kdel\<close> a \<open>list_del\<close>.
\<close>

definition kfind :: "('a \<Rightarrow> 'k) \<Rightarrow> 'k \<Rightarrow> 'a list \<Rightarrow> 'a option" where
  "kfind key k xs = find (\<lambda>x. key x = k) xs"

definition kupd :: "('a \<Rightarrow> 'k) \<Rightarrow> 'k \<Rightarrow> ('a \<Rightarrow> 'a) \<Rightarrow> 'a list \<Rightarrow> 'a list" where
  "kupd key k g xs = map (\<lambda>x. if key x = k then g x else x) xs"

definition kdel :: "('a \<Rightarrow> 'k) \<Rightarrow> 'k \<Rightarrow> 'a list \<Rightarrow> 'a list" where
  "kdel key k xs = filter (\<lambda>x. key x \<noteq> k) xs"

lemma kfind_simps [simp, key_simps]:
  "kfind key k [] = None"
  "kfind key k (x # xs) = (if key x = k then Some x else kfind key k xs)"
  by (simp_all add: kfind_def)

lemma kupd_simps [simp, key_simps]:
  "kupd key k g [] = []"
  "kupd key k g (x # xs) = (if key x = k then g x else x) # kupd key k g xs"
  by (simp_all add: kupd_def)

lemma kdel_simps [simp, key_simps]:
  "kdel key k [] = []"
  "kdel key k (x # xs) = (if key x = k then kdel key k xs else x # kdel key k xs)"
  by (simp_all add: kdel_def)

lemma kfind_Some: "kfind key k xs = Some x \<Longrightarrow> x \<in> set xs \<and> key x = k"
  by (induction xs) (auto split: if_splits)

lemma kfind_None_iff: "kfind key k xs = None \<longleftrightarrow> k \<notin> key ` set xs"
  by (induction xs) auto

lemma length_kupd [simp]: "length (kupd key k g xs) = length xs"
  by (simp add: kupd_def)

lemma set_kdel: "set (kdel key k xs) = {x \<in> set xs. key x \<noteq> k}"
  by (simp add: kdel_def)

lemma map_kupd_frame: "(\<And>x. h (g x) = h x) \<Longrightarrow> map h (kupd key k g xs) = map h xs"
  by (induction xs) auto

lemma kfind_kupd:
  "(\<And>x. key (g x) = key x) \<Longrightarrow>
   kfind key k (kupd key j g xs) = (if k = j then map_option g (kfind key k xs) else kfind key k xs)"
  by (induction xs) auto

lemma kfind_kdel: "kfind key k (kdel key j xs) = (if k = j then None else kfind key k xs)"
  by (induction xs) auto

lemma kfind_append: "kfind key k (xs @ ys) = (case kfind key k xs of None \<Rightarrow> kfind key k ys | Some x \<Rightarrow> Some x)"
  by (induction xs) auto

lemma kupd_absent: "k \<notin> key ` set xs \<Longrightarrow> kupd key k g xs = xs"
  by (induction xs) auto

lemma kdel_absent: "k \<notin> key ` set xs \<Longrightarrow> kdel key k xs = xs"
  by (induction xs) auto

lemma distinct_keys_kdel: "distinct (map key xs) \<Longrightarrow> distinct (map key (kdel key k xs))"
  by (induction xs) (auto simp: kdel_def)

lemma length_kdel: "distinct (map key xs) \<Longrightarrow> k \<in> key ` set xs \<Longrightarrow> Suc (length (kdel key k xs)) = length xs"
proof (induction xs)
  case Nil
  then show ?case by simp
next
  case (Cons x xs)
  show ?case
  proof (cases "key x = k")
    case True
    with Cons.prems have "k \<notin> key ` set xs" by auto
    with True show ?thesis by (simp add: kdel_absent)
  next
    case False
    with Cons show ?thesis by auto
  qed
qed

text \<open>
  The interface the object components rely on: an object list with a lookup, an in-place update
  that keeps the identity, an insertion at the tail and a deletion.
\<close>

locale keyed_list =
  fixes key :: "'a \<Rightarrow> 'k"
    and lookup :: "'k \<Rightarrow> 'a list \<Rightarrow> 'a option"
    and modify :: "'k \<Rightarrow> ('a \<Rightarrow> 'a) \<Rightarrow> 'a list \<Rightarrow> 'a list"
    and remove :: "'k \<Rightarrow> 'a list \<Rightarrow> 'a list"
  assumes lookup_mem: "lookup k xs = Some x \<Longrightarrow> x \<in> set xs \<and> key x = k"
    and lookup_absent: "lookup k xs = None \<longleftrightarrow> k \<notin> key ` set xs"
    and lookup_modify: "(\<And>x. key (g x) = key x) \<Longrightarrow>
          lookup k (modify j g xs) = (if k = j then map_option g (lookup k xs) else lookup k xs)"
    and lookup_remove: "lookup k (remove j xs) = (if k = j then None else lookup k xs)"
    and keys_modify: "(\<And>x. key (g x) = key x) \<Longrightarrow> map key (modify j g xs) = map key xs"
    and keys_remove: "map key (remove j xs) = filter (\<lambda>k. k \<noteq> j) (map key xs)"
    and lookup_snoc: "lookup k (xs @ [x]) =
          (case lookup k xs of None \<Rightarrow> (if key x = k then Some x else None) | Some y \<Rightarrow> Some y)"
begin

lemma lookup_modify_same: "(\<And>x. key (g x) = key x) \<Longrightarrow> lookup k (modify k g xs) = map_option g (lookup k xs)"
  by (simp add: lookup_modify)

lemma lookup_modify_other: "(\<And>x. key (g x) = key x) \<Longrightarrow> k \<noteq> j \<Longrightarrow> lookup k (modify j g xs) = lookup k xs"
  by (simp add: lookup_modify)

lemma distinct_modify: "(\<And>x. key (g x) = key x) \<Longrightarrow> distinct (map key xs) \<Longrightarrow> distinct (map key (modify j g xs))"
  by (simp add: keys_modify)

lemma distinct_remove: "distinct (map key xs) \<Longrightarrow> distinct (map key (remove j xs))"
  by (simp add: keys_remove)

lemma distinct_snoc: "distinct (map key xs) \<Longrightarrow> lookup (key x) xs = None \<Longrightarrow> distinct (map key (xs @ [x]))"
  by (simp add: lookup_absent)

lemma lookup_fresh: "lookup (key x) xs = None \<Longrightarrow> lookup (key x) (xs @ [x]) = Some x"
  by (simp add: lookup_snoc)

end

text \<open>The list operations of this theory meet the interface, for every key.\<close>

lemma keyed_list_kfind: "keyed_list key (kfind key) (kupd key) (kdel key)"
proof (rule keyed_list.intro)
  fix k and xs and x
  show "kfind key k xs = Some x \<Longrightarrow> x \<in> set xs \<and> key x = k" by (rule kfind_Some)
  show "kfind key k xs = None \<longleftrightarrow> k \<notin> key ` set xs" by (rule kfind_None_iff)
  show "map key (kdel key k xs) = filter (\<lambda>i. i \<noteq> k) (map key xs)"
    by (simp add: kdel_def filter_map comp_def)
  show "kfind key k (xs @ [x]) =
          (case kfind key k xs of None \<Rightarrow> (if key x = k then Some x else None) | Some y \<Rightarrow> Some y)"
    by (simp add: kfind_append split: option.split)
qed (simp_all add: kfind_kupd kfind_kdel map_kupd_frame)

section \<open>Loops\<close>

text \<open>A loop whose body may fail; a failure ends it.\<close>

fun foldo :: "('a \<Rightarrow> 's \<Rightarrow> 's option) \<Rightarrow> 'a list \<Rightarrow> 's \<Rightarrow> 's option" where
  "foldo g [] s = Some s"
| "foldo g (x # xs) s = Option.bind (g x s) (foldo g xs)"

section \<open>Printers and parsers of configuration values\<close>

text \<open>
  A configuration value has a printer (\<open>obj_print_*\<close> of objects.c, \<open>None\<close> its NULL) and a parser
  (\<open>config_value_*\<close> of config.c). What a codec promises: every printed value is parsed back.
\<close>

locale value_codec =
  fixes vprint :: "'a \<Rightarrow> cptr"
    and vparse :: "string \<Rightarrow> 'a"
    and printable :: "'a \<Rightarrow> bool"
  assumes print_Some: "printable v \<Longrightarrow> \<exists>s. vprint v = Some s"
    and parse_print: "printable v \<Longrightarrow> vprint v = Some s \<Longrightarrow> vparse s = v"
begin

lemma round_trip: "printable v \<Longrightarrow> vparse (the (vprint v)) = v"
  using print_Some parse_print by fastforce

lemma print_inj: "printable v \<Longrightarrow> printable w \<Longrightarrow> vprint v = vprint w \<Longrightarrow> v = w"
  by (metis round_trip)

lemma parse_surj: "printable v \<Longrightarrow> \<exists>s. vparse s = v"
  using round_trip by blast

end

end
