(* ===== verification/Objects.thy ===== *)
theory Objects
  imports Prelude
begin

text \<open>
  The data model of nftlb: the enumerations and bit masks of objects.h, farms.h, policies.h and
  sessions.h, the structs of farms, backends, addresses, policies, elements, sessions and of the
  link objects between them as records, and the printers of objects.c. Enumerations are datatypes
  with the constructors of the source, masks are 32-bit words, a \<open>char *\<close> that may be NULL is a
  \<open>cptr\<close>. An object's address is its \<open>oid\<close>; a pointer to another object is that object's \<open>oid\<close>.
\<close>

section \<open>Enumerations and masks\<close>

datatype action = ACTION_START | ACTION_STOP | ACTION_FLUSH | ACTION_RELOAD | ACTION_DELETE | ACTION_NONE

text \<open>The code compares actions by the position of the enumerator (\<open>f->action > action\<close>).\<close>

fun action_code :: "action \<Rightarrow> nat" where
  "action_code ACTION_START = 0"
| "action_code ACTION_STOP = 1"
| "action_code ACTION_FLUSH = 2"
| "action_code ACTION_RELOAD = 3"
| "action_code ACTION_DELETE = 4"
| "action_code ACTION_NONE = 5"

lemma action_code_inj [simp]: "action_code a = action_code b \<longleftrightarrow> a = b"
  by (cases a; cases b) auto

instantiation action :: linorder
begin

definition less_eq_action :: "action \<Rightarrow> action \<Rightarrow> bool" where
  "less_eq_action a b = (action_code a \<le> action_code b)"

definition less_action :: "action \<Rightarrow> action \<Rightarrow> bool" where
  "less_action a b = (action_code a < action_code b)"

instance
  by standard (auto simp: less_eq_action_def less_action_def)

end

lemmas action_order = less_eq_action_def less_action_def

datatype family = VALUE_FAMILY_IPV4 | VALUE_FAMILY_IPV6 | VALUE_FAMILY_INET | VALUE_FAMILY_NETDEV
datatype mode = VALUE_MODE_SNAT | VALUE_MODE_DNAT | VALUE_MODE_DSR | VALUE_MODE_STLSDNAT | VALUE_MODE_LOCAL
datatype proto = VALUE_PROTO_ALL | VALUE_PROTO_TCP | VALUE_PROTO_UDP | VALUE_PROTO_SCTP
datatype sched = VALUE_SCHED_RR | VALUE_SCHED_WEIGHT | VALUE_SCHED_HASH | VALUE_SCHED_SYMHASH
datatype helper = VALUE_HELPER_NONE | VALUE_HELPER_FTP | VALUE_HELPER_PPTP | VALUE_HELPER_SIP
  | VALUE_HELPER_SNMP | VALUE_HELPER_TFTP
datatype ostate = VALUE_STATE_UP | VALUE_STATE_AVAIL | VALUE_STATE_DOWN | VALUE_STATE_OFF | VALUE_STATE_CONFERR
datatype switch = VALUE_SWITCH_OFF | VALUE_SWITCH_ON
datatype ptype = VALUE_TYPE_DENY | VALUE_TYPE_ALLOW
datatype route = VALUE_ROUTE_IN | VALUE_ROUTE_OUT
datatype session_type = SESSION_TYPE_STATIC | SESSION_TYPE_TIMED

datatype parser_output = PARSER_OK | PARSER_FAILED | PARSER_IGNORE | PARSER_STRUCT_FAILED
  | PARSER_VALID_FAILED | PARSER_IDEM_VALUE | PARSER_OBJ_UNKNOWN

text \<open>
  The unit of a rate limit stays a plain integer: a limit written without a unit leaves the unit at
  the -1 of \<open>init_pair\<close>, which no enumerator stands for.
\<close>

abbreviation VALUE_UNIT_SECOND :: int where "VALUE_UNIT_SECOND \<equiv> 0"
abbreviation VALUE_UNIT_MINUTE :: int where "VALUE_UNIT_MINUTE \<equiv> 1"
abbreviation VALUE_UNIT_HOUR :: int where "VALUE_UNIT_HOUR \<equiv> 2"
abbreviation VALUE_UNIT_DAY :: int where "VALUE_UNIT_DAY \<equiv> 3"
abbreviation VALUE_UNIT_WEEK :: int where "VALUE_UNIT_WEEK \<equiv> 4"

abbreviation VALUE_META_NONE :: flags where "VALUE_META_NONE \<equiv> 0"
abbreviation VALUE_META_SRCIP :: flags where "VALUE_META_SRCIP \<equiv> 1"
abbreviation VALUE_META_DSTIP :: flags where "VALUE_META_DSTIP \<equiv> 2"
abbreviation VALUE_META_SRCPORT :: flags where "VALUE_META_SRCPORT \<equiv> 4"
abbreviation VALUE_META_DSTPORT :: flags where "VALUE_META_DSTPORT \<equiv> 8"
abbreviation VALUE_META_SRCMAC :: flags where "VALUE_META_SRCMAC \<equiv> 16"
abbreviation VALUE_META_DSTMAC :: flags where "VALUE_META_DSTMAC \<equiv> 32"
abbreviation VALUE_META_MARK :: flags where "VALUE_META_MARK \<equiv> 64"

abbreviation VALUE_LOG_NONE :: flags where "VALUE_LOG_NONE \<equiv> 0"
abbreviation VALUE_LOG_INPUT :: flags where "VALUE_LOG_INPUT \<equiv> 1"
abbreviation VALUE_LOG_FORWARD :: flags where "VALUE_LOG_FORWARD \<equiv> 2"
abbreviation VALUE_LOG_OUTPUT :: flags where "VALUE_LOG_OUTPUT \<equiv> 4"

abbreviation VALUE_VERDICT_NONE :: flags where "VALUE_VERDICT_NONE \<equiv> 0"
abbreviation VALUE_VERDICT_LOG :: flags where "VALUE_VERDICT_LOG \<equiv> 1"
abbreviation VALUE_VERDICT_DROP :: flags where "VALUE_VERDICT_DROP \<equiv> 2"
abbreviation VALUE_VERDICT_ACCEPT :: flags where "VALUE_VERDICT_ACCEPT \<equiv> 4"

abbreviation VALUE_RLD_NONE :: flags where "VALUE_RLD_NONE \<equiv> 0"
abbreviation VALUE_RLD_NEWRTLIMIT_START :: flags where "VALUE_RLD_NEWRTLIMIT_START \<equiv> 1"
abbreviation VALUE_RLD_RSTRTLIMIT_START :: flags where "VALUE_RLD_RSTRTLIMIT_START \<equiv> 2"
abbreviation VALUE_RLD_ESTCONNLIMIT_START :: flags where "VALUE_RLD_ESTCONNLIMIT_START \<equiv> 4"
abbreviation VALUE_RLD_TCPSTRICT_START :: flags where "VALUE_RLD_TCPSTRICT_START \<equiv> 8"
abbreviation VALUE_RLD_QUEUE_START :: flags where "VALUE_RLD_QUEUE_START \<equiv> 16"
abbreviation VALUE_RLD_NEWRTLIMIT_STOP :: flags where "VALUE_RLD_NEWRTLIMIT_STOP \<equiv> 32"
abbreviation VALUE_RLD_RSTRTLIMIT_STOP :: flags where "VALUE_RLD_RSTRTLIMIT_STOP \<equiv> 64"
abbreviation VALUE_RLD_ESTCONNLIMIT_STOP :: flags where "VALUE_RLD_ESTCONNLIMIT_STOP \<equiv> 128"
abbreviation VALUE_RLD_TCPSTRICT_STOP :: flags where "VALUE_RLD_TCPSTRICT_STOP \<equiv> 256"
abbreviation VALUE_RLD_QUEUE_STOP :: flags where "VALUE_RLD_QUEUE_STOP \<equiv> 512"

text \<open>\<open>x & FLAG\<close> used as a truth value.\<close>

definition flag :: "flags \<Rightarrow> flags \<Rightarrow> bool" where
  "flag x m = (x AND m \<noteq> 0)"

section \<open>Objects\<close>

record backend =
  b_id :: oid
  b_action :: action
  b_name :: string
  b_fqdn :: string
  b_ipaddr :: cptr
  b_ethaddr :: cptr
  b_ofidx :: int
  b_oface :: cptr
  b_port :: string
  b_srcaddr :: cptr
  b_weight :: int
  b_priority :: int
  b_mark :: flags
  b_estconnlimit :: int
  b_estconnlimit_logprefix :: string
  b_state :: ostate

record session =
  s_id :: oid
  s_client :: string
  s_bck :: "oid option"
  s_expiration :: cptr
  s_state :: ostate
  s_action :: action

record farmaddress =
  fa_id :: oid
  fa_address :: oid
  fa_action :: action

record farmpolicy =
  fp_id :: oid
  fp_policy :: oid
  fp_action :: action

record addresspolicy =
  ap_id :: oid
  ap_policy :: oid
  ap_action :: action

record farm =
  f_id :: oid
  f_action :: action
  f_reload_action :: flags
  f_name :: string
  f_fqdn :: string
  f_oface :: cptr
  f_oethaddr :: cptr
  f_ofidx :: int
  f_srcaddr :: cptr
  f_mode :: mode
  f_responsettl :: int
  f_scheduler :: sched
  f_schedparam :: flags
  f_persistence :: flags
  f_persistttl :: int
  f_helper :: helper
  f_log :: flags
  f_logprefix :: string
  f_logrtlimit :: int
  f_logrtlimit_unit :: int
  f_mark :: flags
  f_state :: ostate
  f_priority :: int
  f_limitsttl :: int
  f_newrtlimit :: int
  f_newrtlimit_unit :: int
  f_newrtlimitbst :: int
  f_newrtlimit_logprefix :: string
  f_rstrtlimit :: int
  f_rstrtlimit_unit :: int
  f_rstrtlimitbst :: int
  f_rstrtlimit_logprefix :: string
  f_estconnlimit :: int
  f_estconnlimit_logprefix :: string
  f_tcpstrict :: switch
  f_tcpstrict_logprefix :: string
  f_queue :: int
  f_verdict :: flags
  f_flow_offload :: switch
  f_intra_connect :: switch
  f_total_weight :: int
  f_total_bcks :: int
  f_bcks_available :: int
  f_bcks_usable :: int
  f_bcks_have_port :: bool
  f_bcks_have_srcaddr :: bool
  f_bcks_have_if :: bool
  f_policies_action :: action
  f_policies_used :: int
  f_nft_chains :: flags
  f_backends :: "backend list"
  f_policies :: "farmpolicy list"
  f_total_timed_sessions :: int
  f_timed_sessions :: "session list"
  f_total_static_sessions :: int
  f_static_sessions :: "session list"
  f_addresses :: "farmaddress list"
  f_addresses_used :: int

record address =
  a_id :: oid
  a_action :: action
  a_name :: string
  a_fqdn :: string
  a_iface :: cptr
  a_iethaddr :: cptr
  a_ifidx :: int
  a_ipaddr :: string
  a_ports :: string
  a_family :: family
  a_protocol :: proto
  a_verdict :: flags
  a_logprefix :: string
  a_logrtlimit :: int
  a_logrtlimit_unit :: int
  a_policies :: "addresspolicy list"
  a_policies_used :: int
  a_policies_action :: action
  a_used :: int
  a_nft_chains :: flags
  a_port_list :: "nat \<Rightarrow> bool"
  a_nports :: int

record element =
  e_id :: oid
  e_data :: string
  e_time :: cptr
  e_action :: action
  e_counter_pkts :: string
  e_counter_bytes :: string

record policy =
  p_id :: oid
  p_name :: string
  p_type :: ptype
  p_route :: route
  p_family :: family
  p_timeout :: int
  p_total_elem :: int
  p_used :: int
  p_logprefix :: string
  p_action :: action
  p_elements :: "element list"

text \<open>
  The globals of objects.c: the three object lists with their counters, the number of farms in an
  ingress mode and whether the network event listener runs (\<open>net_get_event_enabled\<close>), the objects
  the parser works on (\<open>current_obj\<close>), the response text of config.c, and the next free address
  \<open>malloc\<close> hands out.
\<close>

record objs =
  farms :: "farm list"
  total_farms :: int
  policies :: "policy list"
  total_policies :: int
  addresses :: "address list"
  total_addresses :: int
  dsr_counter :: int
  event_enabled :: bool
  cur_farm :: "oid option"
  cur_backend :: "oid option"
  cur_policy :: "oid option"
  cur_element :: "oid option"
  cur_farmpolicy :: "oid option"
  cur_session :: "oid option"
  cur_address :: "oid option"
  cur_farmaddress :: "oid option"
  cur_addresspolicy :: "oid option"
  config_outbuf :: string
  next_oid :: oid

definition objects_init :: objs where
  "objects_init = \<lparr> farms = [], total_farms = 0, policies = [], total_policies = 0, addresses = [],
     total_addresses = 0, dsr_counter = 0, event_enabled = False, cur_farm = None, cur_backend = None,
     cur_policy = None, cur_element = None, cur_farmpolicy = None, cur_session = None,
     cur_address = None, cur_farmaddress = None, cur_addresspolicy = None, config_outbuf = [], next_oid = 0 \<rparr>"

text \<open>\<open>obj_config_init\<close> forgets the current objects, all but the current address policy.\<close>

definition obj_config_init :: "objs \<Rightarrow> objs" where
  "obj_config_init s = s\<lparr> cur_farm := None, cur_backend := None, cur_policy := None, cur_element := None,
     cur_farmpolicy := None, cur_session := None, cur_address := None, cur_farmaddress := None \<rparr>"

text \<open>The totals are not let below zero.\<close>

definition obj_set_total_farms :: "int \<Rightarrow> objs \<Rightarrow> objs" where
  "obj_set_total_farms new_value s = (if new_value \<ge> 0 then s\<lparr>total_farms := new_value\<rparr> else s)"

definition obj_set_total_policies :: "int \<Rightarrow> objs \<Rightarrow> objs" where
  "obj_set_total_policies new_value s = (if new_value \<ge> 0 then s\<lparr>total_policies := new_value\<rparr> else s)"

definition obj_set_total_addresses :: "int \<Rightarrow> objs \<Rightarrow> objs" where
  "obj_set_total_addresses new_value s = (if new_value \<ge> 0 then s\<lparr>total_addresses := new_value\<rparr> else s)"

definition obj_set_dsr_counter :: "int \<Rightarrow> objs \<Rightarrow> objs" where
  "obj_set_dsr_counter new_value s = (if new_value \<ge> 0 then s\<lparr>dsr_counter := new_value\<rparr> else s)"

abbreviation DEFAULT_PORT :: string where "DEFAULT_PORT \<equiv> []"
abbreviation DEFAULT_VIRTADDR :: string where "DEFAULT_VIRTADDR \<equiv> []"
abbreviation DEFAULT_VIRTPORTS :: string where "DEFAULT_VIRTPORTS \<equiv> []"
abbreviation DEFAULT_MARK :: flags where "DEFAULT_MARK \<equiv> 0"
abbreviation DEFAULT_IFIDX :: int where "DEFAULT_IFIDX \<equiv> -1"
abbreviation DEFAULT_PRIORITY :: int where "DEFAULT_PRIORITY \<equiv> 1"

text \<open>\<open>obj_equ_attribute_string\<close> (its callers never pass NULL as the second string).\<close>

definition obj_equ_attribute_string :: "cptr \<Rightarrow> string \<Rightarrow> bool" where
  "obj_equ_attribute_string stra strb =
     (case stra of None \<Rightarrow> strb = [] | Some a \<Rightarrow> a = strb)"

text \<open>A pointer that is NULL or points to the empty string.\<close>

lemma obj_equ_empty [simp]: "obj_equ_attribute_string p [] \<longleftrightarrow> p = None \<or> p = Some []"
  by (auto simp: obj_equ_attribute_string_def split: option.splits)

lemma obj_equ_Some [simp]: "obj_equ_attribute_string (Some a) b \<longleftrightarrow> a = b"
  by (simp add: obj_equ_attribute_string_def)

end
