(* ===== verification/Keys.thy ===== *)
theory Keys
  imports Prelude
begin

text \<open>
  The configuration keys: the enumeration of objects.h, the texts of config.h, the printer
  \<open>obj_print_key\<close> of objects.c and the parser \<open>config_key\<close> of config.c, whose result -1 (an unknown
  key) is \<open>None\<close>.
\<close>

datatype level = LEVEL_INIT | LEVEL_FARMS | LEVEL_BCKS | LEVEL_FARMPOLICY | LEVEL_POLICIES
  | LEVEL_ELEMENTS | LEVEL_SESSIONS | LEVEL_ADDRESSES | LEVEL_FARMADDRESS | LEVEL_ADDRESSPOLICY

datatype (plugins only: code) key = KEY_FARMS | KEY_NAME | KEY_NEWNAME | KEY_FQDN | KEY_IFACE | KEY_OFACE | KEY_FAMILY
  | KEY_ETHADDR | KEY_IETHADDR | KEY_OETHADDR | KEY_VIRTADDR | KEY_VIRTPORTS | KEY_IPADDR | KEY_SRCADDR
  | KEY_PORT | KEY_PORTS | KEY_MODE | KEY_PROTO | KEY_SCHED | KEY_SCHEDPARAM | KEY_PERSISTENCE
  | KEY_PERSISTTM | KEY_HELPER | KEY_LOG | KEY_MARK | KEY_STATE | KEY_BCKS | KEY_WEIGHT | KEY_PRIORITY
  | KEY_ACTION | KEY_LIMITSTTL | KEY_NEWRTLIMIT | KEY_NEWRTLIMITBURST | KEY_RSTRTLIMIT
  | KEY_RSTRTLIMITBURST | KEY_ESTCONNLIMIT | KEY_TCPSTRICT | KEY_QUEUE | KEY_POLICIES | KEY_ELEMENTS
  | KEY_TYPE | KEY_TIMEOUT | KEY_DATA | KEY_TIME | KEY_LOGPREFIX | KEY_NEWRTLIMIT_LOGPREFIX
  | KEY_RSTRTLIMIT_LOGPREFIX | KEY_ESTCONNLIMIT_LOGPREFIX | KEY_TCPSTRICT_LOGPREFIX | KEY_RESPONSETTL
  | KEY_FLOWOFFLOAD | KEY_SESSIONS | KEY_CLIENT | KEY_BACKEND | KEY_USED | KEY_INTRACONNECT
  | KEY_ADDRESSES | KEY_ROUTE | KEY_VERDICT | KEY_LOG_RTLIMIT | KEY_COUNTER_PACKETS | KEY_COUNTER_BYTES


fun obj_print_key :: "key \<Rightarrow> cptr" where
  "obj_print_key KEY_FARMS = Some ''farms''"
| "obj_print_key KEY_NAME = Some ''name''"
| "obj_print_key KEY_NEWNAME = Some ''newname''"
| "obj_print_key KEY_FQDN = Some ''fqdn''"
| "obj_print_key KEY_IFACE = Some ''iface''"
| "obj_print_key KEY_OFACE = Some ''oface''"
| "obj_print_key KEY_FAMILY = Some ''family''"
| "obj_print_key KEY_ETHADDR = Some ''ether-addr''"
| "obj_print_key KEY_IETHADDR = Some ''iether-addr''"
| "obj_print_key KEY_OETHADDR = Some ''oether-addr''"
| "obj_print_key KEY_VIRTADDR = Some ''virtual-addr''"
| "obj_print_key KEY_VIRTPORTS = Some ''virtual-ports''"
| "obj_print_key KEY_IPADDR = Some ''ip-addr''"
| "obj_print_key KEY_SRCADDR = Some ''source-addr''"
| "obj_print_key KEY_PORT = Some ''port''"
| "obj_print_key KEY_MODE = Some ''mode''"
| "obj_print_key KEY_RESPONSETTL = Some ''responsettl''"
| "obj_print_key KEY_PROTO = Some ''protocol''"
| "obj_print_key KEY_SCHED = Some ''scheduler''"
| "obj_print_key KEY_SCHEDPARAM = Some ''sched-param''"
| "obj_print_key KEY_PERSISTENCE = Some ''persistence''"
| "obj_print_key KEY_PERSISTTM = Some ''persist-ttl''"
| "obj_print_key KEY_HELPER = Some ''helper''"
| "obj_print_key KEY_LOG = Some ''log''"
| "obj_print_key KEY_LOGPREFIX = Some ''log-prefix''"
| "obj_print_key KEY_LOG_RTLIMIT = Some ''log-rtlimit''"
| "obj_print_key KEY_MARK = Some ''mark''"
| "obj_print_key KEY_STATE = Some ''state''"
| "obj_print_key KEY_BCKS = Some ''backends''"
| "obj_print_key KEY_WEIGHT = Some ''weight''"
| "obj_print_key KEY_PRIORITY = Some ''priority''"
| "obj_print_key KEY_ACTION = Some ''action''"
| "obj_print_key KEY_LIMITSTTL = Some ''limits-ttl''"
| "obj_print_key KEY_NEWRTLIMIT = Some ''new-rtlimit''"
| "obj_print_key KEY_NEWRTLIMITBURST = Some ''new-rtlimit-burst''"
| "obj_print_key KEY_NEWRTLIMIT_LOGPREFIX = Some ''new-rtlimit-log-prefix''"
| "obj_print_key KEY_RSTRTLIMIT = Some ''rst-rtlimit''"
| "obj_print_key KEY_RSTRTLIMITBURST = Some ''rst-rtlimit-burst''"
| "obj_print_key KEY_RSTRTLIMIT_LOGPREFIX = Some ''rst-rtlimit-log-prefix''"
| "obj_print_key KEY_ESTCONNLIMIT = Some ''est-connlimit''"
| "obj_print_key KEY_ESTCONNLIMIT_LOGPREFIX = Some ''est-connlimit-log-prefix''"
| "obj_print_key KEY_TCPSTRICT = Some ''tcp-strict''"
| "obj_print_key KEY_TCPSTRICT_LOGPREFIX = Some ''tcp-strict-log-prefix''"
| "obj_print_key KEY_QUEUE = Some ''queue''"
| "obj_print_key KEY_FLOWOFFLOAD = Some ''flow-offload''"
| "obj_print_key KEY_POLICIES = Some ''policies''"
| "obj_print_key KEY_TYPE = Some ''type''"
| "obj_print_key KEY_TIMEOUT = Some ''timeout''"
| "obj_print_key KEY_ELEMENTS = Some ''elements''"
| "obj_print_key KEY_DATA = Some ''data''"
| "obj_print_key KEY_TIME = Some ''time''"
| "obj_print_key KEY_SESSIONS = Some ''sessions''"
| "obj_print_key KEY_CLIENT = Some ''client''"
| "obj_print_key KEY_BACKEND = Some ''backend''"
| "obj_print_key KEY_INTRACONNECT = Some ''intra-connect''"
| "obj_print_key _ = None"

text \<open>The chain of comparisons of \<open>config_key\<close>, in its order: the first text that matches decides.\<close>

definition config_keys :: "(string \<times> key) list" where
  "config_keys =
     [(''farms'', KEY_FARMS), (''name'', KEY_NAME), (''newname'', KEY_NEWNAME),
      (''fqdn'', KEY_FQDN), (''iface'', KEY_IFACE), (''oface'', KEY_OFACE),
      (''family'', KEY_FAMILY), (''ether-addr'', KEY_ETHADDR), (''iether-addr'', KEY_IETHADDR),
      (''oether-addr'', KEY_OETHADDR), (''virtual-addr'', KEY_VIRTADDR), (''virtual-ports'', KEY_VIRTPORTS),
      (''ip-addr'', KEY_IPADDR), (''source-addr'', KEY_SRCADDR), (''port'', KEY_PORT),
      (''mode'', KEY_MODE), (''responsettl'', KEY_RESPONSETTL), (''protocol'', KEY_PROTO),
      (''scheduler'', KEY_SCHED), (''sched-param'', KEY_SCHEDPARAM), (''persistence'', KEY_PERSISTENCE),
      (''persist-ttl'', KEY_PERSISTTM), (''helper'', KEY_HELPER), (''log'', KEY_LOG),
      (''log-prefix'', KEY_LOGPREFIX), (''log-rtlimit'', KEY_LOG_RTLIMIT), (''mark'', KEY_MARK),
      (''state'', KEY_STATE), (''backends'', KEY_BCKS), (''weight'', KEY_WEIGHT),
      (''priority'', KEY_PRIORITY), (''action'', KEY_ACTION), (''limits-ttl'', KEY_LIMITSTTL),
      (''new-rtlimit'', KEY_NEWRTLIMIT), (''new-rtlimit-burst'', KEY_NEWRTLIMITBURST), (''new-rtlimit-log-prefix'', KEY_NEWRTLIMIT_LOGPREFIX),
      (''rst-rtlimit'', KEY_RSTRTLIMIT), (''rst-rtlimit-burst'', KEY_RSTRTLIMITBURST), (''rst-rtlimit-log-prefix'', KEY_RSTRTLIMIT_LOGPREFIX),
      (''est-connlimit'', KEY_ESTCONNLIMIT), (''est-connlimit-log-prefix'', KEY_ESTCONNLIMIT_LOGPREFIX), (''tcp-strict'', KEY_TCPSTRICT),
      (''tcp-strict-log-prefix'', KEY_TCPSTRICT_LOGPREFIX), (''queue'', KEY_QUEUE), (''flow-offload'', KEY_FLOWOFFLOAD),
      (''policies'', KEY_POLICIES), (''type'', KEY_TYPE), (''verdict'', KEY_VERDICT),
      (''timeout'', KEY_TIMEOUT), (''elements'', KEY_ELEMENTS), (''data'', KEY_DATA),
      (''time'', KEY_TIME), (''sessions'', KEY_SESSIONS), (''client'', KEY_CLIENT),
      (''backend'', KEY_BACKEND), (''used'', KEY_USED), (''intra-connect'', KEY_INTRACONNECT),
      (''addresses'', KEY_ADDRESSES), (''ports'', KEY_PORTS), (''route'', KEY_ROUTE),
      (''counter-packets'', KEY_COUNTER_PACKETS), (''counter-bytes'', KEY_COUNTER_BYTES)]"

definition config_key :: "string \<Rightarrow> key option" where
  "config_key key = map_of config_keys key"

text \<open>
  Keys whose value is an array of objects are only followed at the levels where they make sense;
  elsewhere they are skipped (the -1 of \<open>jump_config_value\<close>).
\<close>

definition jump_config_value :: "level \<Rightarrow> key \<Rightarrow> bool" where
  "jump_config_value level key =
     ((key = KEY_FARMS \<and> level \<noteq> LEVEL_INIT) \<or>
      (key = KEY_BCKS \<and> level \<noteq> LEVEL_FARMS) \<or>
      (key = KEY_POLICIES \<and> level \<noteq> LEVEL_INIT \<and> level \<noteq> LEVEL_FARMS \<and> level \<noteq> LEVEL_ADDRESSES) \<or>
      (key = KEY_ADDRESSES \<and> level \<noteq> LEVEL_FARMS \<and> level \<noteq> LEVEL_INIT) \<or>
      (key = KEY_SESSIONS \<and> level \<noteq> LEVEL_FARMS) \<or>
      (key = KEY_ELEMENTS \<and> level \<noteq> LEVEL_POLICIES))"

lemma config_keys_distinct: "distinct (map fst config_keys)"
  by code_simp

lemma config_key_iff: "config_key s = Some k \<longleftrightarrow> (s, k) \<in> set config_keys"
  using config_keys_distinct by (simp add: config_key_def)

lemma obj_print_key_mem: "obj_print_key k = Some s \<Longrightarrow> (s, k) \<in> set config_keys"
  by (cases k) (simp_all add: config_keys_def)

lemma config_keys_snd_distinct: "distinct (map snd config_keys)"
  by (simp add: config_keys_def)

lemma config_key_mem: "\<exists>s. (s, k) \<in> set config_keys"
  by (cases k) (simp_all add: config_keys_def)

interpretation key_codec: value_codec obj_print_key "\<lambda>s. the (config_key s)" "\<lambda>k. obj_print_key k \<noteq> None"
  by unfold_locales (auto dest!: obj_print_key_mem simp: config_key_iff [symmetric])

end
