(* ===== verification/Values.thy ===== *)
theory Values
  imports Objects Keys
begin

text \<open>
  Configuration values: the printers \<open>obj_print_*\<close> of objects.c, the parsers \<open>config_value_*\<close> of
  config.c and the dispatcher \<open>config_value\<close>. A parser returns the value together with the text it
  appends to the response buffer (\<open>config_set_output\<close>). The codecs of the enumerations and of the
  bit masks are interpretations of \<open>value_codec\<close>.
\<close>

section \<open>Printers\<close>

fun obj_print_family :: "family \<Rightarrow> cptr" where
  "obj_print_family VALUE_FAMILY_IPV4 = Some ''ipv4''"
| "obj_print_family VALUE_FAMILY_IPV6 = Some ''ipv6''"
| "obj_print_family VALUE_FAMILY_INET = Some ''inet''"
| "obj_print_family _ = None"

fun obj_print_mode :: "mode \<Rightarrow> cptr" where
  "obj_print_mode VALUE_MODE_SNAT = Some ''snat''"
| "obj_print_mode VALUE_MODE_DNAT = Some ''dnat''"
| "obj_print_mode VALUE_MODE_DSR = Some ''dsr''"
| "obj_print_mode VALUE_MODE_STLSDNAT = Some ''stlsdnat''"
| "obj_print_mode VALUE_MODE_LOCAL = Some ''local''"

fun obj_print_proto :: "proto \<Rightarrow> cptr" where
  "obj_print_proto VALUE_PROTO_TCP = Some ''tcp''"
| "obj_print_proto VALUE_PROTO_UDP = Some ''udp''"
| "obj_print_proto VALUE_PROTO_SCTP = Some ''sctp''"
| "obj_print_proto VALUE_PROTO_ALL = Some ''all''"

definition unit_str :: "int \<Rightarrow> string" where
  "unit_str u =
     (if u = VALUE_UNIT_MINUTE then ''minute''
      else if u = VALUE_UNIT_HOUR then ''hour''
      else if u = VALUE_UNIT_DAY then ''day''
      else if u = VALUE_UNIT_WEEK then ''week''
      else ''second'')"

text \<open>The buffer holds \<open>MAX_OBJ_VALUE\<close> bytes with the terminator; longer text is cut by \<open>snprintf\<close>.\<close>

definition obj_print_rtlimit :: "int \<Rightarrow> int \<Rightarrow> string" where
  "obj_print_rtlimit value unit = take 49 (print_d value @ ''/'' @ unit_str unit)"

fun obj_print_sched :: "sched \<Rightarrow> cptr" where
  "obj_print_sched VALUE_SCHED_RR = Some ''rr''"
| "obj_print_sched VALUE_SCHED_WEIGHT = Some ''weight''"
| "obj_print_sched VALUE_SCHED_HASH = Some ''hash''"
| "obj_print_sched VALUE_SCHED_SYMHASH = Some ''symhash''"

definition obj_print_meta :: "flags \<Rightarrow> string" where
  "obj_print_meta param =
     (if param = 0 then ''none''
      else (if flag param VALUE_META_SRCIP then ''srcip '' else []) @
           (if flag param VALUE_META_DSTIP then ''dstip '' else []) @
           (if flag param VALUE_META_SRCPORT then ''srcport '' else []) @
           (if flag param VALUE_META_DSTPORT then ''dstport '' else []) @
           (if flag param VALUE_META_SRCMAC then ''srcmac '' else []) @
           (if flag param VALUE_META_DSTMAC then ''dstmac '' else []))"

fun obj_print_helper :: "helper \<Rightarrow> cptr" where
  "obj_print_helper VALUE_HELPER_NONE = Some ''none''"
| "obj_print_helper VALUE_HELPER_FTP = Some ''ftp''"
| "obj_print_helper VALUE_HELPER_PPTP = Some ''pptp''"
| "obj_print_helper VALUE_HELPER_SIP = Some ''sip''"
| "obj_print_helper VALUE_HELPER_SNMP = Some ''snmp''"
| "obj_print_helper VALUE_HELPER_TFTP = Some ''tftp''"

definition obj_print_log :: "flags \<Rightarrow> string" where
  "obj_print_log log =
     (if log = 0 then ''none''
      else (if flag log VALUE_LOG_INPUT then ''input '' else []) @
           (if flag log VALUE_LOG_FORWARD then ''forward '' else []) @
           (if flag log VALUE_LOG_OUTPUT then ''output'' else []))"

fun obj_print_state :: "ostate \<Rightarrow> cptr" where
  "obj_print_state VALUE_STATE_UP = Some ''up''"
| "obj_print_state VALUE_STATE_DOWN = Some ''down''"
| "obj_print_state VALUE_STATE_OFF = Some ''off''"
| "obj_print_state VALUE_STATE_CONFERR = Some ''config_error''"
| "obj_print_state VALUE_STATE_AVAIL = Some ''available''"

fun obj_print_switch :: "switch \<Rightarrow> cptr" where
  "obj_print_switch VALUE_SWITCH_ON = Some ''on''"
| "obj_print_switch VALUE_SWITCH_OFF = Some ''off''"

fun obj_print_policy_type :: "ptype \<Rightarrow> cptr" where
  "obj_print_policy_type VALUE_TYPE_DENY = Some ''blacklist''"
| "obj_print_policy_type VALUE_TYPE_ALLOW = Some ''whitelist''"

fun obj_print_policy_route :: "route \<Rightarrow> cptr" where
  "obj_print_policy_route VALUE_ROUTE_IN = Some ''in''"
| "obj_print_policy_route VALUE_ROUTE_OUT = Some ''out''"

definition obj_print_verdict :: "flags \<Rightarrow> string" where
  "obj_print_verdict verdict =
     (if verdict = VALUE_VERDICT_NONE then ''none''
      else (if flag verdict VALUE_VERDICT_LOG then ''log '' else []) @
           (if flag verdict VALUE_VERDICT_DROP then ''drop '' else []) @
           (if flag verdict VALUE_VERDICT_ACCEPT then ''accept'' else []))"

section \<open>Parsers\<close>

definition unknown_default :: "string \<Rightarrow> string \<Rightarrow> string \<Rightarrow> string" where
  "unknown_default value key dflt =
     ''. Parsing unknown value '' @ [CHR 0x27] @ value @ [CHR 0x27] @ '' in '' @ [CHR 0x27] @ key @
     [CHR 0x27] @ '', using default '' @ [CHR 0x27] @ dflt @ [CHR 0x27]"

definition unknown_default_nokey :: "string \<Rightarrow> string \<Rightarrow> string" where
  "unknown_default_nokey value dflt =
     ''. Parsing unknown value '' @ [CHR 0x27] @ value @ [CHR 0x27] @
     '', using default '' @ [CHR 0x27] @ dflt @ [CHR 0x27]"

definition unknown_value :: "string \<Rightarrow> string \<Rightarrow> string" where
  "unknown_value value key =
     ''. Parsing unknown value '' @ [CHR 0x27] @ value @ [CHR 0x27] @ '' in '' @ [CHR 0x27] @ key @ [CHR 0x27]"

definition config_value_family :: "string \<Rightarrow> family \<times> string" where
  "config_value_family value =
     (if value = ''ipv4'' then (VALUE_FAMILY_IPV4, [])
      else if value = ''ipv6'' then (VALUE_FAMILY_IPV6, [])
      else if value = ''inet'' then (VALUE_FAMILY_INET, [])
      else (VALUE_FAMILY_IPV4, unknown_default value ''family'' ''ipv4''))"

definition config_value_mode :: "string \<Rightarrow> mode \<times> string" where
  "config_value_mode value =
     (if value = ''snat'' then (VALUE_MODE_SNAT, [])
      else if value = ''dnat'' then (VALUE_MODE_DNAT, [])
      else if value = ''dsr'' then (VALUE_MODE_DSR, [])
      else if value = ''stlsdnat'' then (VALUE_MODE_STLSDNAT, [])
      else if value = ''local'' then (VALUE_MODE_LOCAL, [])
      else (VALUE_MODE_SNAT, unknown_default value ''mode'' ''snat''))"

definition config_value_proto :: "string \<Rightarrow> proto \<times> string" where
  "config_value_proto value =
     (if value = ''tcp'' then (VALUE_PROTO_TCP, [])
      else if value = ''udp'' then (VALUE_PROTO_UDP, [])
      else if value = ''sctp'' then (VALUE_PROTO_SCTP, [])
      else if value = ''all'' then (VALUE_PROTO_ALL, [])
      else (VALUE_PROTO_TCP, unknown_default value ''protocol'' ''tcp''))"

definition config_value_sched :: "string \<Rightarrow> sched \<times> string" where
  "config_value_sched value =
     (if value = ''rr'' then (VALUE_SCHED_RR, [])
      else if value = ''weight'' then (VALUE_SCHED_WEIGHT, [])
      else if value = ''hash'' then (VALUE_SCHED_HASH, [])
      else if value = ''symhash'' then (VALUE_SCHED_SYMHASH, [])
      else (VALUE_SCHED_RR, unknown_default value ''scheduler'' ''rr''))"

definition mask_if :: "bool \<Rightarrow> flags \<Rightarrow> flags" where
  "mask_if b m = (if b then m else 0)"

definition config_value_meta :: "string \<Rightarrow> flags \<times> string" where
  "config_value_meta value =
     (if has_substr value ''none'' then (VALUE_META_NONE, [])
      else let mask = mask_if (has_substr value ''srcip'') VALUE_META_SRCIP OR
                      mask_if (has_substr value ''dstip'') VALUE_META_DSTIP OR
                      mask_if (has_substr value ''srcport'') VALUE_META_SRCPORT OR
                      mask_if (has_substr value ''dstport'') VALUE_META_DSTPORT OR
                      mask_if (has_substr value ''srcmac'') VALUE_META_SRCMAC OR
                      mask_if (has_substr value ''dstmac'') VALUE_META_DSTMAC
           in (mask, if mask = 0 then unknown_default_nokey value ''none'' else []))"

definition config_value_helper :: "string \<Rightarrow> helper \<times> string" where
  "config_value_helper value =
     (if value = ''none'' then (VALUE_HELPER_NONE, [])
      else if value = ''ftp'' then (VALUE_HELPER_FTP, [])
      else if value = ''pptp'' then (VALUE_HELPER_PPTP, [])
      else if value = ''sip'' then (VALUE_HELPER_SIP, [])
      else if value = ''snmp'' then (VALUE_HELPER_SNMP, [])
      else if value = ''tftp'' then (VALUE_HELPER_TFTP, [])
      else (VALUE_HELPER_NONE, unknown_default value ''helper'' ''none''))"

definition config_value_log :: "string \<Rightarrow> flags \<times> string" where
  "config_value_log value =
     (if has_substr value ''none'' then (VALUE_LOG_NONE, [])
      else let logmask = mask_if (has_substr value ''input'') VALUE_LOG_INPUT OR
                         mask_if (has_substr value ''forward'') VALUE_LOG_FORWARD OR
                         mask_if (has_substr value ''output'') VALUE_LOG_OUTPUT
           in (logmask, if logmask = 0 then unknown_default value ''log'' ''none'' else []))"

text \<open>The error branch after the \<open>else\<close> is never reached: every other text is off.\<close>

definition config_value_switch :: "string \<Rightarrow> switch \<times> string" where
  "config_value_switch value = (if value = ''on'' then VALUE_SWITCH_ON else VALUE_SWITCH_OFF, [])"

definition config_value_state :: "string \<Rightarrow> ostate \<times> string" where
  "config_value_state value =
     (if value = ''up'' then (VALUE_STATE_UP, [])
      else if value = ''down'' then (VALUE_STATE_DOWN, [])
      else if value = ''off'' then (VALUE_STATE_OFF, [])
      else if value = ''config_error'' then (VALUE_STATE_CONFERR, [])
      else (VALUE_STATE_UP, unknown_default value ''state'' ''up''))"

definition config_value_action :: "string \<Rightarrow> action" where
  "config_value_action value =
     (if value = ''stop'' then ACTION_STOP
      else if value = ''delete'' then ACTION_DELETE
      else if value = ''start'' then ACTION_START
      else if value = ''reload'' then ACTION_RELOAD
      else if value = ''flush'' then ACTION_FLUSH
      else ACTION_NONE)"

definition config_value_type :: "string \<Rightarrow> ptype \<times> string" where
  "config_value_type value =
     (if value = ''blacklist'' then (VALUE_TYPE_DENY, [])
      else if value = ''whitelist'' then (VALUE_TYPE_ALLOW, [])
      else (VALUE_TYPE_DENY, unknown_default value ''type'' ''blacklist''))"

definition config_value_verdict :: "string \<Rightarrow> flags \<times> string" where
  "config_value_verdict value =
     (let verdictmask = mask_if (has_substr value ''log'') VALUE_VERDICT_LOG OR
                        mask_if (has_substr value ''drop'') VALUE_VERDICT_DROP OR
                        mask_if (has_substr value ''accept'') VALUE_VERDICT_ACCEPT
      in (verdictmask, if verdictmask = VALUE_VERDICT_NONE then unknown_value value ''verdict'' else []))"

definition config_value_route :: "string \<Rightarrow> route \<times> string" where
  "config_value_route value =
     (if value = ''in'' then (VALUE_ROUTE_IN, [])
      else if value = ''out'' then (VALUE_ROUTE_OUT, [])
      else (VALUE_ROUTE_IN, unknown_default value ''route'' ''in''))"

text \<open>
  \<open>sscanf(value, "%d%*[/]%99[a-zA-Z]", int_value, str_unit)\<close>: the number if there is one, and the
  letters after at least one slash.
\<close>

definition is_alpha :: "char \<Rightarrow> bool" where
  "is_alpha c = (let n = (of_char c :: nat) in (65 \<le> n \<and> n \<le> 90) \<or> (97 \<le> n \<and> n \<le> 122))"

definition scan_ratelimit :: "string \<Rightarrow> int option \<times> string" where
  "scan_ratelimit value =
     (case scan_d value of
        None \<Rightarrow> (None, [])
      | Some (i, rest) \<Rightarrow>
          (Some (int_of_long (long_clamp i)),
           if rest \<noteq> [] \<and> hd rest = CHR ''/''
           then take 99 (takeWhile is_alpha (dropWhile (\<lambda>c. c = CHR ''/'') rest)) else []))"

definition unit_of :: "string \<Rightarrow> int option" where
  "unit_of str_unit =
     (if str_unit = ''second'' then Some VALUE_UNIT_SECOND
      else if str_unit = ''minute'' then Some VALUE_UNIT_MINUTE
      else if str_unit = ''hour'' then Some VALUE_UNIT_HOUR
      else if str_unit = ''day'' then Some VALUE_UNIT_DAY
      else if str_unit = ''week'' then Some VALUE_UNIT_WEEK
      else None)"

text \<open>\<open>%s\<close> of a NULL pointer prints \<open>(null)\<close>.\<close>

definition key_text :: "key option \<Rightarrow> string" where
  "key_text k = (case Option.bind k obj_print_key of None \<Rightarrow> ''(null)'' | Some s \<Rightarrow> s)"

definition quoted :: "string \<Rightarrow> string" where
  "quoted s = [CHR 0x27] @ s @ [CHR 0x27]"

definition invalid_value :: "key option \<Rightarrow> string \<Rightarrow> string" where
  "invalid_value k bound = ''. Invalid value of key '' @ quoted (key_text k) @ '' must be '' @ bound"

text \<open>The two out parameters are passed in with their current contents and returned.\<close>

definition config_value_ratelimit ::
  "key option \<Rightarrow> int \<Rightarrow> int \<Rightarrow> string \<Rightarrow> parser_output \<times> int \<times> int \<times> string" where
  "config_value_ratelimit key int_value int_unit value =
     (if value = [] \<or> hd value = CHR ''0'' then (PARSER_OK, 0, VALUE_UNIT_SECOND, [])
      else
        let (n, str_unit) = scan_ratelimit value;
            int_value' = (case n of None \<Rightarrow> int_value | Some i \<Rightarrow> i)
        in if int_value' < 0 then (PARSER_VALID_FAILED, int_value', int_unit, invalid_value key ''>=0'')
           else if str_unit = [] then (PARSER_OK, int_value', int_unit, [])
           else case unit_of str_unit of
                  Some u \<Rightarrow> (PARSER_OK, int_value', u, [])
                | None \<Rightarrow> (PARSER_VALID_FAILED, int_value', int_unit,
                            ''. Parsing unknown value '' @ quoted value @ '' in '' @ quoted (key_text key)))"

definition config_dump_int :: "int \<Rightarrow> string" where
  "config_dump_int value = print_d value"

definition config_dump_hex :: "flags \<Rightarrow> string" where
  "config_dump_hex value = ''0x'' @ print_x value"

section \<open>The parsed pair\<close>

text \<open>
  \<open>int_value\<close> holds an enumerator, a mask or a number, depending on the key; the constructor says
  which. The code reads it as a plain integer in one place only, where a rate limit without a number
  keeps what the field held before.
\<close>

datatype cint = CInt int | CFlags flags | CFamily family | CMode mode | CProto proto | CSched sched
  | CHelper helper | CState ostate | CAction action | CSwitch switch | CType ptype | CRoute route

fun cint_code :: "cint \<Rightarrow> int" where
  "cint_code (CInt i) = i"
| "cint_code (CFlags w) = sint w"
| "cint_code (CFamily v) = (case v of VALUE_FAMILY_IPV4 \<Rightarrow> 0 | VALUE_FAMILY_IPV6 \<Rightarrow> 1
     | VALUE_FAMILY_INET \<Rightarrow> 2 | VALUE_FAMILY_NETDEV \<Rightarrow> 3)"
| "cint_code (CMode v) = (case v of VALUE_MODE_SNAT \<Rightarrow> 0 | VALUE_MODE_DNAT \<Rightarrow> 1 | VALUE_MODE_DSR \<Rightarrow> 2
     | VALUE_MODE_STLSDNAT \<Rightarrow> 3 | VALUE_MODE_LOCAL \<Rightarrow> 4)"
| "cint_code (CProto v) = (case v of VALUE_PROTO_ALL \<Rightarrow> 0 | VALUE_PROTO_TCP \<Rightarrow> 1 | VALUE_PROTO_UDP \<Rightarrow> 2
     | VALUE_PROTO_SCTP \<Rightarrow> 3)"
| "cint_code (CSched v) = (case v of VALUE_SCHED_RR \<Rightarrow> 0 | VALUE_SCHED_WEIGHT \<Rightarrow> 1
     | VALUE_SCHED_HASH \<Rightarrow> 2 | VALUE_SCHED_SYMHASH \<Rightarrow> 3)"
| "cint_code (CHelper v) = (case v of VALUE_HELPER_NONE \<Rightarrow> 0 | VALUE_HELPER_FTP \<Rightarrow> 1
     | VALUE_HELPER_PPTP \<Rightarrow> 2 | VALUE_HELPER_SIP \<Rightarrow> 3 | VALUE_HELPER_SNMP \<Rightarrow> 4 | VALUE_HELPER_TFTP \<Rightarrow> 5)"
| "cint_code (CState v) = (case v of VALUE_STATE_UP \<Rightarrow> 0 | VALUE_STATE_AVAIL \<Rightarrow> 1 | VALUE_STATE_DOWN \<Rightarrow> 2
     | VALUE_STATE_OFF \<Rightarrow> 3 | VALUE_STATE_CONFERR \<Rightarrow> 4)"
| "cint_code (CAction v) = int (action_code v)"
| "cint_code (CSwitch v) = (case v of VALUE_SWITCH_OFF \<Rightarrow> 0 | VALUE_SWITCH_ON \<Rightarrow> 1)"
| "cint_code (CType v) = (case v of VALUE_TYPE_DENY \<Rightarrow> 0 | VALUE_TYPE_ALLOW \<Rightarrow> 1)"
| "cint_code (CRoute v) = (case v of VALUE_ROUTE_IN \<Rightarrow> 0 | VALUE_ROUTE_OUT \<Rightarrow> 1)"

record config_pair =
  c_level :: "level option"
  c_key :: "key option"
  c_str_value :: cptr
  c_int_value :: cint
  c_int_value2 :: int
  c_action :: action

definition init_pair :: config_pair where
  "init_pair = \<lparr> c_level = None, c_key = None, c_str_value = None, c_int_value = CInt (-1),
                 c_int_value2 = -1, c_action = ACTION_START \<rparr>"

text \<open>The 1024 bytes of \<open>config_outbuf\<close>, as the text in front of the terminator.\<close>

abbreviation CONFIG_OUTBUF_SIZE :: nat where "CONFIG_OUTBUF_SIZE \<equiv> 1024"

text \<open>
  \<open>vsnprintf\<close> gets one byte more than the buffer has left, so the text may grow to the size of the
  buffer itself, with the terminator behind it.
\<close>

definition config_set_output :: "string \<Rightarrow> string \<Rightarrow> string" where
  "config_set_output outbuf msg = outbuf @ take (CONFIG_OUTBUF_SIZE - length outbuf) msg"

section \<open>The value of a key\<close>

text \<open>The number check of the numeric keys: the field is written only when the bound holds.\<close>

definition config_value_min :: "int \<Rightarrow> string \<Rightarrow> string \<Rightarrow> config_pair \<Rightarrow> parser_output \<times> config_pair \<times> string" where
  "config_value_min low bound value c =
     (let new_int_value = atoi value
      in if new_int_value \<ge> low then (PARSER_OK, c\<lparr>c_int_value := CInt new_int_value\<rparr>, [])
         else (PARSER_VALID_FAILED, c, invalid_value (c_key c) bound))"

text \<open>The position of a key in the enumeration, which the message of the default branch prints.\<close>

definition key_order :: "key list" where
  "key_order = 
     [KEY_FARMS, KEY_NAME, KEY_NEWNAME, KEY_FQDN, KEY_IFACE, KEY_OFACE, KEY_FAMILY, KEY_ETHADDR,
      KEY_IETHADDR, KEY_OETHADDR, KEY_VIRTADDR, KEY_VIRTPORTS, KEY_IPADDR, KEY_SRCADDR,
      KEY_PORT, KEY_PORTS, KEY_MODE, KEY_PROTO, KEY_SCHED, KEY_SCHEDPARAM, KEY_PERSISTENCE,
      KEY_PERSISTTM, KEY_HELPER, KEY_LOG, KEY_MARK, KEY_STATE, KEY_BCKS, KEY_WEIGHT, KEY_PRIORITY,
      KEY_ACTION, KEY_LIMITSTTL, KEY_NEWRTLIMIT, KEY_NEWRTLIMITBURST, KEY_RSTRTLIMIT, KEY_RSTRTLIMITBURST,
      KEY_ESTCONNLIMIT, KEY_TCPSTRICT, KEY_QUEUE, KEY_POLICIES, KEY_ELEMENTS, KEY_TYPE,
      KEY_TIMEOUT, KEY_DATA, KEY_TIME, KEY_LOGPREFIX, KEY_NEWRTLIMIT_LOGPREFIX, KEY_RSTRTLIMIT_LOGPREFIX,
      KEY_ESTCONNLIMIT_LOGPREFIX, KEY_TCPSTRICT_LOGPREFIX, KEY_RESPONSETTL, KEY_FLOWOFFLOAD,
      KEY_SESSIONS, KEY_CLIENT, KEY_BACKEND, KEY_USED, KEY_INTRACONNECT, KEY_ADDRESSES,
      KEY_ROUTE, KEY_VERDICT, KEY_LOG_RTLIMIT, KEY_COUNTER_PACKETS, KEY_COUNTER_BYTES]"

definition key_index :: "key option \<Rightarrow> int" where
  "key_index k = (case k of None \<Rightarrow> -1 | Some k \<Rightarrow> int (length (takeWhile (\<lambda>j. j \<noteq> k) key_order)))"

definition key_in :: "key option \<Rightarrow> key list \<Rightarrow> bool" where
  "key_in k ks = (case k of None \<Rightarrow> False | Some k \<Rightarrow> k \<in> set ks)"

definition put_int :: "config_pair \<Rightarrow> cint \<times> string \<Rightarrow> parser_output \<times> config_pair \<times> string" where
  "put_int c r = (PARSER_OK, c\<lparr>c_int_value := fst r\<rparr>, snd r)"

definition config_value :: "string \<Rightarrow> config_pair \<Rightarrow> parser_output \<times> config_pair \<times> string" where
  "config_value value c =
     (let k = c_key c in
      if key_in k [KEY_FAMILY] then put_int c (map_prod CFamily id (config_value_family value))
      else if key_in k [KEY_MODE] then put_int c (map_prod CMode id (config_value_mode value))
      else if key_in k [KEY_PROTO] then put_int c (map_prod CProto id (config_value_proto value))
      else if key_in k [KEY_SCHED] then put_int c (map_prod CSched id (config_value_sched value))
      else if key_in k [KEY_SCHEDPARAM, KEY_PERSISTENCE] then put_int c (map_prod CFlags id (config_value_meta value))
      else if key_in k [KEY_HELPER] then put_int c (map_prod CHelper id (config_value_helper value))
      else if key_in k [KEY_LOG] then put_int c (map_prod CFlags id (config_value_log value))
      else if key_in k [KEY_MARK] then put_int c (CFlags (word_of_int (strtol16 value)), [])
      else if key_in k [KEY_STATE] then put_int c (map_prod CState id (config_value_state value))
      else if key_in k [KEY_WEIGHT, KEY_PRIORITY] then config_value_min 1 ''>=1'' value c
      else if key_in k [KEY_RESPONSETTL, KEY_PERSISTTM, KEY_LIMITSTTL, KEY_NEWRTLIMITBURST,
                        KEY_RSTRTLIMITBURST, KEY_ESTCONNLIMIT, KEY_TIMEOUT]
        then config_value_min 0 ''>=0'' value c
      else if key_in k [KEY_NEWRTLIMIT, KEY_RSTRTLIMIT, KEY_LOG_RTLIMIT] then
        (case config_value_ratelimit k (cint_code (c_int_value c)) (c_int_value2 c) value of
           (ret, i, u, msg) \<Rightarrow> (ret, c\<lparr>c_int_value := CInt i, c_int_value2 := u\<rparr>, msg))
      else if key_in k [KEY_QUEUE] then config_value_min (-1) ''>=-1'' value c
      else if key_in k [KEY_ACTION] then put_int c (CAction (config_value_action value), [])
      else if key_in k [KEY_TCPSTRICT, KEY_FLOWOFFLOAD, KEY_INTRACONNECT]
        then put_int c (map_prod CSwitch id (config_value_switch value))
      else if key_in k [KEY_TYPE] then put_int c (map_prod CType id (config_value_type value))
      else if key_in k [KEY_VERDICT] then put_int c (map_prod CFlags id (config_value_verdict value))
      else if key_in k [KEY_NAME, KEY_NEWNAME, KEY_IPADDR, KEY_CLIENT, KEY_BACKEND, KEY_DATA] then
        (if value = [] then (PARSER_VALID_FAILED, c, ''. Key '' @ quoted (key_text k) @ '' cannot be empty'')
         else (PARSER_OK, c\<lparr>c_str_value := Some value\<rparr>, []))
      else if key_in k [KEY_IFACE, KEY_OFACE, KEY_ETHADDR, KEY_VIRTADDR, KEY_VIRTPORTS, KEY_PORTS,
                        KEY_SRCADDR, KEY_PORT, KEY_LOGPREFIX, KEY_NEWRTLIMIT_LOGPREFIX,
                        KEY_RSTRTLIMIT_LOGPREFIX, KEY_ESTCONNLIMIT_LOGPREFIX, KEY_TCPSTRICT_LOGPREFIX]
        then (PARSER_OK, c\<lparr>c_str_value := Some value\<rparr>, [])
      else if key_in k [KEY_USED, KEY_COUNTER_PACKETS, KEY_COUNTER_BYTES] then (PARSER_IGNORE, c, [])
      else if key_in k [KEY_ROUTE] then put_int c (map_prod CRoute id (config_value_route value))
      else (PARSER_OBJ_UNKNOWN, c, ''. Unknown parsed key with index '' @ quoted (print_d (key_index k))))"

text \<open>The least value of a numeric key.\<close>

definition numeric_key_minimum :: "key \<Rightarrow> int option" where
  "numeric_key_minimum k =
     (if k \<in> set [KEY_WEIGHT, KEY_PRIORITY] then Some 1
      else if k \<in> set [KEY_RESPONSETTL, KEY_PERSISTTM, KEY_LIMITSTTL, KEY_NEWRTLIMITBURST,
                       KEY_RSTRTLIMITBURST, KEY_ESTCONNLIMIT, KEY_TIMEOUT] then Some 0
      else if k = KEY_QUEUE then Some (-1)
      else None)"

text \<open>The known keys whose value \<open>config_value\<close> has no case for.\<close>

definition keys_without_value :: "key list" where
  "keys_without_value = [KEY_FARMS, KEY_FQDN, KEY_IETHADDR, KEY_OETHADDR, KEY_BCKS, KEY_POLICIES,
     KEY_ELEMENTS, KEY_TIME, KEY_SESSIONS, KEY_ADDRESSES]"

lemmas key_in_simps = key_in_def option.case list.set insert_iff empty_iff

lemma config_value_numeric:
  assumes "numeric_key_minimum k = Some m" "c_key c = Some k"
  shows "\<exists>bound. config_value value c = config_value_min m bound value c"
  using assms unfolding numeric_key_minimum_def config_value_def Let_def
  by (auto simp: key_in_simps split: if_splits)

section \<open>Codecs\<close>

lemma flags_below: "w < of_nat n \<Longrightarrow> n < 2 ^ 32 \<Longrightarrow> \<exists>i<n. w = (of_nat i :: flags)"
  by (rule exI [of _ "unat w"]) (simp add: word_less_nat_alt unat_of_nat)

interpretation family_codec: value_codec obj_print_family "\<lambda>s. fst (config_value_family s)" "\<lambda>v. v \<noteq> VALUE_FAMILY_NETDEV"
  by unfold_locales (case_tac v; auto simp: config_value_family_def)+

interpretation mode_codec: value_codec obj_print_mode "\<lambda>s. fst (config_value_mode s)" "\<lambda>_. True"
  by unfold_locales (case_tac v; auto simp: config_value_mode_def)+

interpretation proto_codec: value_codec obj_print_proto "\<lambda>s. fst (config_value_proto s)" "\<lambda>_. True"
  by unfold_locales (case_tac v; auto simp: config_value_proto_def)+

interpretation sched_codec: value_codec obj_print_sched "\<lambda>s. fst (config_value_sched s)" "\<lambda>_. True"
  by unfold_locales (case_tac v; auto simp: config_value_sched_def)+

interpretation helper_codec: value_codec obj_print_helper "\<lambda>s. fst (config_value_helper s)" "\<lambda>_. True"
  by unfold_locales (case_tac v; auto simp: config_value_helper_def)+

interpretation state_codec: value_codec obj_print_state "\<lambda>s. fst (config_value_state s)" "\<lambda>v. v \<noteq> VALUE_STATE_AVAIL"
  by unfold_locales (case_tac v; auto simp: config_value_state_def)+

interpretation switch_codec: value_codec obj_print_switch "\<lambda>s. fst (config_value_switch s)" "\<lambda>_. True"
  by unfold_locales (case_tac v; auto simp: config_value_switch_def)+

interpretation type_codec: value_codec obj_print_policy_type "\<lambda>s. fst (config_value_type s)" "\<lambda>_. True"
  by unfold_locales (case_tac v; auto simp: config_value_type_def)+

interpretation route_codec: value_codec obj_print_policy_route "\<lambda>s. fst (config_value_route s)" "\<lambda>_. True"
  by unfold_locales (case_tac v; auto simp: config_value_route_def)+

lemma meta_table: "\<forall>i \<in> set [0..<64]. config_value_meta (obj_print_meta (of_nat i)) = (of_nat i, [])"
  by code_simp

lemma log_table: "\<forall>i \<in> set [0..<8]. config_value_log (obj_print_log (of_nat i)) = (of_nat i, [])"
  by code_simp

lemma verdict_table: "\<forall>i \<in> set [0..<8]. fst (config_value_verdict (obj_print_verdict (of_nat i))) = of_nat i"
  by code_simp

interpretation meta_codec: value_codec "\<lambda>w. Some (obj_print_meta w)" "\<lambda>s. fst (config_value_meta s)" "\<lambda>w. w < 64"
proof
  fix w :: flags and s
  assume "w < 64" "Some (obj_print_meta w) = Some s"
  with flags_below [of w 64] meta_table show "fst (config_value_meta s) = w" by auto
qed simp

interpretation log_codec: value_codec "\<lambda>w. Some (obj_print_log w)" "\<lambda>s. fst (config_value_log s)" "\<lambda>w. w < 8"
proof
  fix w :: flags and s
  assume "w < 8" "Some (obj_print_log w) = Some s"
  with flags_below [of w 8] log_table show "fst (config_value_log s) = w" by auto
qed simp

interpretation verdict_codec: value_codec "\<lambda>w. Some (obj_print_verdict w)" "\<lambda>s. fst (config_value_verdict s)" "\<lambda>w. w < 8"
proof
  fix w :: flags and s
  assume "w < 8" "Some (obj_print_verdict w) = Some s"
  with flags_below [of w 8] verdict_table show "fst (config_value_verdict s) = w" by auto
qed simp

section \<open>What is printed is parsed back\<close>

lemma unit_cases: "0 \<le> u \<Longrightarrow> u \<le> 4 \<Longrightarrow> u = 0 \<or> u = 1 \<or> u = 2 \<or> u = 3 \<or> (u::int) = 4"
  by linarith

lemma unit_of_str: "0 \<le> u \<Longrightarrow> u \<le> 4 \<Longrightarrow> unit_of (unit_str u) = Some u"
  by (auto dest!: unit_cases simp: unit_of_def unit_str_def)

lemma unit_str_shape [simp]:
  "takeWhile is_alpha (unit_str u) = unit_str u" "unit_str u \<noteq> []"
  "dropWhile (\<lambda>c. c = CHR ''/'') (unit_str u) = unit_str u"
  by (simp_all add: unit_str_def is_alpha_def)

lemma length_unit_str: "length (unit_str u) \<le> 6"
  by (simp add: unit_str_def)

lemma length_print_d: "0 \<le> v \<Longrightarrow> v < 2 ^ 31 \<Longrightarrow> length (print_d v) \<le> 10"
  using length_print_u [of "nat v" 9] by (simp add: print_d_def)

lemma obj_print_rtlimit_fits:
  assumes "0 \<le> v" "v < 2 ^ 31"
  shows "obj_print_rtlimit v u = print_d v @ CHR ''/'' # unit_str u"
proof -
  have "length (print_d v @ ''/'' @ unit_str u) \<le> 49"
    using length_print_d [OF assms] length_unit_str [of u] by simp
  then show ?thesis by (simp add: obj_print_rtlimit_def)
qed

lemma scan_ratelimit_print:
  assumes "0 \<le> v" "v < 2 ^ 31"
  shows "scan_ratelimit (print_d v @ CHR ''/'' # unit_str u) = (Some v, unit_str u)"
proof -
  have "scan_d (print_d v @ CHR ''/'' # unit_str u) = Some (v, CHR ''/'' # unit_str u)"
    by (rule scan_d_print_d) (simp add: is_digit_def)
  moreover have "take 99 (unit_str u) = unit_str u" using length_unit_str [of u] by simp
  ultimately show ?thesis using int_of_long_id [of v] assms by (simp add: scan_ratelimit_def del: take_all_iff)
qed

lemma print_d_head: "0 < v \<Longrightarrow> print_d v @ s \<noteq> [] \<and> hd (print_d v @ s) \<noteq> CHR ''0''"
  using print_u_no_leading_zero [of "nat v"] print_u_Cons [of "nat v"]
  by (auto simp: print_d_def)

lemma ratelimit_round_trip_pos:
  assumes "0 < v" "v < 2 ^ 31" "0 \<le> u" "u \<le> 4"
  shows "config_value_ratelimit k i0 u0 (obj_print_rtlimit v u) = (PARSER_OK, v, u, [])"
proof -
  have "scan_ratelimit (print_d v @ CHR ''/'' # unit_str u) = (Some v, unit_str u)"
    using assms by (intro scan_ratelimit_print) auto
  then show ?thesis
    using assms print_d_head [of v "CHR ''/'' # unit_str u"]
    by (simp add: config_value_ratelimit_def obj_print_rtlimit_fits unit_of_str)
qed

lemma ratelimit_round_trip_zero:
  "config_value_ratelimit k i0 u0 (obj_print_rtlimit 0 u) = (PARSER_OK, 0, VALUE_UNIT_SECOND, [])"
proof -
  have "print_d 0 = ''0''" by code_simp
  then show ?thesis by (simp add: config_value_ratelimit_def obj_print_rtlimit_fits)
qed

lemma config_value_mark:
  "c_key c = Some KEY_MARK \<Longrightarrow> config_value s c = (PARSER_OK, c\<lparr>c_int_value := CFlags (word_of_int (strtol16 s))\<rparr>, [])"
  by (simp add: config_value_def key_in_simps put_int_def)

lemma parse_enum:
  "config_value_mode (the (obj_print_mode m)) = (m, [])"
  "config_value_proto (the (obj_print_proto pr)) = (pr, [])"
  "config_value_sched (the (obj_print_sched sc)) = (sc, [])"
  "config_value_helper (the (obj_print_helper h)) = (h, [])"
  "config_value_switch (the (obj_print_switch sw)) = (sw, [])"
  "config_value_type (the (obj_print_policy_type ty)) = (ty, [])"
  "config_value_route (the (obj_print_policy_route r)) = (r, [])"
proof -
  show "config_value_mode (the (obj_print_mode m)) = (m, [])"
    by (cases m) (simp_all add: config_value_mode_def)
  show "config_value_proto (the (obj_print_proto pr)) = (pr, [])"
    by (cases pr) (simp_all add: config_value_proto_def)
  show "config_value_sched (the (obj_print_sched sc)) = (sc, [])"
    by (cases sc) (simp_all add: config_value_sched_def)
  show "config_value_helper (the (obj_print_helper h)) = (h, [])"
    by (cases h) (simp_all add: config_value_helper_def)
  show "config_value_switch (the (obj_print_switch sw)) = (sw, [])"
    by (cases sw) (simp_all add: config_value_switch_def)
  show "config_value_type (the (obj_print_policy_type ty)) = (ty, [])"
    by (cases ty) (simp_all add: config_value_type_def)
  show "config_value_route (the (obj_print_policy_route r)) = (r, [])"
    by (cases r) (simp_all add: config_value_route_def)
qed

lemma parse_family: "v \<noteq> VALUE_FAMILY_NETDEV \<Longrightarrow> config_value_family (the (obj_print_family v)) = (v, [])"
  by (cases v) (simp_all add: config_value_family_def)

lemma parse_state: "v \<noteq> VALUE_STATE_AVAIL \<Longrightarrow> config_value_state (the (obj_print_state v)) = (v, [])"
  by (cases v) (simp_all add: config_value_state_def)

section \<open>Properties of the configuration values\<close>

text \<open>
  (C37) A rate limit survives a dump and a reload: the text \<open>obj_print_rtlimit\<close> writes for a limit and
  its unit is parsed by \<open>config_value_ratelimit\<close> without a message to the same limit and the same
  unit, whatever the two fields held before; a limit of 0, which switches the feature off, comes back
  with the default unit.
\<close>

theorem ratelimit_round_trip:
  assumes "0 \<le> v" "v < 2 ^ 31" "0 \<le> u" "u \<le> 4"
  shows "config_value_ratelimit k i0 u0 (obj_print_rtlimit v u) =
           (PARSER_OK, v, if v = 0 then VALUE_UNIT_SECOND else u, [])"
  using assms ratelimit_round_trip_pos [of v u k i0 u0] ratelimit_round_trip_zero [of k i0 u0 u]
  by (cases "v = 0") auto

theorem ratelimit_round_trip_witness:
  "config_value_ratelimit (Some KEY_NEWRTLIMIT) (-1) (-1) (obj_print_rtlimit 300 VALUE_UNIT_MINUTE) =
     (PARSER_OK, 300, VALUE_UNIT_MINUTE, [])"
  using ratelimit_round_trip [of 300 1 "Some KEY_NEWRTLIMIT" "-1" "-1"] by simp

text \<open>
  Every enumerated value that is printed is parsed back to itself: protocol, mode, scheduler,
  helper, switch, policy type and route for all their values, the family for all but the internal
  netdev, the state for all but \<open>available\<close>.
\<close>

lemma enum_round_trip:
  "config_value_mode (the (obj_print_mode m)) = (m, []) \<and>
   config_value_proto (the (obj_print_proto pr)) = (pr, []) \<and>
   config_value_sched (the (obj_print_sched sc)) = (sc, []) \<and>
   config_value_helper (the (obj_print_helper h)) = (h, []) \<and>
   config_value_switch (the (obj_print_switch sw)) = (sw, []) \<and>
   config_value_type (the (obj_print_policy_type ty)) = (ty, []) \<and>
   config_value_route (the (obj_print_policy_route r)) = (r, []) \<and>
   (fam \<noteq> VALUE_FAMILY_NETDEV \<longrightarrow> config_value_family (the (obj_print_family fam)) = (fam, [])) \<and>
   (st \<noteq> VALUE_STATE_AVAIL \<longrightarrow> config_value_state (the (obj_print_state st)) = (st, []))"
  by (simp add: parse_enum parse_family parse_state)

text \<open>
  Every bit mask that is printed is parsed back to itself: the six scheduler and persistence
  parameters, the three log positions and the three verdicts, in all combinations.
\<close>

lemma mask_round_trip:
  assumes "meta < 64" "log < 8" "verdict < 8"
  shows "fst (config_value_meta (obj_print_meta meta)) = meta \<and>
         fst (config_value_log (obj_print_log log)) = log \<and>
         fst (config_value_verdict (obj_print_verdict verdict)) = verdict"
  using assms meta_codec.round_trip [of meta] log_codec.round_trip [of log]
    verdict_codec.round_trip [of verdict]
  by simp

text \<open>
  (C40) Numeric keys are range-checked: weight and priority at least 1, timeouts, bursts and connection
  limits at least 0, the queue at least -1. In range the pair takes exactly the number \<open>atoi\<close> reads,
  a 32-bit value; out of range the parse fails, leaves the pair as it was and says so.
\<close>

theorem numeric_value_checked:
  assumes "numeric_key_minimum k = Some low" "c_key c = Some k"
  shows "config_value value c =
           (if low \<le> atoi value then (PARSER_OK, c\<lparr>c_int_value := CInt (atoi value)\<rparr>, [])
            else (PARSER_VALID_FAILED, c, snd (snd (config_value value c)))) \<and>
         (atoi value < low \<longrightarrow> snd (snd (config_value value c)) \<noteq> []) \<and>
         c_int_range (atoi value)"
proof -
  obtain bound where "config_value value c = config_value_min low bound value c"
    using config_value_numeric [OF assms] by blast
  moreover have "c_int_range (atoi value)"
    using int_of_long_range by (simp add: atoi_def split: option.split)
  ultimately show ?thesis by (simp add: config_value_min_def invalid_value_def Let_def)
qed

theorem numeric_value_checked_witness:
  "config_value ''0'' (init_pair\<lparr>c_key := Some KEY_WEIGHT\<rparr>) =
     (PARSER_VALID_FAILED, init_pair\<lparr>c_key := Some KEY_WEIGHT\<rparr>,
      snd (snd (config_value ''0'' (init_pair\<lparr>c_key := Some KEY_WEIGHT\<rparr>))))"
proof -
  have "atoi ''0'' = 0" by code_simp
  moreover have "numeric_key_minimum KEY_WEIGHT = Some 1" by (simp add: numeric_key_minimum_def)
  ultimately show ?thesis
    using numeric_value_checked [of KEY_WEIGHT 1 "init_pair\<lparr>c_key := Some KEY_WEIGHT\<rparr>" "''0''"]
    by (simp add: init_pair_def)
qed

text \<open>
  The keys \<open>config_value\<close> does not know: a string value is refused as unknown exactly for the
  ten keys that name a list of objects or that have no case, although \<open>config_key\<close> accepts them
  all. Among them is \<open>time\<close>, which the dump of a policy element writes.
\<close>

lemma unknown_value_keys:
  assumes "c_key c = Some k"
  shows "fst (config_value value c) = PARSER_OBJ_UNKNOWN \<longleftrightarrow> k \<in> set keys_without_value"
  using assms
  by (cases k) (simp_all add: config_value_def key_in_simps keys_without_value_def put_int_def
      config_value_min_def config_value_ratelimit_def Let_def split: option.split prod.split)

text \<open>
  The response text never grows beyond the size of its buffer and keeps what was there, but a text that
  fills it leaves no byte inside it for the terminator.
\<close>

lemma length_config_set_output:
  "length outbuf \<le> CONFIG_OUTBUF_SIZE \<Longrightarrow>
     length (config_set_output outbuf msg) = min CONFIG_OUTBUF_SIZE (length outbuf + length msg)"
  by (simp add: config_set_output_def)

end
