(* ===== verification/Pool.thy ===== *)
theory Pool
  imports Values
begin

text \<open>
  The backend pool of one farm (backends.c and the mark and mode helpers of farms.c): which backends
  are valid, available and usable, the priority the farm falls back to when backends are down, the
  counters the load-balancing maps are built from, and the packet marks. All of it reads or updates a
  single farm; a backend's \<open>parent\<close> is the farm argument. \<open>netenv\<close> is what the program learns from
  the outside: the masquerade mark of the command line and the answers of the kernel to the lookups
  of network.c and to the listing of an nft set or map.
\<close>

section \<open>Environment\<close>

record netenv =
  masquerade_mark :: flags
  net_get_local_ifidx_per_remote_host :: "string \<Rightarrow> int option"
  if_indextoname :: "int \<Rightarrow> string option"
  if_nametoindex :: "string \<Rightarrow> int"
  net_get_local_ifinfo :: "string \<Rightarrow> string"
  net_get_local_ifname_per_vip :: "string \<Rightarrow> string option"
  net_get_neigh_ether :: "string \<Rightarrow> family \<Rightarrow> string \<Rightarrow> string \<Rightarrow> int \<Rightarrow> string option"
  nft_list_sessions :: "farm \<Rightarrow> address \<Rightarrow> string"
  nft_list_elements :: "policy \<Rightarrow> string"

text \<open>An interface name is cut at the colon of an alias (\<open>eth0:1\<close>).\<close>

definition net_strim_netface :: "string \<Rightarrow> string" where
  "net_strim_netface name =
     (case strstr name '':'' of None \<Rightarrow> name | Some p \<Rightarrow> take (length name - length p) name)"

text \<open>A host whose kernel knows no interface, route, neighbour or nft object; the default mark.\<close>

definition offline :: netenv where
  "offline = \<lparr> masquerade_mark = 0x80000000, net_get_local_ifidx_per_remote_host = (\<lambda>_. None),
     if_indextoname = (\<lambda>_. None), if_nametoindex = (\<lambda>_. 0), net_get_local_ifinfo = (\<lambda>_. []),
     net_get_local_ifname_per_vip = (\<lambda>_. None), net_get_neigh_ether = (\<lambda>_ _ _ _ _. None),
     nft_list_sessions = (\<lambda>_ _. []), nft_list_elements = (\<lambda>_. []) \<rparr>"

section \<open>Farm helpers\<close>

text \<open>The fields \<open>farm_create\<close> gives a new farm.\<close>

definition new_farm :: "oid \<Rightarrow> string \<Rightarrow> farm" where
  "new_farm fid name =
     \<lparr> f_id = fid, f_action = ACTION_START, f_reload_action = VALUE_RLD_NONE, f_name = name, f_fqdn = [],
       f_oface = None, f_oethaddr = None, f_ofidx = DEFAULT_IFIDX, f_srcaddr = None,
       f_mode = VALUE_MODE_SNAT, f_responsettl = 60, f_scheduler = VALUE_SCHED_RR,
       f_schedparam = VALUE_META_NONE, f_persistence = VALUE_META_NONE, f_persistttl = 60,
       f_helper = VALUE_HELPER_NONE, f_log = VALUE_LOG_NONE, f_logprefix = ''TYPE-FNAME '',
       f_logrtlimit = 0, f_logrtlimit_unit = VALUE_UNIT_SECOND, f_mark = DEFAULT_MARK,
       f_state = VALUE_STATE_UP, f_priority = DEFAULT_PRIORITY, f_limitsttl = 120,
       f_newrtlimit = 0, f_newrtlimit_unit = VALUE_UNIT_SECOND, f_newrtlimitbst = 0,
       f_newrtlimit_logprefix = ''KNAME-FNAME '', f_rstrtlimit = 0, f_rstrtlimit_unit = VALUE_UNIT_SECOND,
       f_rstrtlimitbst = 0, f_rstrtlimit_logprefix = ''KNAME-FNAME '', f_estconnlimit = 0,
       f_estconnlimit_logprefix = ''KNAME-FNAME '', f_tcpstrict = VALUE_SWITCH_OFF,
       f_tcpstrict_logprefix = ''KNAME-FNAME '', f_queue = -1,
       f_verdict = VALUE_VERDICT_LOG OR VALUE_VERDICT_DROP OR VALUE_VERDICT_ACCEPT,
       f_flow_offload = VALUE_SWITCH_OFF, f_intra_connect = VALUE_SWITCH_OFF, f_total_weight = 0,
       f_total_bcks = 0, f_bcks_available = 0, f_bcks_usable = 0, f_bcks_have_port = False,
       f_bcks_have_srcaddr = False, f_bcks_have_if = False, f_policies_action = ACTION_NONE,
       f_policies_used = 0, f_nft_chains = 0, f_backends = [], f_policies = [],
       f_total_timed_sessions = 0, f_timed_sessions = [], f_total_static_sessions = 0,
       f_static_sessions = [], f_addresses = [], f_addresses_used = 0 \<rparr>"

definition farm_is_ingress_mode :: "farm \<Rightarrow> bool" where
  "farm_is_ingress_mode f = (f_mode f = VALUE_MODE_DSR \<or> f_mode f = VALUE_MODE_STLSDNAT)"

definition farm_needs_policies :: "farm \<Rightarrow> bool" where
  "farm_needs_policies f = (f_policies_used f > 0 \<or> f_policies_action f \<noteq> ACTION_NONE)"

definition farm_needs_flowtable :: "farm \<Rightarrow> bool" where
  "farm_needs_flowtable f = (f_flow_offload f \<noteq> VALUE_SWITCH_OFF)"

definition farm_needs_intraconnect :: "farm \<Rightarrow> bool" where
  "farm_needs_intraconnect f = (f_intra_connect f \<noteq> VALUE_SWITCH_OFF)"

definition farm_has_source_address :: "farm \<Rightarrow> bool" where
  "farm_has_source_address f =
     ((f_srcaddr f \<noteq> None \<and> \<not> obj_equ_attribute_string (f_srcaddr f) []) \<or> f_bcks_have_srcaddr f)"

definition farm_get_masquerade :: "farm \<Rightarrow> bool" where
  "farm_get_masquerade f =
     ((f_mode f = VALUE_MODE_SNAT \<or> f_mode f = VALUE_MODE_LOCAL) \<and>
      (f_srcaddr f = None \<or> f_srcaddr f = Some []))"

definition farm_get_mark :: "netenv \<Rightarrow> farm \<Rightarrow> flags" where
  "farm_get_mark env f =
     (if farm_get_masquerade f then f_mark f OR masquerade_mark env else f_mark f)"

section \<open>Backends of a farm\<close>

definition backend_below_prio :: "farm \<Rightarrow> backend \<Rightarrow> bool" where
  "backend_below_prio f b = (b_priority b \<le> f_priority f)"

definition backend_validate :: "farm \<Rightarrow> backend \<Rightarrow> bool" where
  "backend_validate f b =
     (\<not> (farm_is_ingress_mode f \<and> (b_ethaddr b = None \<or> b_ethaddr b = Some [])) \<and>
      \<not> (b_ipaddr b = None \<or> b_ipaddr b = Some []))"

definition backend_is_available :: "farm \<Rightarrow> backend \<Rightarrow> bool" where
  "backend_is_available f b =
     (backend_validate f b \<and> b_state b = VALUE_STATE_UP \<and> backend_below_prio f b)"

definition backend_is_usable :: "farm \<Rightarrow> backend \<Rightarrow> bool" where
  "backend_is_usable f b =
     ((b_state b = VALUE_STATE_UP \<or> b_state b = VALUE_STATE_OFF) \<and> backend_below_prio f b)"

definition backend_no_port :: "backend \<Rightarrow> bool" where
  "backend_no_port b = obj_equ_attribute_string (Some (b_port b)) DEFAULT_PORT"

definition backend_get_first :: "farm \<Rightarrow> backend option" where
  "backend_get_first f = (case f_backends f of [] \<Rightarrow> None | b # _ \<Rightarrow> Some b)"

definition backend_get_mark :: "netenv \<Rightarrow> farm \<Rightarrow> backend \<Rightarrow> flags" where
  "backend_get_mark env f b =
     (if b_srcaddr b \<noteq> None \<and> b_srcaddr b \<noteq> Some [] then b_mark b OR f_mark f
      else b_mark b OR farm_get_mark env f)"

text \<open>
  The search by a key; the key is one of the four of the \<open>switch\<close>, any other gives NULL. The integer
  argument is a mark, the text a name or an address.
\<close>

fun backend_lookup_by_key ::
  "netenv \<Rightarrow> farm \<Rightarrow> key \<Rightarrow> string \<Rightarrow> flags \<Rightarrow> backend option" where
  "backend_lookup_by_key env f k name value =
     (if k = KEY_NAME then find (\<lambda>b. b_name b = name) (f_backends f)
      else if k = KEY_MARK then find (\<lambda>b. value = backend_get_mark env f b) (f_backends f)
      else if k = KEY_ETHADDR then find (\<lambda>b. b_ethaddr b = Some name) (f_backends f)
      else if k = KEY_IPADDR then find (\<lambda>b. b_ipaddr b = Some name) (f_backends f)
      else None)"

definition backend_s_set_ports :: "farm \<Rightarrow> farm" where
  "backend_s_set_ports f =
     f\<lparr>f_bcks_have_port := \<not> list_ex (\<lambda>b. b_port b = DEFAULT_PORT) (f_backends f)\<rparr>"

definition backend_s_set_srcaddr :: "farm \<Rightarrow> farm" where
  "backend_s_set_srcaddr f =
     f\<lparr>f_bcks_have_srcaddr := list_ex (\<lambda>b. b_srcaddr b \<noteq> None \<and> b_srcaddr b \<noteq> Some []) (f_backends f)\<rparr>"

definition backend_s_check_have_iface :: "farm \<Rightarrow> bool" where
  "backend_s_check_have_iface f =
     list_ex (\<lambda>b. b_ofidx b \<noteq> DEFAULT_IFIDX \<and> f_ofidx f \<noteq> b_ofidx b) (f_backends f)"

text \<open>A write through a backend pointer.\<close>

definition upd_bck :: "oid \<Rightarrow> (backend \<Rightarrow> backend) \<Rightarrow> farm \<Rightarrow> farm" where
  "upd_bck bid g f = f\<lparr>f_backends := kupd b_id bid g (f_backends f)\<rparr>"

definition get_bck :: "oid \<Rightarrow> farm \<Rightarrow> backend option" where
  "get_bck bid f = kfind b_id bid (f_backends f)"

section \<open>Marks\<close>

abbreviation BACKEND_MARK_MIN :: nat where "BACKEND_MARK_MIN \<equiv> 1"
abbreviation BACKEND_MARK_MAX :: nat where "BACKEND_MARK_MAX \<equiv> 4095"

definition mark_found :: "farm list \<Rightarrow> flags \<Rightarrow> bool" where
  "mark_found fs mark = list_ex (\<lambda>f. list_ex (\<lambda>b. mark = b_mark b) (f_backends f)) fs"

text \<open>The loop over the marks; running past the last one gives \<open>DEFAULT_MARK\<close>.\<close>

function gen_mark_loop :: "farm list \<Rightarrow> nat \<Rightarrow> flags" where
  "gen_mark_loop fs mark =
     (if mark \<le> BACKEND_MARK_MAX
      then if mark_found fs (of_nat mark) then gen_mark_loop fs (Suc mark) else of_nat mark
      else DEFAULT_MARK)"
  by pat_completeness auto
termination
  by (relation "measure (\<lambda>(fs, mark). Suc BACKEND_MARK_MAX - mark)") auto

declare gen_mark_loop.simps [simp del]

definition backend_gen_next_mark :: "farm list \<Rightarrow> flags" where
  "backend_gen_next_mark fs = gen_mark_loop fs BACKEND_MARK_MIN"

text \<open>The new mark is a signed number in C; one outside the backend range is ignored.\<close>

definition backend_set_mark :: "flags \<Rightarrow> backend \<Rightarrow> backend" where
  "backend_set_mark new_value b =
     (if sint new_value < int BACKEND_MARK_MIN \<or> sint new_value > int BACKEND_MARK_MAX then b
      else b\<lparr>b_mark := new_value\<rparr>)"

section \<open>Priority and counters\<close>

text \<open>The number of backends of a priority that are neither up nor available.\<close>

definition prio_down :: "backend list \<Rightarrow> int \<Rightarrow> nat" where
  "prio_down bs prio =
     length (filter (\<lambda>b. b_priority b = prio \<and> b_state b \<noteq> VALUE_STATE_UP \<and>
                         b_state b \<noteq> VALUE_STATE_AVAIL) bs)"

text \<open>
  The \<open>do ... while (are_down)\<close> loop: as long as backends of the current priority are down, the
  priority grows by their number.
\<close>

function prio_loop :: "backend list \<Rightarrow> int \<Rightarrow> int" where
  "prio_loop bs new_prio =
     (let are_down = prio_down bs new_prio
      in if are_down = 0 then new_prio else prio_loop bs (new_prio + int are_down))"
  by pat_completeness auto
termination
proof (relation "measure (\<lambda>(bs, p). length (filter (\<lambda>b. p \<le> b_priority b) bs))", goal_cases)
  case 1
  show ?case by simp
next
  case (2 bs p d)
  have le: "length (filter (\<lambda>b. p + int d \<le> b_priority b) xs) + prio_down xs p
              \<le> length (filter (\<lambda>b. p \<le> b_priority b) xs)" if "0 < d" for xs
    using that by (induction xs) (auto simp: prio_down_def)
  from 2 le [of bs] show ?case by simp
qed

declare prio_loop.simps [simp del]

definition count_backend :: "backend \<Rightarrow> farm \<Rightarrow> farm" where
  "count_backend b f =
     (let f1 = (if backend_is_available f b
                then f\<lparr>f_bcks_available := f_bcks_available f + 1,
                       f_total_weight := f_total_weight f + b_weight b\<rparr>
                else f)
      in if backend_is_usable f1 b then f1\<lparr>f_bcks_usable := f_bcks_usable f1 + 1\<rparr> else f1)"

definition backend_s_update_counters :: "farm \<Rightarrow> farm" where
  "backend_s_update_counters f =
     fold count_backend (f_backends f)
       (f\<lparr>f_bcks_available := 0, f_bcks_usable := 0, f_total_weight := 0\<rparr>)"

definition backend_set_weight :: "oid \<Rightarrow> int \<Rightarrow> farm \<Rightarrow> farm" where
  "backend_set_weight bid new_value f =
     (case get_bck bid f of
        None \<Rightarrow> f
      | Some b \<Rightarrow>
          let old_value = b_weight b;
              f1 = upd_bck bid (\<lambda>b. b\<lparr>b_weight := new_value\<rparr>) f
          in if backend_is_available f1 (b\<lparr>b_weight := new_value\<rparr>)
             then f1\<lparr>f_total_weight := f_total_weight f1 + (new_value - old_value)\<rparr> else f1)"

definition backend_set_estconnlimit :: "int \<Rightarrow> backend \<Rightarrow> backend" where
  "backend_set_estconnlimit new_value b =
     (if new_value = b_estconnlimit b then b else b\<lparr>b_estconnlimit := new_value\<rparr>)"

definition backend_set_port :: "oid \<Rightarrow> string \<Rightarrow> farm \<Rightarrow> farm" where
  "backend_set_port bid new_value f =
     (let f1 = upd_bck bid (\<lambda>b. b\<lparr>b_port := new_value\<rparr>) f
      in if f_bcks_have_port f1
         then (if new_value = DEFAULT_PORT then f1\<lparr>f_bcks_have_port := False\<rparr> else f1)
         else backend_s_set_ports f1)"

definition backend_set_srcaddr :: "oid \<Rightarrow> string \<Rightarrow> farm \<Rightarrow> farm" where
  "backend_set_srcaddr bid new_value f =
     (let f1 = upd_bck bid (\<lambda>b. b\<lparr>b_srcaddr := Some new_value\<rparr>) f
      in if new_value \<noteq> [] then f1\<lparr>f_bcks_have_srcaddr := True\<rparr> else backend_s_set_srcaddr f1)"

text \<open>
  A new backend gets the next free mark and starts in the configuration-error state, because it has
  no address yet.
\<close>

definition new_backend :: "oid \<Rightarrow> string \<Rightarrow> flags \<Rightarrow> backend" where
  "new_backend bid name mark =
     \<lparr> b_id = bid, b_action = ACTION_START, b_name = name, b_fqdn = [], b_ipaddr = None,
       b_ethaddr = None, b_ofidx = DEFAULT_IFIDX, b_oface = None, b_port = DEFAULT_PORT,
       b_srcaddr = None, b_weight = 1, b_priority = DEFAULT_PRIORITY, b_mark = mark,
       b_estconnlimit = 0, b_estconnlimit_logprefix = ''KNAME-FNAME-BNAME '',
       b_state = VALUE_STATE_CONFERR \<rparr>"

definition backend_create :: "farm list \<Rightarrow> oid \<Rightarrow> string \<Rightarrow> farm \<Rightarrow> farm" where
  "backend_create fs bid name f =
     f\<lparr>f_bcks_have_port := False,
       f_backends := f_backends f @ [new_backend bid name (backend_gen_next_mark fs)],
       f_total_bcks := f_total_bcks f + 1\<rparr>"

definition backend_delete_node :: "oid \<Rightarrow> farm \<Rightarrow> farm" where
  "backend_delete_node bid f = f\<lparr>f_backends := kdel b_id bid (f_backends f)\<rparr>"

definition backend_s_delete :: "farm \<Rightarrow> farm" where
  "backend_s_delete f =
     f\<lparr>f_backends := [], f_total_bcks := 0, f_bcks_available := 0, f_bcks_usable := 0,
       f_total_weight := 0, f_bcks_have_if := False\<rparr>"

text \<open>
  The flags the rule generator relies on: \<open>bcks_have_port\<close> says that every backend has a port,
  \<open>bcks_have_srcaddr\<close> that some backend has a source address.
\<close>

definition pool_flags :: "farm \<Rightarrow> bool" where
  "pool_flags f =
     ((f_backends f \<noteq> [] \<longrightarrow> f_bcks_have_port f = list_all (\<lambda>b. b_port b \<noteq> DEFAULT_PORT) (f_backends f)) \<and>
      f_bcks_have_srcaddr f = list_ex (\<lambda>b. b_srcaddr b \<noteq> None \<and> b_srcaddr b \<noteq> Some []) (f_backends f))"

definition pool_weight :: "farm \<Rightarrow> int" where
  "pool_weight f = sum_list (map b_weight (filter (backend_is_available f) (f_backends f)))"

section \<open>The pool as a keyed list\<close>

interpretation bcks: keyed_list b_id "kfind b_id" "kupd b_id" "kdel b_id"
  by (rule keyed_list_kfind)

section \<open>Lemmas\<close>

lemma backend_pred_cong:
  assumes "f_mode g = f_mode f" "f_priority g = f_priority f"
  shows "backend_is_available g = backend_is_available f" "backend_is_usable g = backend_is_usable f"
    "backend_validate g = backend_validate f" "backend_below_prio g = backend_below_prio f"
  using assms
  by (auto simp: fun_eq_iff backend_is_available_def backend_is_usable_def backend_validate_def
      backend_below_prio_def farm_is_ingress_mode_def)

text \<open>The counting loop from any start: every backend adds to the counters it belongs to.\<close>

definition bump :: "int \<Rightarrow> int \<Rightarrow> int \<Rightarrow> farm \<Rightarrow> farm" where
  "bump a w u g = g\<lparr>f_bcks_available := f_bcks_available g + a, f_total_weight := f_total_weight g + w,
                    f_bcks_usable := f_bcks_usable g + u\<rparr>"

lemma bump_simps [simp]:
  "f_mode (bump a w u g) = f_mode g" "f_priority (bump a w u g) = f_priority g"
  "bump a w u (bump a' w' u' g) = bump (a' + a) (w' + w) (u' + u) g"
  by (simp_all add: bump_def add.assoc)

lemma count_backend_eq:
  "count_backend b g =
     bump (of_bool (backend_is_available g b)) (if backend_is_available g b then b_weight b else 0)
       (of_bool (backend_is_usable g b)) g"
proof (cases "backend_is_available g b")
  case True
  have "backend_is_usable (g\<lparr>f_bcks_available := f_bcks_available g + 1,
           f_total_weight := f_total_weight g + b_weight b\<rparr>) = backend_is_usable g"
    by (rule backend_pred_cong) simp_all
  with True show ?thesis by (simp add: count_backend_def bump_def Let_def)
next
  case False
  then show ?thesis by (simp add: count_backend_def bump_def Let_def)
qed

lemma update_counters_fold:
  "f_mode g = f_mode f \<Longrightarrow> f_priority g = f_priority f \<Longrightarrow>
   fold count_backend bs g =
     bump (int (length (filter (backend_is_available f) bs)))
       (sum_list (map b_weight (filter (backend_is_available f) bs)))
       (int (length (filter (backend_is_usable f) bs))) g"
proof (induction bs arbitrary: g)
  case Nil
  then show ?case by (simp add: bump_def)
next
  case (Cons b bs)
  have p: "backend_is_available g = backend_is_available f" "backend_is_usable g = backend_is_usable f"
    using backend_pred_cong [OF Cons.prems] by simp_all
  have "fold count_backend (b # bs) g =
          fold count_backend bs (bump (of_bool (backend_is_available f b))
            (if backend_is_available f b then b_weight b else 0) (of_bool (backend_is_usable f b)) g)"
    by (simp only: fold_Cons comp_def count_backend_eq p)
  also have "\<dots> = bump (int (length (filter (backend_is_available f) (b # bs))))
       (sum_list (map b_weight (filter (backend_is_available f) (b # bs))))
       (int (length (filter (backend_is_usable f) (b # bs)))) g"
    using Cons.prems by (subst Cons.IH) auto
  finally show ?case .
qed

lemma backend_s_update_counters_eq:
  "backend_s_update_counters f =
     f\<lparr>f_bcks_available := int (length (filter (backend_is_available f) (f_backends f))),
       f_total_weight := pool_weight f,
       f_bcks_usable := int (length (filter (backend_is_usable f) (f_backends f)))\<rparr>"
  unfolding backend_s_update_counters_def
  by (subst update_counters_fold [where f = f]) (simp_all add: bump_def pool_weight_def)

lemma prio_down_le: "prio_down bs p \<le> length (filter (\<lambda>b. b_priority b = p) bs)"
  unfolding prio_down_def by (induction bs) auto

lemma filter_ge_split:
  "0 < d \<Longrightarrow> length (filter (\<lambda>b. p + int d \<le> b_priority b) xs) + prio_down xs p
     \<le> length (filter (\<lambda>b. p \<le> b_priority b) xs)"
  by (induction xs) (auto simp: prio_down_def)

lemma prio_loop_bounds:
  "p \<le> prio_loop bs p \<and> prio_down bs (prio_loop bs p) = 0 \<and>
   prio_loop bs p \<le> p + int (length (filter (\<lambda>b. p \<le> b_priority b) bs))"
proof (induction bs p rule: prio_loop.induct)
  case (1 bs p)
  let ?d = "prio_down bs p"
  show ?case
  proof (cases "?d = 0")
    case True
    then show ?thesis by (simp add: prio_loop.simps)
  next
    case False
    then have step: "prio_loop bs p = prio_loop bs (p + int ?d)"
      by (subst prio_loop.simps) simp
    from 1 [OF refl False] filter_ge_split [of ?d p bs] False show ?thesis
      unfolding step by simp
  qed
qed

lemma prio_loop_least:
  assumes "\<forall>q. prio_down bs q \<le> 1" "p \<le> q" "q < prio_loop bs p"
  shows "prio_down bs q = 1"
  using assms
proof (induction bs p arbitrary: q rule: prio_loop.induct)
  case (1 bs p)
  show ?case
  proof (cases "prio_down bs p = 0")
    case True
    with 1 show ?thesis by (simp add: prio_loop.simps)
  next
    case False
    with 1(2) have d: "prio_down bs p = 1" by (metis One_nat_def le_Suc_eq le_zero_eq)
    then have "prio_loop bs p = prio_loop bs (p + 1)" by (subst prio_loop.simps) simp
    with 1 d False show ?thesis by (cases "q = p") auto
  qed
qed

lemma gen_mark_loop_spec:
  "m \<le> Suc BACKEND_MARK_MAX \<Longrightarrow>
   (gen_mark_loop fs m = DEFAULT_MARK \<and> (\<forall>i. m \<le> i \<and> i \<le> BACKEND_MARK_MAX \<longrightarrow> mark_found fs (of_nat i))) \<or>
   (\<exists>i. m \<le> i \<and> i \<le> BACKEND_MARK_MAX \<and> gen_mark_loop fs m = of_nat i \<and> \<not> mark_found fs (of_nat i) \<and>
        (\<forall>j. m \<le> j \<and> j < i \<longrightarrow> mark_found fs (of_nat j)))"
proof (induction fs m rule: gen_mark_loop.induct)
  case (1 fs m)
  show ?case
  proof (cases "m \<le> BACKEND_MARK_MAX \<and> mark_found fs (of_nat m)")
    case True
    then have step: "gen_mark_loop fs m = gen_mark_loop fs (Suc m)" by (subst gen_mark_loop.simps) simp
    have IH: "(gen_mark_loop fs (Suc m) = DEFAULT_MARK \<and>
        (\<forall>i. Suc m \<le> i \<and> i \<le> BACKEND_MARK_MAX \<longrightarrow> mark_found fs (of_nat i))) \<or>
      (\<exists>i. Suc m \<le> i \<and> i \<le> BACKEND_MARK_MAX \<and> gen_mark_loop fs (Suc m) = of_nat i \<and>
        \<not> mark_found fs (of_nat i) \<and> (\<forall>j. Suc m \<le> j \<and> j < i \<longrightarrow> mark_found fs (of_nat j)))"
      using True by (intro 1(1)) auto
    have ext: "\<forall>j. m \<le> j \<and> P j \<longrightarrow> mark_found fs (of_nat j)"
      if "\<forall>j. Suc m \<le> j \<and> P j \<longrightarrow> mark_found fs (of_nat j)" for P
      using that True by (metis Suc_leI le_neq_implies_less)
    from IH show ?thesis
    proof (elim disjE exE conjE)
      fix i
      assume i: "Suc m \<le> i" "i \<le> BACKEND_MARK_MAX" "gen_mark_loop fs (Suc m) = of_nat i"
        "\<not> mark_found fs (of_nat i)" "\<forall>j. Suc m \<le> j \<and> j < i \<longrightarrow> mark_found fs (of_nat j)"
      from i(1-4) ext [OF i(5)] show ?thesis
        by (intro disjI2 exI [of _ i] conjI) (simp_all add: step)
    next
      assume all: "gen_mark_loop fs (Suc m) = DEFAULT_MARK"
        "\<forall>i. Suc m \<le> i \<and> i \<le> BACKEND_MARK_MAX \<longrightarrow> mark_found fs (of_nat i)"
      from all(1) ext [OF all(2)] show ?thesis by (intro disjI1 conjI) (simp_all add: step)
    qed
  next
    case False
    show ?thesis
    proof (cases "m \<le> BACKEND_MARK_MAX")
      case True
      with False have "\<not> mark_found fs (of_nat m)" "gen_mark_loop fs m = of_nat m"
        by (simp_all add: gen_mark_loop.simps)
      with True show ?thesis by (intro disjI2 exI [of _ m]) auto
    next
      case False
      then show ?thesis by (intro disjI1) (auto simp: gen_mark_loop.simps)
    qed
  qed
qed

lemma mark_found_iff: "mark_found fs m \<longleftrightarrow> (\<exists>f \<in> set fs. \<exists>b \<in> set (f_backends f). b_mark b = m)"
  by (auto simp: mark_found_def list_ex_iff)

lemma mask_OR: "x AND 0xFFF = x \<Longrightarrow> y AND 0xFFF = 0 \<Longrightarrow> (x OR y) AND 0xFFF = (x :: flags)"
  by (simp add: bit.conj_disj_distrib2)

lemma list_ex_kupd_frame: "(\<And>x. P (g x) = P x) \<Longrightarrow> list_ex P (kupd key k g xs) = list_ex P xs"
  by (induction xs) auto

lemma list_all_kupd_frame: "(\<And>x. P (g x) = P x) \<Longrightarrow> list_all P (kupd key k g xs) = list_all P xs"
  by (induction xs) auto

lemma kupd_ex: "k \<in> key ` set xs \<Longrightarrow> (\<And>x. P (g x)) \<Longrightarrow> list_ex P (kupd key k g xs)"
  by (induction xs) auto

lemma kupd_not_all: "k \<in> key ` set xs \<Longrightarrow> (\<And>x. \<not> P (g x)) \<Longrightarrow> \<not> list_all P (kupd key k g xs)"
  by (induction xs) auto

lemma kupd_all: "list_all P xs \<Longrightarrow> (\<And>x. P (g x)) \<Longrightarrow> list_all P (kupd key k g xs)"
  by (induction xs) auto

lemma not_list_ex: "(\<not> list_ex P xs) = list_all (\<lambda>x. \<not> P x) xs"
  by (induction xs) auto

lemma sum_weight_kupd:
  assumes "distinct (map b_id bs)" "kfind b_id bid bs = Some b"
    and "\<And>c. P (c\<lparr>b_weight := w\<rparr>) = P c"
  shows "sum_list (map b_weight (filter P (kupd b_id bid (\<lambda>b. b\<lparr>b_weight := w\<rparr>) bs))) =
         sum_list (map b_weight (filter P bs)) + (if P b then w - b_weight b else 0)"
  using assms
proof (induction bs)
  case Nil
  then show ?case by simp
next
  case (Cons c bs)
  then have "b_id c = bid \<Longrightarrow> kupd b_id bid (\<lambda>b. b\<lparr>b_weight := w\<rparr>) bs = bs"
    by (intro kupd_absent) auto
  with Cons show ?case by (auto split: if_splits)
qed

section \<open>Properties\<close>

text \<open>
  (C24) Fallback priority. The loop over the priorities always ends, in a priority at which no backend
  is down and that is at least 1 and at most one more than the number of backends; when no priority
  has two backends down it is the first such priority, so every lower one has a backend down.
\<close>

theorem fallback_priority:
  "1 \<le> prio_loop bs DEFAULT_PRIORITY \<and>
   prio_loop bs DEFAULT_PRIORITY \<le> 1 + int (length bs) \<and>
   prio_down bs (prio_loop bs DEFAULT_PRIORITY) = 0 \<and>
   ((\<forall>q. prio_down bs q \<le> 1) \<longrightarrow> (\<forall>q. 1 \<le> q \<and> q < prio_loop bs DEFAULT_PRIORITY \<longrightarrow> prio_down bs q = 1))"
proof -
  have "length (filter (\<lambda>b. DEFAULT_PRIORITY \<le> b_priority b) bs) \<le> length bs" by simp
  with prio_loop_bounds [of DEFAULT_PRIORITY bs]
  have "prio_loop bs DEFAULT_PRIORITY \<le> 1 + int (length bs)" by linarith
  with prio_loop_bounds [of DEFAULT_PRIORITY bs] prio_loop_least [of bs DEFAULT_PRIORITY]
  show ?thesis by simp
qed

theorem fallback_priority_witness:
  "prio_loop [new_backend 0 ''b0'' 1] DEFAULT_PRIORITY = 2 \<and> prio_down [new_backend 0 ''b0'' 1] 1 = 1"
proof -
  have "prio_loop [new_backend 0 ''b0'' 1] DEFAULT_PRIORITY = 2"
    by (simp add: prio_loop.simps prio_down_def new_backend_def)
  then show ?thesis
    using fallback_priority [of "[new_backend 0 ''b0'' 1]"] by (simp add: prio_down_def)
qed


text \<open>
  A new backend's mark: the smallest mark in 1..0xFFF that no backend of any farm has, or the
  default mark 0 exactly when all of them are taken.
\<close>

lemma next_mark_fresh:
  "(backend_gen_next_mark fs = DEFAULT_MARK \<and>
      (\<forall>i. 1 \<le> i \<and> i \<le> 0xFFF \<longrightarrow> (\<exists>f \<in> set fs. \<exists>b \<in> set (f_backends f). b_mark b = of_nat i))) \<or>
   (\<exists>i. 1 \<le> i \<and> i \<le> 0xFFF \<and> backend_gen_next_mark fs = of_nat i \<and>
      (\<forall>f \<in> set fs. \<forall>b \<in> set (f_backends f). b_mark b \<noteq> of_nat i) \<and>
      (\<forall>j. 1 \<le> j \<and> j < i \<longrightarrow> (\<exists>f \<in> set fs. \<exists>b \<in> set (f_backends f). b_mark b = of_nat j)))"
proof -
  have "Suc 0 \<le> Suc BACKEND_MARK_MAX" "BACKEND_MARK_MAX = 0xFFF" by simp_all
  then show ?thesis
    using gen_mark_loop_spec [of 1 fs] unfolding mark_found_iff backend_gen_next_mark_def One_nat_def by (simp only: bex_simps ball_simps simp_thms)
qed



text \<open>
  Changing a weight keeps the total weight equal to the sum of the weights of the available
  backends, which is what the scheduler maps are sized by.
\<close>

lemma set_weight_total:
  assumes "distinct (map b_id (f_backends f))" "f_total_weight f = pool_weight f"
  shows "f_total_weight (backend_set_weight bid w f) = pool_weight (backend_set_weight bid w f)"
proof (cases "get_bck bid f")
  case None
  with assms show ?thesis by (simp add: backend_set_weight_def)
next
  case (Some b)
  let ?g = "\<lambda>b. b\<lparr>b_weight := w\<rparr>"
  have pred: "backend_is_available (backend_set_weight bid w f) = backend_is_available f"
    "backend_is_available (upd_bck bid ?g f) = backend_is_available f"
    by (rule backend_pred_cong; simp add: backend_set_weight_def upd_bck_def Let_def split: option.split)+
  have w: "backend_is_available f (?g c) = backend_is_available f c" for c
    by (simp add: backend_is_available_def backend_validate_def backend_below_prio_def)
  show ?thesis
    using Some assms sum_weight_kupd [of "f_backends f" bid b "backend_is_available f" w] w pred
    by (simp add: pool_weight_def) (simp add: backend_set_weight_def upd_bck_def get_bck_def Let_def)
qed

text \<open>
  The flags of the pool follow the backends: setting a port or a source address, and adding a
  backend, keep \<open>bcks_have_port\<close> (all backends have a port) and \<open>bcks_have_srcaddr\<close> (some backend
  has a source address) right.
\<close>

lemma pool_flags_kept:
  assumes "bid \<in> b_id ` set (f_backends f)" "pool_flags f"
  shows "pool_flags (backend_set_port bid p f) \<and> pool_flags (backend_set_srcaddr bid a f) \<and>
         pool_flags (backend_create fs nid name f)"
proof (intro conjI)
  have ne: "f_backends f \<noteq> []" using assms(1) by auto
  show "pool_flags (backend_set_port bid p f)"
    using assms ne kupd_not_all [OF assms(1), of "\<lambda>b. b_port b \<noteq> []" "\<lambda>b. b\<lparr>b_port := p\<rparr>"]
      kupd_all [of "\<lambda>b. b_port b \<noteq> []" "f_backends f" "\<lambda>b. b\<lparr>b_port := p\<rparr>" b_id bid]
    by (simp add: pool_flags_def backend_set_port_def backend_s_set_ports_def upd_bck_def Let_def
        list_ex_kupd_frame not_list_ex)
  show "pool_flags (backend_set_srcaddr bid a f)"
    using assms ne kupd_ex [OF assms(1), of "\<lambda>b. b_srcaddr b \<noteq> None \<and> b_srcaddr b \<noteq> Some []"
        "\<lambda>b. b\<lparr>b_srcaddr := Some a\<rparr>"]
    by (simp add: pool_flags_def backend_set_srcaddr_def backend_s_set_srcaddr_def upd_bck_def Let_def
        list_all_kupd_frame)
  show "pool_flags (backend_create fs nid name f)"
    using assms by (simp add: pool_flags_def backend_create_def new_backend_def)
qed

end
