(* ===== verification/Ports.thy ===== *)
theory Ports
  imports Pool
begin

text \<open>
  The port list of a virtual address (addresses.c): the text \<open>80,443,8000-8010\<close> is expanded into an
  array with one entry per port and a count. The array has \<open>NFTLB_MAX_PORTS\<close> entries, port \<open>p\<close> at
  index \<open>p - 1\<close>; an access outside it is the result \<open>None\<close>.
\<close>

abbreviation NFTLB_MAX_PORTS :: nat where "NFTLB_MAX_PORTS \<equiv> 65535"

section \<open>Operations\<close>

text \<open>\<open>sscanf(ptr, "%d-%d[^,]", first, last)\<close> with both targets 0 before.\<close>

definition address_get_range_ports :: "string \<Rightarrow> int \<times> int" where
  "address_get_range_ports ptr =
     (case scan_d ptr of
        None \<Rightarrow> (0, 0)
      | Some (i, rest) \<Rightarrow>
          (int_of_long (long_clamp i),
           if rest \<noteq> [] \<and> hd rest = CHR ''-''
           then case scan_d (tl rest) of None \<Rightarrow> 0 | Some (j, _) \<Rightarrow> int_of_long (long_clamp j)
           else 0))"

definition port_in_range :: "int \<Rightarrow> bool" where
  "port_in_range port = (1 \<le> port \<and> port \<le> int NFTLB_MAX_PORTS)"

definition address_search_array_port :: "address \<Rightarrow> int \<Rightarrow> bool option" where
  "address_search_array_port a port =
     (if port_in_range port then Some (a_port_list a (nat (port - 1))) else None)"

definition address_add_array_port :: "address \<Rightarrow> int \<Rightarrow> address option" where
  "address_add_array_port a port =
     (if port_in_range port
      then Some (if a_port_list a (nat (port - 1)) then a
                 else a\<lparr>a_nports := a_nports a + 1, a_port_list := (a_port_list a)(nat (port - 1) := True)\<rparr>)
      else None)"

text \<open>The \<open>for\<close> loop over one range.\<close>

function add_range_ports :: "int \<Rightarrow> int \<Rightarrow> address \<Rightarrow> address option" where
  "add_range_ports iport lst a =
     (if iport \<le> lst
      then case address_add_array_port a iport of
             None \<Rightarrow> None
           | Some a' \<Rightarrow> add_range_ports (iport + 1) lst a'
      else Some a)"
  by pat_completeness auto
termination
  by (relation "measure (\<lambda>(i, l, a). nat (l - i + 1))") auto

declare add_range_ports.simps [simp del]

lemma strchr_tl_length: "strchr s c = Some t \<Longrightarrow> length (tl t) < length s"
  by (drule strchr_length) (cases t; auto)

text \<open>The \<open>while\<close> loop over the comma-separated text.\<close>

function array_ports_loop :: "string \<Rightarrow> address \<Rightarrow> address option" where
  "array_ports_loop ptr a =
     (if ptr = [] then Some a
      else
        let (new, last0) = address_get_range_ports ptr;
            lst = (if last0 = 0 then new else last0)
        in case (if new > lst then Some a else add_range_ports new lst a) of
             None \<Rightarrow> None
           | Some a' \<Rightarrow> (case strchr ptr (CHR '','') of
                            None \<Rightarrow> Some a'
                          | Some p \<Rightarrow> array_ports_loop (tl p) a'))"
  by pat_completeness auto
termination
  by (relation "measure (length \<circ> fst)") (auto dest!: strchr_tl_length)

declare array_ports_loop.simps [simp del]

definition address_get_array_ports :: "address \<Rightarrow> address option" where
  "address_get_array_ports a = array_ports_loop (a_ports a) (a\<lparr>a_nports := 0, a_port_list := (\<lambda>_. False)\<rparr>)"

definition address_set_ports :: "address \<Rightarrow> string \<Rightarrow> address option" where
  "address_set_ports a new_value =
     (let a1 = (if new_value \<noteq> ''0'' then a\<lparr>a_ports := new_value\<rparr> else a);
          a2 = (if new_value = [] then a1\<lparr>a_protocol := VALUE_PROTO_ALL\<rparr> else a1)
      in address_get_array_ports a2)"

text \<open>The fields \<open>address_create\<close> gives a new address.\<close>

definition new_address :: "oid \<Rightarrow> string \<Rightarrow> address" where
  "new_address aid name =
     \<lparr> a_id = aid, a_action = ACTION_START, a_name = name, a_fqdn = [], a_iface = None, a_iethaddr = None,
       a_ifidx = DEFAULT_IFIDX, a_ipaddr = DEFAULT_VIRTADDR, a_ports = DEFAULT_VIRTPORTS,
       a_family = VALUE_FAMILY_IPV4, a_protocol = VALUE_PROTO_TCP,
       a_verdict = VALUE_VERDICT_LOG OR VALUE_VERDICT_DROP OR VALUE_VERDICT_ACCEPT,
       a_logprefix = ''TYPE-ANAME '', a_logrtlimit = 0, a_logrtlimit_unit = VALUE_UNIT_SECOND,
       a_policies = [], a_policies_used = 0, a_policies_action = ACTION_NONE, a_used = 0,
       a_nft_chains = 0, a_port_list = (\<lambda>_. False), a_nports = 0 \<rparr>"

definition address_no_port :: "address \<Rightarrow> bool" where
  "address_no_port a = obj_equ_attribute_string (Some (a_ports a)) DEFAULT_VIRTPORTS"

definition address_no_ipaddr :: "address \<Rightarrow> bool" where
  "address_no_ipaddr a = obj_equ_attribute_string (Some (a_ipaddr a)) DEFAULT_VIRTADDR"

section \<open>Specification\<close>

text \<open>The ports an address has, and the count that goes with them.\<close>

definition port_set :: "address \<Rightarrow> int set" where
  "port_set a = {p. port_in_range p \<and> a_port_list a (nat (p - 1))}"

definition nports_ok :: "address \<Rightarrow> bool" where
  "nports_ok a = (a_nports a = int (card (port_set a)))"

text \<open>The text of a list of ranges: single ports and \<open>low-high\<close>, joined by commas.\<close>

fun print_range :: "int \<times> int \<Rightarrow> string" where
  "print_range (lo, hi) = (if lo = hi then print_d lo else print_d lo @ CHR ''-'' # print_d hi)"

fun print_ranges :: "(int \<times> int) list \<Rightarrow> string" where
  "print_ranges [] = []"
| "print_ranges [r] = print_range r"
| "print_ranges (r # rs) = print_range r @ CHR '','' # print_ranges rs"

definition range_ok :: "int \<times> int \<Rightarrow> bool" where
  "range_ok r = (1 \<le> fst r \<and> fst r \<le> snd r \<and> snd r \<le> int NFTLB_MAX_PORTS)"

definition range_ports :: "(int \<times> int) list \<Rightarrow> int set" where
  "range_ports rs = (\<Union>r \<in> set rs. {fst r..snd r})"

section \<open>Lemmas\<close>

lemma finite_port_set [simp]: "finite (port_set a)"
  by (rule finite_subset [of _ "{1..int NFTLB_MAX_PORTS}"]) (auto simp: port_set_def port_in_range_def)

lemma port_set_add:
  assumes "port_in_range p"
  shows "port_set (a\<lparr>a_nports := n, a_port_list := (a_port_list a)(nat (p - 1) := True)\<rparr>) = insert p (port_set a)"
proof -
  have "nat (q - 1) = nat (p - 1) \<longleftrightarrow> q = p" if "port_in_range q" for q
    using assms that by (auto simp: port_in_range_def)
  with assms show ?thesis by (auto simp: port_set_def)
qed

lemma address_add_array_port_spec:
  assumes "port_in_range p" "nports_ok a"
  shows "\<exists>a'. address_add_array_port a p = Some a' \<and> port_set a' = insert p (port_set a) \<and> nports_ok a'"
proof (cases "a_port_list a (nat (p - 1))")
  case True
  with assms show ?thesis by (auto simp: address_add_array_port_def port_set_def)
next
  case False
  with assms(1) have "p \<notin> port_set a" by (simp add: port_set_def)
  with assms False port_set_add [OF assms(1), of a] show ?thesis
    by (simp add: address_add_array_port_def nports_ok_def)
qed

lemma add_range_ports_spec:
  assumes "nports_ok a" "1 \<le> iport" "lst \<le> int NFTLB_MAX_PORTS"
  shows "\<exists>a'. add_range_ports iport lst a = Some a' \<and> port_set a' = port_set a \<union> {iport..lst} \<and> nports_ok a'"
  using assms
proof (induction iport lst a rule: add_range_ports.induct)
  case (1 iport lst a)
  show ?case
  proof (cases "iport \<le> lst")
    case True
    with "1.prems" have "port_in_range iport" by (simp add: port_in_range_def)
    then obtain a1 where a1: "address_add_array_port a iport = Some a1" "port_set a1 = insert iport (port_set a)"
      "nports_ok a1"
      using address_add_array_port_spec "1.prems"(1) by blast
    from "1.IH" [OF True a1(1) a1(3)] "1.prems" obtain a' where
      a': "add_range_ports (iport + 1) lst a1 = Some a'" "port_set a' = port_set a1 \<union> {iport + 1..lst}"
      "nports_ok a'" by auto
    have "{iport..lst} = insert iport {iport + 1..lst}" using True by auto
    with a1 a' True show ?thesis by (subst add_range_ports.simps) auto
  next
    case False
    then show ?thesis using "1.prems" by (subst add_range_ports.simps) simp
  qed
qed

lemma add_range_ports_low:
  "iport \<le> lst \<Longrightarrow> iport < 1 \<Longrightarrow> add_range_ports iport lst a = None"
  by (subst add_range_ports.simps) (simp add: address_add_array_port_def port_in_range_def)

text \<open>Scanning a printed range stops at the comma that follows it.\<close>

lemma digit_facts: "\<not> is_digit (CHR '','')" "\<not> is_digit (CHR ''-'')"
  by (simp_all add: is_digit_def)

lemma comma_not_in_print_d: "CHR '','' \<notin> set (print_d i)"
  using print_u_digits digit_facts by (auto simp: print_d_def)

lemma comma_not_in_print_range: "CHR '','' \<notin> set (print_range r)"
  using comma_not_in_print_d by (cases r) auto

lemma get_range_print:
  assumes "range_ok r" "rest = [] \<or> hd rest = CHR '',''"
  shows "address_get_range_ports (print_range r @ rest) = (fst r, if fst r = snd r then 0 else snd r)"
proof -
  obtain lo hi where r: "r = (lo, hi)" by (cases r)
  have clamp: "int_of_long (long_clamp lo) = lo" "int_of_long (long_clamp hi) = hi"
    using assms(1) r by (auto simp: range_ok_def intro!: int_of_long_id)
  have rest: "rest = [] \<or> \<not> is_digit (hd rest)" using assms(2) digit_facts by auto
  show ?thesis
  proof (cases "lo = hi")
    case True
    with scan_d_print_d [OF rest, of lo] r clamp assms(2) show ?thesis
      by (auto simp: address_get_range_ports_def)
  next
    case False
    have "scan_d (print_d lo @ CHR ''-'' # print_d hi @ rest) = Some (lo, CHR ''-'' # print_d hi @ rest)"
      by (rule scan_d_print_d) (simp add: digit_facts)
    with False scan_d_print_d [OF rest, of hi] r clamp show ?thesis
      by (simp add: address_get_range_ports_def)
  qed
qed

lemma print_range_head: "range_ok r \<Longrightarrow> print_range r @ s \<noteq> [] \<and> hd (print_range r @ s) \<noteq> CHR ''0''"
  using print_d_head [of "fst r" s] print_d_head [of "fst r" "CHR ''-'' # print_d (snd r) @ s"]
  by (cases r) (auto simp: range_ok_def)

lemma strchr_print_range: "strchr (print_range r @ CHR '','' # s) (CHR '','') = Some (CHR '','' # s)"
  using strchr_append [OF comma_not_in_print_range] .

lemma range_ok_step:
  assumes "range_ok r" "nports_ok a" "rest = [] \<or> hd rest = CHR '',''"
  shows "\<exists>a'. array_ports_loop (print_range r @ rest) a =
                (case strchr (print_range r @ rest) (CHR '','') of None \<Rightarrow> Some a' | Some p \<Rightarrow> array_ports_loop (tl p) a') \<and>
              port_set a' = port_set a \<union> {fst r..snd r} \<and> nports_ok a'"
proof -
  from assms(1) have b: "1 \<le> fst r" "fst r \<le> snd r" "snd r \<le> int NFTLB_MAX_PORTS" by (simp_all add: range_ok_def)
  from add_range_ports_spec [OF assms(2) b(1,3)] obtain a' where
    a': "add_range_ports (fst r) (snd r) a = Some a'" "port_set a' = port_set a \<union> {fst r..snd r}" "nports_ok a'"
    by blast
  have "array_ports_loop (print_range r @ rest) a =
      (case strchr (print_range r @ rest) (CHR '','') of None \<Rightarrow> Some a' | Some p \<Rightarrow> array_ports_loop (tl p) a')"
    using a'(1) b get_range_print [OF assms(1,3)] print_range_head [OF assms(1), of rest]
    by (subst array_ports_loop.simps) (auto simp: Let_def)
  with a' show ?thesis by blast
qed

lemma array_ports_loop_print:
  "\<forall>r \<in> set rs. range_ok r \<Longrightarrow> nports_ok a \<Longrightarrow>
   \<exists>a'. array_ports_loop (print_ranges rs) a = Some a' \<and> port_set a' = port_set a \<union> range_ports rs \<and> nports_ok a'"
proof (induction rs arbitrary: a rule: print_ranges.induct)
  case 1
  then show ?case by (simp add: array_ports_loop.simps range_ports_def)
next
  case (2 r)
  with range_ok_step [of r a "[]"] comma_not_in_print_range [of r] show ?case
    by (auto simp: range_ports_def strchr_None_iff split: option.splits)
next
  case (3 r r' rs)
  then have "range_ok r" by simp
  from range_ok_step [OF this "3.prems"(2), of "CHR '','' # print_ranges (r' # rs)"] obtain a1 where
    a1: "array_ports_loop (print_range r @ CHR '','' # print_ranges (r' # rs)) a = array_ports_loop (print_ranges (r' # rs)) a1"
    "port_set a1 = port_set a \<union> {fst r..snd r}" "nports_ok a1"
    by (auto simp: strchr_print_range)
  from "3.IH" [OF _ a1(3)] "3.prems"(1) a1 show ?case by (auto simp: range_ports_def)
qed

lemma search_port_set: "port_in_range p \<Longrightarrow> address_search_array_port a p = Some (p \<in> port_set a)"
  by (simp add: address_search_array_port_def port_set_def)

text \<open>Filling the array changes the array and its count only.\<close>

lemma add_range_ports_frame:
  assumes "add_range_ports i l a = Some a'" "\<And>a n ps. h (a\<lparr>a_nports := n, a_port_list := ps\<rparr>) = h a"
  shows "h a' = h a"
  using assms(1)
proof (induction i l a rule: add_range_ports.induct)
  case (1 i l a)
  have "address_add_array_port a p = Some b \<Longrightarrow> h b = h a" for p b
    using assms(2) by (auto simp: address_add_array_port_def split: if_splits)
  with "1.prems" show ?case
    by (subst (asm) add_range_ports.simps) (auto dest!: "1.IH" split: option.splits if_splits)
qed

lemma array_ports_loop_frame:
  assumes "array_ports_loop ptr a = Some a'" "\<And>a n ps. h (a\<lparr>a_nports := n, a_port_list := ps\<rparr>) = h a"
  shows "h a' = h a"
  using assms(1)
proof (induction ptr a rule: array_ports_loop.induct)
  case (1 ptr a)
  from "1.prems" show ?case
    by (subst (asm) array_ports_loop.simps)
       (force dest!: "1.IH" dest: add_range_ports_frame [OF _ assms(2)] split: option.splits if_splits prod.splits simp: Let_def)
qed

section \<open>Properties\<close>

text \<open>
  (C19) A port list is expanded exactly: for every non-empty list of single ports and ranges within
  1..65535, in any order and overlapping or not, setting its text succeeds, a port is found in the
  array exactly when one of the ranges covers it, and the count is the number of different ports.
\<close>

theorem set_ports_exact:
  assumes "rs \<noteq> []" "\<forall>r \<in> set rs. range_ok r"
  shows "\<exists>a'. address_set_ports a (print_ranges rs) = Some a' \<and>
              (\<forall>p. port_in_range p \<longrightarrow> address_search_array_port a' p = Some (p \<in> range_ports rs)) \<and>
              a_nports a' = int (card (range_ports rs)) \<and> a_ports a' = print_ranges rs"
proof -
  let ?s = "print_ranges rs"
  obtain r rs' where rs: "rs = r # rs'" using assms(1) by (cases rs) auto
  have head: "?s \<noteq> [] \<and> hd ?s \<noteq> CHR ''0''"
    using print_range_head [of r "[]"] print_range_head [of r "CHR '','' # print_ranges rs'"] assms(2) rs
    by (cases rs') auto
  then have "?s \<noteq> ''0''" by auto
  with head have set: "address_set_ports a ?s =
      array_ports_loop ?s (a\<lparr>a_ports := ?s, a_nports := 0, a_port_list := (\<lambda>_. False)\<rparr>)"
    by (simp add: address_set_ports_def address_get_array_ports_def)
  have "nports_ok (a\<lparr>a_ports := ?s, a_nports := 0, a_port_list := (\<lambda>_. False)\<rparr>)"
    "port_set (a\<lparr>a_ports := ?s, a_nports := 0, a_port_list := (\<lambda>_. False)\<rparr>) = {}"
    by (simp_all add: nports_ok_def port_set_def)
  with array_ports_loop_print [OF assms(2)] obtain a' where
    a': "address_set_ports a ?s = Some a'" "port_set a' = range_ports rs" "nports_ok a'"
    using set by fastforce
  have "a_ports a' = ?s" using array_ports_loop_frame [of ?s _ a' a_ports] a'(1) set by fastforce
  with a' show ?thesis by (auto simp: search_port_set nports_ok_def)
qed

theorem set_ports_exact_witness:
  "\<exists>a'. address_set_ports (new_address 0 ''a'') (print_ranges [(80, 80), (8000, 8010)]) = Some a' \<and>
        address_search_array_port a' 8005 = Some True \<and> address_search_array_port a' 81 = Some False \<and>
        a_nports a' = 12"
proof -
  have r: "range_ports [(80, 80), (8000, 8010)] = insert 80 {8000..8010}" by (auto simp: range_ports_def)
  have c: "card (insert (80::int) {8000..8010}) = 12" by simp
  from set_ports_exact [of "[(80, 80), (8000, 8010)]" "new_address 0 ''a''"]
  obtain a' where a': "address_set_ports (new_address 0 ''a'') (print_ranges [(80, 80), (8000, 8010)]) = Some a'"
    "\<forall>p. port_in_range p \<longrightarrow> address_search_array_port a' p = Some (p \<in> insert 80 {8000..8010})"
    "a_nports a' = 12"
    unfolding r c by (auto simp: range_ok_def)
  from a'(2) have "address_search_array_port a' 8005 = Some True" "address_search_array_port a' 81 = Some False"
    by (simp_all add: port_in_range_def)
  with a' show ?thesis by blast
qed

text \<open>
  (C39) Text that is no port number is not rejected: any text whose first field does not start with a
  number, or starts with 0 and no range, makes the code write the array at index -1.
\<close>

theorem set_ports_garbage:
  assumes "s \<noteq> []" "s \<noteq> ''0''" "address_get_range_ports s = (0, 0)"
  shows "address_set_ports a s = None"
  using assms add_range_ports_low [of 0 0 "a\<lparr>a_ports := s, a_nports := 0, a_port_list := (\<lambda>_. False)\<rparr>"]
  by (simp add: address_set_ports_def address_get_array_ports_def array_ports_loop.simps [of s])

theorem set_ports_garbage_witness: "address_set_ports (new_address 0 ''a'') ''http'' = None"
proof -
  have "address_get_range_ports ''http'' = (0, 0)" by code_simp
  then show ?thesis by (intro set_ports_garbage) simp_all
qed

end
