(* ===== verification/Links.thy ===== *)
theory Links
  imports Ports
begin

text \<open>
  The object store and the links between objects: creation, search and deletion of farms, addresses
  and policies (farms.c, addresses.c, policies.c), the links of farms to addresses and policies and of
  addresses to policies (farmaddress.c, farmpolicy.c, addresspolicy.c) with the reference counts that
  decide when an address goes away, and the actions propagated along the links. An operation that the
  C code applies to a pointer takes the \<open>oid\<close>; an \<open>oid\<close> without an object leaves the state alone. A
  \<open>list_for_each_entry_safe\<close> loop is a fold over the identities the list has at its start.
\<close>

section \<open>The store\<close>

definition get_farm :: "oid \<Rightarrow> objs \<Rightarrow> farm option" where
  "get_farm fid s = kfind f_id fid (farms s)"

definition upd_farm :: "oid \<Rightarrow> (farm \<Rightarrow> farm) \<Rightarrow> objs \<Rightarrow> objs" where
  "upd_farm fid g s = s\<lparr>farms := kupd f_id fid g (farms s)\<rparr>"

definition get_address :: "oid \<Rightarrow> objs \<Rightarrow> address option" where
  "get_address aid s = kfind a_id aid (addresses s)"

definition upd_address :: "oid \<Rightarrow> (address \<Rightarrow> address) \<Rightarrow> objs \<Rightarrow> objs" where
  "upd_address aid g s = s\<lparr>addresses := kupd a_id aid g (addresses s)\<rparr>"

definition get_policy :: "oid \<Rightarrow> objs \<Rightarrow> policy option" where
  "get_policy pid s = kfind p_id pid (policies s)"

definition upd_policy :: "oid \<Rightarrow> (policy \<Rightarrow> policy) \<Rightarrow> objs \<Rightarrow> objs" where
  "upd_policy pid g s = s\<lparr>policies := kupd p_id pid g (policies s)\<rparr>"

text \<open>\<open>config_set_output\<close> on the response text of the state.\<close>

definition put_output :: "string \<Rightarrow> objs \<Rightarrow> objs" where
  "put_output msg s = s\<lparr>config_outbuf := config_set_output (config_outbuf s) msg\<rparr>"

definition farm_lookup_by_name :: "string \<Rightarrow> objs \<Rightarrow> farm option" where
  "farm_lookup_by_name name s = find (\<lambda>f. f_name f = name) (farms s)"

definition address_lookup_by_name :: "string \<Rightarrow> objs \<Rightarrow> address option" where
  "address_lookup_by_name name s = find (\<lambda>a. a_name a = name) (addresses s)"

definition policy_lookup_by_name :: "string \<Rightarrow> objs \<Rightarrow> policy option" where
  "policy_lookup_by_name name s = find (\<lambda>p. p_name p = name) (policies s)"

section \<open>Creation and deletion\<close>

definition farm_create :: "string \<Rightarrow> objs \<Rightarrow> oid \<times> objs" where
  "farm_create name s =
     (let fid = next_oid s;
          s1 = s\<lparr>next_oid := Suc fid, farms := farms s @ [new_farm fid name]\<rparr>
      in (fid, obj_set_total_farms (total_farms s1 + 1) s1))"

definition address_create :: "string \<Rightarrow> objs \<Rightarrow> oid \<times> objs" where
  "address_create name s =
     (let aid = next_oid s;
          s1 = s\<lparr>next_oid := Suc aid, addresses := addresses s @ [new_address aid name]\<rparr>
      in (aid, obj_set_total_addresses (total_addresses s1 + 1) s1))"

definition address_delete :: "oid \<Rightarrow> objs \<Rightarrow> objs" where
  "address_delete aid s =
     (let s1 = s\<lparr>addresses := kdel a_id aid (addresses s)\<rparr>
      in obj_set_total_addresses (total_addresses s1 - 1) s1)"

definition new_policy :: "oid \<Rightarrow> string \<Rightarrow> policy" where
  "new_policy pid name =
     \<lparr> p_id = pid, p_name = name, p_type = VALUE_TYPE_DENY, p_route = VALUE_ROUTE_IN,
       p_family = VALUE_FAMILY_IPV4, p_timeout = 0, p_total_elem = 0, p_used = 0,
       p_logprefix = ''KNAME-TYPE-PNAME-FNAME '', p_action = ACTION_START, p_elements = [] \<rparr>"

definition policy_create :: "string \<Rightarrow> objs \<Rightarrow> oid \<times> objs" where
  "policy_create name s =
     (let pid = next_oid s;
          s1 = s\<lparr>next_oid := Suc pid, policies := policies s @ [new_policy pid name]\<rparr>
      in (pid, obj_set_total_policies (total_policies s1 + 1) s1))"

definition policy_delete :: "oid \<Rightarrow> objs \<Rightarrow> objs" where
  "policy_delete pid s =
     (let s1 = s\<lparr>policies := kdel p_id pid (policies s)\<rparr>
      in obj_set_total_policies (total_policies s1 - 1) s1)"

section \<open>Farm addresses\<close>

definition address_not_used :: "address \<Rightarrow> bool" where
  "address_not_used a = (a_policies_used a = 0 \<and> a_used a = 0)"

definition address_needs_policies :: "address \<Rightarrow> bool" where
  "address_needs_policies a = (a_policies_used a > 0 \<or> a_policies_action a \<noteq> ACTION_NONE)"

text \<open>The farm's side of a new link and of a removed one.\<close>

definition farm_link_address :: "farmaddress \<Rightarrow> farm \<Rightarrow> farm" where
  "farm_link_address fa f =
     (let f1 = f\<lparr>f_addresses_used := f_addresses_used f + 1, f_addresses := f_addresses f @ [fa]\<rparr>
      in if f_policies_used f1 \<noteq> 0 then f1\<lparr>f_policies_action := ACTION_START\<rparr> else f1)"

definition farm_unlink_address :: "oid \<Rightarrow> farm \<Rightarrow> farm" where
  "farm_unlink_address faid f =
     (let f1 = f\<lparr>f_addresses := kdel fa_id faid (f_addresses f)\<rparr>
      in if f_addresses_used f1 > 0 then f1\<lparr>f_addresses_used := f_addresses_used f1 - 1\<rparr> else f1)"

definition farmaddress_create :: "oid \<Rightarrow> oid \<Rightarrow> objs \<Rightarrow> oid \<times> objs" where
  "farmaddress_create fid aid s =
     (let faid = next_oid s;
          fa = \<lparr>fa_id = faid, fa_address = aid, fa_action = ACTION_START\<rparr>
      in (faid,
          upd_address aid (\<lambda>a. a\<lparr>a_used := a_used a + 1\<rparr>)
            (upd_farm fid (farm_link_address fa) (s\<lparr>next_oid := Suc faid\<rparr>))))"

definition farmaddress_get_first :: "farm \<Rightarrow> farmaddress option" where
  "farmaddress_get_first f = (case f_addresses f of [] \<Rightarrow> None | fa # _ \<Rightarrow> Some fa)"

definition farmaddress_lookup_by_name :: "farm \<Rightarrow> string \<Rightarrow> objs \<Rightarrow> farmaddress option" where
  "farmaddress_lookup_by_name f name s =
     find (\<lambda>fa. case get_address (fa_address fa) s of None \<Rightarrow> False | Some a \<Rightarrow> a_name a = name) (f_addresses f)"

text \<open>The counts are not let below zero; an address that nothing uses any more is deleted.\<close>

definition address_release :: "oid \<Rightarrow> objs \<Rightarrow> objs" where
  "address_release aid s =
     (let s1 = upd_address aid (\<lambda>a. if a_used a > 0 then a\<lparr>a_used := a_used a - 1\<rparr> else a) s
      in case get_address aid s1 of
           None \<Rightarrow> s1
         | Some a \<Rightarrow> if address_not_used a then address_delete aid s1 else s1)"

definition farmaddress_delete :: "oid \<Rightarrow> oid \<Rightarrow> objs \<Rightarrow> objs" where
  "farmaddress_delete fid faid s =
     (case Option.bind (get_farm fid s) (\<lambda>f. kfind fa_id faid (f_addresses f)) of
        None \<Rightarrow> s
      | Some fa \<Rightarrow>
          address_release (fa_address fa) (upd_farm fid (farm_unlink_address faid) s))"

definition farmaddress_set_action :: "oid \<Rightarrow> oid \<Rightarrow> action \<Rightarrow> objs \<Rightarrow> bool \<times> objs" where
  "farmaddress_set_action fid faid action s =
     (if action = ACTION_DELETE then (True, farmaddress_delete fid faid s)
      else case get_farm fid s of
             None \<Rightarrow> (False, s)
           | Some f \<Rightarrow>
               (case kfind fa_id faid (f_addresses f) of
                  None \<Rightarrow> (False, s)
                | Some fa \<Rightarrow>
                    if fa_action fa \<noteq> action then
                      let s1 = upd_farm fid (\<lambda>f. f\<lparr>f_addresses :=
                                 kupd fa_id faid (\<lambda>fa. fa\<lparr>fa_action := action\<rparr>) (f_addresses f)\<rparr>) s;
                          s2 = (if action \<noteq> ACTION_RELOAD \<and> f_policies_used f \<noteq> 0
                                then upd_address (fa_address fa) (\<lambda>a. a\<lparr>a_policies_action := action\<rparr>)
                                       (upd_farm fid (\<lambda>f. f\<lparr>f_policies_action := action\<rparr>) s1)
                                else s1)
                      in (True, s2)
                    else (False, s)))"

definition farmaddress_s_set_action :: "oid \<Rightarrow> action \<Rightarrow> objs \<Rightarrow> objs" where
  "farmaddress_s_set_action fid action s =
     (case get_farm fid s of
        None \<Rightarrow> s
      | Some f \<Rightarrow>
          fold (\<lambda>fa s. if fa_action fa > action then snd (farmaddress_set_action fid (fa_id fa) action s) else s)
            (f_addresses f) s)"

definition farmaddress_s_delete :: "oid \<Rightarrow> objs \<Rightarrow> objs" where
  "farmaddress_s_delete fid s =
     (case get_farm fid s of
        None \<Rightarrow> s
      | Some f \<Rightarrow> fold (\<lambda>fa. farmaddress_delete fid (fa_id fa)) (f_addresses f) s)"

definition farmaddress_s_lookup_address_action :: "oid \<Rightarrow> string \<Rightarrow> action \<Rightarrow> objs \<Rightarrow> bool \<times> objs" where
  "farmaddress_s_lookup_address_action fid name action s =
     (case get_farm fid s of
        None \<Rightarrow> (False, s)
      | Some f \<Rightarrow>
          (case farmaddress_lookup_by_name f name s of
             None \<Rightarrow> (False, s)
           | Some fa \<Rightarrow>
               let (ret, s1) = farmaddress_set_action fid (fa_id fa) action s
               in (ret, if ret then upd_farm fid (\<lambda>f. f\<lparr>f_action := ACTION_RELOAD\<rparr>) s1 else s1)))"

text \<open>The loop over the farms: \<open>ret |= farmaddress_s_lookup_address_action(f, name, action)\<close>.\<close>

definition lookup_step :: "string \<Rightarrow> action \<Rightarrow> farm \<Rightarrow> bool \<times> objs \<Rightarrow> bool \<times> objs" where
  "lookup_step name action f rs =
     (let r = farmaddress_s_lookup_address_action (f_id f) name action (snd rs)
      in (fst rs \<or> fst r, snd r))"

definition farm_s_lookup_address_action :: "string \<Rightarrow> action \<Rightarrow> objs \<Rightarrow> bool \<times> objs" where
  "farm_s_lookup_address_action name action s = fold (lookup_step name action) (farms s) (False, s)"

definition address_set_action :: "oid \<Rightarrow> action \<Rightarrow> objs \<Rightarrow> bool \<times> objs" where
  "address_set_action aid action s =
     (case get_address aid s of
        None \<Rightarrow> (False, s)
      | Some a \<Rightarrow>
          if a_action a = action then (False, s)
          else if action = ACTION_DELETE then
            let (ret, s1) = farm_s_lookup_address_action (a_name a) action s
            in (True, if \<not> ret then address_delete aid s1 else s1)
          else
            let s1 = (if action = ACTION_STOP then snd (farm_s_lookup_address_action (a_name a) action s) else s)
            in (True, upd_address aid (\<lambda>a. if a_action a > action then a\<lparr>a_action := action\<rparr> else a) s1))"

definition address_s_set_action :: "action \<Rightarrow> objs \<Rightarrow> objs" where
  "address_s_set_action action s = fold (\<lambda>a s. snd (address_set_action (a_id a) action s)) (addresses s) s"

section \<open>Farm policies\<close>

definition farmpolicy_create :: "oid \<Rightarrow> oid \<Rightarrow> objs \<Rightarrow> oid \<times> objs" where
  "farmpolicy_create fid pid s =
     (let fpid = next_oid s;
          fp = \<lparr>fp_id = fpid, fp_policy = pid, fp_action = ACTION_START\<rparr>
      in (fpid,
          upd_farm fid (\<lambda>f. f\<lparr>f_policies_action :=
                                (if f_policies_used f > 0 \<and> f_action f = ACTION_RELOAD then ACTION_RELOAD
                                 else ACTION_START),
                              f_policies_used := f_policies_used f + 1, f_policies := f_policies f @ [fp]\<rparr>)
            (upd_policy pid (\<lambda>p. p\<lparr>p_used := p_used p + 1\<rparr>) (s\<lparr>next_oid := Suc fpid\<rparr>))))"

definition policy_release :: "oid \<Rightarrow> objs \<Rightarrow> objs" where
  "policy_release pid s = upd_policy pid (\<lambda>p. if p_used p > 0 then p\<lparr>p_used := p_used p - 1\<rparr> else p) s"

definition farmpolicy_delete :: "oid \<Rightarrow> oid \<Rightarrow> objs \<Rightarrow> objs" where
  "farmpolicy_delete fid fpid s =
     (case Option.bind (get_farm fid s) (\<lambda>f. kfind fp_id fpid (f_policies f)) of
        None \<Rightarrow> s
      | Some fp \<Rightarrow>
          policy_release (fp_policy fp)
            (upd_farm fid (\<lambda>f. let f1 = f\<lparr>f_policies := kdel fp_id fpid (f_policies f)\<rparr>
                               in if f_policies_used f1 > 0
                                  then f1\<lparr>f_policies_used := f_policies_used f1 - 1\<rparr> else f1) s))"

definition farmpolicy_lookup_by_name :: "farm \<Rightarrow> string \<Rightarrow> objs \<Rightarrow> farmpolicy option" where
  "farmpolicy_lookup_by_name f name s =
     find (\<lambda>fp. case get_policy (fp_policy fp) s of None \<Rightarrow> False | Some p \<Rightarrow> p_name p = name) (f_policies f)"

definition farmpolicy_set_action :: "oid \<Rightarrow> oid \<Rightarrow> action \<Rightarrow> objs \<Rightarrow> bool \<times> objs" where
  "farmpolicy_set_action fid fpid action s =
     (if action = ACTION_DELETE
      then (True, farmaddress_s_set_action fid ACTION_RELOAD (farmpolicy_delete fid fpid s))
      else case Option.bind (get_farm fid s) (\<lambda>f. kfind fp_id fpid (f_policies f)) of
             None \<Rightarrow> (False, s)
           | Some fp \<Rightarrow>
               if fp_action fp > action then
                 let s1 = upd_farm fid (\<lambda>f. f\<lparr>f_policies :=
                            kupd fp_id fpid (\<lambda>fp. fp\<lparr>fp_action := action\<rparr>) (f_policies f)\<rparr>) s;
                     s2 = upd_policy (fp_policy fp) (\<lambda>p. p\<lparr>p_action := ACTION_RELOAD\<rparr>) s1;
                     s3 = upd_farm fid (\<lambda>f. f\<lparr>f_policies_action :=
                            (if f_policies_used f = 1 \<and> action = ACTION_STOP then action else ACTION_RELOAD)\<rparr>) s2
                 in (True, farmaddress_s_set_action fid ACTION_RELOAD s3)
               else (False, s))"

definition farmpolicy_s_set_action :: "oid \<Rightarrow> action \<Rightarrow> objs \<Rightarrow> objs" where
  "farmpolicy_s_set_action fid action s =
     (case get_farm fid s of
        None \<Rightarrow> s
      | Some f \<Rightarrow>
          upd_farm fid (\<lambda>f. f\<lparr>f_policies_action := action\<rparr>)
            (fold (\<lambda>fp s. snd (farmpolicy_set_action fid (fp_id fp) action s)) (f_policies f) s))"

definition farmpolicy_s_delete :: "oid \<Rightarrow> objs \<Rightarrow> objs" where
  "farmpolicy_s_delete fid s =
     (case get_farm fid s of
        None \<Rightarrow> s
      | Some f \<Rightarrow> fold (\<lambda>fp. farmpolicy_delete fid (fp_id fp)) (f_policies f) s)"

section \<open>Address policies\<close>

definition addresspolicy_create :: "oid \<Rightarrow> oid \<Rightarrow> objs \<Rightarrow> oid \<times> objs" where
  "addresspolicy_create aid pid s =
     (let apid = next_oid s;
          ap = \<lparr>ap_id = apid, ap_policy = pid, ap_action = ACTION_START\<rparr>
      in (apid,
          upd_address aid (\<lambda>a. a\<lparr>a_policies_action :=
                                   (if a_policies_used a > 0 \<and> a_action a = ACTION_RELOAD then ACTION_RELOAD
                                    else ACTION_START),
                                 a_policies_used := a_policies_used a + 1, a_policies := a_policies a @ [ap]\<rparr>)
            (upd_policy pid (\<lambda>p. p\<lparr>p_used := p_used p + 1\<rparr>) (s\<lparr>next_oid := Suc apid\<rparr>))))"

definition addresspolicy_delete :: "oid \<Rightarrow> oid \<Rightarrow> objs \<Rightarrow> objs" where
  "addresspolicy_delete aid apid s =
     (case Option.bind (get_address aid s) (\<lambda>a. kfind ap_id apid (a_policies a)) of
        None \<Rightarrow> s
      | Some ap \<Rightarrow>
          upd_address aid (\<lambda>a. a\<lparr>a_policies_action := ACTION_STOP\<rparr>)
            (policy_release (ap_policy ap)
              (upd_address aid (\<lambda>a. let a1 = a\<lparr>a_policies := kdel ap_id apid (a_policies a)\<rparr>
                                    in if a_policies_used a1 > 0
                                       then a1\<lparr>a_policies_used := a_policies_used a1 - 1\<rparr> else a1) s)))"

definition addresspolicy_lookup_by_name :: "address \<Rightarrow> string \<Rightarrow> objs \<Rightarrow> addresspolicy option" where
  "addresspolicy_lookup_by_name a name s =
     find (\<lambda>ap. case get_policy (ap_policy ap) s of None \<Rightarrow> False | Some p \<Rightarrow> p_name p = name) (a_policies a)"

definition addresspolicy_set_action :: "oid \<Rightarrow> oid \<Rightarrow> action \<Rightarrow> objs \<Rightarrow> bool \<times> objs" where
  "addresspolicy_set_action aid apid action s =
     (if action = ACTION_DELETE \<or> action = ACTION_STOP then (True, addresspolicy_delete aid apid s)
      else case Option.bind (get_address aid s) (\<lambda>a. kfind ap_id apid (a_policies a)) of
             None \<Rightarrow> (False, s)
           | Some ap \<Rightarrow>
               if ap_action ap > action then
                 (True, upd_address aid (\<lambda>a. a\<lparr>a_policies :=
                            kupd ap_id apid (\<lambda>ap. ap\<lparr>ap_action := action\<rparr>) (a_policies a),
                          a_policies_action := ACTION_RELOAD\<rparr>) s)
               else (False, s))"

definition addresspolicy_s_set_action :: "oid \<Rightarrow> action \<Rightarrow> objs \<Rightarrow> objs" where
  "addresspolicy_s_set_action aid action s =
     (case get_address aid s of
        None \<Rightarrow> s
      | Some a \<Rightarrow> fold (\<lambda>ap s. snd (addresspolicy_set_action aid (ap_id ap) action s)) (a_policies a) s)"

definition addresspolicy_s_delete :: "oid \<Rightarrow> objs \<Rightarrow> objs" where
  "addresspolicy_s_delete aid s =
     (case get_address aid s of
        None \<Rightarrow> s
      | Some a \<Rightarrow> fold (\<lambda>ap. addresspolicy_delete aid (ap_id ap)) (a_policies a) s)"

definition addresspolicy_s_lookup_policy_action :: "oid \<Rightarrow> string \<Rightarrow> action \<Rightarrow> objs \<Rightarrow> objs" where
  "addresspolicy_s_lookup_policy_action aid name action s =
     (case get_address aid s of
        None \<Rightarrow> s
      | Some a \<Rightarrow>
          (case addresspolicy_lookup_by_name a name s of
             None \<Rightarrow> s
           | Some ap \<Rightarrow>
               let (ret, s1) = addresspolicy_set_action aid (ap_id ap) action s
               in if ret then snd (address_set_action aid ACTION_RELOAD s1) else s1))"

definition address_s_lookup_policy_action :: "string \<Rightarrow> action \<Rightarrow> objs \<Rightarrow> objs" where
  "address_s_lookup_policy_action name action s =
     fold (\<lambda>a. addresspolicy_s_lookup_policy_action (a_id a) name action) (addresses s) s"

section \<open>Default address of a farm\<close>

text \<open>
  The search for a free name \<open>prefix-addr-i\<close>. At most as many names are taken as there are addresses,
  so that many tries plus one are enough.
\<close>

fun free_addr_name :: "nat \<Rightarrow> nat \<Rightarrow> string \<Rightarrow> objs \<Rightarrow> string option" where
  "free_addr_name 0 i prefix s = None"
| "free_addr_name (Suc n) i prefix s =
     (let name = prefix @ ''-addr-'' @ print_u i
      in if address_lookup_by_name name s = None then Some name else free_addr_name n (Suc i) prefix s)"

definition farmaddress_set_default_addr_name :: "string \<Rightarrow> objs \<Rightarrow> string option" where
  "farmaddress_set_default_addr_name prefix s =
     (let name = prefix @ ''-addr''
      in if address_lookup_by_name name s = None then Some name
         else free_addr_name (Suc (length (addresses s))) 0 prefix s)"

section \<open>Reference counts\<close>

text \<open>
  The number of links of the farms to an address, and what the counts promise: no link dangles, every
  count is right, and an identity that is in use is not given out again.
\<close>

definition fa_links :: "oid \<Rightarrow> farm \<Rightarrow> nat" where
  "fa_links aid f = length (filter (\<lambda>fa. fa_address fa = aid) (f_addresses f))"

definition addr_links :: "farm list \<Rightarrow> oid \<Rightarrow> nat" where
  "addr_links fs aid = sum_list (map (fa_links aid) fs)"

definition farm_refs :: "oid set \<Rightarrow> oid \<Rightarrow> farm \<Rightarrow> bool" where
  "farm_refs aids lim f =
     (distinct (map fa_id (f_addresses f)) \<and> f_addresses_used f = int (length (f_addresses f)) \<and>
      (\<forall>fa \<in> set (f_addresses f). fa_id fa < lim \<and> fa_address fa \<in> aids))"

definition addr_refs :: "objs \<Rightarrow> bool" where
  "addr_refs s =
     (distinct (map f_id (farms s)) \<and> distinct (map a_id (addresses s)) \<and>
      (\<forall>f \<in> set (farms s). farm_refs (a_id ` set (addresses s)) (next_oid s) f \<and> f_id f < next_oid s) \<and>
      (\<forall>a \<in> set (addresses s). a_used a = int (addr_links (farms s) (a_id a)) \<and> a_id a < next_oid s))"

interpretation farms: keyed_list f_id "kfind f_id" "kupd f_id" "kdel f_id"
  by (rule keyed_list_kfind)

interpretation addrs: keyed_list a_id "kfind a_id" "kupd a_id" "kdel a_id"
  by (rule keyed_list_kfind)

interpretation pols: keyed_list p_id "kfind p_id" "kupd p_id" "kdel p_id"
  by (rule keyed_list_kfind)

section \<open>Lemmas\<close>

lemma set_kupd: "y \<in> set (kupd key k g xs) \<longleftrightarrow> (\<exists>x \<in> set xs. y = (if key x = k then g x else x))"
  by (induction xs) auto

lemma kupd_kupd: "(\<And>x. key (g x) = key x) \<Longrightarrow> kupd key k h (kupd key k g xs) = kupd key k (\<lambda>x. h (g x)) xs"
  by (induction xs) auto

lemma sum_list_kupd:
  fixes h :: "'a \<Rightarrow> nat"
  shows "distinct (map key xs) \<Longrightarrow> kfind key k xs = Some x \<Longrightarrow>
         sum_list (map h (kupd key k g xs)) + h x = sum_list (map h xs) + h (g x)"
proof (induction xs)
  case Nil
  then show ?case by simp
next
  case (Cons y xs)
  then have "key y = k \<Longrightarrow> kupd key k g xs = xs" by (intro kupd_absent) auto
  with Cons show ?case by (auto split: if_splits)
qed

lemma kfind_distinct: "distinct (map key xs) \<Longrightarrow> x \<in> set xs \<Longrightarrow> kfind key (key x) xs = Some x"
  by (induction xs) auto

lemma image_kupd: "(\<And>x. key (g x) = key x) \<Longrightarrow> key ` set (kupd key k g xs) = key ` set xs"
  using map_kupd_frame [of key g] by (metis set_map)

lemma fa_links_pos: "fa \<in> set (f_addresses f) \<Longrightarrow> 0 < fa_links (fa_address fa) f"
  by (auto simp: fa_links_def filter_empty_conv)

lemma fa_links_le: "f \<in> set fs \<Longrightarrow> fa_links aid f \<le> addr_links fs aid"
  by (simp add: addr_links_def member_le_sum_list)

lemma addr_links_kupd:
  "distinct (map f_id fs) \<Longrightarrow> kfind f_id fid fs = Some f \<Longrightarrow>
   addr_links (kupd f_id fid g fs) aid + fa_links aid f = addr_links fs aid + fa_links aid (g f)"
  unfolding addr_links_def by (rule sum_list_kupd)

lemma filter_kdel_length:
  "distinct (map key xs) \<Longrightarrow> kfind key k xs = Some x \<Longrightarrow>
   length (filter P (kdel key k xs)) + of_bool (P x) = length (filter P xs)"
proof (induction xs)
  case Nil
  then show ?case by simp
next
  case (Cons y xs)
  then have "key y = k \<Longrightarrow> kdel key k xs = xs" by (intro kdel_absent) auto
  with Cons show ?case by (auto split: if_splits)
qed

lemma fa_links_kdel:
  "distinct (map fa_id (f_addresses f)) \<Longrightarrow> kfind fa_id faid (f_addresses f) = Some fa \<Longrightarrow>
   fa_links aid (f\<lparr>f_addresses := kdel fa_id faid (f_addresses f)\<rparr>) + of_bool (fa_address fa = aid) = fa_links aid f"
  using filter_kdel_length [of fa_id "f_addresses f" faid fa "\<lambda>fa. fa_address fa = aid"]
  by (simp add: fa_links_def)

lemma farm_refs_mono:
  "farm_refs aids lim f \<Longrightarrow> lim \<le> lim' \<Longrightarrow> \<forall>fa \<in> set (f_addresses f). fa_address fa \<in> aids' \<Longrightarrow> farm_refs aids' lim' f"
  by (auto simp: farm_refs_def)

lemma farm_link_simps [simp]:
  "f_id (farm_link_address fa f) = f_id f" "f_addresses (farm_link_address fa f) = f_addresses f @ [fa]"
  "f_addresses_used (farm_link_address fa f) = f_addresses_used f + 1"
  by (simp_all add: farm_link_address_def Let_def)

lemma farm_unlink_simps [simp]:
  "f_id (farm_unlink_address faid f) = f_id f"
  "f_addresses (farm_unlink_address faid f) = kdel fa_id faid (f_addresses f)"
  "f_addresses_used (farm_unlink_address faid f) =
     (if f_addresses_used f > 0 then f_addresses_used f - 1 else f_addresses_used f)"
  by (simp_all add: farm_unlink_address_def Let_def)

lemma addr_refs_create:
  assumes "addr_refs s" "get_farm fid s = Some f" "get_address aid s = Some a"
  shows "addr_refs (snd (farmaddress_create fid aid s))"
proof -
  let ?fa = "\<lparr>fa_id = next_oid s, fa_address = aid, fa_action = ACTION_START\<rparr>"
  let ?A = "\<lambda>a. a\<lparr>a_used := a_used a + 1\<rparr>"
  let ?fs = "kupd f_id fid (farm_link_address ?fa) (farms s)" and ?as = "kupd a_id aid ?A (addresses s)"
  have s': "snd (farmaddress_create fid aid s) = s\<lparr>next_oid := Suc (next_oid s), farms := ?fs, addresses := ?as\<rparr>"
    by (simp add: farmaddress_create_def upd_farm_def upd_address_def Let_def)
  have aids: "a_id ` set ?as = a_id ` set (addresses s)" by (rule image_kupd) simp
  have d: "distinct (map f_id ?fs)" "distinct (map a_id ?as)"
    using assms(1) by (simp_all add: addr_refs_def map_kupd_frame)
  have links: "addr_links ?fs x = addr_links (farms s) x + of_bool (x = aid)" for x
    using addr_links_kupd [of "farms s" fid f "farm_link_address ?fa" x] assms(1,2)
    by (auto simp: addr_refs_def get_farm_def fa_links_def)
  have aid: "aid \<in> a_id ` set (addresses s)"
    using assms(3) addrs.lookup_mem by (fastforce simp: get_address_def)
  have farm: "farm_refs (a_id ` set ?as) (Suc (next_oid s)) g \<and> f_id g < Suc (next_oid s)" if "g \<in> set ?fs" for g
  proof -
    from that obtain x where x: "x \<in> set (farms s)" "g = (if f_id x = fid then farm_link_address ?fa x else x)"
      by (auto simp: set_kupd)
    with assms(1) have "farm_refs (a_id ` set (addresses s)) (next_oid s) x" "f_id x < next_oid s"
      by (simp_all add: addr_refs_def)
    with x(2) aid show ?thesis unfolding aids by (auto simp: farm_refs_def)
  qed
  have used: "a_used b = int (addr_links ?fs (a_id b)) \<and> a_id b < Suc (next_oid s)" if "b \<in> set ?as" for b
  proof -
    from that obtain x where x: "x \<in> set (addresses s)" "b = (if a_id x = aid then ?A x else x)" by (auto simp: set_kupd)
    with assms(1) have "a_used x = int (addr_links (farms s) (a_id x))" "a_id x < next_oid s" by (simp_all add: addr_refs_def)
    then show ?thesis using x(2) by (simp add: links)
  qed
  from d farm used show ?thesis unfolding s' by (simp add: addr_refs_def)
qed

lemma addr_refs_unlink:
  assumes "addr_refs s" "get_farm fid s = Some f" "kfind fa_id faid (f_addresses f) = Some fa"
  defines "fs \<equiv> kupd f_id fid (farm_unlink_address faid) (farms s)"
  shows "distinct (map f_id fs)"
    and "addr_links fs x + of_bool (x = fa_address fa) = addr_links (farms s) x"
    and "g \<in> set fs \<Longrightarrow> farm_refs (a_id ` set (addresses s)) (next_oid s) g \<and> f_id g < next_oid s"
proof -
  show "distinct (map f_id fs)" using assms(1) by (simp add: fs_def addr_refs_def map_kupd_frame)
  have f: "f \<in> set (farms s)" using assms(2) farms.lookup_mem by (fastforce simp: get_farm_def)
  with assms(1) have rf: "farm_refs (a_id ` set (addresses s)) (next_oid s) f" by (simp add: addr_refs_def)
  have lf: "fa_links x (farm_unlink_address faid f) + of_bool (x = fa_address fa) = fa_links x f"
    using fa_links_kdel [of f faid fa x] rf assms(3) by (auto simp: farm_refs_def fa_links_def)
  show "addr_links fs x + of_bool (x = fa_address fa) = addr_links (farms s) x"
    using addr_links_kupd [of "farms s" fid f "farm_unlink_address faid" x] assms(1,2) lf
    by (simp add: fs_def addr_refs_def get_farm_def)
  assume "g \<in> set fs"
  then obtain y where y: "y \<in> set (farms s)" "g = (if f_id y = fid then farm_unlink_address faid y else y)"
    unfolding fs_def set_kupd by blast
  from y(1) assms(1) have ry: "farm_refs (a_id ` set (addresses s)) (next_oid s) y" "f_id y < next_oid s"
    by (simp_all add: addr_refs_def)
  have len: "length (f_addresses f) = Suc (length (kdel fa_id faid (f_addresses f)))"
    using rf assms(3) length_kdel [of fa_id "f_addresses f" faid] kfind_Some [OF assms(3)]
    by (auto simp: farm_refs_def)
  have "farm_refs (a_id ` set (addresses s)) (next_oid s) (farm_unlink_address faid f)"
    using rf distinct_keys_kdel [of fa_id "f_addresses f" faid] len
    by (auto simp: farm_refs_def set_kdel)
  moreover have "f_id y = fid \<Longrightarrow> y = f"
    using kfind_distinct [of f_id "farms s" y] y(1) assms(1,2) by (simp add: addr_refs_def get_farm_def)
  ultimately show "farm_refs (a_id ` set (addresses s)) (next_oid s) g \<and> f_id g < next_oid s" using y(2) ry by auto
qed

text \<open>An address without links can go.\<close>

lemma addr_refs_address_delete:
  assumes "addr_refs s" "\<forall>g \<in> set (farms s). \<forall>fa \<in> set (f_addresses g). fa_address fa \<noteq> aid"
  shows "addr_refs (address_delete aid s)"
proof -
  let ?as = "kdel a_id aid (addresses s)"
  have s': "farms (address_delete aid s) = farms s" "addresses (address_delete aid s) = ?as"
    "next_oid (address_delete aid s) = next_oid s"
    by (simp_all add: address_delete_def obj_set_total_addresses_def Let_def)
  have "farm_refs (a_id ` set ?as) (next_oid s) g" if "g \<in> set (farms s)" for g
  proof (rule farm_refs_mono [OF _ order_refl])
    show "farm_refs (a_id ` set (addresses s)) (next_oid s) g" using that assms(1) by (simp add: addr_refs_def)
    then show "\<forall>fa \<in> set (f_addresses g). fa_address fa \<in> a_id ` set ?as"
      using assms(2) that by (fastforce simp: farm_refs_def set_kdel)
  qed
  moreover have "a_used b = int (addr_links (farms s) (a_id b)) \<and> a_id b < next_oid s" if "b \<in> set ?as" for b
    using that assms(1) by (auto simp: set_kdel addr_refs_def)
  ultimately show ?thesis
    using assms(1) distinct_keys_kdel [of a_id "addresses s" aid] by (simp add: addr_refs_def s')
qed

lemma addr_refs_delete:
  assumes "addr_refs s"
  shows "addr_refs (farmaddress_delete fid faid s)"
proof (cases "Option.bind (get_farm fid s) (\<lambda>f. kfind fa_id faid (f_addresses f))")
  case None
  with assms show ?thesis by (simp add: farmaddress_delete_def)
next
  case (Some fa)
  then obtain f where f: "get_farm fid s = Some f" "kfind fa_id faid (f_addresses f) = Some fa"
    by (auto simp: bind_eq_Some_conv)
  let ?aid = "fa_address fa"
  let ?fs = "kupd f_id fid (farm_unlink_address faid) (farms s)"
  let ?D = "\<lambda>a. if a_used a > 0 then a\<lparr>a_used := a_used a - 1\<rparr> else a"
  let ?as = "kupd a_id ?aid ?D (addresses s)"
  let ?s1 = "s\<lparr>farms := ?fs, addresses := ?as\<rparr>"
  note un = addr_refs_unlink [OF assms f]
  have fin: "f \<in> set (farms s)" "fa \<in> set (f_addresses f)"
    using f farms.lookup_mem kfind_Some by (fastforce simp: get_farm_def)+
  have keys: "\<And>a. a_id (?D a) = a_id a" by simp
  have aids: "a_id ` set ?as = a_id ` set (addresses s)" by (rule image_kupd) simp
  have used: "a_used b = int (addr_links ?fs (a_id b)) \<and> a_id b < next_oid s" if "b \<in> set ?as" for b
  proof -
    from that obtain a where a: "a \<in> set (addresses s)" "b = (if a_id a = ?aid then ?D a else a)"
      by (auto simp: set_kupd)
    with assms have "a_used a = int (addr_links (farms s) (a_id a))" "a_id a < next_oid s" by (simp_all add: addr_refs_def)
    with a(2) un(2) [of "a_id a"] show ?thesis by (auto split: if_splits)
  qed
  have r1: "addr_refs ?s1"
    using assms un(1) un(3) used by (simp add: addr_refs_def map_kupd_frame keys aids)
  have del: "farmaddress_delete fid faid s =
      (case kfind a_id ?aid ?as of None \<Rightarrow> ?s1
       | Some a \<Rightarrow> if address_not_used a then address_delete ?aid ?s1 else ?s1)"
    using Some by (simp add: farmaddress_delete_def address_release_def upd_farm_def upd_address_def get_address_def Let_def)
  show ?thesis
  proof (cases "\<exists>a. kfind a_id ?aid ?as = Some a \<and> address_not_used a")
    case False
    with del r1 show ?thesis by (auto split: option.splits)
  next
    case True
    then obtain a where a: "kfind a_id ?aid ?as = Some a" "a_used a = 0"
      by (auto simp: address_not_used_def)
    then have "addr_links ?fs ?aid = 0" using used [of a] kfind_Some [OF a(1)] by simp
    then have none: "\<forall>g \<in> set ?fs. \<forall>fa' \<in> set (f_addresses g). fa_address fa' \<noteq> ?aid"
      using fa_links_pos fa_links_le by (metis less_le_trans not_less_zero)
    have "farmaddress_delete fid faid s = address_delete ?aid ?s1" using del True a(1) by auto
    moreover have "addr_refs (address_delete ?aid ?s1)"
      by (rule addr_refs_address_delete [OF r1]) (use none in simp)
    ultimately show ?thesis by simp
  qed
qed

text \<open>
  What the counts depend on: updates that keep these signatures keep the counts right.
\<close>

definition farm_sig :: "farm \<Rightarrow> oid \<times> (oid \<times> oid) list \<times> int" where
  "farm_sig f = (f_id f, map (\<lambda>fa. (fa_id fa, fa_address fa)) (f_addresses f), f_addresses_used f)"

definition addr_sig :: "address \<Rightarrow> oid \<times> int" where
  "addr_sig a = (a_id a, a_used a)"

definition sig_refs :: "oid set \<Rightarrow> oid \<Rightarrow> oid \<times> (oid \<times> oid) list \<times> int \<Rightarrow> bool" where
  "sig_refs aids lim g =
     (distinct (map fst (fst (snd g))) \<and> snd (snd g) = int (length (fst (snd g))) \<and>
      (\<forall>l \<in> set (fst (snd g)). fst l < lim \<and> snd l \<in> aids))"

lemma farm_refs_sig: "farm_refs aids lim f = sig_refs aids lim (farm_sig f)"
  by (simp add: farm_refs_def sig_refs_def farm_sig_def comp_def)

lemma fa_links_sig: "fa_links aid f = length (filter (\<lambda>l. snd l = aid) (fst (snd (farm_sig f))))"
  by (simp add: fa_links_def farm_sig_def filter_map comp_def)

lemma addr_refs_sig:
  "addr_refs s =
     (distinct (map fst (map farm_sig (farms s))) \<and> distinct (map fst (map addr_sig (addresses s))) \<and>
      (\<forall>g \<in> set (map farm_sig (farms s)).
         sig_refs (set (map fst (map addr_sig (addresses s)))) (next_oid s) g \<and> fst g < next_oid s) \<and>
      (\<forall>a \<in> set (map addr_sig (addresses s)).
         fst a < next_oid s \<and>
         snd a = int (sum_list (map (\<lambda>g. length (filter (\<lambda>l. snd l = fst a) (fst (snd g)))) (map farm_sig (farms s))))))"
proof -
  have k: "map f_id xs = map fst (map farm_sig xs)" for xs by (simp add: farm_sig_def)
  have a: "map a_id xs = map fst (map addr_sig xs)" for xs by (simp add: addr_sig_def)
  have l: "addr_links fs aid = sum_list (map (\<lambda>g. length (filter (\<lambda>l. snd l = aid) (fst (snd g)))) (map farm_sig fs))"
    for fs aid unfolding addr_links_def fa_links_sig [abs_def] by (simp add: comp_def)
  show ?thesis
    unfolding addr_refs_def k a l farm_refs_sig set_map [symmetric, of a_id]
    by (simp add: addr_sig_def farm_sig_def conj_commute)
qed

lemma addr_refs_cong:
  "map farm_sig (farms s') = map farm_sig (farms s) \<Longrightarrow> map addr_sig (addresses s') = map addr_sig (addresses s) \<Longrightarrow>
   next_oid s' = next_oid s \<Longrightarrow> addr_refs s' = addr_refs s"
  unfolding addr_refs_sig by simp

text \<open>Identities that are given out and not used do no harm.\<close>

lemma addr_refs_mono:
  assumes "addr_refs s" "map farm_sig (farms t) = map farm_sig (farms s)"
    "map addr_sig (addresses t) = map addr_sig (addresses s)" "next_oid s \<le> next_oid t"
  shows "addr_refs t"
proof -
  have m: "sig_refs aids (next_oid s) g \<Longrightarrow> sig_refs aids (next_oid t) g" for aids g
    using assms(4) by (fastforce simp: sig_refs_def)
  show ?thesis
    using assms(1,4) unfolding addr_refs_sig assms(2,3) by (meson m order_less_le_trans)
qed

lemma fold_inv: "P s \<Longrightarrow> (\<And>x s. P s \<Longrightarrow> P (g x s)) \<Longrightarrow> P (fold g xs s)"
  by (induction xs arbitrary: s) auto

lemma farm_sig_upd: "(\<And>f. farm_sig (g f) = farm_sig f) \<Longrightarrow> map farm_sig (farms (upd_farm fid g s)) = map farm_sig (farms s)"
  by (simp add: upd_farm_def map_kupd_frame)

lemma addr_sig_upd: "(\<And>a. addr_sig (g a) = addr_sig a) \<Longrightarrow> map addr_sig (addresses (upd_address aid g s)) = map addr_sig (addresses s)"
  by (simp add: upd_address_def map_kupd_frame)

lemma upd_frames [simp]:
  "addresses (upd_farm fid g s) = addresses s" "next_oid (upd_farm fid g s) = next_oid s"
  "policies (upd_farm fid g s) = policies s"
  "farms (upd_address aid h s) = farms s" "next_oid (upd_address aid h s) = next_oid s"
  "policies (upd_address aid h s) = policies s"
  "farms (upd_policy pid k s) = farms s" "next_oid (upd_policy pid k s) = next_oid s"
  "addresses (upd_policy pid k s) = addresses s"
  by (simp_all add: upd_farm_def upd_address_def upd_policy_def)

lemma addr_refs_upd [simp]:
  "(\<And>f. farm_sig (g f) = farm_sig f) \<Longrightarrow> addr_refs (upd_farm fid g s) = addr_refs s"
  "(\<And>a. addr_sig (h a) = addr_sig a) \<Longrightarrow> addr_refs (upd_address aid h s) = addr_refs s"
  "addr_refs (upd_policy pid k s) = addr_refs s"
  by (rule addr_refs_cong; simp add: farm_sig_upd addr_sig_upd)+

lemma farm_sig_simps [simp]:
  "farm_sig (f\<lparr>f_addresses := kupd fa_id faid (\<lambda>fa. fa\<lparr>fa_action := action\<rparr>) (f_addresses f)\<rparr>) = farm_sig f"
  "farm_sig (f\<lparr>f_policies_action := action\<rparr>) = farm_sig f"
  "farm_sig (f\<lparr>f_action := action\<rparr>) = farm_sig f"
  "addr_sig (a\<lparr>a_policies_action := action\<rparr>) = addr_sig a"
  "addr_sig (if a_action a > action then a\<lparr>a_action := action\<rparr> else a) = addr_sig a"
  by (simp_all add: farm_sig_def addr_sig_def map_kupd_frame)

lemma addr_refs_set_action:
  assumes "addr_refs s"
  shows "addr_refs (snd (farmaddress_set_action fid faid action s))"
proof (cases "action = ACTION_DELETE")
  case True
  with addr_refs_delete [OF assms] show ?thesis by (simp add: farmaddress_set_action_def)
next
  case False
  with assms show ?thesis by (simp add: farmaddress_set_action_def Let_def split: option.split)
qed

lemma addr_refs_s_set_action:
  assumes "addr_refs s"
  shows "addr_refs (farmaddress_s_set_action fid action s)"
proof (cases "get_farm fid s")
  case (Some f)
  have "addr_refs (fold (\<lambda>fa s. if fa_action fa > action
          then snd (farmaddress_set_action fid (fa_id fa) action s) else s) (f_addresses f) s)"
    by (rule fold_inv [where P = addr_refs]) (simp_all add: assms addr_refs_set_action)
  with Some show ?thesis by (simp add: farmaddress_s_set_action_def)
qed (simp add: farmaddress_s_set_action_def assms)

lemma addr_refs_s_delete:
  assumes "addr_refs s"
  shows "addr_refs (farmaddress_s_delete fid s)"
proof (cases "get_farm fid s")
  case (Some f)
  have "addr_refs (fold (\<lambda>fa. farmaddress_delete fid (fa_id fa)) (f_addresses f) s)"
    by (rule fold_inv [where P = addr_refs]) (simp_all add: assms addr_refs_delete)
  with Some show ?thesis by (simp add: farmaddress_s_delete_def)
qed (simp add: farmaddress_s_delete_def assms)

lemma addr_refs_lookup_action:
  assumes "addr_refs s"
  shows "addr_refs (snd (farmaddress_s_lookup_address_action fid name action s))"
proof -
  have "addr_refs (snd (let (ret, s1) = farmaddress_set_action fid faid action s
          in (ret, if ret then upd_farm fid (\<lambda>f. f\<lparr>f_action := ACTION_RELOAD\<rparr>) s1 else s1)))" for faid
    using addr_refs_set_action [OF assms, of fid faid action]
    by (cases "farmaddress_set_action fid faid action s") simp
  with assms show ?thesis
    unfolding farmaddress_s_lookup_address_action_def by (simp split: option.split)
qed

lemma addr_refs_farms_lookup:
  assumes "addr_refs s"
  shows "addr_refs (snd (farm_s_lookup_address_action name action s))"
  unfolding farm_s_lookup_address_action_def
  by (rule fold_inv [where P = "\<lambda>x. addr_refs (snd x)"])
     (simp_all add: lookup_step_def Let_def assms addr_refs_lookup_action)

text \<open>When no farm acted on the address, no farm has a link with its name and nothing changed.\<close>

lemma lookup_action_False:
  "\<not> fst (farmaddress_s_lookup_address_action fid name ACTION_DELETE s) \<Longrightarrow>
   snd (farmaddress_s_lookup_address_action fid name ACTION_DELETE s) = s \<and>
   (\<forall>f. get_farm fid s = Some f \<longrightarrow> farmaddress_lookup_by_name f name s = None)"
  by (auto simp: farmaddress_s_lookup_address_action_def farmaddress_set_action_def split: option.splits)

lemma farms_lookup_False:
  "\<not> fst (fold (lookup_step name ACTION_DELETE) fs rs) \<Longrightarrow>
   snd (fold (lookup_step name ACTION_DELETE) fs rs) = snd rs \<and> \<not> fst rs \<and>
   (\<forall>f \<in> set fs. \<forall>g. get_farm (f_id f) (snd rs) = Some g \<longrightarrow> farmaddress_lookup_by_name g name (snd rs) = None)"
proof (induction fs arbitrary: rs)
  case Nil
  then show ?case by simp
next
  case (Cons f fs)
  let ?rs = "lookup_step name ACTION_DELETE f rs"
  from Cons.IH [of ?rs] Cons.prems have IH:
    "snd (fold (lookup_step name ACTION_DELETE) fs ?rs) = snd ?rs" "\<not> fst ?rs"
    "\<forall>f \<in> set fs. \<forall>g. get_farm (f_id f) (snd ?rs) = Some g \<longrightarrow> farmaddress_lookup_by_name g name (snd ?rs) = None"
    by simp_all
  from IH(2) lookup_action_False [of "f_id f" name "snd rs"]
  have "snd ?rs = snd rs" "\<not> fst rs"
    "\<forall>g. get_farm (f_id f) (snd rs) = Some g \<longrightarrow> farmaddress_lookup_by_name g name (snd rs) = None"
    by (simp_all add: lookup_step_def Let_def)
  with IH show ?case by simp
qed

lemma addr_refs_address_set_action:
  assumes "addr_refs s"
  shows "addr_refs (snd (address_set_action aid action s))"
proof (cases "get_address aid s")
  case None
  with assms show ?thesis by (simp add: address_set_action_def)
next
  case (Some a)
  note r = addr_refs_farms_lookup [OF assms, of "a_name a" action]
  have a: "a \<in> set (addresses s)" "a_id a = aid"
    using Some addrs.lookup_mem by (fastforce simp: get_address_def)+
  have "addr_refs (address_delete aid s)"
    if none: "\<not> fst (farm_s_lookup_address_action (a_name a) ACTION_DELETE s)"
  proof (rule addr_refs_address_delete [OF assms], intro ballI notI)
    fix g fa
    assume g: "g \<in> set (farms s)" "fa \<in> set (f_addresses g)" "fa_address fa = aid"
    from none have "\<forall>f \<in> set (farms s). \<forall>g. get_farm (f_id f) s = Some g \<longrightarrow>
        farmaddress_lookup_by_name g (a_name a) s = None"
      using farms_lookup_False [of "a_name a" "farms s" "(False, s)"]
      by (simp add: farm_s_lookup_address_action_def)
    moreover have "get_farm (f_id g) s = Some g"
      using kfind_distinct [of f_id "farms s" g] g(1) assms by (simp add: get_farm_def addr_refs_def)
    ultimately have "farmaddress_lookup_by_name g (a_name a) s = None" using g(1) by blast
    with g(2,3) Some show False
      by (auto simp: farmaddress_lookup_by_name_def find_None_iff split: option.splits)
  qed
  moreover have "snd (farm_s_lookup_address_action (a_name a) ACTION_DELETE s) = s"
    if "\<not> fst (farm_s_lookup_address_action (a_name a) ACTION_DELETE s)"
    using that farms_lookup_False [of "a_name a" "farms s" "(False, s)"]
    by (simp add: farm_s_lookup_address_action_def)
  ultimately show ?thesis
    using Some r assms
    by (auto simp: address_set_action_def Let_def split: prod.splits)
qed

text \<open>The search for a free name: a failed search means that all names tried are taken.\<close>

lemma address_lookup_None: "address_lookup_by_name name s = None \<longleftrightarrow> name \<notin> a_name ` set (addresses s)"
  by (auto simp: address_lookup_by_name_def find_None_iff)

lemma print_u_inj: "print_u i = print_u j \<Longrightarrow> i = j"
  by (metis scan_digits_print_base)

lemma free_addr_name_None:
  "free_addr_name n i prefix s = None \<Longrightarrow>
   (\<lambda>j. prefix @ ''-addr-'' @ print_u j) ` {i..<i + n} \<subseteq> a_name ` set (addresses s)"
proof (induction n arbitrary: i)
  case 0
  then show ?case by simp
next
  case (Suc n)
  have "{i..<i + Suc n} = insert i {Suc i..<Suc i + n}" by auto
  with Suc.prems Suc.IH [of "Suc i"] show ?case
    by (auto simp: address_lookup_None Let_def split: if_splits)
qed

lemma free_addr_name_total: "\<exists>name. free_addr_name (Suc (length (addresses s))) i prefix s = Some name"
proof (rule ccontr)
  assume "\<nexists>name. free_addr_name (Suc (length (addresses s))) i prefix s = Some name"
  then have taken: "(\<lambda>j. prefix @ ''-addr-'' @ print_u j) ` {i..<i + Suc (length (addresses s))} \<subseteq> a_name ` set (addresses s)"
    using free_addr_name_None by (metis not_None_eq)
  have "Suc (length (addresses s)) = card ((\<lambda>j. prefix @ ''-addr-'' @ print_u j) ` {i..<i + Suc (length (addresses s))})"
    by (subst card_image) (auto simp: inj_on_def dest: print_u_inj)
  also have "\<dots> \<le> card (a_name ` set (addresses s))" by (rule card_mono [OF _ taken]) simp
  also have "\<dots> \<le> length (addresses s)" by (metis card_image_le card_length finite_set le_trans)
  finally show False by simp
qed

lemma free_addr_name_Some:
  "free_addr_name n i prefix s = Some name \<Longrightarrow>
   address_lookup_by_name name s = None \<and> (\<exists>j. name = (prefix @ ''-addr'') @ CHR ''-'' # print_u j)"
  by (induction n arbitrary: i) (auto simp: Let_def split: if_splits)

section \<open>Properties\<close>

text \<open>
  Reference counts of addresses. In a state where every link of a farm points to an existing
  address and every address counts its links, linking an address to a farm, setting an action on a
  link (deleting it included), on all links of a farm or on the address itself, and deleting all links
  of a farm lead to such a state again: no link is ever left pointing to a freed address.
\<close>

lemma address_links_never_dangle:
  assumes "addr_refs s"
  shows "addr_refs (snd (farmaddress_set_action fid faid action s)) \<and>
         addr_refs (farmaddress_s_set_action fid action s) \<and>
         addr_refs (farmaddress_s_delete fid s) \<and>
         addr_refs (snd (address_set_action aid action s)) \<and>
         (get_farm fid s \<noteq> None \<and> get_address aid s \<noteq> None \<longrightarrow> addr_refs (snd (farmaddress_create fid aid s)))"
  using assms addr_refs_set_action addr_refs_s_set_action addr_refs_s_delete addr_refs_create
    addr_refs_address_set_action
  by auto

text \<open>
  The default address of a farm gets a free name: the search always ends, with a name that no
  address has and that starts with the farm's name and \<open>-addr\<close>.
\<close>

lemma default_addr_name_free:
  "\<exists>name. farmaddress_set_default_addr_name prefix s = Some name \<and>
          address_lookup_by_name name s = None \<and> starts_with (prefix @ ''-addr'') name"
proof (cases "address_lookup_by_name (prefix @ ''-addr'') s = None")
  case True
  then show ?thesis
    using starts_with_append [of "prefix @ ''-addr''" "[]"]
    by (simp add: farmaddress_set_default_addr_name_def)
next
  case False
  obtain name where "free_addr_name (Suc (length (addresses s))) 0 prefix s = Some name"
    using free_addr_name_total by blast
  with False free_addr_name_Some [OF this] show ?thesis
    using starts_with_append [of "prefix @ ''-addr''"]
    by (auto simp: farmaddress_set_default_addr_name_def)
qed

end
