(* ===== verification/Sessions.thy ===== *)
theory Sessions
  imports Links
begin

text \<open>
  Session persistence (sessions.c): the static sessions of the configuration and the timed sessions
  read from the kernel's persistence map, their actions, and the effect of a backend's state change on
  the sessions bound to it. The text of the map is parsed by \<open>nft_parse_sessions\<close>.
\<close>

section \<open>Parsing the persistence map\<close>

text \<open>The text from \<open>ini\<close> up to \<open>fin\<close>, a suffix of it.\<close>

definition text_upto :: "string \<Rightarrow> string \<Rightarrow> string" where
  "text_upto ini fin = take (length ini - length fin) ini"

lemma strstr_length: "strstr hay needle = Some t \<Longrightarrow> length t \<le> length hay"
  by (drule strstr_Some) auto

lemma length_dropWhile_le: "length (dropWhile P xs) \<le> length xs"
  by (induction xs) auto

definition is_blank :: "char \<Rightarrow> bool" where
  "is_blank c = (c = CHR 0x0A \<or> c = CHR 0x09 \<or> c = CHR '' '')"

text \<open>
  One element, \<open>client [timeout t] expires e : backend\<close>: the client, expiration and backend texts, whether
  another element follows, and the text behind it. \<open>None\<close> where the code returns.
\<close>

definition parse_session :: "string \<Rightarrow> ((string \<times> string \<times> string) \<times> bool \<times> string) option" where
  "parse_session ini =
     (case strstr ini '' expires '' of
        None \<Rightarrow> None
      | Some e \<Rightarrow>
          let client = (case strstr ini '' timeout '' of Some t \<Rightarrow> text_upto ini t | None \<Rightarrow> text_upto ini e);
              ini1 = drop 9 e
          in case strstr ini1 '' : '' of
               None \<Rightarrow> None
             | Some c \<Rightarrow>
                 let expiration = text_upto ini1 c; ini2 = drop 3 c
                 in case strstr ini2 '','' of
                      Some b \<Rightarrow> Some ((client, text_upto ini2 b, expiration), True, dropWhile is_blank (drop 1 b))
                    | None \<Rightarrow>
                        (case strstr ini2 '' '' of
                           None \<Rightarrow> None
                         | Some b \<Rightarrow> Some ((client, text_upto ini2 b, expiration), False, dropWhile is_blank (drop 1 b))))"

lemma parse_session_shorter: "parse_session ini = Some (x, next, rest) \<Longrightarrow> length rest < length ini"
proof -
  have 1: "strstr h n = Some t \<Longrightarrow> n \<noteq> [] \<Longrightarrow> length (drop 1 t) < length h" for h n t
    by (drule strstr_Some) (cases n; auto)
  have 2: "strstr h n = Some t \<Longrightarrow> length (drop k t) \<le> length h" for h n t k
    by (drule strstr_length) simp
  assume "parse_session ini = Some (x, next, rest)"
  then obtain e c n b where
    e: "strstr ini '' expires '' = Some e" and c: "strstr (drop 9 e) '' : '' = Some c"
    and b: "strstr (drop 3 c) n = Some b" "n \<noteq> []" and rest: "rest = dropWhile is_blank (drop 1 b)"
    by (auto simp: parse_session_def Let_def split: option.splits)
  have "length rest \<le> length (drop 1 b)" unfolding rest by (rule length_dropWhile_le)
  also have "\<dots> < length (drop 3 c)" using 1 [OF b] .
  also have "\<dots> \<le> length (drop 9 e)" using 2 [OF c] .
  also have "\<dots> \<le> length ini" using 2 [OF e] .
  finally show ?thesis .
qed

text \<open>
  The loop: after an element that a comma followed the code always goes on, because its test
  \<open>*fin_ptr != '}' || *fin_ptr != '\0'\<close> holds for every character.
\<close>

function parse_sessions_loop :: "string \<Rightarrow> (string \<times> string \<times> string) list" where
  "parse_sessions_loop ini =
     (case parse_session ini of
        None \<Rightarrow> []
      | Some (x, next, rest) \<Rightarrow> x # (if next then parse_sessions_loop rest else []))"
  by pat_completeness auto
termination
  by (relation "measure length") (auto dest: parse_session_shorter)

declare parse_sessions_loop.simps [simp del]

definition nft_parse_sessions :: "string \<Rightarrow> (string \<times> string \<times> string) list" where
  "nft_parse_sessions buf =
     (case strstr buf ''elements = { '' of None \<Rightarrow> [] | Some p \<Rightarrow> parse_sessions_loop (drop 13 p))"

section \<open>Sessions of a farm\<close>

definition sessions_of :: "session_type \<Rightarrow> farm \<Rightarrow> session list" where
  "sessions_of type f = (case type of SESSION_TYPE_TIMED \<Rightarrow> f_timed_sessions f | SESSION_TYPE_STATIC \<Rightarrow> f_static_sessions f)"

definition total_sessions :: "session_type \<Rightarrow> farm \<Rightarrow> int" where
  "total_sessions type f =
     (case type of SESSION_TYPE_TIMED \<Rightarrow> f_total_timed_sessions f | SESSION_TYPE_STATIC \<Rightarrow> f_total_static_sessions f)"

definition upd_sessions :: "session_type \<Rightarrow> (session list \<Rightarrow> session list) \<Rightarrow> int \<Rightarrow> farm \<Rightarrow> farm" where
  "upd_sessions type g n f =
     (case type of
        SESSION_TYPE_TIMED \<Rightarrow> f\<lparr>f_timed_sessions := g (f_timed_sessions f), f_total_timed_sessions := n\<rparr>
      | SESSION_TYPE_STATIC \<Rightarrow> f\<lparr>f_static_sessions := g (f_static_sessions f), f_total_static_sessions := n\<rparr>)"

text \<open>The backend a session of the map belongs to: by mark, ether or IP address, depending on the mode.\<close>

definition session_backend :: "netenv \<Rightarrow> farm \<Rightarrow> string \<Rightarrow> oid option" where
  "session_backend env f bck =
     (if bck = [] then None
      else map_option b_id
        (case f_mode f of
           VALUE_MODE_DNAT \<Rightarrow> backend_lookup_by_key env f KEY_MARK [] (word_of_int (strtol16 bck))
         | VALUE_MODE_SNAT \<Rightarrow> backend_lookup_by_key env f KEY_MARK [] (word_of_int (strtol16 bck))
         | VALUE_MODE_DSR \<Rightarrow> backend_lookup_by_key env f KEY_ETHADDR bck 0
         | VALUE_MODE_STLSDNAT \<Rightarrow> backend_lookup_by_key env f KEY_IPADDR bck 0
         | _ \<Rightarrow> None))"

text \<open>A session without a client is refused (NULL).\<close>

definition session_create ::
  "netenv \<Rightarrow> oid \<Rightarrow> session_type \<Rightarrow> string \<Rightarrow> string \<Rightarrow> string \<Rightarrow> farm \<Rightarrow> farm option" where
  "session_create env sid type client bck expiration f =
     (if client = [] then None
      else
        let se = \<lparr>s_id = sid, s_client = client, s_bck = session_backend env f bck,
                  s_expiration = (case type of SESSION_TYPE_TIMED \<Rightarrow> Some expiration | SESSION_TYPE_STATIC \<Rightarrow> None),
                  s_state = (case type of SESSION_TYPE_TIMED \<Rightarrow> VALUE_STATE_UP | SESSION_TYPE_STATIC \<Rightarrow> VALUE_STATE_OFF),
                  s_action = ACTION_NONE\<rparr>
        in Some (upd_sessions type (\<lambda>ss. ss @ [se]) (total_sessions type f + 1) f))"

definition session_delete_node :: "session_type \<Rightarrow> oid \<Rightarrow> farm \<Rightarrow> farm" where
  "session_delete_node type sid f = upd_sessions type (kdel s_id sid) (total_sessions type f - 1) f"

definition session_set_action :: "session_type \<Rightarrow> action \<Rightarrow> session \<Rightarrow> farm \<Rightarrow> bool \<times> farm" where
  "session_set_action type action se f =
     (let put = (\<lambda>g. upd_sessions type (kupd s_id (s_id se) g) (total_sessions type f) f)
      in if s_action se = action then (False, f)
         else if action = ACTION_DELETE then (True, session_delete_node type (s_id se) f)
         else if action = ACTION_STOP \<and> s_state se = VALUE_STATE_UP
           then (True, put (\<lambda>se. se\<lparr>s_action := action, s_state := VALUE_STATE_OFF\<rparr>))
         else if action = ACTION_START \<and> s_state se \<noteq> VALUE_STATE_UP \<and> s_bck se \<noteq> None
           then (True, put (\<lambda>se. se\<lparr>s_action := action, s_state := VALUE_STATE_UP\<rparr>))
         else if action = ACTION_RELOAD \<and> s_state se = VALUE_STATE_UP \<and> s_bck se \<noteq> None
           then (False, put (\<lambda>se. se\<lparr>s_action := action\<rparr>))
         else (False, f))"

definition session_lookup_by_key :: "farm \<Rightarrow> session_type \<Rightarrow> key \<Rightarrow> string \<Rightarrow> session option" where
  "session_lookup_by_key f type k name =
     (if k = KEY_CLIENT then find (\<lambda>se. s_client se = name) (sessions_of type f) else None)"

definition session_s_delete :: "session_type \<Rightarrow> farm \<Rightarrow> farm" where
  "session_s_delete type f = fold (\<lambda>se. session_delete_node type (s_id se)) (sessions_of type f) f"

text \<open>The sessions of one list that the filter picks, in order; the number of sessions changed.\<close>

definition session_loop :: "session_type \<Rightarrow> (session \<Rightarrow> bool) \<Rightarrow> action \<Rightarrow> int \<times> farm \<Rightarrow> int \<times> farm" where
  "session_loop type pick action rf =
     (if total_sessions type (snd rf) \<noteq> 0
      then fold (\<lambda>se (n, f). if pick se
                             then let (r, f1) = session_set_action type action se f in (n + of_bool r, f1)
                             else (n, f))
             (sessions_of type (snd rf)) rf
      else rf)"

definition session_s_set_action :: "oid option \<Rightarrow> action \<Rightarrow> farm \<Rightarrow> int \<times> farm" where
  "session_s_set_action b action f =
     (let pick = (\<lambda>se. b = None \<or> s_bck se = b)
      in session_loop SESSION_TYPE_TIMED pick action (session_loop SESSION_TYPE_STATIC pick action (0, f)))"

section \<open>Sessions of a backend\<close>

text \<open>The timed sessions are appended to the list the farm has, and counted from zero.\<close>

definition get_timed_address :: "netenv \<Rightarrow> oid \<Rightarrow> farmaddress \<Rightarrow> objs \<Rightarrow> objs" where
  "get_timed_address env fid fa s =
     (case (get_farm fid s, get_address (fa_address fa) s) of
        (Some f, Some a) \<Rightarrow>
          fold (\<lambda>(client, bck, expiration) s.
                  case get_farm fid s of
                    None \<Rightarrow> s
                  | Some f \<Rightarrow>
                      (case session_create env (next_oid s) SESSION_TYPE_TIMED client bck expiration f of
                         None \<Rightarrow> s
                       | Some f1 \<Rightarrow> upd_farm fid (\<lambda>_. f1) (s\<lparr>next_oid := Suc (next_oid s)\<rparr>)))
            (nft_parse_sessions (nft_list_sessions env f a)) s
      | _ \<Rightarrow> s)"

definition session_get_timed :: "netenv \<Rightarrow> oid \<Rightarrow> objs \<Rightarrow> objs" where
  "session_get_timed env fid s =
     (case get_farm fid s of
        None \<Rightarrow> s
      | Some f \<Rightarrow>
          fold (get_timed_address env fid) (f_addresses f)
            (upd_farm fid (\<lambda>f. f\<lparr>f_total_timed_sessions := 0\<rparr>) s))"

text \<open>Whether a session belongs to the backend, in the static and in the timed list.\<close>

definition bck_mark :: "netenv \<Rightarrow> farm \<Rightarrow> oid \<Rightarrow> flags option" where
  "bck_mark env f bid = map_option (backend_get_mark env f) (get_bck bid f)"

definition static_bound :: "netenv \<Rightarrow> farm \<Rightarrow> oid \<Rightarrow> session \<Rightarrow> bool" where
  "static_bound env f bid se =
     (case s_bck se of
        None \<Rightarrow> False
      | Some sb \<Rightarrow>
          (f_mode f \<in> {VALUE_MODE_DNAT, VALUE_MODE_SNAT, VALUE_MODE_LOCAL} \<and> bck_mark env f bid = bck_mark env f sb) \<or>
          (f_mode f \<in> {VALUE_MODE_DSR, VALUE_MODE_STLSDNAT} \<and> bid = sb))"

definition timed_bound :: "netenv \<Rightarrow> farm \<Rightarrow> oid \<Rightarrow> session \<Rightarrow> bool" where
  "timed_bound env f bid se =
     (case s_bck se of
        None \<Rightarrow> False
      | Some sb \<Rightarrow> (farm_is_ingress_mode f \<and> bid = sb) \<or> bck_mark env f bid = bck_mark env f sb)"

definition session_backend_action :: "netenv \<Rightarrow> oid \<Rightarrow> oid \<Rightarrow> action \<Rightarrow> objs \<Rightarrow> objs" where
  "session_backend_action env fid bid action s =
     (case get_farm fid s of
        None \<Rightarrow> s
      | Some f \<Rightarrow>
          let hastimed = (f_total_timed_sessions f \<noteq> 0);
              s1 = upd_farm fid (\<lambda>f. snd (session_loop SESSION_TYPE_STATIC (static_bound env f bid) action (0, f))) s;
              s2 = (if \<not> hastimed then session_get_timed env fid s1 else s1);
              s3 = upd_farm fid (\<lambda>f. snd (session_loop SESSION_TYPE_TIMED (timed_bound env f bid) action (0, f))) s2
          in if \<not> hastimed then upd_farm fid (session_s_delete SESSION_TYPE_TIMED) s3 else s3)"

section \<open>Invariant\<close>

text \<open>The counters count the lists.\<close>

definition sessions_ok :: "farm \<Rightarrow> bool" where
  "sessions_ok f =
     (f_total_static_sessions f = int (length (f_static_sessions f)) \<and>
      f_total_timed_sessions f = int (length (f_timed_sessions f)) \<and>
      distinct (map s_id (f_static_sessions f)) \<and> distinct (map s_id (f_timed_sessions f)))"

text \<open>A farm without its sessions: what the session code must not touch.\<close>

definition but_sessions :: "farm \<Rightarrow> farm" where
  "but_sessions f = f\<lparr>f_static_sessions := [], f_total_static_sessions := 0,
                      f_timed_sessions := [], f_total_timed_sessions := 0\<rparr>"

interpretation sess: keyed_list s_id "kfind s_id" "kupd s_id" "kdel s_id"
  by (rule keyed_list_kfind)

lemma but_sessions_upd [simp]: "but_sessions (upd_sessions type g n f) = but_sessions f"
  by (simp add: but_sessions_def upd_sessions_def split: session_type.split)

lemma but_sessions_set_action [simp]: "but_sessions (snd (session_set_action type action se f)) = but_sessions f"
  by (simp add: session_set_action_def session_delete_node_def Let_def)

lemma sessions_upd_simps [simp]:
  "sessions_of type (upd_sessions type g n f) = g (sessions_of type f)"
  "total_sessions type (upd_sessions type g n f) = n"
  "type \<noteq> type' \<Longrightarrow> sessions_of type (upd_sessions type' g n f) = sessions_of type f"
  "type \<noteq> type' \<Longrightarrow> total_sessions type (upd_sessions type' g n f) = total_sessions type f"
  by (cases type; cases type'; simp add: sessions_of_def total_sessions_def upd_sessions_def)+

lemma sessions_ok_alt:
  "sessions_ok f \<longleftrightarrow>
     (\<forall>type. total_sessions type f = int (length (sessions_of type f)) \<and> distinct (map s_id (sessions_of type f)))"
proof -
  have "(\<forall>t. P t) \<longleftrightarrow> P SESSION_TYPE_STATIC \<and> P SESSION_TYPE_TIMED" for P
    by (metis session_type.exhaust)
  then show ?thesis by (auto simp: sessions_ok_def total_sessions_def sessions_of_def)
qed

lemma sessions_ok_upd:
  assumes "sessions_ok f" "n = int (length (g (sessions_of type f)))" "distinct (map s_id (g (sessions_of type f)))"
  shows "sessions_ok (upd_sessions type g n f)"
  unfolding sessions_ok_alt
proof
  fix t
  show "total_sessions t (upd_sessions type g n f) = int (length (sessions_of t (upd_sessions type g n f))) \<and>
        distinct (map s_id (sessions_of t (upd_sessions type g n f)))"
    using assms by (cases "t = type") (auto simp: sessions_ok_alt)
qed

lemma sessions_ok_delete_node:
  assumes "sessions_ok f" "sid \<in> s_id ` set (sessions_of type f)"
  shows "sessions_ok (session_delete_node type sid f)"
proof -
  have d: "distinct (map s_id (sessions_of type f))" "total_sessions type f = int (length (sessions_of type f))"
    using assms(1) by (simp_all add: sessions_ok_alt)
  from length_kdel [OF d(1) assms(2)] d show ?thesis
    unfolding session_delete_node_def by (intro sessions_ok_upd [OF assms(1)]) (auto simp: distinct_keys_kdel)
qed

lemma sessions_ok_set_action:
  assumes "sessions_ok f" "s_id se \<in> s_id ` set (sessions_of type f)"
  shows "sessions_ok (snd (session_set_action type action se f))"
proof -
  have put: "sessions_ok (upd_sessions type (kupd s_id sid g) (total_sessions type f) f)"
    if "\<And>x. s_id (g x) = s_id x" for sid g
    using assms(1) that by (intro sessions_ok_upd) (simp_all add: sessions_ok_alt map_kupd_frame)
  show ?thesis
    using assms sessions_ok_delete_node by (simp add: session_set_action_def Let_def put)
qed

text \<open>The sessions still to be visited stay in the list.\<close>

lemma session_set_action_keys:
  "sid \<in> s_id ` set (sessions_of type f) \<Longrightarrow> sid \<noteq> s_id se \<Longrightarrow>
   sid \<in> s_id ` set (sessions_of type (snd (session_set_action type action se f)))"
  by (auto simp: session_set_action_def session_delete_node_def Let_def set_kdel image_kupd)

lemma sessions_ok_loop_fold:
  assumes "sessions_ok f" "distinct (map s_id ss)" "s_id ` set ss \<subseteq> s_id ` set (sessions_of type f)"
  shows "sessions_ok (snd (fold (\<lambda>se (n, f). if pick se
            then let (r, f1) = session_set_action type action se f in (n + of_bool r, f1) else (n, f)) ss (k, f)))"
  using assms
proof (induction ss arbitrary: f k)
  case Nil
  then show ?case by simp
next
  case (Cons se ss)
  let ?f1 = "snd (session_set_action type action se f)"
  have in_f: "s_id se \<in> s_id ` set (sessions_of type f)" using Cons.prems(3) by auto
  have ok: "sessions_ok ?f1" using sessions_ok_set_action [OF Cons.prems(1) in_f] .
  have sub: "s_id ` set ss \<subseteq> s_id ` set (sessions_of type ?f1)"
  proof
    fix x
    assume x: "x \<in> s_id ` set ss"
    moreover have "s_id se \<notin> s_id ` set ss" using Cons.prems(2) by simp
    ultimately have "x \<noteq> s_id se" by blast
    with x Cons.prems(3) show "x \<in> s_id ` set (sessions_of type ?f1)"
      by (intro session_set_action_keys) auto
  qed
  show ?case
    using Cons.IH [OF ok _ sub] Cons.IH [of f] Cons.prems
    by (auto simp: Let_def split_beta)
qed

lemma sessions_ok_loop: "sessions_ok (snd rf) \<Longrightarrow> sessions_ok (snd (session_loop type pick action rf))"
  using sessions_ok_loop_fold [of "snd rf" "sessions_of type (snd rf)" type pick action "fst rf"]
  by (simp add: session_loop_def sessions_ok_alt)

lemma but_sessions_fold:
  "but_sessions (snd (fold (\<lambda>se (n, f). if pick se
      then let (r, f1) = session_set_action type action se f in (n + of_bool r, f1) else (n, f)) ss rf)) =
   but_sessions (snd rf)"
proof (induction ss arbitrary: rf)
  case Nil
  then show ?case by simp
next
  case (Cons se ss)
  then show ?case by (auto simp: Let_def split_beta)
qed

lemma but_sessions_loop [simp]: "but_sessions (snd (session_loop type pick action rf)) = but_sessions (snd rf)"
  by (simp add: session_loop_def but_sessions_fold)

text \<open>The life of a single session under an action; \<open>None\<close> is its deletion.\<close>

definition session_next :: "action \<Rightarrow> session \<Rightarrow> session option" where
  "session_next action se =
     (if s_action se = action then Some se
      else if action = ACTION_DELETE then None
      else if action = ACTION_STOP \<and> s_state se = VALUE_STATE_UP
        then Some (se\<lparr>s_action := ACTION_STOP, s_state := VALUE_STATE_OFF\<rparr>)
      else if action = ACTION_START \<and> s_state se \<noteq> VALUE_STATE_UP \<and> s_bck se \<noteq> None
        then Some (se\<lparr>s_action := ACTION_START, s_state := VALUE_STATE_UP\<rparr>)
      else if action = ACTION_RELOAD \<and> s_state se = VALUE_STATE_UP \<and> s_bck se \<noteq> None
        then Some (se\<lparr>s_action := ACTION_RELOAD\<rparr>)
      else Some se)"

lemma kupd_middle:
  "distinct (map key (xs @ x # ys)) \<Longrightarrow> kupd key (key x) g (xs @ x # ys) = xs @ g x # ys"
  by (induction xs) (auto simp: kupd_absent)

lemma kdel_middle:
  "distinct (map key (xs @ x # ys)) \<Longrightarrow> kdel key (key x) (xs @ x # ys) = xs @ ys"
  by (induction xs) (auto simp: kdel_absent)

lemma set_action_middle:
  assumes "sessions_of type f = xs @ se # ys" "distinct (map s_id (xs @ se # ys))"
  shows "sessions_of type (snd (session_set_action type action se f)) =
           xs @ (case session_next action se of None \<Rightarrow> [] | Some se' \<Rightarrow> [se']) @ ys"
  using assms(1) kupd_middle [OF assms(2)] kdel_middle [OF assms(2)]
  by (cases "s_bck se") (simp_all add: session_set_action_def session_next_def session_delete_node_def Let_def)

lemma session_next_id: "session_next action se = Some se' \<Longrightarrow> s_id se' = s_id se"
  by (auto simp: session_next_def split: if_splits)

text \<open>What one pass of an action makes of a session list.\<close>

definition sessions_next :: "(session \<Rightarrow> bool) \<Rightarrow> action \<Rightarrow> session list \<Rightarrow> session list" where
  "sessions_next pick action ss =
     concat (map (\<lambda>se. if pick se then (case session_next action se of None \<Rightarrow> [] | Some se' \<Rightarrow> [se']) else [se]) ss)"

lemma session_loop_fold:
  assumes "sessions_of type f = xs @ ss" "distinct (map s_id (xs @ ss))"
  shows "sessions_of type (snd (fold (\<lambda>se (n, f). if pick se
            then let (r, f1) = session_set_action type action se f in (n + of_bool r, f1) else (n, f)) ss (k, f))) =
         xs @ sessions_next pick action ss"
  using assms
proof (induction ss arbitrary: xs f k)
  case Nil
  then show ?case by (simp add: sessions_next_def)
next
  case (Cons se ss)
  let ?n = "case session_next action se of None \<Rightarrow> [] | Some se' \<Rightarrow> [se']"
  let ?r = "session_set_action type action se f"
  show ?case
  proof (cases "pick se")
    case True
    have f1: "sessions_of type (snd ?r) = (xs @ ?n) @ ss"
      using set_action_middle [OF Cons.prems] by simp
    have "distinct (map s_id ((xs @ ?n) @ ss))"
    proof (cases "session_next action se")
      case None
      with Cons.prems(2) show ?thesis by simp
    next
      case (Some se')
      with Cons.prems(2) session_next_id [OF Some] show ?thesis by simp
    qed
    from Cons.IH [OF f1 this, of "k + of_bool (fst ?r)"] True show ?thesis
      by (simp add: sessions_next_def split_beta Let_def)
  next
    case False
    with Cons.IH [of f "xs @ [se]" k] Cons.prems show ?thesis by (simp add: sessions_next_def)
  qed
qed

lemma session_loop_sessions:
  assumes "sessions_ok (snd rf)"
  shows "sessions_of type (snd (session_loop type pick action rf)) = sessions_next pick action (sessions_of type (snd rf))"
proof -
  have "total_sessions type (snd rf) = 0 \<Longrightarrow> sessions_of type (snd rf) = []"
    using assms by (simp add: sessions_ok_alt)
  then show ?thesis
    using session_loop_fold [of type "snd rf" "[]" "sessions_of type (snd rf)" pick action "fst rf"] assms
    by (simp add: session_loop_def sessions_ok_alt sessions_next_def)
qed

lemma session_loop_other:
  "type \<noteq> type' \<Longrightarrow> sessions_of type (snd (session_loop type' pick action rf)) = sessions_of type (snd rf)"
proof -
  assume t: "type \<noteq> type'"
  then have *: "sessions_of type (snd (session_set_action type' action se f)) = sessions_of type f" for se f
    by (simp add: session_set_action_def session_delete_node_def Let_def)
  have "sessions_of type (snd (fold (\<lambda>se (n, f). if pick se
      then let (r, f1) = session_set_action type' action se f in (n + of_bool r, f1) else (n, f)) ss rf)) =
      sessions_of type (snd rf)" for ss
    by (induction ss arbitrary: rf) (auto simp: split_beta Let_def *)
  then show ?thesis by (simp add: session_loop_def)
qed

lemma but_sessions_delete: "but_sessions (fold (\<lambda>se. session_delete_node type (s_id se)) ss f) = but_sessions f"
  by (induction ss arbitrary: f) (simp_all add: session_delete_node_def)

lemma but_sessions_s_delete [simp]: "but_sessions (session_s_delete type f) = but_sessions f"
  by (simp add: session_s_delete_def but_sessions_delete)

lemma session_s_delete_empty:
  assumes "sessions_ok f"
  shows "session_s_delete type f = upd_sessions type (\<lambda>_. []) 0 f"
proof -
  have *: "fold (\<lambda>se. session_delete_node type (s_id se)) ss g =
           upd_sessions type (\<lambda>_. []) (total_sessions type g - int (length ss)) g"
    if "sessions_of type g = ss" "distinct (map s_id ss)" for ss g
    using that
  proof (induction ss arbitrary: g)
    case Nil
    then show ?case by (cases type) (simp_all add: upd_sessions_def sessions_of_def total_sessions_def)
  next
    case (Cons se ss)
    have "sessions_of type (session_delete_node type (s_id se) g) = ss"
      using Cons.prems kdel_middle [of s_id "[]" se ss] by (simp add: session_delete_node_def)
    with Cons.IH [of "session_delete_node type (s_id se) g"] Cons.prems show ?case
      by (cases type) (simp_all add: session_delete_node_def upd_sessions_def total_sessions_def)
  qed
  from * [OF refl, of f] assms show ?thesis by (simp add: session_s_delete_def sessions_ok_alt)
qed

section \<open>Reading the timed sessions\<close>

lemma get_farm_upd: "(\<And>x. f_id (g x) = f_id x) \<Longrightarrow> get_farm fid (upd_farm fid g s) = map_option g (get_farm fid s)"
  by (simp add: get_farm_def upd_farm_def kfind_kupd)

lemma get_farm_put: "get_farm fid s = Some f \<Longrightarrow> f_id f1 = f_id f \<Longrightarrow> get_farm fid (upd_farm fid (\<lambda>_. f1) s) = Some f1"
proof -
  have "kfind f_id fid xs = Some f \<Longrightarrow> f_id f1 = f_id f \<Longrightarrow> kfind f_id fid (kupd f_id fid (\<lambda>_. f1) xs) = Some f1" for xs
    by (induction xs) (auto split: if_splits)
  then show "get_farm fid s = Some f \<Longrightarrow> f_id f1 = f_id f \<Longrightarrow> ?thesis"
    by (simp add: get_farm_def upd_farm_def)
qed

lemma but_sessions_id: "but_sessions f = but_sessions g \<Longrightarrow> f_id f = f_id g"
proof -
  assume "but_sessions f = but_sessions g"
  then have "f_id (but_sessions f) = f_id (but_sessions g)" by simp
  then show ?thesis by (simp add: but_sessions_def)
qed

text \<open>The farm while its timed sessions are read: all but the timed sessions is as it was.\<close>

definition timed_reading :: "oid \<Rightarrow> farm \<Rightarrow> objs \<Rightarrow> bool" where
  "timed_reading fid f s =
     (\<exists>f'. get_farm fid s = Some f' \<and> but_sessions f' = but_sessions f \<and>
           f_static_sessions f' = f_static_sessions f \<and> f_total_static_sessions f' = f_total_static_sessions f \<and>
           f_total_timed_sessions f' = int (length (f_timed_sessions f')) \<and>
           distinct (map s_id (f_timed_sessions f')) \<and> (\<forall>se \<in> set (f_timed_sessions f'). s_id se < next_oid s))"

lemma session_create_Some:
  assumes "session_create env sid type client bck expiration f = Some f1"
  shows "\<exists>se. s_id se = sid \<and> f1 = upd_sessions type (\<lambda>ss. ss @ [se]) (total_sessions type f + 1) f"
proof -
  let ?se = "\<lparr>s_id = sid, s_client = client, s_bck = session_backend env f bck,
              s_expiration = (case type of SESSION_TYPE_TIMED \<Rightarrow> Some expiration | SESSION_TYPE_STATIC \<Rightarrow> None),
              s_state = (case type of SESSION_TYPE_TIMED \<Rightarrow> VALUE_STATE_UP | SESSION_TYPE_STATIC \<Rightarrow> VALUE_STATE_OFF),
              s_action = ACTION_NONE\<rparr>"
  from assms have "f1 = upd_sessions type (\<lambda>ss. ss @ [?se]) (total_sessions type f + 1) f"
    by (simp add: session_create_def Let_def split: if_splits)
  then show ?thesis by (intro exI [of _ ?se]) simp
qed

lemma timed_reading_create:
  assumes "timed_reading fid f s" "get_farm fid s = Some f'"
    "session_create env (next_oid s) SESSION_TYPE_TIMED client bck expiration f' = Some f1"
  shows "timed_reading fid f (upd_farm fid (\<lambda>_. f1) (s\<lparr>next_oid := Suc (next_oid s)\<rparr>))"
proof -
  let ?s = "s\<lparr>next_oid := Suc (next_oid s)\<rparr>"
  obtain se where se: "s_id se = next_oid s" and
    f1: "f1 = upd_sessions SESSION_TYPE_TIMED (\<lambda>ss. ss @ [se]) (total_sessions SESSION_TYPE_TIMED f' + 1) f'"
    using session_create_Some [OF assms(3)] by blast
  have id: "f_id f1 = f_id f'" by (simp add: f1 upd_sessions_def)
  have get: "get_farm fid (upd_farm fid (\<lambda>_. f1) ?s) = Some f1"
    by (rule get_farm_put [OF _ id]) (use assms(2) in \<open>simp add: get_farm_def\<close>)
  have "but_sessions f1 = but_sessions f'" by (simp add: f1)
  with assms(1,2) get se show ?thesis
    by (auto simp: timed_reading_def f1 upd_sessions_def total_sessions_def less_Suc_eq)
qed

lemma timed_reading_address:
  assumes "timed_reading fid f s"
  shows "timed_reading fid f (get_timed_address env fid fa s)"
proof -
  have "timed_reading fid f (fold (\<lambda>(client, bck, expiration) s.
          case get_farm fid s of
            None \<Rightarrow> s
          | Some f \<Rightarrow>
              (case session_create env (next_oid s) SESSION_TYPE_TIMED client bck expiration f of
                 None \<Rightarrow> s
               | Some f1 \<Rightarrow> upd_farm fid (\<lambda>_. f1) (s\<lparr>next_oid := Suc (next_oid s)\<rparr>))) xs s)" for xs
    by (rule fold_inv [where P = "timed_reading fid f"])
       (use assms timed_reading_create in \<open>auto split: option.split\<close>)
  with assms show ?thesis by (auto simp: get_timed_address_def split: option.split)
qed

lemma session_get_timed_reading:
  assumes "get_farm fid s = Some f" "f_timed_sessions f = []"
  shows "timed_reading fid f (session_get_timed env fid s)"
proof -
  have "timed_reading fid f (upd_farm fid (\<lambda>f. f\<lparr>f_total_timed_sessions := 0\<rparr>) s)"
    using assms get_farm_upd [of "\<lambda>f. f\<lparr>f_total_timed_sessions := 0\<rparr>" fid s]
    by (simp add: timed_reading_def but_sessions_def)
  with assms(1) show ?thesis
    by (auto simp: session_get_timed_def intro!: fold_inv [where P = "timed_reading fid f"] timed_reading_address)
qed

lemma farm_eq_sessions:
  "but_sessions f = but_sessions g \<Longrightarrow> (\<And>type. sessions_of type f = sessions_of type g) \<Longrightarrow>
   (\<And>type. total_sessions type f = total_sessions type g) \<Longrightarrow> f = g"
proof -
  assume a: "but_sessions f = but_sessions g" "\<And>type. sessions_of type f = sessions_of type g"
    "\<And>type. total_sessions type f = total_sessions type g"
  have re: "h = (but_sessions h)\<lparr>f_static_sessions := sessions_of SESSION_TYPE_STATIC h,
       f_total_static_sessions := total_sessions SESSION_TYPE_STATIC h,
       f_timed_sessions := sessions_of SESSION_TYPE_TIMED h,
       f_total_timed_sessions := total_sessions SESSION_TYPE_TIMED h\<rparr>" for h
    by (simp add: but_sessions_def sessions_of_def total_sessions_def)
  show "f = g" by (subst re, subst re [of g]) (simp only: a)
qed

section \<open>The listing of the persistence map\<close>

definition plain :: "string \<Rightarrow> bool" where
  "plain w = (w \<noteq> [] \<and> (\<forall>c \<in> set w. \<not> is_blank c \<and> c \<noteq> CHR '',''))"

definition elem_ok :: "string \<times> string \<times> string \<times> string \<Rightarrow> bool" where
  "elem_ok = (\<lambda>(client, t, e, b). plain client \<and> plain t \<and> hd t \<noteq> CHR ''e'' \<and> plain e \<and> plain b)"

definition tail_ok :: "string \<Rightarrow> bool" where
  "tail_ok rest = (rest \<noteq> [] \<and> hd rest = CHR '' '' \<and> CHR '','' \<notin> set rest)"

fun render_session :: "string \<times> string \<times> string \<times> string \<Rightarrow> string" where
  "render_session (client, t, e, b) = client @ '' timeout '' @ t @ '' expires '' @ e @ '' : '' @ b"

fun render_sessions :: "(string \<times> string \<times> string \<times> string) list \<Rightarrow> string" where
  "render_sessions [] = []"
| "render_sessions [x] = render_session x"
| "render_sessions (x # xs) = render_session x @ '', '' @ render_sessions xs"

lemma starts_with_Cons: "starts_with (c # n) (x # xs) \<longleftrightarrow> c = x \<and> starts_with n xs"
  by (auto simp: starts_with_def)

lemma strstr_skip: "c \<notin> set u \<Longrightarrow> strstr (u @ s) (c # n) = strstr s (c # n)"
  by (induction u) (auto simp: starts_with_Cons)

lemma strstr_self: "needle \<noteq> [] \<Longrightarrow> strstr (needle @ s) needle = Some (needle @ s)"
  by (cases needle) (auto simp: starts_with_def)

lemma strstr_first: "c \<notin> set u \<Longrightarrow> strstr (u @ (c # n) @ s) (c # n) = Some ((c # n) @ s)"
  using strstr_self [of "c # n" s] strstr_skip [of c u "(c # n) @ s" n] by simp

lemma plain_no_space: "plain w \<Longrightarrow> CHR '' '' \<notin> set w" "plain w \<Longrightarrow> CHR '','' \<notin> set w"
  by (auto simp: plain_def is_blank_def)

lemma text_upto_append [simp]: "text_upto (u @ s) s = u"
  by (simp add: text_upto_def)

lemma strstr_timeout:
  "plain client \<Longrightarrow> strstr (client @ '' timeout '' @ s) '' timeout '' = Some ('' timeout '' @ s)"
  using strstr_first [of "CHR '' ''" client "''timeout ''" s] plain_no_space by simp

lemma strstr_expires:
  assumes "plain client" "plain t" "hd t \<noteq> CHR ''e''"
  shows "strstr (client @ '' timeout '' @ t @ '' expires '' @ s) '' expires '' = Some ('' expires '' @ s)"
proof -
  obtain d t' where t: "t = d # t'" "d \<noteq> CHR ''e''" using assms(2,3) by (cases t) (auto simp: plain_def)
  have "strstr (client @ '' timeout '' @ t @ '' expires '' @ s) '' expires '' =
        strstr ('' timeout '' @ t @ '' expires '' @ s) '' expires ''"
    using assms(1) plain_no_space by (intro strstr_skip) auto
  also have "\<dots> = strstr (''timeout'' @ CHR '' '' # t @ '' expires '' @ s) '' expires ''"
    by (simp add: starts_with_def)
  also have "\<dots> = strstr (CHR '' '' # t @ '' expires '' @ s) '' expires ''"
    by (rule strstr_skip) simp
  also have "\<dots> = strstr (t @ '' expires '' @ s) '' expires ''"
    using t by (simp add: starts_with_Cons)
  also have "\<dots> = Some ('' expires '' @ s)"
    using strstr_first [of "CHR '' ''" t "''expires ''" s] plain_no_space assms(2) by simp
  finally show ?thesis .
qed

lemma parse_session_render:
  assumes "elem_ok (client, t, e, b)"
  shows "parse_session (render_session (client, t, e, b) @ CHR '','' # r) =
           Some ((client, b, e), True, dropWhile is_blank r)"
    and "tail_ok r \<Longrightarrow> \<exists>r'. parse_session (render_session (client, t, e, b) @ r) = Some ((client, b, e), False, r')"
proof -
  from assms have p: "plain client" "plain t" "hd t \<noteq> CHR ''e''" "plain e" "plain b"
    by (simp_all add: elem_ok_def)
  have ex: "strstr (client @ '' timeout '' @ t @ '' expires '' @ s) '' expires '' = Some ('' expires '' @ s)" for s
    using strstr_expires [OF p(1-3)] .
  have ti: "strstr (client @ '' timeout '' @ s) '' timeout '' = Some ('' timeout '' @ s)" for s
    using strstr_timeout [OF p(1)] .
  have co: "strstr (e @ '' : '' @ s) '' : '' = Some ('' : '' @ s)" for s
    using strstr_first [of "CHR '' ''" e "'': ''" s] plain_no_space p(4) by simp
  have cm: "strstr (b @ CHR '','' # r) '','' = Some (CHR '','' # r)"
    using strstr_first [of "CHR '',''" b "[]" r] plain_no_space p(5) by simp
  show "parse_session (render_session (client, t, e, b) @ CHR '','' # r) =
          Some ((client, b, e), True, dropWhile is_blank r)"
    using ex [of "e @ '' : '' @ b @ CHR '','' # r"] ti [of "t @ '' expires '' @ e @ '' : '' @ b @ CHR '','' # r"]
      co [of "b @ CHR '','' # r"] cm text_upto_append [of client "'' timeout '' @ t @ '' expires '' @ e @ '' : '' @ b @ CHR '','' # r"]
      text_upto_append [of e "'' : '' @ b @ CHR '','' # r"] text_upto_append [of b "CHR '','' # r"]
    by (simp add: parse_session_def Let_def)
  assume "tail_ok r"
  then obtain r0 where r: "r = CHR '' '' # r0" "CHR '','' \<notin> set r" by (cases r) (auto simp: tail_ok_def)
  have nc: "strstr (b @ r) '','' = None"
    using strstr_skip [of "CHR '',''" "b @ r" "[]" "[]"] plain_no_space p(5) r(2) by simp
  have sp: "strstr (b @ r) '' '' = Some r"
    using strstr_first [of "CHR '' ''" b "[]" r0] plain_no_space p(5) r(1) by simp
  show "\<exists>r'. parse_session (render_session (client, t, e, b) @ r) = Some ((client, b, e), False, r')"
    using ex [of "e @ '' : '' @ b @ r"] ti [of "t @ '' expires '' @ e @ '' : '' @ b @ r"]
      co [of "b @ r"] nc sp text_upto_append [of client "'' timeout '' @ t @ '' expires '' @ e @ '' : '' @ b @ r"]
      text_upto_append [of e "'' : '' @ b @ r"] text_upto_append [of b r]
    by (simp add: parse_session_def Let_def)
qed

lemma render_no_blank: "elem_ok x \<Longrightarrow> dropWhile is_blank (CHR '' '' # render_session x @ s) = render_session x @ s"
  by (cases x; cases "fst x") (auto simp: elem_ok_def plain_def is_blank_def)

lemma parse_sessions_render:
  "es \<noteq> [] \<Longrightarrow> \<forall>x \<in> set es. elem_ok x \<Longrightarrow> tail_ok rest \<Longrightarrow>
   parse_sessions_loop (render_sessions es @ rest) = map (\<lambda>(client, t, e, b). (client, b, e)) es"
proof (induction es rule: render_sessions.induct)
  case 1
  then show ?case by simp
next
  case (2 x)
  obtain client t e b where x: "x = (client, t, e, b)" by (cases x)
  with parse_session_render(2) [of client t e b rest] 2 show ?case
    by (subst parse_sessions_loop.simps) auto
next
  case (3 x y ys)
  obtain client t e b where x: "x = (client, t, e, b)" by (cases x)
  let ?r = "render_sessions (y # ys) @ rest"
  have "dropWhile is_blank (CHR '' '' # ?r) = ?r"
    using render_no_blank [of y] "3.prems"(2) by (cases ys) auto
  with parse_session_render(1) [of client t e b "CHR '' '' # ?r"] "3.prems"(2) x
  have "parse_session (render_sessions (x # y # ys) @ rest) = Some ((client, b, e), True, ?r)"
    by simp
  with "3.IH" "3.prems" x show ?case by (subst parse_sessions_loop.simps) simp
qed

section \<open>Properties\<close>

lemma session_loop_id: "f_id (snd (session_loop type pick action (0, g))) = f_id g"
  by (rule but_sessions_id) simp

text \<open>First pass: the static sessions, then the timed ones are read from the kernel.\<close>

lemma static_pass:
  assumes "get_farm fid s = Some f" "sessions_ok f" "f_timed_sessions f = []"
    and "ss = sessions_next (static_bound env f bid) action (f_static_sessions f)"
  obtains g where
    "get_farm fid (session_get_timed env fid
       (upd_farm fid (\<lambda>f. snd (session_loop SESSION_TYPE_STATIC (static_bound env f bid) action (0, f))) s)) = Some g"
    "but_sessions g = but_sessions f" "f_static_sessions g = ss" "sessions_ok g"
proof -
  let ?st = "\<lambda>f. snd (session_loop SESSION_TYPE_STATIC (static_bound env f bid) action (0, f))"
  have f1: "get_farm fid (upd_farm fid ?st s) = Some (?st f)"
    using assms(1) get_farm_upd [of ?st fid s] session_loop_id by simp
  have ok1: "sessions_ok (?st f)" using sessions_ok_loop [of "(0, f)"] assms(2) by simp
  have st1: "f_static_sessions (?st f) = ss"
    using session_loop_sessions [of "(0, f)" SESSION_TYPE_STATIC] assms(2,4) by (simp add: sessions_of_def)
  have ti1: "f_timed_sessions (?st f) = []"
    using session_loop_other [of SESSION_TYPE_TIMED SESSION_TYPE_STATIC _ action "(0, f)"] assms(3)
    by (simp add: sessions_of_def)
  show thesis
    using session_get_timed_reading [OF f1 ti1, of env] ok1 st1 that by (auto simp: timed_reading_def sessions_ok_def)
qed

text \<open>Second pass: the timed sessions, which are forgotten afterwards.\<close>

lemma timed_pass:
  assumes "sessions_ok g" "but_sessions g = but_sessions f" "f_static_sessions g = ss"
    and "f_timed_sessions f = []" "f_total_timed_sessions f = 0"
  shows "session_s_delete SESSION_TYPE_TIMED (snd (session_loop SESSION_TYPE_TIMED pick action (0, g))) =
    f\<lparr>f_static_sessions := ss, f_total_static_sessions := int (length ss)\<rparr>" (is "session_s_delete _ ?g = ?f")
proof (rule farm_eq_sessions)
  have ok: "sessions_ok ?g" using sessions_ok_loop [of "(0, g)"] assms(1) by simp
  have st: "f_static_sessions ?g = ss"
    using session_loop_other [of SESSION_TYPE_STATIC SESSION_TYPE_TIMED _ action "(0, g)"] assms(3)
    by (simp add: sessions_of_def)
  show "but_sessions (session_s_delete SESSION_TYPE_TIMED ?g) = but_sessions ?f"
    using assms(2) by (simp add: session_s_delete_empty [OF ok]) (simp add: but_sessions_def)
  fix type
  show "sessions_of type (session_s_delete SESSION_TYPE_TIMED ?g) = sessions_of type ?f"
    "total_sessions type (session_s_delete SESSION_TYPE_TIMED ?g) = total_sessions type ?f"
    using st ok assms(4,5)
    by (cases type; simp add: session_s_delete_empty [OF ok] sessions_of_def total_sessions_def
        upd_sessions_def sessions_ok_def)+
qed

text \<open>
  (C21) What a backend's state change does to the sessions of its farm. When the timed sessions have
  not been read before, the only effect is on the static sessions: each one bound to the backend
  makes exactly the transition of the action (deleted ones leave the list), the others stay, the
  counter counts the list, and the timed sessions read for the occasion are gone again; all other
  fields of the farm are unchanged.
\<close>

theorem backend_action_sessions:
  assumes "get_farm fid s = Some f" "sessions_ok f" "f_timed_sessions f = []"
  shows "get_farm fid (session_backend_action env fid bid action s) =
           Some (f\<lparr>f_static_sessions := sessions_next (static_bound env f bid) action (f_static_sessions f),
                   f_total_static_sessions :=
                     int (length (sessions_next (static_bound env f bid) action (f_static_sessions f)))\<rparr>)"
proof -
  have tot: "f_total_timed_sessions f = 0" using assms(2,3) by (simp add: sessions_ok_def)
  obtain g where g:
    "get_farm fid (session_get_timed env fid
       (upd_farm fid (\<lambda>f. snd (session_loop SESSION_TYPE_STATIC (static_bound env f bid) action (0, f))) s)) = Some g"
    "but_sessions g = but_sessions f"
    "f_static_sessions g = sessions_next (static_bound env f bid) action (f_static_sessions f)" "sessions_ok g"
    using static_pass [OF assms refl] by blast
  have del: "f_id (session_s_delete SESSION_TYPE_TIMED h) = f_id h" for h
    by (rule but_sessions_id) simp
  have "get_farm fid (session_backend_action env fid bid action s) =
      Some (session_s_delete SESSION_TYPE_TIMED (snd (session_loop SESSION_TYPE_TIMED (timed_bound env g bid) action (0, g))))"
    using assms(1) tot g(1) session_loop_id del by (simp add: session_backend_action_def Let_def get_farm_upd)
  then show ?thesis using timed_pass [OF g(4,2,3) assms(3) tot] by simp
qed

theorem backend_action_sessions_witness:
  "get_farm 0 (session_backend_action offline 0 1 ACTION_STOP
      (objects_init\<lparr>farms := [new_farm 0 ''f''\<lparr>f_backends := [new_backend 1 ''b'' 1],
          f_static_sessions := [\<lparr>s_id = 2, s_client = ''1.1.1.1'', s_bck = Some 1, s_expiration = None,
                                 s_state = VALUE_STATE_UP, s_action = ACTION_NONE\<rparr>],
          f_total_static_sessions := 1\<rparr>]\<rparr>)) =
   Some (new_farm 0 ''f''\<lparr>f_backends := [new_backend 1 ''b'' 1],
          f_static_sessions := [\<lparr>s_id = 2, s_client = ''1.1.1.1'', s_bck = Some 1, s_expiration = None,
                                 s_state = VALUE_STATE_OFF, s_action = ACTION_STOP\<rparr>],
          f_total_static_sessions := 1\<rparr>)"
proof -
  let ?f = "new_farm 0 ''f''\<lparr>f_backends := [new_backend 1 ''b'' 1],
          f_static_sessions := [\<lparr>s_id = 2, s_client = ''1.1.1.1'', s_bck = Some 1, s_expiration = None,
                                 s_state = VALUE_STATE_UP, s_action = ACTION_NONE\<rparr>],
          f_total_static_sessions := 1\<rparr>"
  let ?s = "objects_init\<lparr>farms := [?f]\<rparr>"
  have "get_farm 0 ?s = Some ?f" "sessions_ok ?f" "f_timed_sessions ?f = []"
    by (simp_all add: get_farm_def sessions_ok_def new_farm_def)
  from backend_action_sessions [OF this, of offline 1 ACTION_STOP] show ?thesis
    by (simp add: sessions_next_def session_next_def static_bound_def new_farm_def)
qed



end
