(* ===== verification/Lifecycle.thy ===== *)
theory Lifecycle
  imports Sessions "HOL-Library.Monad_Syntax"
begin

text \<open>
  The life cycle of farms and backends: validation, the actions pending on a farm, the state of a
  backend, the fallback priority, and the network information of ingress farms (farms.c, backends.c).
  \<open>backend_set_state\<close>, \<open>backend_s_gen_priority\<close>, \<open>farm_set_action\<close>, \<open>farm_set_netinfo\<close>,
  \<open>backend_s_set_netinfo\<close> and \<open>backend_s_validate\<close> call each other; their first argument is fuel for
  the nested calls of \<open>backend_set_state\<close>, and the result is \<open>None\<close> when it runs out.
\<close>

section \<open>Validation\<close>

definition farm_validate_oface :: "farm \<Rightarrow> bool" where
  "farm_validate_oface f =
     (\<not> (f_oface f = None \<or> obj_equ_attribute_string (f_oface f) [] \<or>
         f_oethaddr f = None \<or> obj_equ_attribute_string (f_oethaddr f) []))"

fun helper_protocol_ok :: "helper \<Rightarrow> proto \<Rightarrow> bool" where
  "helper_protocol_ok h VALUE_PROTO_ALL = (h = VALUE_HELPER_NONE \<or> h = VALUE_HELPER_SIP)"
| "helper_protocol_ok h VALUE_PROTO_TCP =
     (h = VALUE_HELPER_NONE \<or> h = VALUE_HELPER_FTP \<or> h = VALUE_HELPER_PPTP \<or> h = VALUE_HELPER_SIP)"
| "helper_protocol_ok h VALUE_PROTO_UDP =
     (h = VALUE_HELPER_NONE \<or> h = VALUE_HELPER_TFTP \<or> h = VALUE_HELPER_SNMP \<or> h = VALUE_HELPER_SIP)"
| "helper_protocol_ok h VALUE_PROTO_SCTP = True"

definition farm_validate_helper_protocol :: "farm \<Rightarrow> objs \<Rightarrow> bool" where
  "farm_validate_helper_protocol f s =
     list_all (\<lambda>fa. case get_address (fa_address fa) s of
                      None \<Rightarrow> True | Some a \<Rightarrow> helper_protocol_ok (f_helper f) (a_protocol a))
       (f_addresses f)"

text \<open>Both predicates say that the interface is \<^emph>\<open>not\<close> there.\<close>

definition address_validate_iface :: "address \<Rightarrow> bool" where
  "address_validate_iface a = (a_iface a = None \<or> obj_equ_attribute_string (a_iface a) [])"

definition address_validate_iether :: "address \<Rightarrow> bool" where
  "address_validate_iether a = (a_iethaddr a = None \<or> obj_equ_attribute_string (a_iethaddr a) [])"

definition fa_has_iface :: "objs \<Rightarrow> farmaddress \<Rightarrow> bool" where
  "fa_has_iface s fa =
     (case get_address (fa_address fa) s of
        None \<Rightarrow> False | Some a \<Rightarrow> \<not> (address_validate_iface a \<or> address_validate_iether a))"

text \<open>The check also takes the pending action off every link whose address has no interface.\<close>

definition farmaddress_s_validate_iface :: "oid \<Rightarrow> objs \<Rightarrow> bool \<times> objs" where
  "farmaddress_s_validate_iface fid s =
     (case get_farm fid s of
        None \<Rightarrow> (False, s)
      | Some f \<Rightarrow>
          (list_ex (fa_has_iface s) (f_addresses f),
           upd_farm fid (\<lambda>f. f\<lparr>f_addresses :=
             map (\<lambda>fa. if fa_has_iface s fa then fa else fa\<lparr>fa_action := ACTION_NONE\<rparr>) (f_addresses f)\<rparr>) s))"

definition farm_validate :: "oid \<Rightarrow> objs \<Rightarrow> bool \<times> objs" where
  "farm_validate fid s =
     (case get_farm fid s of
        None \<Rightarrow> (False, s)
      | Some f \<Rightarrow>
          if \<not> farm_validate_helper_protocol f s
          then (False, put_output (''. Farm '' @ quoted (f_name f) @ '' doesn'' @ [CHR 0x27] @
                                   ''t validate helper protocol'') s)
          else
            let (ok1, s1) = (if farm_needs_policies f then farmaddress_s_validate_iface fid s else (True, s))
            in if \<not> ok1 then (False, s1)
               else if farm_is_ingress_mode f \<or> farm_needs_flowtable f then
                 let (ok2, s2) = farmaddress_s_validate_iface fid s1
                 in (ok2 \<and> farm_validate_oface f, s2)
               else (True, s1))"

definition farm_is_available :: "oid \<Rightarrow> objs \<Rightarrow> bool \<times> objs" where
  "farm_is_available fid s =
     (case get_farm fid s of
        None \<Rightarrow> (False, s)
      | Some f \<Rightarrow> if f_state f = VALUE_STATE_UP then farm_validate fid s else (False, s))"

section \<open>Event listener\<close>

definition farm_s_update_dsr_counter :: "objs \<Rightarrow> objs" where
  "farm_s_update_dsr_counter s =
     obj_set_dsr_counter
       (int (length (filter (\<lambda>f. farm_is_ingress_mode f \<and>
                                 (f_state f = VALUE_STATE_UP \<or> f_state f = VALUE_STATE_CONFERR)) (farms s)))) s"

text \<open>Starting the listener is taken to succeed.\<close>

definition farm_manage_eventd :: "objs \<Rightarrow> objs" where
  "farm_manage_eventd s =
     (let s1 = farm_s_update_dsr_counter s;
          s2 = (if dsr_counter s1 \<noteq> 0 \<and> \<not> event_enabled s1 then s1\<lparr>event_enabled := True\<rparr> else s1)
      in if dsr_counter s2 = 0 \<and> event_enabled s2 then s2\<lparr>event_enabled := False\<rparr> else s2)"

section \<open>Network information\<close>

abbreviation IFACE_LOOPBACK :: string where "IFACE_LOOPBACK \<equiv> ''lo''"

definition farm_set_oface_info :: "netenv \<Rightarrow> farm \<Rightarrow> bool \<times> farm" where
  "farm_set_oface_info env f =
     (if \<not> (farm_is_ingress_mode f \<or> farm_needs_flowtable f) then (True, f)
      else if f_oface f = Some IFACE_LOOPBACK then (True, f\<lparr>f_ofidx := 0\<rparr>)
      else case backend_get_first f of
             None \<Rightarrow> (True, f)
           | Some b \<Rightarrow>
               (case b_ipaddr b of
                  None \<Rightarrow> (True, f)
                | Some ip \<Rightarrow>
                    (case net_get_local_ifidx_per_remote_host env ip of
                       None \<Rightarrow> (False, f)
                     | Some if_index \<Rightarrow>
                         let f1 = f\<lparr>f_ofidx := if_index\<rparr>
                         in case if_indextoname env if_index of
                              None \<Rightarrow> (False, f1)
                            | Some if_str \<Rightarrow>
                                let oface = net_strim_netface if_str
                                in (True, f1\<lparr>f_oface := Some oface,
                                            f_oethaddr := Some (net_get_local_ifinfo env oface)\<rparr>))))"

definition backend_set_ifinfo :: "netenv \<Rightarrow> oid \<Rightarrow> farm \<Rightarrow> bool \<times> farm" where
  "backend_set_ifinfo env bid f =
     (if \<not> farm_is_ingress_mode f \<or> (f_state f \<noteq> VALUE_STATE_UP \<and> f_state f \<noteq> VALUE_STATE_CONFERR) then (True, f)
      else if f_oface f = Some IFACE_LOOPBACK then (True, f\<lparr>f_ofidx := 0\<rparr>)
      else case Option.bind (get_bck bid f) b_ipaddr of
             None \<Rightarrow> (True, f)
           | Some ip \<Rightarrow>
               (case net_get_local_ifidx_per_remote_host env ip of
                  None \<Rightarrow> (False, f)
                | Some if_index \<Rightarrow>
                    let f1 = (if f_ofidx f = DEFAULT_IFIDX then f\<lparr>f_ofidx := if_index\<rparr> else f);
                        f2 = (if f_ofidx f1 \<noteq> if_index
                              then upd_bck bid (\<lambda>b. b\<lparr>b_ofidx := if_index\<rparr>) (f1\<lparr>f_bcks_have_if := True\<rparr>) else f1)
                    in case if_indextoname env if_index of
                         None \<Rightarrow> (False, f2)
                       | Some if_str \<Rightarrow>
                           (case f_oface f2 of
                              None \<Rightarrow> (True, f2\<lparr>f_oface := Some (net_strim_netface if_str)\<rparr>)
                            | Some oface \<Rightarrow>
                                if oface \<noteq> if_str
                                then (True, upd_bck bid (\<lambda>b. b\<lparr>b_oface := Some (net_strim_netface if_str)\<rparr>) f2)
                                else (True, f2))))"

definition backend_set_ipaddr_from_ether :: "netenv \<Rightarrow> objs \<Rightarrow> oid \<Rightarrow> farm \<Rightarrow> bool \<times> farm" where
  "backend_set_ipaddr_from_ether env s bid f =
     (if \<not> farm_is_ingress_mode f \<or> (f_state f \<noteq> VALUE_STATE_UP \<and> f_state f \<noteq> VALUE_STATE_CONFERR) then (True, f)
      else case Option.bind (farmaddress_get_first f) (\<lambda>fa. get_address (fa_address fa) s) of
             None \<Rightarrow> (False, f)
           | Some a \<Rightarrow>
               (case (a_iethaddr a, get_bck bid f) of
                  (Some src_ethaddr, Some b) \<Rightarrow>
                    (case b_ipaddr b of
                       None \<Rightarrow> (False, f)
                     | Some ip \<Rightarrow>
                         if f_ofidx f = DEFAULT_IFIDX then (False, f)
                         else
                           let source_ip = (case f_srcaddr f of None \<Rightarrow> a_ipaddr a | Some sa \<Rightarrow> sa);
                               first = net_get_neigh_ether env src_ethaddr (a_family a) source_ip ip (a_ifidx a);
                               oface = (if b_ofidx b \<noteq> DEFAULT_IFIDX then b_ofidx b else f_ofidx f);
                               source_ip2 = (case b_srcaddr b of None \<Rightarrow> source_ip | Some sa \<Rightarrow> sa);
                               found = (case first of
                                          Some e \<Rightarrow> Some e
                                        | None \<Rightarrow> net_get_neigh_ether env src_ethaddr (a_family a) source_ip2 ip oface)
                           in case found of
                                None \<Rightarrow> (False, f)
                              | Some streth \<Rightarrow> (True, upd_bck bid (\<lambda>b. b\<lparr>b_ethaddr := Some streth\<rparr>) f))
                | _ \<Rightarrow> (False, f)))"

section \<open>Deleting a farm\<close>

definition farm_delete :: "oid \<Rightarrow> objs \<Rightarrow> objs" where
  "farm_delete fid s =
     (let s1 = upd_farm fid backend_s_delete s;
          s2 = farmpolicy_s_delete fid s1;
          s3 = farmaddress_s_delete fid s2;
          s4 = s3\<lparr>farms := kdel f_id fid (farms s3)\<rparr>
      in obj_set_total_farms (total_farms s4 - 1) s4)"

section \<open>States and actions\<close>

text \<open>The state asked for, corrected by validity and priority.\<close>

definition effective_state :: "farm \<Rightarrow> backend \<Rightarrow> ostate \<Rightarrow> ostate" where
  "effective_state f b new_value =
     (if new_value = VALUE_STATE_UP
      then if \<not> backend_below_prio f b then VALUE_STATE_AVAIL
           else if \<not> backend_validate f b then VALUE_STATE_CONFERR
           else VALUE_STATE_UP
      else new_value)"

text \<open>The action the \<open>switch\<close> leaves pending on the backend.\<close>

fun state_action :: "ostate \<Rightarrow> ostate \<Rightarrow> action \<Rightarrow> action" where
  "state_action old_value VALUE_STATE_CONFERR a = (if old_value = VALUE_STATE_UP then ACTION_STOP else a)"
| "state_action old_value VALUE_STATE_OFF a =
     (if old_value = VALUE_STATE_DOWN then ACTION_START
      else if old_value = VALUE_STATE_UP then ACTION_STOP else a)"
| "state_action old_value VALUE_STATE_AVAIL a = (if old_value = VALUE_STATE_UP then ACTION_STOP else a)"
| "state_action old_value VALUE_STATE_UP a =
     (if old_value = VALUE_STATE_OFF then ACTION_RELOAD else ACTION_START)"
| "state_action old_value VALUE_STATE_DOWN a =
     (if old_value = VALUE_STATE_UP \<or> old_value = VALUE_STATE_OFF then ACTION_STOP else a)"

definition bck_ids :: "oid \<Rightarrow> objs \<Rightarrow> oid list" where
  "bck_ids fid s = (case get_farm fid s of None \<Rightarrow> [] | Some f \<Rightarrow> map b_id (f_backends f))"

definition get_farm_bck :: "oid \<Rightarrow> oid \<Rightarrow> objs \<Rightarrow> (farm \<times> backend) option" where
  "get_farm_bck fid bid s =
     Option.bind (get_farm fid s) (\<lambda>f. map_option (Pair f) (get_bck bid f))"

text \<open>
  Every cycle of calls passes through \<open>backend_set_state\<close>. The other functions take its calls as the
  argument \<open>set_state\<close>; the recursion is tied at \<open>backend_set_state\<close>, whose fuel bounds how deep its
  calls nest.
\<close>

type_synonym set_state_call = "oid \<Rightarrow> ostate \<Rightarrow> objs \<Rightarrow> objs option"

definition gen_priority_call ::
  "set_state_call \<Rightarrow> oid \<Rightarrow> objs \<Rightarrow> (bool \<times> objs) option" where
  "gen_priority_call set_state fid s =
     (case get_farm fid s of
        None \<Rightarrow> Some (False, s)
      | Some f \<Rightarrow>
          let old_prio = f_priority f;
              new_prio = prio_loop (f_backends f) DEFAULT_PRIORITY;
              s1 = upd_farm fid (\<lambda>f. f\<lparr>f_priority := new_prio\<rparr>) s
          in do { s2 \<leftarrow> foldo (\<lambda>bid s. case get_farm_bck fid bid s of
                                        None \<Rightarrow> Some s
                                      | Some (_, b) \<Rightarrow>
                                          if b_state b = VALUE_STATE_UP \<or> b_state b = VALUE_STATE_AVAIL
                                          then set_state bid VALUE_STATE_UP s else Some s)
                          (bck_ids fid s) s1;
                  let s3 = upd_farm fid backend_s_update_counters s2;
                  Some (map_option f_priority (get_farm fid s3) \<noteq> Some old_prio, s3) })"

definition s_set_netinfo_call ::
  "set_state_call \<Rightarrow> netenv \<Rightarrow> oid \<Rightarrow> objs \<Rightarrow> objs option" where
  "s_set_netinfo_call set_state env fid s =
     foldo (\<lambda>bid s. case get_farm_bck fid bid s of
                      None \<Rightarrow> Some s
                    | Some (f, b) \<Rightarrow>
                        if backend_validate f b then Some s
                        else
                          let r1 = backend_set_ifinfo env bid f;
                              r2 = (if fst r1 then backend_set_ipaddr_from_ether env s bid (snd r1)
                                    else (False, snd r1));
                              s1 = upd_farm fid (\<lambda>_. snd r2) s
                          in if fst r2
                             then (if map_option b_state (get_bck bid (snd r2)) = Some VALUE_STATE_CONFERR
                                   then set_state bid VALUE_STATE_UP s1 else Some s1)
                             else set_state bid VALUE_STATE_CONFERR s1)
       (bck_ids fid s) s"

definition set_netinfo_call ::
  "set_state_call \<Rightarrow> netenv \<Rightarrow> oid \<Rightarrow> objs \<Rightarrow> objs option" where
  "set_netinfo_call set_state env fid s =
     (case get_farm fid s of
        None \<Rightarrow> Some s
      | Some f \<Rightarrow>
          if f_state f \<noteq> VALUE_STATE_UP then Some s
          else
            let ingress = farm_is_ingress_mode f;
                r = (if ingress then farm_set_oface_info env f else (False, f));
                s1 = upd_farm fid (\<lambda>_. snd r) s
            in do { s2 \<leftarrow> (if ingress \<and> fst r
                            then s_set_netinfo_call set_state env fid
                                   (farm_manage_eventd
                                     (upd_farm fid (\<lambda>f. f\<lparr>f_bcks_have_if := backend_s_check_have_iface f\<rparr>) s1))
                            else Some s1);
                    Some (if farm_needs_flowtable f
                          then upd_farm fid (\<lambda>f. let f2 = snd (farm_set_oface_info env f)
                                                  in f2\<lparr>f_bcks_have_if := backend_s_check_have_iface f2\<rparr>) s2
                          else s2) })"

definition validate_call :: "set_state_call \<Rightarrow> oid \<Rightarrow> objs \<Rightarrow> objs option" where
  "validate_call set_state fid s =
     foldo (\<lambda>bid s. case get_farm_bck fid bid s of
                      None \<Rightarrow> Some s
                    | Some (f, b) \<Rightarrow>
                        if b_state b = VALUE_STATE_CONFERR \<and> backend_validate f b
                        then set_state bid VALUE_STATE_UP s else Some s)
       (bck_ids fid s) s"

definition set_action_call ::
  "set_state_call \<Rightarrow> netenv \<Rightarrow> oid \<Rightarrow> action \<Rightarrow> objs \<Rightarrow> (bool \<times> objs) option" where
  "set_action_call set_state env fid action s =
     (case get_farm fid s of
        None \<Rightarrow> Some (False, s)
      | Some f \<Rightarrow>
          let force = (action = ACTION_STOP \<and> f_state f = VALUE_STATE_CONFERR);
              s1 = (if force
                    then let (ok, s') = farm_validate fid (upd_farm fid (\<lambda>f. f\<lparr>f_policies_action := ACTION_NONE\<rparr>) s)
                         in if ok then upd_farm fid (\<lambda>f. f\<lparr>f_state := VALUE_STATE_UP\<rparr>) s' else s'
                    else s)
          in case get_farm fid s1 of
               None \<Rightarrow> Some (False, s1)
             | Some f1 \<Rightarrow>
                 if action = ACTION_STOP \<and> f_state f1 \<noteq> VALUE_STATE_UP then Some (False, s1)
                 else
                   let action = (if action = ACTION_RELOAD \<and> f_state f1 \<noteq> VALUE_STATE_UP \<and>
                                    f_state f1 \<noteq> VALUE_STATE_CONFERR
                                 then ACTION_START else action);
                       s2 = (if action \<noteq> ACTION_NONE \<and> action \<noteq> ACTION_RELOAD \<and> f_policies_used f1 \<noteq> 0
                             then upd_farm fid (\<lambda>f. f\<lparr>f_policies_action := action\<rparr>) s1 else s1)
                   in if action = ACTION_DELETE then Some (True, farm_delete fid s2)
                      else if f_action f1 > action \<or> force
                      then do { (_, s3) \<leftarrow> gen_priority_call set_state fid s2;
                                let s4 = upd_farm fid (\<lambda>f. f\<lparr>f_action := action\<rparr>) (farm_manage_eventd s3);
                                s5 \<leftarrow> set_netinfo_call set_state env fid s4;
                                s6 \<leftarrow> validate_call set_state fid s5;
                                Some (True, if action = ACTION_STOP \<or> action = ACTION_START
                                            then farmaddress_s_set_action fid action s6 else s6) }
                      else Some (False, s2))"

definition set_state_step ::
  "set_state_call \<Rightarrow> netenv \<Rightarrow> oid \<Rightarrow> oid \<Rightarrow> ostate \<Rightarrow> objs \<Rightarrow> objs option" where
  "set_state_step set_state env fid bid new_value s =
     (case get_farm_bck fid bid s of
        None \<Rightarrow> Some s
      | Some (f, b) \<Rightarrow>
          let old_value = b_state b;
              new_value = effective_state f b new_value
          in if old_value = new_value then Some s
             else
               let s1 = upd_farm fid (upd_bck bid (\<lambda>b. b\<lparr>b_state := new_value\<rparr>)) s;
                   s2 = (if new_value = VALUE_STATE_UP \<and> f_persistence f \<noteq> VALUE_META_NONE
                         then session_backend_action env fid bid ACTION_START s1 else s1);
                   act = state_action old_value new_value (b_action b);
                   s3 = upd_farm fid (upd_bck bid (\<lambda>b. b\<lparr>b_action := act\<rparr>)) s2
               in if new_value = VALUE_STATE_AVAIL then Some s3
                  else if act \<noteq> ACTION_NONE
                  then do { (_, s4) \<leftarrow> set_action_call set_state env fid ACTION_RELOAD s3;
                            (_, s5) \<leftarrow> gen_priority_call set_state fid s4;
                            Some s5 }
                  else Some s3)"

primrec backend_set_state :: "nat \<Rightarrow> netenv \<Rightarrow> oid \<Rightarrow> set_state_call" where
  "backend_set_state 0 env fid = (\<lambda>bid new_value s. None)"
| "backend_set_state (Suc n) env fid = set_state_step (backend_set_state n env fid) env fid"

definition backend_s_gen_priority :: "nat \<Rightarrow> netenv \<Rightarrow> oid \<Rightarrow> objs \<Rightarrow> (bool \<times> objs) option" where
  "backend_s_gen_priority n env fid = gen_priority_call (backend_set_state n env fid) fid"

definition farm_set_action :: "nat \<Rightarrow> netenv \<Rightarrow> oid \<Rightarrow> action \<Rightarrow> objs \<Rightarrow> (bool \<times> objs) option" where
  "farm_set_action n env fid = set_action_call (backend_set_state n env fid) env fid"

definition farm_set_netinfo :: "nat \<Rightarrow> netenv \<Rightarrow> oid \<Rightarrow> objs \<Rightarrow> objs option" where
  "farm_set_netinfo n env fid = set_netinfo_call (backend_set_state n env fid) env fid"

definition backend_s_set_netinfo :: "nat \<Rightarrow> netenv \<Rightarrow> oid \<Rightarrow> objs \<Rightarrow> objs option" where
  "backend_s_set_netinfo n env fid = s_set_netinfo_call (backend_set_state n env fid) env fid"

definition backend_s_validate :: "nat \<Rightarrow> netenv \<Rightarrow> oid \<Rightarrow> objs \<Rightarrow> objs option" where
  "backend_s_validate n env fid = validate_call (backend_set_state n env fid) fid"

end
