(* ===== verification/Failover.thy ===== *)
theory Failover
  imports Lifecycle
begin

text \<open>
  Failover of a NAT farm: what \<open>backend_set_state\<close>, \<open>backend_s_gen_priority\<close> and \<open>farm_set_action\<close>
  amount to together. On a farm whose backends are configured (\<open>calm\<close>) the tangle of nested calls
  returns, and its effect on the farm is the closed form \<open>settled\<close>.
\<close>

section \<open>Closed form\<close>

definition pool_prio :: "farm \<Rightarrow> int" where
  "pool_prio f = prio_loop (f_backends f) DEFAULT_PRIORITY"

definition settle_bck :: "int \<Rightarrow> backend \<Rightarrow> backend" where
  "settle_bck prio b =
     (if b_state b = VALUE_STATE_AVAIL \<and> b_priority b \<le> prio
      then b\<lparr>b_state := VALUE_STATE_UP, b_action := ACTION_START\<rparr>
      else if b_state b = VALUE_STATE_UP \<and> b_priority b > prio
      then b\<lparr>b_state := VALUE_STATE_AVAIL, b_action := ACTION_STOP\<rparr>
      else b)"

definition promotable :: "farm \<Rightarrow> nat" where
  "promotable f =
     length (filter (\<lambda>b. b_state b = VALUE_STATE_AVAIL \<and> b_priority b \<le> pool_prio f) (f_backends f))"

definition settle :: "farm \<Rightarrow> farm" where
  "settle f =
     backend_s_update_counters
       (f\<lparr>f_priority := pool_prio f, f_backends := map (settle_bck (pool_prio f)) (f_backends f)\<rparr>)"

text \<open>Promoting a backend leaves the farm with a reload pending.\<close>

definition pending :: "action \<Rightarrow> action" where
  "pending a = (if a > ACTION_RELOAD then ACTION_RELOAD else a)"

definition settled :: "farm \<Rightarrow> farm" where
  "settled f = (settle f)\<lparr>f_action := (if promotable f > 0 then pending (f_action f) else f_action f)\<rparr>"

text \<open>
  A NAT farm that is up, without flow offload and session persistence, whose running and available
  backends are valid and whose backends in configuration error are not.
\<close>

definition calm :: "farm \<Rightarrow> bool" where
  "calm f =
     (\<not> farm_is_ingress_mode f \<and> \<not> farm_needs_flowtable f \<and> f_state f = VALUE_STATE_UP \<and>
      f_persistence f = VALUE_META_NONE \<and> distinct (map b_id (f_backends f)) \<and>
      (\<forall>b \<in> set (f_backends f).
         (b_state b = VALUE_STATE_UP \<or> b_state b = VALUE_STATE_AVAIL \<longrightarrow> backend_validate f b) \<and>
         (b_state b = VALUE_STATE_CONFERR \<longrightarrow> \<not> backend_validate f b)))"

section \<open>Lemmas on the closed form\<close>

lemma prio_loop_cong:
  assumes "\<And>q. prio_down xs q = prio_down ys q"
  shows "prio_loop xs p = prio_loop ys p"
  using assms
proof (induction xs p rule: prio_loop.induct)
  case (1 xs p)
  show ?case
  proof (cases "prio_down xs p = 0")
    case True
    with 1(2) show ?thesis by (simp add: prio_loop.simps)
  next
    case False
    with 1 show ?thesis by (subst (1 2) prio_loop.simps) (simp add: Let_def)
  qed
qed

text \<open>A change of a backend the priority does not see: between running and available.\<close>

definition same_rank :: "backend \<Rightarrow> backend \<Rightarrow> bool" where
  "same_rank b c =
     (b_priority b = b_priority c \<and> b_id b = b_id c \<and>
      (b_state b = VALUE_STATE_UP \<or> b_state b = VALUE_STATE_AVAIL) =
      (b_state c = VALUE_STATE_UP \<or> b_state c = VALUE_STATE_AVAIL))"

lemma prio_down_map: "(\<And>b. b \<in> set bs \<Longrightarrow> same_rank (h b) b) \<Longrightarrow> prio_down (map h bs) q = prio_down bs q"
  unfolding prio_down_def same_rank_def by (induction bs) auto

lemma settle_bck_simps [simp]:
  "b_priority (settle_bck p b) = b_priority b" "b_id (settle_bck p b) = b_id b"
  "b_ipaddr (settle_bck p b) = b_ipaddr b" "b_ethaddr (settle_bck p b) = b_ethaddr b"
  "(b_state (settle_bck p b) = VALUE_STATE_UP \<or> b_state (settle_bck p b) = VALUE_STATE_AVAIL) =
   (b_state b = VALUE_STATE_UP \<or> b_state b = VALUE_STATE_AVAIL)"
  by (auto simp: settle_bck_def)

lemma settle_bck_idem [simp]: "settle_bck p (settle_bck p b) = settle_bck p b"
  by (simp add: settle_bck_def)

lemma settle_bck_fix:
  assumes "settle_bck p b = b" "b_state b = VALUE_STATE_AVAIL"
  shows "\<not> b_priority b \<le> p"
proof
  assume "b_priority b \<le> p"
  with assms(2) have "b_state (settle_bck p b) = VALUE_STATE_UP" by (simp add: settle_bck_def)
  with assms show False by simp
qed

lemma same_rank_settle [simp]: "same_rank (settle_bck p b) b"
  by (auto simp: same_rank_def settle_bck_def)

lemma pool_prio_map:
  "(\<And>b. b \<in> set (f_backends f) \<Longrightarrow> same_rank (h b) b) \<Longrightarrow> f_backends g = map h (f_backends f) \<Longrightarrow>
   pool_prio g = pool_prio f"
  unfolding pool_prio_def by (auto intro!: prio_loop_cong prio_down_map)

lemma update_counters_fields [simp]:
  "f_backends (backend_s_update_counters f) = f_backends f"
  "f_priority (backend_s_update_counters f) = f_priority f"
  "f_mode (backend_s_update_counters f) = f_mode f" "f_state (backend_s_update_counters f) = f_state f"
  "f_persistence (backend_s_update_counters f) = f_persistence f"
  "f_action (backend_s_update_counters f) = f_action f" "f_id (backend_s_update_counters f) = f_id f"
  "f_flow_offload (backend_s_update_counters f) = f_flow_offload f"
  by (simp_all add: backend_s_update_counters_eq)

lemma settle_fields [simp]:
  "f_backends (settle f) = map (settle_bck (pool_prio f)) (f_backends f)" "f_priority (settle f) = pool_prio f"
  "f_mode (settle f) = f_mode f" "f_state (settle f) = f_state f" "f_persistence (settle f) = f_persistence f"
  "f_action (settle f) = f_action f" "f_id (settle f) = f_id f" "f_flow_offload (settle f) = f_flow_offload f"
  by (simp_all add: settle_def)

lemma pool_prio_settle [simp]: "pool_prio (settle f) = pool_prio f"
  by (rule pool_prio_map [where h = "settle_bck (pool_prio f)"]) simp_all

lemma settled_prio: "f_priority (settle f) = prio_loop (f_backends (settle f)) DEFAULT_PRIORITY"
  using pool_prio_settle [of f] unfolding pool_prio_def [of "settle f"] by simp

lemma promotable_settle [simp]: "promotable (settle f) = 0"
  by (auto simp: promotable_def filter_empty_conv settle_bck_def)

text \<open>The settled farm depends on the backends and the fields settling leaves alone.\<close>

lemma pool_weight_cong:
  "f_backends g = f_backends f \<Longrightarrow> f_mode g = f_mode f \<Longrightarrow> f_priority g = f_priority f \<Longrightarrow> pool_weight g = pool_weight f"
  by (simp add: pool_weight_def backend_pred_cong [of g f])

lemma update_counters_override:
  "backend_s_update_counters (f\<lparr>f_bcks_available := a, f_total_weight := w, f_bcks_usable := u\<rparr>) =
   backend_s_update_counters f"
proof -
  let ?g = "f\<lparr>f_bcks_available := a, f_total_weight := w, f_bcks_usable := u\<rparr>"
  have p: "backend_is_available ?g = backend_is_available f" "backend_is_usable ?g = backend_is_usable f"
    by (rule backend_pred_cong; simp)+
  show ?thesis
    by (simp add: backend_s_update_counters_eq p pool_weight_cong [of ?g f])
qed

lemma update_counters_action:
  "backend_s_update_counters (f\<lparr>f_action := a\<rparr>) = (backend_s_update_counters f)\<lparr>f_action := a\<rparr>"
proof -
  let ?g = "f\<lparr>f_action := a\<rparr>"
  have p: "backend_is_available ?g = backend_is_available f" "backend_is_usable ?g = backend_is_usable f"
    by (rule backend_pred_cong; simp)+
  show ?thesis
    by (simp add: backend_s_update_counters_eq p pool_weight_cong [of ?g f])
qed

lemma update_counters_idem [simp]:
  "backend_s_update_counters (backend_s_update_counters f) = backend_s_update_counters f"
  using update_counters_override [where f = f] by (simp add: backend_s_update_counters_eq [of f])

lemma settle_over [simp]:
  "settle (f\<lparr>f_priority := p\<rparr>) = settle f" "pool_prio (f\<lparr>f_priority := p\<rparr>) = pool_prio f"
  "pool_prio (f\<lparr>f_action := a\<rparr>) = pool_prio f" "pool_prio (backend_s_update_counters f) = pool_prio f"
  "settle (f\<lparr>f_action := a\<rparr>) = (settle f)\<lparr>f_action := a\<rparr>"
proof -
  show [simp]: "pool_prio (f\<lparr>f_priority := p\<rparr>) = pool_prio f" "pool_prio (f\<lparr>f_action := a\<rparr>) = pool_prio f"
    "pool_prio (backend_s_update_counters f) = pool_prio f"
    by (simp_all add: pool_prio_def)
  show "settle (f\<lparr>f_priority := p\<rparr>) = settle f" by (simp add: settle_def)
  show "settle (f\<lparr>f_action := a\<rparr>) = (settle f)\<lparr>f_action := a\<rparr>"
    unfolding settle_def update_counters_action [symmetric] by (rule arg_cong) simp
qed

lemma settle_counters [simp]: "settle (backend_s_update_counters f) = settle f"
proof -
  let ?P = "pool_prio f" and ?bs = "map (settle_bck (pool_prio f)) (f_backends f)"
  have "(backend_s_update_counters f)\<lparr>f_priority := ?P, f_backends := ?bs\<rparr> =
        (f\<lparr>f_priority := ?P, f_backends := ?bs\<rparr>)
           \<lparr>f_bcks_available := f_bcks_available (backend_s_update_counters f),
            f_total_weight := f_total_weight (backend_s_update_counters f),
            f_bcks_usable := f_bcks_usable (backend_s_update_counters f)\<rparr>"
    by (simp add: backend_s_update_counters_eq)
  then show ?thesis unfolding settle_def by (simp add: update_counters_override)
qed

lemma settle_fixpoint:
  assumes "f_priority f = pool_prio f" "\<forall>b \<in> set (f_backends f). settle_bck (pool_prio f) b = b"
  shows "settle f = backend_s_update_counters f"
proof -
  have "map (settle_bck (pool_prio f)) (f_backends f) = f_backends f" using assms(2) by (simp add: map_idI)
  then have "f\<lparr>f_priority := pool_prio f, f_backends := map (settle_bck (pool_prio f)) (f_backends f)\<rparr> = f"
    using assms(1) by simp
  then show ?thesis by (simp add: settle_def)
qed

lemma settle_idem [simp]: "settle (settle f) = settle f"
proof -
  have "settle (settle f) = backend_s_update_counters (settle f)" by (rule settle_fixpoint) auto
  then show ?thesis by (simp add: settle_def)
qed

lemma settle_upd:
  assumes "\<And>b. b \<in> set (f_backends f) \<Longrightarrow> b_id b = bid \<Longrightarrow>
             same_rank (k b) b \<and> settle_bck (pool_prio f) (k b) = settle_bck (pool_prio f) b"
  shows "pool_prio (upd_bck bid k f) = pool_prio f" "settle (upd_bck bid k f) = settle f"
proof -
  let ?h = "\<lambda>b. if b_id b = bid then k b else b"
  have kb: "f_backends (upd_bck bid k f) = map ?h (f_backends f)" by (simp add: upd_bck_def kupd_def)
  have refl: "same_rank b b" for b by (simp add: same_rank_def)
  show P: "pool_prio (upd_bck bid k f) = pool_prio f"
    by (rule pool_prio_map [OF _ kb]) (use assms refl in auto)
  have "map (settle_bck (pool_prio f)) (map ?h (f_backends f)) = map (settle_bck (pool_prio f)) (f_backends f)"
    using assms by auto
  moreover have "(upd_bck bid k f)\<lparr>f_priority := p, f_backends := bs\<rparr> = f\<lparr>f_priority := p, f_backends := bs\<rparr>" for p bs
    by (simp add: upd_bck_def)
  ultimately show "settle (upd_bck bid k f) = settle f" unfolding settle_def P kb by (simp only:)
qed

lemma promotable_upd:
  assumes "pool_prio (upd_bck bid k f) = pool_prio f" "distinct (map b_id (f_backends f))" "get_bck bid f = Some b"
    "b_id (k b) = b_id b" "b_priority (k b) = b_priority b"
  shows "promotable (upd_bck bid k f) + of_bool (b_state b = VALUE_STATE_AVAIL \<and> b_priority b \<le> pool_prio f) =
         promotable f + of_bool (b_state (k b) = VALUE_STATE_AVAIL \<and> b_priority b \<le> pool_prio f)"
proof -
  have *: "length (filter Q (kupd b_id bid k xs)) + of_bool (Q b) = length (filter Q xs) + of_bool (Q (k b))"
    if "distinct (map b_id xs)" "kfind b_id bid xs = Some b" for Q and xs :: "backend list"
    using that
  proof (induction xs)
    case (Cons c xs)
    then have "b_id c = bid \<Longrightarrow> kupd b_id bid k xs = xs" by (intro kupd_absent) auto
    with Cons show ?case by (auto split: if_splits)
  qed simp
  show ?thesis
    using * [OF assms(2), of "\<lambda>b. b_state b = VALUE_STATE_AVAIL \<and> b_priority b \<le> pool_prio f"] assms
    by (simp add: promotable_def upd_bck_def get_bck_def)
qed

section \<open>The nested calls\<close>

lemma foldo_same: "(\<And>x. x \<in> set xs \<Longrightarrow> g x s = Some s) \<Longrightarrow> foldo g xs s = Some s"
  by (induction xs) auto

lemma manage_eventd_get [simp]: "get_farm fid (farm_manage_eventd s) = get_farm fid s"
  by (simp add: farm_manage_eventd_def farm_s_update_dsr_counter_def obj_set_dsr_counter_def get_farm_def Let_def)

lemma calm_cong:
  assumes "f_mode g = f_mode f" "f_state g = f_state f" "f_persistence g = f_persistence f"
    "f_flow_offload g = f_flow_offload f" "f_backends g = map h (f_backends f)"
    "\<And>b. b \<in> set (f_backends f) \<Longrightarrow> b_id (h b) = b_id b \<and> b_ipaddr (h b) = b_ipaddr b \<and> b_ethaddr (h b) = b_ethaddr b \<and>
       (h b = b \<or> (b_state b = VALUE_STATE_UP \<or> b_state b = VALUE_STATE_AVAIL) \<and> b_state (h b) \<noteq> VALUE_STATE_CONFERR)"
    "calm f"
  shows "calm g"
proof -
  have v: "backend_validate g (h b) = backend_validate f b" if "b \<in> set (f_backends f)" for b
    using assms(1) assms(6) [OF that] by (simp add: backend_validate_def farm_is_ingress_mode_def)
  have ids: "map b_id (f_backends g) = map b_id (f_backends f)" using assms(5,6) by simp
  have "(b_state (h b) = VALUE_STATE_UP \<or> b_state (h b) = VALUE_STATE_AVAIL \<longrightarrow> backend_validate g (h b)) \<and>
      (b_state (h b) = VALUE_STATE_CONFERR \<longrightarrow> \<not> backend_validate g (h b))" if "b \<in> set (f_backends f)" for b
    using v [OF that] assms(6) [OF that] assms(7) that by (auto simp: calm_def)
  then have "\<forall>b \<in> set (f_backends g). (b_state b = VALUE_STATE_UP \<or> b_state b = VALUE_STATE_AVAIL \<longrightarrow> backend_validate g b) \<and>
      (b_state b = VALUE_STATE_CONFERR \<longrightarrow> \<not> backend_validate g b)"
    using assms(5) by auto
  then show ?thesis
    using assms(1-4,7) ids unfolding calm_def farm_is_ingress_mode_def farm_needs_flowtable_def by metis
qed

lemma calm_simple:
  "calm f \<Longrightarrow> calm (f\<lparr>f_priority := p\<rparr>)" "calm f \<Longrightarrow> calm (f\<lparr>f_action := a\<rparr>)"
  "calm f \<Longrightarrow> calm (backend_s_update_counters f)"
  by (rule calm_cong [where h = id and f = f]; simp)+

lemma calm_settle: "calm f \<Longrightarrow> calm (settle f)"
  by (rule calm_cong [where h = "settle_bck (pool_prio f)" and f = f]) (auto simp: settle_bck_def)

lemma calm_upd:
  assumes "calm f" "\<And>b. b \<in> set (f_backends f) \<Longrightarrow> b_id b = bid \<Longrightarrow> b_state b = VALUE_STATE_UP \<or> b_state b = VALUE_STATE_AVAIL"
    "\<And>b. b_id (k b) = b_id b \<and> b_ipaddr (k b) = b_ipaddr b \<and> b_ethaddr (k b) = b_ethaddr b \<and> b_state (k b) \<noteq> VALUE_STATE_CONFERR"
  shows "calm (upd_bck bid k f)"
  by (rule calm_cong [where h = "\<lambda>b. if b_id b = bid then k b else b", OF _ _ _ _ _ _ assms(1)])
     (use assms(2,3) in \<open>auto simp: upd_bck_def kupd_def\<close>)

text \<open>On a calm farm neither the network information nor the validation changes anything.\<close>

lemma netinfo_calm:
  assumes "calm f" "get_farm fid s = Some f"
  shows "\<exists>s'. set_netinfo_call st env fid s = Some s' \<and> get_farm fid s' = Some f"
proof -
  have "get_farm fid (upd_farm fid (\<lambda>_. f) s) = Some f" using get_farm_put [OF assms(2)] by simp
  with assms show ?thesis by (simp add: set_netinfo_call_def calm_def Let_def)
qed

lemma validate_calm:
  assumes "calm f" "get_farm fid s = Some f"
  shows "validate_call st fid s = Some s"
  unfolding validate_call_def
proof (rule foldo_same)
  fix bid
  assume "bid \<in> set (bck_ids fid s)"
  show "(case get_farm_bck fid bid s of
           None \<Rightarrow> Some s
         | Some (f, b) \<Rightarrow> if b_state b = VALUE_STATE_CONFERR \<and> backend_validate f b
                          then st bid VALUE_STATE_UP s else Some s) = Some s"
    using assms bcks.lookup_mem [of bid "f_backends f"]
    by (auto simp: get_farm_bck_def get_bck_def calm_def bind_eq_Some_conv split: option.split)
qed

text \<open>A reload of a calm farm is a settling, and leaves the reload pending.\<close>

lemma reload_calm:
  assumes "calm f" "get_farm fid s = Some f"
    and gen: "\<And>s f. calm f \<Longrightarrow> get_farm fid s = Some f \<Longrightarrow> promotable f = k \<Longrightarrow>
               \<exists>r s'. gen_priority_call st fid s = Some (r, s') \<and> get_farm fid s' = Some (settled f)"
    and "promotable f = k"
  shows "\<exists>r s'. set_action_call st env fid ACTION_RELOAD s = Some (r, s') \<and>
           get_farm fid s' = Some ((if f_action f > ACTION_RELOAD then settle f else f)\<lparr>f_action := pending (f_action f)\<rparr>)"
proof (cases "f_action f > ACTION_RELOAD")
  case False
  with assms(1,2) have "set_action_call st env fid ACTION_RELOAD s = Some (False, s)"
    by (simp add: set_action_call_def calm_def Let_def)
  with False assms(2) show ?thesis by (intro exI [of _ False] exI [of _ s]) (simp add: pending_def)
next
  case True
  obtain r s3 where s3: "gen_priority_call st fid s = Some (r, s3)" "get_farm fid s3 = Some (settled f)"
    using gen [OF assms(1,2,4)] by blast
  let ?f4 = "(settle f)\<lparr>f_action := ACTION_RELOAD\<rparr>"
  let ?s4 = "upd_farm fid (\<lambda>f. f\<lparr>f_action := ACTION_RELOAD\<rparr>) (farm_manage_eventd s3)"
  have s4: "get_farm fid ?s4 = Some ?f4" using s3(2) by (simp add: get_farm_upd settled_def)
  have c4: "calm ?f4" using calm_simple(2) [OF calm_settle [OF assms(1)]] .
  obtain s5 where s5: "set_netinfo_call st env fid ?s4 = Some s5" "get_farm fid s5 = Some ?f4"
    using netinfo_calm [OF c4 s4] by blast
  have "set_action_call st env fid ACTION_RELOAD s = Some (True, s5)"
    using assms(1,2) True s3(1) s5(1) validate_calm [OF c4 s5(2)]
    by (simp add: set_action_call_def calm_def Let_def)
  with s5(2) True show ?thesis by (intro exI [of _ True] exI [of _ s5]) (simp add: pending_def)
qed

lemma promotable_over [simp]:
  "promotable (f\<lparr>f_action := a\<rparr>) = promotable f" "promotable (f\<lparr>f_priority := p\<rparr>) = promotable f"
  "promotable (backend_s_update_counters f) = promotable f"
  by (simp_all add: promotable_def)

lemma settled_fields [simp]:
  "f_backends (settled f) = map (settle_bck (pool_prio f)) (f_backends f)" "f_priority (settled f) = pool_prio f"
  "pool_prio (settled f) = pool_prio f" "promotable (settled f) = 0"
  by (simp_all add: settled_def)

lemma pending_idem [simp]: "pending (pending a) = pending a"
  by (simp add: pending_def)

lemma settled_idem [simp]: "settled (settled f) = settled f"
  unfolding settled_def [of "settled f"] settled_fields by (simp add: settled_def)

lemma calm_settled: "calm f \<Longrightarrow> calm (settled f)"
  unfolding settled_def by (intro calm_simple calm_settle)

text \<open>What one call of \<open>backend_set_state\<close> in the loop of \<open>backend_s_gen_priority\<close> does.\<close>

definition gen_ok :: "set_state_call \<Rightarrow> oid \<Rightarrow> nat \<Rightarrow> bool" where
  "gen_ok st fid m =
     (\<forall>f s. calm f \<and> get_farm fid s = Some f \<and> promotable f < m \<longrightarrow>
       (\<exists>r s'. gen_priority_call st fid s = Some (r, s') \<and> get_farm fid s' = Some (settled f)))"

lemma promote_step:
  assumes "gen_ok st fid m" "calm g" "get_farm fid s = Some g" "get_bck bid g = Some b"
    "f_priority g = pool_prio g" "promotable g \<le> m"
    "b_state b = VALUE_STATE_AVAIL" "b_priority b \<le> pool_prio g"
  shows "\<exists>s'. set_state_step st env fid bid VALUE_STATE_UP s = Some s' \<and> get_farm fid s' = Some (settled g)"
proof -
  let ?k = "\<lambda>b. b\<lparr>b_state := VALUE_STATE_UP, b_action := ACTION_START\<rparr>"
  let ?s3 = "upd_farm fid (upd_bck bid (\<lambda>b. b\<lparr>b_action := ACTION_START\<rparr>))
               (upd_farm fid (upd_bck bid (\<lambda>b. b\<lparr>b_state := VALUE_STATE_UP\<rparr>)) s)"
  let ?g1 = "upd_bck bid ?k g"
  have uniq: "c = b" if "c \<in> set (f_backends g)" "b_id c = bid" for c
    using that assms(2,4) bcks.lookup_mem [of bid "f_backends g" b]
    by (auto simp: calm_def get_bck_def distinct_map inj_on_def)
  have eff: "effective_state g b VALUE_STATE_UP = VALUE_STATE_UP"
    using assms(2,4,5,7,8) bcks.lookup_mem [of bid "f_backends g" b]
    by (auto simp: effective_state_def backend_below_prio_def calm_def get_bck_def)
  have g1: "pool_prio ?g1 = pool_prio g" "settle ?g1 = settle g"
    by (rule settle_upd; use uniq assms(7,8) in \<open>auto simp: same_rank_def settle_bck_def\<close>)+
  have c1: "calm ?g1" by (rule calm_upd [OF assms(2)]) (use uniq assms(7) in auto)
  have p1: "promotable ?g1 + 1 = promotable g"
    using promotable_upd [OF g1(1) _ assms(4)] assms(2,7,8) by (simp add: calm_def)
  have s3: "get_farm fid ?s3 = Some ?g1"
    using assms(3) by (simp add: get_farm_upd upd_bck_def kupd_def comp_def if_distrib cong: if_cong)
  have gen: "\<exists>r s'. gen_priority_call st fid s = Some (r, s') \<and> get_farm fid s' = Some (settled f)"
    if "calm f" "get_farm fid s = Some f" "promotable f < m" for f s
    using assms(1) that by (auto simp: gen_ok_def)
  have a1: "f_action ?g1 = f_action g" by (simp add: upd_bck_def)
  obtain r4 s4 where s4: "set_action_call st env fid ACTION_RELOAD ?s3 = Some (r4, s4)"
    "get_farm fid s4 = Some ((if f_action g > ACTION_RELOAD then settle ?g1 else ?g1)\<lparr>f_action := pending (f_action g)\<rparr>)"
    (is "_ = Some ?g4")
    using reload_calm [OF c1 s3 gen refl, of env] p1 assms(6) a1 by auto
  have c4: "calm ?g4" using c1 by (auto intro: calm_simple calm_settle)
  have p4: "promotable ?g4 \<le> promotable ?g1" by simp
  obtain r5 s5 where s5: "gen_priority_call st fid s4 = Some (r5, s5)" "get_farm fid s5 = Some (settled ?g4)"
    using gen [OF c4 s4(2)] p4 p1 assms(6) by auto
  have "settle ?g4 = (settle g)\<lparr>f_action := pending (f_action g)\<rparr>" using g1(2) by simp
  then have "settled ?g4 = settled g" using p1 by (simp add: settled_def)
  with assms(2,3,4,7) eff s4(1) s5 show ?thesis
    by (simp add: set_state_step_def get_farm_bck_def calm_def Let_def)
qed

text \<open>The other backends: running and available ones beyond the priority are taken out quietly.\<close>

lemma rest_step:
  assumes "calm g" "get_farm fid s = Some g" "get_bck bid g = Some b"
    "f_priority g = pool_prio g" "b_state b = VALUE_STATE_UP \<or> b_state b = VALUE_STATE_AVAIL"
    "\<not> (b_state b = VALUE_STATE_AVAIL \<and> b_priority b \<le> pool_prio g)"
  shows "\<exists>s'. set_state_step st env fid bid VALUE_STATE_UP s = Some s' \<and>
           get_farm fid s' = Some (upd_bck bid (settle_bck (pool_prio g)) g)"
proof -
  have m: "b \<in> set (f_backends g)" "b_id b = bid"
    using bcks.lookup_mem [of bid "f_backends g" b] assms(3) by (auto simp: get_bck_def)
  have uniq: "c = b" if "c \<in> set (f_backends g)" "b_id c = bid" for c
    using that m assms(1) by (auto simp: calm_def distinct_map inj_on_def)
  have v: "backend_validate g b" using m assms(1,5) by (auto simp: calm_def)
  have up: "upd_bck bid k g = upd_bck bid k' g" if "k b = k' b" for k k'
  proof -
    have "kupd b_id bid k (f_backends g) = kupd b_id bid k' (f_backends g)"
      unfolding kupd_def using that uniq by (intro map_cong) auto
    then show ?thesis by (simp add: upd_bck_def)
  qed
  show ?thesis
  proof (cases "b_state b = VALUE_STATE_UP \<and> b_priority b > pool_prio g")
    case True
    let ?s3 = "upd_farm fid (upd_bck bid (\<lambda>b. b\<lparr>b_action := ACTION_STOP\<rparr>))
                 (upd_farm fid (upd_bck bid (\<lambda>b. b\<lparr>b_state := VALUE_STATE_AVAIL\<rparr>)) s)"
    have "get_farm fid ?s3 = Some (upd_bck bid (\<lambda>b. b\<lparr>b_state := VALUE_STATE_AVAIL, b_action := ACTION_STOP\<rparr>) g)"
      using assms(2) by (simp add: get_farm_upd upd_bck_def kupd_def comp_def if_distrib cong: if_cong)
    moreover have "set_state_step st env fid bid VALUE_STATE_UP s = Some ?s3"
      using assms(2-4) True by (simp add: set_state_step_def get_farm_bck_def effective_state_def backend_below_prio_def Let_def)
    moreover have "upd_bck bid (\<lambda>b. b\<lparr>b_state := VALUE_STATE_AVAIL, b_action := ACTION_STOP\<rparr>) g =
                   upd_bck bid (settle_bck (pool_prio g)) g"
      by (rule up) (use True in \<open>simp add: settle_bck_def\<close>)
    ultimately show ?thesis by metis
  next
    case False
    with assms(2-6) v have "set_state_step st env fid bid VALUE_STATE_UP s = Some s"
      by (auto simp: set_state_step_def get_farm_bck_def effective_state_def backend_below_prio_def Let_def)
    moreover have "upd_bck bid (settle_bck (pool_prio g)) g = upd_bck bid id g"
      by (rule up) (use False assms(5,6) in \<open>auto simp: settle_bck_def\<close>)
    moreover have "upd_bck bid id g = g" by (simp add: upd_bck_def kupd_def id_def)
    ultimately show ?thesis using assms(2) by auto
  qed
qed

text \<open>The invariant of the loop: the settled form stays, and the backends already visited are settled.\<close>

definition loop_inv :: "nat \<Rightarrow> farm \<Rightarrow> oid list \<Rightarrow> farm \<Rightarrow> bool" where
  "loop_inv m F ids g =
     (calm g \<and> f_priority g = pool_prio g \<and> settled g = F \<and> promotable g \<le> m \<and>
      (\<forall>b \<in> set (f_backends g). b_id b \<notin> set ids \<longrightarrow> settle_bck (pool_prio g) b = b))"

lemma loop_inv_settled: "calm g \<Longrightarrow> settled g = F \<Longrightarrow> loop_inv m F ids F"
  by (auto simp: loop_inv_def calm_settled)

lemma loop_inv_rest:
  assumes "loop_inv m F (bid # ids) g"
    "\<And>b. b \<in> set (f_backends g) \<Longrightarrow> b_id b = bid \<Longrightarrow> \<not> (b_state b = VALUE_STATE_AVAIL \<and> b_priority b \<le> pool_prio g)"
    "get_bck bid g = Some b" "b_state b = VALUE_STATE_UP \<or> b_state b = VALUE_STATE_AVAIL"
  shows "loop_inv m F ids (upd_bck bid (settle_bck (pool_prio g)) g)" (is "loop_inv m F ids ?h")
proof -
  have h: "pool_prio ?h = pool_prio g" "settle ?h = settle g" by (rule settle_upd; simp)+
  have m: "b \<in> set (f_backends g)" "b_id b = bid"
    using bcks.lookup_mem [of bid "f_backends g" b] assms(3) by (auto simp: get_bck_def)
  then have "\<forall>c \<in> set (f_backends g). b_id c = bid \<longrightarrow> c = b"
    using assms(1) by (auto simp: loop_inv_def calm_def distinct_map inj_on_def)
  then have only: "\<And>c. c \<in> set (f_backends g) \<Longrightarrow> b_id c = bid \<Longrightarrow> c = b" by blast
  have kb: "f_backends ?h = map (\<lambda>c. if b_id c = bid then settle_bck (pool_prio g) c else c) (f_backends g)"
    by (simp add: upd_bck_def kupd_def)
  have c: "calm ?h"
  proof (rule calm_cong [OF _ _ _ _ kb])
    fix c
    assume "c \<in> set (f_backends g)"
    with only have "b_id c = bid \<Longrightarrow> c = b" by blast
    then show "b_id (if b_id c = bid then settle_bck (pool_prio g) c else c) = b_id c \<and>
      b_ipaddr (if b_id c = bid then settle_bck (pool_prio g) c else c) = b_ipaddr c \<and>
      b_ethaddr (if b_id c = bid then settle_bck (pool_prio g) c else c) = b_ethaddr c \<and>
      ((if b_id c = bid then settle_bck (pool_prio g) c else c) = c \<or>
       (b_state c = VALUE_STATE_UP \<or> b_state c = VALUE_STATE_AVAIL) \<and>
       b_state (if b_id c = bid then settle_bck (pool_prio g) c else c) \<noteq> VALUE_STATE_CONFERR)"
      using assms(4) by (auto simp: settle_bck_def)
  qed (use assms(1) in \<open>simp_all add: upd_bck_def loop_inv_def\<close>)
  have p: "promotable ?h = promotable g"
    using promotable_upd [OF h(1) _ assms(3)] assms(1,2) m
    by (auto simp: loop_inv_def calm_def settle_bck_def split: if_splits)
  have "f_action ?h = f_action g" "f_priority ?h = f_priority g" by (simp_all add: upd_bck_def)
  then show ?thesis
    using assms(1) h c p by (auto simp: loop_inv_def settled_def upd_bck_def kupd_def)
qed

lemma loop_ok:
  assumes "gen_ok (backend_set_state n env fid) fid n"
    "loop_inv n F ids g" "get_farm fid s = Some g" "set ids \<subseteq> b_id ` set (f_backends g)"
  shows "\<exists>s' g'. foldo (\<lambda>bid s. case get_farm_bck fid bid s of
                              None \<Rightarrow> Some s
                            | Some (_, b) \<Rightarrow>
                                if b_state b = VALUE_STATE_UP \<or> b_state b = VALUE_STATE_AVAIL
                                then backend_set_state (Suc n) env fid bid VALUE_STATE_UP s else Some s) ids s = Some s' \<and>
           get_farm fid s' = Some g' \<and> loop_inv n F [] g'"
  using assms(2-4)
proof (induction ids arbitrary: g s)
  case Nil
  then show ?case by auto
next
  case (Cons bid ids)
  from Cons.prems(3) obtain b where b: "get_bck bid g = Some b"
    using bcks.lookup_absent [of bid "f_backends g"] by (cases "get_bck bid g") (auto simp: get_bck_def)
  let ?st = "backend_set_state n env fid"
  have m: "b \<in> set (f_backends g)" "b_id b = bid"
    using bcks.lookup_mem [of bid "f_backends g" b] b by (auto simp: get_bck_def)
  have inv: "calm g" "f_priority g = pool_prio g" "promotable g \<le> n" "settled g = F"
    using Cons.prems(1) by (auto simp: loop_inv_def)
  have uniq: "\<And>c. c \<in> set (f_backends g) \<Longrightarrow> b_id c = bid \<Longrightarrow> c = b"
    using m inv(1) by (auto simp: calm_def distinct_map inj_on_def)
  have ids: "b_id ` set (f_backends (settled g)) = b_id ` set (f_backends g)"
    "b_id ` set (f_backends (upd_bck bid (settle_bck p) g)) = b_id ` set (f_backends g)" for p
    using bcks.keys_modify [of "settle_bck p" bid "f_backends g" for p] list.set_map
    by (auto simp: upd_bck_def image_image) (metis (no_types) image_eqI list.set_map)+
  consider (skip) "b_state b \<noteq> VALUE_STATE_UP" "b_state b \<noteq> VALUE_STATE_AVAIL"
    | (promote) "b_state b = VALUE_STATE_AVAIL" "b_priority b \<le> pool_prio g"
    | (rest) "b_state b = VALUE_STATE_UP \<or> b_state b = VALUE_STATE_AVAIL"
        "\<not> (b_state b = VALUE_STATE_AVAIL \<and> b_priority b \<le> pool_prio g)" by blast
  then show ?case
  proof cases
    case skip
    then have "loop_inv n F ids g"
      using Cons.prems(1) uniq by (auto simp: loop_inv_def settle_bck_def)
    with skip b Cons show ?thesis by (simp add: get_farm_bck_def)
  next
    case promote
    obtain s1 where s1: "set_state_step ?st env fid bid VALUE_STATE_UP s = Some s1" "get_farm fid s1 = Some (settled g)"
      using promote_step [OF assms(1) inv(1) Cons.prems(2) b inv(2,3) promote] by blast
    then show ?thesis
      using Cons.IH [of "settled g" s1] loop_inv_settled [OF inv(1,4)] Cons.prems b promote inv(4) ids(1)
      by (simp add: get_farm_bck_def)
  next
    case rest
    obtain s1 where s1: "set_state_step ?st env fid bid VALUE_STATE_UP s = Some s1"
      "get_farm fid s1 = Some (upd_bck bid (settle_bck (pool_prio g)) g)"
      using rest_step [OF inv(1) Cons.prems(2) b inv(2) rest] by blast
    have "loop_inv n F ids (upd_bck bid (settle_bck (pool_prio g)) g)"
      by (rule loop_inv_rest [OF Cons.prems(1) _ b rest(1)]) (use uniq rest(2) in blast)
    then show ?thesis
      using Cons.IH [OF _ s1(2)] s1(1) Cons.prems b rest(1) ids(2) by (auto simp: get_farm_bck_def)
  qed
qed

theorem gen_priority_settles:
  "gen_ok (backend_set_state n env fid) fid n"
proof (induction n)
  case 0
  then show ?case by (simp add: gen_ok_def)
next
  case (Suc n)
  show ?case unfolding gen_ok_def
  proof (intro allI impI, elim conjE)
    fix f s
    assume f: "calm f" "get_farm fid s = Some f" "promotable f < Suc n"
    let ?f1 = "f\<lparr>f_priority := pool_prio f\<rparr>" and ?s1 = "upd_farm fid (\<lambda>f'. f'\<lparr>f_priority := pool_prio f\<rparr>) s"
    have s1: "get_farm fid ?s1 = Some ?f1" using f(2) by (simp add: get_farm_upd)
    have inv: "loop_inv n (settled f) (bck_ids fid s) ?f1"
      using f calm_simple(1) [OF f(1)] by (simp add: loop_inv_def settled_def bck_ids_def)
    obtain s2 g where s2: "foldo (\<lambda>bid s. case get_farm_bck fid bid s of
                              None \<Rightarrow> Some s
                            | Some (_, b) \<Rightarrow>
                                if b_state b = VALUE_STATE_UP \<or> b_state b = VALUE_STATE_AVAIL
                                then backend_set_state (Suc n) env fid bid VALUE_STATE_UP s else Some s) (bck_ids fid s) ?s1 = Some s2"
      "get_farm fid s2 = Some g" "loop_inv n (settled f) [] g"
      using loop_ok [OF Suc inv s1] f(2) by (auto simp: bck_ids_def)
    have "settle g = backend_s_update_counters g"
      using s2(3) by (intro settle_fixpoint) (auto simp: loop_inv_def)
    moreover have "promotable g = 0"
      using s2(3) settle_bck_fix by (auto simp: loop_inv_def promotable_def filter_empty_conv)
    moreover have "(backend_s_update_counters g)\<lparr>f_action := f_action g\<rparr> = backend_s_update_counters g"
      using update_counters_action [where f = g and a = "f_action g"] by simp
    ultimately have "settled g = backend_s_update_counters g" by (simp add: settled_def)
    then have "backend_s_update_counters g = settled f" using s2(3) by (simp add: loop_inv_def)
    then have "get_farm fid (upd_farm fid backend_s_update_counters s2) = Some (settled f)"
      using s2(2) by (simp add: get_farm_upd)
    with s2(1) f(2) show "\<exists>r s'. gen_priority_call (backend_set_state (Suc n) env fid) fid s = Some (r, s') \<and>
        get_farm fid s' = Some (settled f)"
      unfolding gen_priority_call_def by (simp add: Let_def pool_prio_def del: backend_set_state.simps)
  qed
qed

lemma settles:
  assumes "calm f" "get_farm fid s = Some f" "promotable f < n"
  shows "\<exists>r s'. gen_priority_call (backend_set_state n env fid) fid s = Some (r, s') \<and> get_farm fid s' = Some (settled f)"
  using gen_priority_settles [of n env fid] assms by (auto simp: gen_ok_def)

lemma promotable_le: "promotable f \<le> length (f_backends f)"
  by (simp add: promotable_def)

text \<open>A backend that changes to a state other than available.\<close>

definition moved :: "oid \<Rightarrow> ostate \<Rightarrow> action \<Rightarrow> farm \<Rightarrow> farm" where
  "moved bid v a f = upd_bck bid (\<lambda>b. b\<lparr>b_state := v, b_action := a\<rparr>) f"

lemma set_state_settles:
  assumes "calm f" "get_farm fid s = Some f" "get_bck bid f = Some b"
    "effective_state f b v = v'" "v' \<noteq> b_state b" "v' \<noteq> VALUE_STATE_AVAIL"
    "state_action (b_state b) v' (b_action b) = a" "a \<noteq> ACTION_NONE"
    "calm (moved bid v' a f)" "length (f_backends f) < n"
  shows "\<exists>s'. backend_set_state (Suc n) env fid bid v s = Some s' \<and>
           get_farm fid s' = Some ((settle (moved bid v' a f))\<lparr>f_action := pending (f_action f)\<rparr>)"
proof -
  let ?st = "backend_set_state n env fid" and ?g1 = "moved bid v' a f"
  let ?s3 = "upd_farm fid (upd_bck bid (\<lambda>b. b\<lparr>b_action := a\<rparr>)) (upd_farm fid (upd_bck bid (\<lambda>b. b\<lparr>b_state := v'\<rparr>)) s)"
  have s3: "get_farm fid ?s3 = Some ?g1"
    using assms(2) by (simp add: get_farm_upd moved_def upd_bck_def kupd_def comp_def if_distrib cong: if_cong)
  have g1: "f_action ?g1 = f_action f" "length (f_backends ?g1) = length (f_backends f)"
    by (simp_all add: moved_def upd_bck_def kupd_def)
  have small: "promotable ?g1 < n" using promotable_le [of ?g1] g1(2) assms(10) by simp
  obtain r4 s4 where s4: "set_action_call ?st env fid ACTION_RELOAD ?s3 = Some (r4, s4)"
    "get_farm fid s4 = Some ((if f_action f > ACTION_RELOAD then settle ?g1 else ?g1)\<lparr>f_action := pending (f_action f)\<rparr>)"
    (is "_ = Some ?g4")
    using reload_calm [OF assms(9) s3 settles refl, of n env env] small g1(1) by auto
  have c4: "calm ?g4" using assms(9) by (auto intro: calm_simple calm_settle)
  have p4: "promotable ?g4 \<le> promotable ?g1" by simp
  obtain r5 s5 where s5: "gen_priority_call ?st fid s4 = Some (r5, s5)" "get_farm fid s5 = Some (settled ?g4)"
    using settles [OF c4 s4(2), of n env] p4 small by auto
  have "settle ?g4 = (settle ?g1)\<lparr>f_action := pending (f_action f)\<rparr>" by simp
  then have "settled ?g4 = (settle ?g1)\<lparr>f_action := pending (f_action f)\<rparr>" by (simp add: settled_def)
  with assms(1-8) s4(1) s5 show ?thesis
    by (simp add: set_state_step_def get_farm_bck_def calm_def Let_def)
qed

lemma moved_backends:
  "f_backends (moved bid v a f) = map (\<lambda>c. if b_id c = bid then c\<lparr>b_state := v, b_action := a\<rparr> else c) (f_backends f)"
  by (simp add: moved_def upd_bck_def kupd_def)

lemma calm_moved:
  assumes "calm f" "get_bck bid f = Some b"
    "v = VALUE_STATE_UP \<or> v = VALUE_STATE_AVAIL \<Longrightarrow> backend_validate f b" "v \<noteq> VALUE_STATE_CONFERR"
  shows "calm (moved bid v a f)"
proof -
  have m: "b \<in> set (f_backends f)" "b_id b = bid"
    using bcks.lookup_mem [of bid "f_backends f" b] assms(2) by (auto simp: get_bck_def)
  then have uniq: "\<And>c. c \<in> set (f_backends f) \<Longrightarrow> b_id c = bid \<Longrightarrow> c = b"
    using assms(1) by (auto simp: calm_def distinct_map inj_on_def)
  have ids: "map b_id (f_backends (moved bid v a f)) = map b_id (f_backends f)"
    by (simp add: moved_backends)
  have v: "backend_validate (moved bid v a f) = backend_validate f"
    "backend_validate f (c\<lparr>b_state := w, b_action := a\<rparr>) = backend_validate f c" for c w
    by (auto simp: backend_validate_def farm_is_ingress_mode_def moved_def upd_bck_def fun_eq_iff)
  have "\<forall>c \<in> set (f_backends (moved bid v a f)).
         (b_state c = VALUE_STATE_UP \<or> b_state c = VALUE_STATE_AVAIL \<longrightarrow> backend_validate (moved bid v a f) c) \<and>
         (b_state c = VALUE_STATE_CONFERR \<longrightarrow> \<not> backend_validate (moved bid v a f) c)"
    using assms(1,3,4) uniq unfolding v by (auto simp: moved_backends v calm_def)
  with assms(1) ids show ?thesis
    by (auto simp: calm_def moved_def upd_bck_def farm_is_ingress_mode_def farm_needs_flowtable_def)
qed

section \<open>Failover and failback\<close>

text \<open>
  (C2) Failover. On a running NAT farm whose backends are configured, taking a running backend down
  always returns, whatever was pending on the farm, and leaves the pool exactly right: the backend is
  down with a stop pending; the priority of the farm is the fallback priority of the new pool; of the
  other backends, those that were running or available run when their priority is within it, and
  wait as available otherwise, with a start or stop pending exactly where that is a change; no other
  backend changes; the counters are those of the new pool, and at least a reload is pending on the farm.
\<close>

theorem failover:
  assumes "calm f" "get_farm fid s = Some f" "get_bck bid f = Some b" "b_state b = VALUE_STATE_UP"
    "length (f_backends f) < n"
  shows "\<exists>s' g. backend_set_state (Suc n) env fid bid VALUE_STATE_DOWN s = Some s' \<and> get_farm fid s' = Some g \<and>
     f_priority g = prio_loop (f_backends g) DEFAULT_PRIORITY \<and>
     f_backends g = map (\<lambda>c. if b_id c = bid then c\<lparr>b_state := VALUE_STATE_DOWN, b_action := ACTION_STOP\<rparr>
                             else settle_bck (f_priority g) c) (f_backends f) \<and>
     backend_s_update_counters g = g \<and> f_action g \<le> ACTION_RELOAD"
proof -
  let ?g1 = "moved bid VALUE_STATE_DOWN ACTION_STOP f"
  let ?g = "(settle ?g1)\<lparr>f_action := pending (f_action f)\<rparr>"
  have c1: "calm ?g1" by (rule calm_moved [OF assms(1,3)]) simp_all
  obtain s' where s': "backend_set_state (Suc n) env fid bid VALUE_STATE_DOWN s = Some s'" "get_farm fid s' = Some ?g"
    using set_state_settles [OF assms(1-3) _ _ _ _ _ c1 assms(5), of VALUE_STATE_DOWN env] assms(4)
    by (auto simp: effective_state_def)
  have "f_priority ?g = prio_loop (f_backends ?g) DEFAULT_PRIORITY"
    using settled_prio [of ?g1] by simp
  moreover have "f_backends ?g = map (\<lambda>c. if b_id c = bid then c\<lparr>b_state := VALUE_STATE_DOWN, b_action := ACTION_STOP\<rparr>
                             else settle_bck (f_priority ?g) c) (f_backends f)"
    by (auto simp: moved_backends settle_bck_def)
  moreover have "backend_s_update_counters ?g = ?g"
    unfolding update_counters_action by (simp add: settle_def)
  moreover have "f_action ?g \<le> ACTION_RELOAD" by (simp add: pending_def not_less)
  ultimately show ?thesis using s' by blast
qed

text \<open>A farm with a master and a backup, used by the examples below.\<close>

definition pair_farm :: "ostate \<Rightarrow> ostate \<Rightarrow> int \<Rightarrow> farm" where
  "pair_farm s1 s2 prio = new_farm 0 ''lb''\<lparr>f_state := VALUE_STATE_UP, f_priority := prio,
     f_backends := [new_backend 1 ''b1'' 1\<lparr>b_ipaddr := Some ''10.0.0.1'', b_state := s1\<rparr>,
                    new_backend 2 ''b2'' 2\<lparr>b_ipaddr := Some ''10.0.0.2'', b_priority := 2, b_state := s2\<rparr>]\<rparr>"

lemma pair_farm_calm:
  "s1 \<noteq> VALUE_STATE_CONFERR \<Longrightarrow> s2 \<noteq> VALUE_STATE_CONFERR \<Longrightarrow> calm (pair_farm s1 s2 prio)"
  by (simp add: calm_def pair_farm_def new_farm_def new_backend_def backend_validate_def
      farm_is_ingress_mode_def farm_needs_flowtable_def)

lemma pair_farm_get:
  "get_farm 0 (objects_init\<lparr>farms := [pair_farm s1 s2 prio]\<rparr>) = Some (pair_farm s1 s2 prio)"
  by (simp add: get_farm_def pair_farm_def new_farm_def)

lemma pair_farm_bck:
  "get_bck 1 (pair_farm s1 s2 prio) = Some (new_backend 1 ''b1'' 1\<lparr>b_ipaddr := Some ''10.0.0.1'', b_state := s1\<rparr>)"
  "length (f_backends (pair_farm s1 s2 prio)) = 2"
  by (simp_all add: get_bck_def pair_farm_def new_backend_def)

theorem failover_witness:
  "\<exists>s' g. backend_set_state 4 offline 0 1 VALUE_STATE_DOWN
        (objects_init\<lparr>farms := [pair_farm VALUE_STATE_UP VALUE_STATE_AVAIL 1]\<rparr>) = Some s' \<and>
      get_farm 0 s' = Some g \<and> f_priority g = 2 \<and> map b_state (f_backends g) = [VALUE_STATE_DOWN, VALUE_STATE_UP]"
proof -
  let ?f = "pair_farm VALUE_STATE_UP VALUE_STATE_AVAIL 1"
  have small: "length (f_backends ?f) < 3" by (simp add: pair_farm_bck)
  obtain s' g where g: "backend_set_state (Suc 3) offline 0 1 VALUE_STATE_DOWN (objects_init\<lparr>farms := [?f]\<rparr>) = Some s'"
    "get_farm 0 s' = Some g" "f_priority g = prio_loop (f_backends g) DEFAULT_PRIORITY"
    "f_backends g = map (\<lambda>c. if b_id c = 1 then c\<lparr>b_state := VALUE_STATE_DOWN, b_action := ACTION_STOP\<rparr>
                             else settle_bck (f_priority g) c) (f_backends ?f)"
    using failover [OF pair_farm_calm pair_farm_get pair_farm_bck(1) _ small, of offline]
    by auto
  let ?b1 = "new_backend 1 ''b1'' 1\<lparr>b_ipaddr := Some ''10.0.0.1'', b_state := VALUE_STATE_DOWN, b_action := ACTION_STOP\<rparr>"
  let ?b2 = "new_backend 2 ''b2'' 2\<lparr>b_ipaddr := Some ''10.0.0.2'', b_priority := 2, b_state := VALUE_STATE_AVAIL\<rparr>"
  have bs: "f_backends g = [?b1, settle_bck (f_priority g) ?b2]"
    using g(4) by (simp add: pair_farm_def new_backend_def)
  have "prio_down [?b1, settle_bck q ?b2] r = (if r = 1 then 1 else 0)" for q r
    by (simp add: prio_down_def new_backend_def settle_bck_def)
  then have "prio_loop [?b1, settle_bck q ?b2] DEFAULT_PRIORITY = 2" for q
    by (simp add: prio_loop.simps)
  then have p: "f_priority g = 2" using g(3) bs by simp
  have "map b_state (f_backends g) = [VALUE_STATE_DOWN, VALUE_STATE_UP]"
    using bs p by (simp add: new_backend_def settle_bck_def)
  with g(1,2) p show ?thesis by (auto simp: numeral_eq_Suc)
qed

text \<open>
  (C18) Failback. On such a farm a valid backend that was down and is within the current priority comes
  back: the call returns, the backend is started, the priority of the farm is again the fallback
  priority of the new pool, and every running or available backend, the returning one included, runs
  exactly when it is within it.
\<close>

theorem failback:
  assumes "calm f" "get_farm fid s = Some f" "get_bck bid f = Some b" "b_state b = VALUE_STATE_DOWN"
    "backend_validate f b" "b_priority b \<le> f_priority f" "length (f_backends f) < n"
  shows "\<exists>s' g. backend_set_state (Suc n) env fid bid VALUE_STATE_UP s = Some s' \<and> get_farm fid s' = Some g \<and>
     f_priority g = prio_loop (f_backends g) DEFAULT_PRIORITY \<and>
     f_backends g = map (\<lambda>c. settle_bck (f_priority g)
                               (if b_id c = bid then c\<lparr>b_state := VALUE_STATE_UP, b_action := ACTION_START\<rparr> else c))
                        (f_backends f) \<and>
     backend_s_update_counters g = g \<and> f_action g \<le> ACTION_RELOAD"
proof -
  let ?g1 = "moved bid VALUE_STATE_UP ACTION_START f"
  let ?g = "(settle ?g1)\<lparr>f_action := pending (f_action f)\<rparr>"
  have c1: "calm ?g1" by (rule calm_moved [OF assms(1,3)]) (simp_all add: assms(5))
  obtain s' where s': "backend_set_state (Suc n) env fid bid VALUE_STATE_UP s = Some s'" "get_farm fid s' = Some ?g"
    using set_state_settles [OF assms(1-3) _ _ _ _ _ c1 assms(7), of VALUE_STATE_UP env] assms(4-6)
    by (auto simp: effective_state_def backend_below_prio_def)
  have "f_priority ?g = prio_loop (f_backends ?g) DEFAULT_PRIORITY"
    using settled_prio [of ?g1] by simp
  moreover have "f_backends ?g = map (\<lambda>c. settle_bck (f_priority ?g)
      (if b_id c = bid then c\<lparr>b_state := VALUE_STATE_UP, b_action := ACTION_START\<rparr> else c)) (f_backends f)"
    by (simp add: moved_backends)
  moreover have "backend_s_update_counters ?g = ?g"
    unfolding update_counters_action by (simp add: settle_def)
  moreover have "f_action ?g \<le> ACTION_RELOAD" by (simp add: pending_def not_less)
  ultimately show ?thesis using s' by blast
qed

theorem failback_witness:
  "\<exists>s' g. backend_set_state 4 offline 0 1 VALUE_STATE_UP
        (objects_init\<lparr>farms := [pair_farm VALUE_STATE_DOWN VALUE_STATE_UP 2]\<rparr>) = Some s' \<and>
      get_farm 0 s' = Some g \<and> f_priority g = 1 \<and> map b_state (f_backends g) = [VALUE_STATE_UP, VALUE_STATE_AVAIL]"
proof -
  let ?f = "pair_farm VALUE_STATE_DOWN VALUE_STATE_UP 2"
  let ?b1 = "new_backend 1 ''b1'' 1\<lparr>b_ipaddr := Some ''10.0.0.1'', b_state := VALUE_STATE_UP, b_action := ACTION_START\<rparr>"
  let ?b2 = "new_backend 2 ''b2'' 2\<lparr>b_ipaddr := Some ''10.0.0.2'', b_priority := 2, b_state := VALUE_STATE_UP\<rparr>"
  have v: "backend_validate ?f (new_backend 1 ''b1'' 1\<lparr>b_ipaddr := Some ''10.0.0.1'', b_state := VALUE_STATE_DOWN\<rparr>)"
    by (simp add: backend_validate_def pair_farm_def new_farm_def farm_is_ingress_mode_def)
  obtain s' g where g: "backend_set_state (Suc 3) offline 0 1 VALUE_STATE_UP (objects_init\<lparr>farms := [?f]\<rparr>) = Some s'"
    "get_farm 0 s' = Some g" "f_priority g = prio_loop (f_backends g) DEFAULT_PRIORITY"
    "f_backends g = map (\<lambda>c. settle_bck (f_priority g)
       (if b_id c = 1 then c\<lparr>b_state := VALUE_STATE_UP, b_action := ACTION_START\<rparr> else c)) (f_backends ?f)"
    using failback [OF pair_farm_calm pair_farm_get pair_farm_bck(1) _ v, of 3 offline] pair_farm_bck(2)
    by (auto simp: pair_farm_def new_backend_def)
  have bs: "f_backends g = [settle_bck (f_priority g) ?b1, settle_bck (f_priority g) ?b2]"
    using g(4) by (simp add: pair_farm_def new_backend_def)
  have "prio_down [settle_bck q ?b1, settle_bck q ?b2] r = 0" for q r
    by (simp add: prio_down_def new_backend_def settle_bck_def)
  then have "prio_loop [settle_bck q ?b1, settle_bck q ?b2] DEFAULT_PRIORITY = 1" for q
    by (simp add: prio_loop.simps)
  then have p: "f_priority g = 1" using g(3) bs by simp
  have "map b_state (f_backends g) = [VALUE_STATE_UP, VALUE_STATE_AVAIL]"
    using bs p by (simp add: new_backend_def settle_bck_def)
  with g(1,2) p show ?thesis by (auto simp: numeral_eq_Suc)
qed

end
