(* ===== verification/Termination.thy ===== *)
theory Termination
  imports Failover
begin

text \<open>
  The functions of the life cycle call each other in a cycle (\<open>backend_set_state\<close>, \<open>farm_set_action\<close>,
  \<open>backend_s_gen_priority\<close>, \<open>farm_set_netinfo\<close>, \<open>backend_s_validate\<close>). They end for every farm: each
  call of \<open>backend_set_state\<close> in the cycle that changes anything makes the measure below smaller, which
  bounds the fuel by a number that only depends on how many backends the farm has.
\<close>

section \<open>The measure\<close>

text \<open>
  How far a backend is from where the cycle leaves it: a valid one in configuration error comes up, an
  invalid one goes into configuration error, whatever it was, and may become valid.
\<close>

definition bck_distance :: "farm \<Rightarrow> backend \<Rightarrow> nat" where
  "bck_distance f b =
     (if backend_validate f b then (if b_state b = VALUE_STATE_CONFERR then 1 else 0)
      else (if b_state b = VALUE_STATE_CONFERR then 2 else 3))"

text \<open>A backend on the wrong side of the farm's priority.\<close>

definition misplaced :: "int \<Rightarrow> backend \<Rightarrow> bool" where
  "misplaced prio b =
     (b_state b = VALUE_STATE_UP \<and> b_priority b > prio \<or> b_state b = VALUE_STATE_AVAIL \<and> b_priority b \<le> prio)"

definition pool_distance :: "farm \<Rightarrow> nat" where
  "pool_distance f = sum_list (map (bck_distance f) (f_backends f))"

definition unsettled :: "farm \<Rightarrow> nat" where
  "unsettled f =
     (2 * pool_distance f + of_bool (f_priority f \<noteq> pool_prio f)) * Suc (length (f_backends f)) +
     length (filter (misplaced (f_priority f)) (f_backends f))"

lemma bck_distance_le: "bck_distance f b \<le> 3"
  by (simp add: bck_distance_def)

lemma unsettled_bound:
  assumes "length (f_backends f) = k"
  shows "unsettled f \<le> 6 * k * k + 8 * k + 1"
proof -
  have "pool_distance f \<le> 3 * k"
    using sum_list_mono [of "f_backends f" "bck_distance f" "\<lambda>_. 3"] bck_distance_le assms
    by (simp add: pool_distance_def sum_list_triv)
  then have "(2 * pool_distance f + of_bool (f_priority f \<noteq> pool_prio f)) * Suc k \<le> (6 * k + 1) * Suc k"
    by (intro mult_le_mono1) (simp add: of_bool_def)
  moreover have "length (filter (misplaced (f_priority f)) (f_backends f)) \<le> k"
    using assms length_filter_le by metis
  ultimately show ?thesis using assms by (simp add: unsettled_def algebra_simps)
qed

text \<open>What the measure reads of a farm.\<close>

definition life :: "farm \<Rightarrow> mode \<times> ostate \<times> int \<times> backend list" where
  "life f = (f_mode f, f_state f, f_priority f, f_backends f)"

lemma unsettled_life:
  assumes "life g = life f"
  shows "unsettled g = unsettled f" "f_backends g = f_backends f" "f_mode g = f_mode f" "f_state g = f_state f"
    "backend_validate g b = backend_validate f b" "f_priority g = f_priority f" "pool_prio g = pool_prio f"
proof -
  show eqs: "f_backends g = f_backends f" "f_mode g = f_mode f" "f_state g = f_state f" "f_priority g = f_priority f"
    using assms by (simp_all add: life_def)
  show v: "backend_validate g b = backend_validate f b" for b
    using eqs by (simp add: backend_validate_def farm_is_ingress_mode_def)
  show p: "pool_prio g = pool_prio f" using eqs by (simp add: pool_prio_def)
  show "unsettled g = unsettled f"
    by (simp add: unsettled_def pool_distance_def bck_distance_def [abs_def] v p eqs)
qed

text \<open>The three ways in which the measure goes down, or at least not up.\<close>

lemma lex_less:
  assumes "u \<le> k" "(d :: nat) < d'"
  shows "d * Suc k + u < d' * Suc k + u'"
proof -
  have "Suc d * Suc k \<le> d' * Suc k" using assms(2) by (intro mult_le_mono1) simp
  with assms(1) show ?thesis by simp
qed

lemma unsettled_closer:
  assumes "pool_distance g < pool_distance f" "length (f_backends g) = length (f_backends f)"
  shows "unsettled g < unsettled f"
  unfolding unsettled_def assms(2)
proof (rule lex_less)
  show "length (filter (misplaced (f_priority g)) (f_backends g)) \<le> length (f_backends f)"
    using assms(2) length_filter_le by metis
  show "2 * pool_distance g + of_bool (f_priority g \<noteq> pool_prio g) < 2 * pool_distance f + of_bool (f_priority f \<noteq> pool_prio f)"
    using assms(1) by (simp add: of_bool_def)
qed

lemma unsettled_prio: "unsettled (f\<lparr>f_priority := pool_prio f\<rparr>) \<le> unsettled f"
proof -
  let ?g = "f\<lparr>f_priority := pool_prio f\<rparr>"
  have d: "pool_distance ?g = pool_distance f"
    by (simp add: pool_distance_def bck_distance_def [abs_def] backend_validate_def [abs_def] farm_is_ingress_mode_def)
  have p: "pool_prio ?g = pool_prio f" by (simp add: pool_prio_def)
  show ?thesis
  proof (cases "f_priority f = pool_prio f")
    case True
    then show ?thesis by (simp add: unsettled_def d p)
  next
    case False
    have "(2 * pool_distance f) * Suc (length (f_backends f)) + length (filter (misplaced (pool_prio f)) (f_backends f)) <
        (2 * pool_distance f + 1) * Suc (length (f_backends f)) + length (filter (misplaced (f_priority f)) (f_backends f))"
      by (rule lex_less) simp_all
    with False show ?thesis by (simp add: unsettled_def d p)
  qed
qed

section \<open>Calls that change the state of a backend\<close>

text \<open>The calls of \<open>backend_set_state\<close> inside the cycle.\<close>

definition inner_call :: "farm \<Rightarrow> backend \<Rightarrow> ostate \<Rightarrow> bool" where
  "inner_call f b v =
     (v = VALUE_STATE_UP \<and> (b_state b = VALUE_STATE_UP \<or> b_state b = VALUE_STATE_AVAIL \<or>
                               b_state b = VALUE_STATE_CONFERR \<and> backend_validate f b) \<or>
      v = VALUE_STATE_CONFERR \<and> \<not> backend_validate f b)"

lemma count_kupd:
  fixes P :: "backend \<Rightarrow> bool"
  assumes "distinct (map b_id bs)" "kfind b_id bid bs = Some b"
  shows "length (filter P (kupd b_id bid g bs)) + of_bool (P b) = length (filter P bs) + of_bool (P (g b))"
proof -
  have "length (filter P xs) = sum_list (map (\<lambda>x. of_bool (P x)) xs)" for xs :: "backend list"
    by (induction xs) simp_all
  then show ?thesis using sum_list_kupd [OF assms, of "\<lambda>x. of_bool (P x)" g] by simp
qed

lemma state_put:
  fixes f bid v
  defines "g \<equiv> upd_bck bid (\<lambda>b. b\<lparr>b_state := v\<rparr>) f"
  assumes "distinct (map b_id (f_backends f))" "get_bck bid f = Some b"
  shows "length (f_backends g) = length (f_backends f)" "f_priority g = f_priority f" "map b_id (f_backends g) = map b_id (f_backends f)"
    and "pool_distance g + bck_distance f b = pool_distance f + bck_distance f (b\<lparr>b_state := v\<rparr>)"
    and "length (filter (misplaced i) (f_backends g)) + of_bool (misplaced i b) =
      length (filter (misplaced i) (f_backends f)) + of_bool (misplaced i (b\<lparr>b_state := v\<rparr>))"
proof -
  have b: "kfind b_id bid (f_backends f) = Some b" using assms(3) by (simp add: get_bck_def)
  show "length (f_backends g) = length (f_backends f)" "f_priority g = f_priority f" "map b_id (f_backends g) = map b_id (f_backends f)"
    by (simp_all add: g_def upd_bck_def map_kupd_frame length_kupd)
  have "bck_distance g = bck_distance f"
    by (simp add: fun_eq_iff g_def upd_bck_def bck_distance_def backend_validate_def farm_is_ingress_mode_def)
  then show "pool_distance g + bck_distance f b = pool_distance f + bck_distance f (b\<lparr>b_state := v\<rparr>)"
    using sum_list_kupd [OF assms(2) b, of "bck_distance f" "\<lambda>b. b\<lparr>b_state := v\<rparr>"]
    by (simp add: pool_distance_def) (simp add: g_def upd_bck_def)
  show "length (filter (misplaced i) (f_backends g)) + of_bool (misplaced i b) =
      length (filter (misplaced i) (f_backends f)) + of_bool (misplaced i (b\<lparr>b_state := v\<rparr>))"
    using count_kupd [OF assms(2) b, of "misplaced i"] by (simp add: g_def upd_bck_def)
qed

text \<open>Between running and available nothing but the place changes.\<close>

lemma unsettled_moved:
  assumes "distinct (map b_id (f_backends f))" "get_bck bid f = Some b"
    "b_state b = VALUE_STATE_UP \<and> v = VALUE_STATE_AVAIL \<or> b_state b = VALUE_STATE_AVAIL \<and> v = VALUE_STATE_UP"
    "misplaced (f_priority f) b"
  shows "unsettled (upd_bck bid (\<lambda>b. b\<lparr>b_state := v\<rparr>) f) < unsettled f" (is "unsettled ?g < _")
proof -
  note put = state_put [OF assms(1,2), where v = v]
  have "bck_distance f (b\<lparr>b_state := v\<rparr>) = bck_distance f b"
    using assms(3) by (auto simp: bck_distance_def backend_validate_def)
  then have d: "pool_distance ?g = pool_distance f" using put(4) by simp
  have "pool_prio ?g = pool_prio f"
  proof (rule pool_prio_map [where h = "\<lambda>x. if b_id x = bid then x\<lparr>b_state := v\<rparr> else x"])
    fix x assume "x \<in> set (f_backends f)"
    then have "b_id x = bid \<Longrightarrow> x = b" using kfind_distinct [OF assms(1), of x] assms(2) by (auto simp: get_bck_def)
    then show "same_rank (if b_id x = bid then x\<lparr>b_state := v\<rparr> else x) x"
      using assms(3) by (auto simp: same_rank_def)
  qed (simp add: upd_bck_def kupd_def)
  moreover have "\<not> misplaced (f_priority f) (b\<lparr>b_state := v\<rparr>)"
    using assms(3,4) by (auto simp: misplaced_def)
  ultimately show ?thesis
    using put(1,2) put(5) [where i = "f_priority f"] assms(4) by (simp add: unsettled_def d)
qed

lemma unsettled_inner_call:
  assumes "distinct (map b_id (f_backends f))" "get_bck bid f = Some b" "inner_call f b v"
    "effective_state f b v \<noteq> b_state b"
  shows "unsettled (upd_bck bid (\<lambda>x. x\<lparr>b_state := effective_state f b v\<rparr>) f) < unsettled f"
proof (cases "misplaced (f_priority f) b \<and> (b_state b = VALUE_STATE_UP \<and> effective_state f b v = VALUE_STATE_AVAIL \<or>
    b_state b = VALUE_STATE_AVAIL \<and> effective_state f b v = VALUE_STATE_UP)")
  case True
  then show ?thesis by (intro unsettled_moved [OF assms(1,2)]) blast+
next
  case False
  let ?v = "effective_state f b v"
  have "bck_distance f (b\<lparr>b_state := ?v\<rparr>) < bck_distance f b"
    using False assms(3,4)
    by (auto simp: inner_call_def effective_state_def misplaced_def bck_distance_def backend_below_prio_def backend_validate_def
        split: if_splits)
  then show ?thesis
    using state_put(1,4) [OF assms(1,2), where v = ?v] by (intro unsettled_closer) simp_all
qed

section \<open>The network information\<close>

text \<open>The kernel knows no neighbour by an empty address, and prints none as an empty text.\<close>

definition named_neighbours :: "netenv \<Rightarrow> bool" where
  "named_neighbours env =
     (\<forall>src fam ip dst i ether. net_get_neigh_ether env src fam ip dst i = Some ether \<longrightarrow> dst \<noteq> [] \<and> ether \<noteq> [])"

text \<open>Farms that only differ in what the network information fills in; no backend becomes invalid.\<close>

definition informed :: "farm \<Rightarrow> farm \<Rightarrow> bool" where
  "informed f g =
     (f_id g = f_id f \<and> f_mode g = f_mode f \<and> f_state g = f_state f \<and> f_priority g = f_priority f \<and>
      list_all2 (\<lambda>b c. b_id c = b_id b \<and> b_state c = b_state b \<and> b_priority c = b_priority b \<and>
                       (backend_validate f b \<longrightarrow> backend_validate g c)) (f_backends f) (f_backends g))"

lemma informed_refl [simp]: "informed f f"
  by (simp add: informed_def list_all2_same)

lemma informed_trans:
  assumes "informed f g" "informed g h"
  shows "informed f h"
proof -
  have "list_all2 (\<lambda>b c. b_id c = b_id b \<and> b_state c = b_state b \<and> b_priority c = b_priority b \<and>
      (backend_validate f b \<longrightarrow> backend_validate h c)) (f_backends f) (f_backends h)"
  proof (rule list_all2_trans)
    show "list_all2 (\<lambda>b c. b_id c = b_id b \<and> b_state c = b_state b \<and> b_priority c = b_priority b \<and>
      (backend_validate f b \<longrightarrow> backend_validate g c)) (f_backends f) (f_backends g)"
      using assms(1) by (simp add: informed_def)
    show "list_all2 (\<lambda>b c. b_id c = b_id b \<and> b_state c = b_state b \<and> b_priority c = b_priority b \<and>
      (backend_validate g b \<longrightarrow> backend_validate h c)) (f_backends g) (f_backends h)"
      using assms(2) by (simp add: informed_def)
  qed simp
  with assms show ?thesis by (simp add: informed_def)
qed

lemma informed_upd:
  assumes "f_id g = f_id f" "f_mode g = f_mode f" "f_state g = f_state f" "f_priority g = f_priority f"
    "f_backends g = kupd b_id bid h (f_backends f)"
    "\<And>b. b_id (h b) = b_id b \<and> b_state (h b) = b_state b \<and> b_priority (h b) = b_priority b \<and> (backend_validate f b \<longrightarrow> backend_validate f (h b))"
  shows "informed f g"
proof -
  have "backend_validate g = backend_validate f"
    using assms(2) by (simp add: fun_eq_iff backend_validate_def farm_is_ingress_mode_def)
  then show ?thesis
    using assms by (simp add: informed_def kupd_def list_all2_map2 list_all2_same)
qed

lemma informed_life: "life g = life f \<Longrightarrow> f_id g = f_id f \<Longrightarrow> informed f g"
  using unsettled_life [of g f] by (simp add: informed_def list_all2_same)

text \<open>Changes that do not even touch validity.\<close>

definition same_pool :: "farm \<Rightarrow> farm \<Rightarrow> bool" where
  "same_pool f g = (informed f g \<and> informed g f)"

lemma same_pool_refl [simp]: "same_pool f f"
  by (simp add: same_pool_def)

lemma same_pool_trans: "same_pool f g \<Longrightarrow> same_pool g h \<Longrightarrow> same_pool f h"
  unfolding same_pool_def using informed_trans by blast

lemma same_pool_upd:
  assumes "\<And>b. b_id (h b) = b_id b \<and> b_state (h b) = b_state b \<and> b_priority (h b) = b_priority b \<and>
    b_ipaddr (h b) = b_ipaddr b \<and> b_ethaddr (h b) = b_ethaddr b"
  shows "same_pool f (upd_bck bid h f)"
proof -
  let ?g = "upd_bck bid h f"
  have v: "backend_validate ?g = backend_validate f" "\<And>b. backend_validate f (h b) = backend_validate f b"
    using assms by (simp_all add: fun_eq_iff backend_validate_def farm_is_ingress_mode_def upd_bck_def)
  show ?thesis
    unfolding same_pool_def informed_def v
    using assms by (simp add: upd_bck_def kupd_def list_all2_map1 list_all2_map2 list_all2_same v)
qed

lemma same_pool_fields [simp]:
  "same_pool f (f\<lparr>f_ofidx := i\<rparr>)" "same_pool f (f\<lparr>f_oface := t\<rparr>)" "same_pool f (f\<lparr>f_bcks_have_if := x\<rparr>)"
  "same_pool f (upd_bck bid (\<lambda>b. b\<lparr>b_ofidx := i\<rparr>) f)" "same_pool f (upd_bck bid (\<lambda>b. b\<lparr>b_oface := t\<rparr>) f)"
proof -
  show "same_pool f (f\<lparr>f_ofidx := i\<rparr>)" "same_pool f (f\<lparr>f_oface := t\<rparr>)" "same_pool f (f\<lparr>f_bcks_have_if := x\<rparr>)"
    unfolding same_pool_def by (intro conjI informed_life; simp add: life_def)+
qed (rule same_pool_upd; simp)+

lemma informed_ethaddr: "e \<noteq> [] \<Longrightarrow> informed f (upd_bck bid (\<lambda>b. b\<lparr>b_ethaddr := Some e\<rparr>) f)"
  by (rule informed_upd [where bid = bid and h = "\<lambda>b. b\<lparr>b_ethaddr := Some e\<rparr>"]) (simp_all add: upd_bck_def backend_validate_def)

lemma informed_oface: "informed f (snd (farm_set_oface_info env f))"
proof -
  have "life (snd (farm_set_oface_info env f)) = life f \<and> f_id (snd (farm_set_oface_info env f)) = f_id f"
    by (simp add: farm_set_oface_info_def life_def Let_def split: option.split)
  then show ?thesis by (simp add: informed_life)
qed

lemma same_pool_ifinfo: "same_pool f (snd (backend_set_ifinfo env bid f))"
proof -
  define f1 where "f1 i = (if f_ofidx f = DEFAULT_IFIDX then f\<lparr>f_ofidx := i\<rparr> else f)" for i
  define f2 where "f2 i = (if f_ofidx (f1 i) \<noteq> i then upd_bck bid (\<lambda>b. b\<lparr>b_ofidx := i\<rparr>) ((f1 i)\<lparr>f_bcks_have_if := True\<rparr>) else f1 i)" for i
  have "same_pool f (f1 i)" for i by (simp add: f1_def)
  moreover have "same_pool (f1 i) (f2 i)" for i
    using same_pool_trans [OF same_pool_fields(3) same_pool_fields(4)] by (simp add: f2_def)
  ultimately have two: "same_pool f (f2 i)" for i by (rule same_pool_trans)
  then have three: "same_pool f ((f2 i)\<lparr>f_oface := t\<rparr>)" "same_pool f (upd_bck bid (\<lambda>b. b\<lparr>b_oface := t\<rparr>) (f2 i))" for i t
    using same_pool_trans same_pool_fields by blast+
  show ?thesis
    unfolding backend_set_ifinfo_def Let_def f1_def [symmetric] f2_def [symmetric]
    by (simp add: two three split: option.split)
qed

text \<open>The link-layer address: nothing happens to a farm that needs none, nothing on failure, or it is filled in.\<close>

lemma ether_cases:
  assumes "named_neighbours env"
  obtains (none) "backend_set_ipaddr_from_ether env s bid f = (True, f)"
      "\<not> farm_is_ingress_mode f \<or> (f_state f \<noteq> VALUE_STATE_UP \<and> f_state f \<noteq> VALUE_STATE_CONFERR)"
    | (failed) "backend_set_ipaddr_from_ether env s bid f = (False, f)"
    | (found) b ip e where "get_bck bid f = Some b" "b_ipaddr b = Some ip" "ip \<noteq> []" "e \<noteq> []"
        "backend_set_ipaddr_from_ether env s bid f = (True, upd_bck bid (\<lambda>b. b\<lparr>b_ethaddr := Some e\<rparr>) f)"
proof (cases "\<not> farm_is_ingress_mode f \<or> (f_state f \<noteq> VALUE_STATE_UP \<and> f_state f \<noteq> VALUE_STATE_CONFERR)")
  case True
  then show thesis by (intro none) (simp_all add: backend_set_ipaddr_from_ether_def)
next
  case False
  note body = backend_set_ipaddr_from_ether_def [of env s bid f, unfolded if_not_P [OF False]]
  show thesis
  proof (cases "Option.bind (farmaddress_get_first f) (\<lambda>fa. get_address (fa_address fa) s)")
    case None
    then show thesis by (intro failed) (simp add: body)
  next
    case (Some a)
    show thesis
    proof (cases "a_iethaddr a = None \<or> get_bck bid f = None \<or> Option.bind (get_bck bid f) b_ipaddr = None \<or> f_ofidx f = DEFAULT_IFIDX")
      case True
      then show thesis by (intro failed) (auto simp: body Some split: option.split)
    next
      case False
      then obtain src b ip where *: "a_iethaddr a = Some src" "get_bck bid f = Some b" "b_ipaddr b = Some ip" "f_ofidx f \<noteq> DEFAULT_IFIDX"
        by (auto simp: bind_eq_None_conv)
      define sip where "sip = (case f_srcaddr f of None \<Rightarrow> a_ipaddr a | Some sa \<Rightarrow> sa)"
      define r where "r = (case net_get_neigh_ether env src (a_family a) sip ip (a_ifidx a) of
          Some e \<Rightarrow> Some e
        | None \<Rightarrow> net_get_neigh_ether env src (a_family a) (case b_srcaddr b of None \<Rightarrow> sip | Some sa \<Rightarrow> sa) ip
            (if b_ofidx b \<noteq> DEFAULT_IFIDX then b_ofidx b else f_ofidx f))"
      have eq: "backend_set_ipaddr_from_ether env s bid f =
          (case r of None \<Rightarrow> (False, f) | Some e \<Rightarrow> (True, upd_bck bid (\<lambda>b. b\<lparr>b_ethaddr := Some e\<rparr>) f))"
        by (simp only: body Some * Let_def r_def sip_def option.case prod.case if_False not_False_eq_True simp_thms)
      have named: "r = Some e \<Longrightarrow> ip \<noteq> [] \<and> e \<noteq> []" for e
        using assms unfolding named_neighbours_def r_def by (auto split: option.splits)
      show thesis
      proof (cases r)
        case None
        then show thesis by (intro failed) (simp add: eq)
      next
        case (Some e)
        with named [OF Some] show thesis by (intro found [OF *(2,3)]) (simp_all add: eq)
      qed
    qed
  qed
qed

lemma informed_ether: "named_neighbours env \<Longrightarrow> informed f (snd (backend_set_ipaddr_from_ether env s bid f))"
  by (rule ether_cases [of env s bid f]) (simp_all add: informed_ethaddr)

lemma ether_valid:
  assumes "named_neighbours env" "fst (backend_set_ipaddr_from_ether env s bid f)" "farm_is_ingress_mode f"
    "f_state f = VALUE_STATE_UP" "get_bck bid (snd (backend_set_ipaddr_from_ether env s bid f)) = Some b"
  shows "backend_validate (snd (backend_set_ipaddr_from_ether env s bid f)) b"
  using assms(1)
proof (cases rule: ether_cases [of env s bid f])
  case (found c ip e)
  with assms(5) show ?thesis by (auto simp: get_bck_def upd_bck_def kfind_kupd backend_validate_def)
qed (use assms in simp_all)

lemma unsettled_informed:
  assumes "informed f g"
  shows "unsettled g \<le> unsettled f" "map b_id (f_backends g) = map b_id (f_backends f)"
proof -
  have len: "length (f_backends g) = length (f_backends f)"
    using assms by (auto simp: informed_def dest: list_all2_lengthD)
  have "map b_id ys = map b_id xs \<and> prio_down ys q = prio_down xs q \<and> filter (misplaced i) ys = filter (misplaced i) ys \<and>
      length (filter (misplaced i) ys) = length (filter (misplaced i) xs) \<and>
      sum_list (map (bck_distance g) ys) \<le> sum_list (map (bck_distance f) xs)"
    if "list_all2 (\<lambda>b c. b_id c = b_id b \<and> b_state c = b_state b \<and> b_priority c = b_priority b \<and>
      (backend_validate f b \<longrightarrow> backend_validate g c)) xs ys" for xs ys q i
    using that
  proof (induction rule: list_all2_induct)
    case (Cons x xs y ys)
    then have "bck_distance g y \<le> bck_distance f x" by (auto simp: bck_distance_def)
    with Cons show ?case by (auto simp: prio_down_def misplaced_def)
  qed (simp add: prio_down_def)
  with assms have all: "map b_id (f_backends g) = map b_id (f_backends f)" "\<And>q. prio_down (f_backends g) q = prio_down (f_backends f) q"
    "\<And>i. length (filter (misplaced i) (f_backends g)) = length (filter (misplaced i) (f_backends f))"
    "pool_distance g \<le> pool_distance f" "f_priority g = f_priority f"
    unfolding informed_def pool_distance_def by blast+
  show "map b_id (f_backends g) = map b_id (f_backends f)" by (rule all)
  have "pool_prio g = pool_prio f" unfolding pool_prio_def by (rule prio_loop_cong) (rule all)
  then show "unsettled g \<le> unsettled f"
    using all(4) by (simp add: unsettled_def all(3,5) len add_le_mono mult_le_mono)
qed

lemma informed_get:
  assumes "informed f g" "get_bck bid f = Some b"
  shows "\<exists>c. get_bck bid g = Some c \<and> b_state c = b_state b \<and> (backend_validate f b \<longrightarrow> backend_validate g c)"
proof -
  have "kfind b_id bid xs = Some b \<Longrightarrow> list_all2 (\<lambda>b c. b_id c = b_id b \<and> b_state c = b_state b \<and> b_priority c = b_priority b \<and>
      (backend_validate f b \<longrightarrow> backend_validate g c)) xs ys \<Longrightarrow>
    \<exists>c. kfind b_id bid ys = Some c \<and> b_state c = b_state b \<and> (backend_validate f b \<longrightarrow> backend_validate g c)" for xs ys
    by (induction xs arbitrary: ys) (auto simp: list_all2_Cons1 split: if_splits)
  with assms show ?thesis by (simp add: informed_def get_bck_def)
qed

section \<open>What leaves the measure alone\<close>

lemma get_farm_upd_at:
  assumes "get_farm fid s = Some g" "f_id (h g) = f_id g"
  shows "get_farm fid (upd_farm fid h s) = Some (h g)"
proof -
  have "kfind f_id fid xs = Some g \<Longrightarrow> kfind f_id fid (kupd f_id fid h xs) = Some (h g)" for xs
    using assms(2) by (induction xs) (auto split: if_splits)
  with assms(1) show ?thesis by (simp add: get_farm_def upd_farm_def)
qed

definition lives :: "oid \<Rightarrow> farm \<Rightarrow> objs \<Rightarrow> bool" where
  "lives fid f s = (\<exists>g. get_farm fid s = Some g \<and> life g = life f \<and> f_id g = f_id f)"

lemma lives_start: "get_farm fid s = Some f \<Longrightarrow> lives fid f s"
  by (simp add: lives_def)

lemma lives_upd:
  assumes "lives fid f s" "\<And>g. get_farm fid s = Some g \<Longrightarrow> life (h g) = life g \<and> f_id (h g) = f_id g"
  shows "lives fid f (upd_farm fid h s)"
  using assms by (auto simp: lives_def get_farm_upd_at)

lemma lives_other [simp]:
  "lives fid f (upd_address aid k s) = lives fid f s" "lives fid f (upd_policy pid k2 s) = lives fid f s"
  "lives fid f (put_output t s) = lives fid f s" "lives fid f (farm_manage_eventd s) = lives fid f s"
  "lives fid f (s\<lparr>next_oid := i\<rparr>) = lives fid f s" "lives fid f (address_delete aid s) = lives fid f s"
  by (simp_all add: lives_def) (simp_all add: get_farm_def put_output_def address_delete_def obj_set_total_addresses_def Let_def)

lemma lives_farmaddress_action: "lives fid f s \<Longrightarrow> lives fid f (snd (farmaddress_set_action fid faid action s))"
  by (auto simp: farmaddress_set_action_def farmaddress_delete_def address_release_def farm_unlink_address_def life_def Let_def
      split: option.split intro!: lives_upd)

lemma lives_farmaddresses: "lives fid f s \<Longrightarrow> lives fid f (farmaddress_s_set_action fid action s)"
  by (auto simp: farmaddress_s_set_action_def split: option.split intro!: fold_inv [where P = "lives fid f"] lives_farmaddress_action)

lemma life_but_sessions: "but_sessions g = but_sessions f \<Longrightarrow> life g = life f \<and> f_id g = f_id f"
proof -
  have "life h = life (but_sessions h)" "f_id h = f_id (but_sessions h)" for h by (simp_all add: but_sessions_def life_def)
  then show "but_sessions g = but_sessions f \<Longrightarrow> ?thesis" by metis
qed

lemma lives_timed_address: "lives fid f s \<Longrightarrow> lives fid f (get_timed_address env fid fa s)"
proof -
  have create: "life f1 = life g \<and> f_id f1 = f_id g" if "session_create env i ty cl b e g = Some f1" for i ty cl b e f1 g
    using that by (intro life_but_sessions) (auto simp: session_create_def Let_def split: if_splits)
  show "lives fid f s \<Longrightarrow> ?thesis"
    by (auto simp: get_timed_address_def case_prod_unfold split: option.split
        intro!: fold_inv [where P = "lives fid f"] lives_upd dest!: create)
       (auto simp: get_farm_def)
qed

lemma lives_sessions: "lives fid f s \<Longrightarrow> lives fid f (session_backend_action env fid bid action s)"
proof -
  have timed: "lives fid f s \<Longrightarrow> lives fid f (session_get_timed env fid s)" for s
    by (auto simp: session_get_timed_def life_def split: option.split
        intro!: fold_inv [where P = "lives fid f"] lives_timed_address lives_upd)
  have loop: "life (snd (session_loop ty pick action (i, g))) = life g \<and> f_id (snd (session_loop ty pick action (i, g))) = f_id g" for ty pick i g
    by (rule life_but_sessions) simp
  have del: "life (session_s_delete ty g) = life g \<and> f_id (session_s_delete ty g) = f_id g" for ty g
    by (rule life_but_sessions) simp
  show "lives fid f s \<Longrightarrow> ?thesis"
    by (auto simp: session_backend_action_def Let_def loop del split: option.split intro!: lives_upd timed)
qed

lemma lives_validate: "lives fid f s \<Longrightarrow> lives fid f (snd (farm_validate fid s))"
proof -
  have one: "lives fid f s \<Longrightarrow> lives fid f (snd (farmaddress_s_validate_iface fid s))" for s
    by (auto simp: farmaddress_s_validate_iface_def life_def split: option.split intro!: lives_upd)
  show "lives fid f s \<Longrightarrow> ?thesis"
    by (auto simp: farm_validate_def Let_def case_prod_unfold split: option.split intro!: one)
qed

section \<open>Every call returns\<close>

definition runs :: "('a \<Rightarrow> bool) \<Rightarrow> 'a option \<Rightarrow> bool" where
  "runs P m = (\<exists>x. m = Some x \<and> P x)"

lemma runs_Some [simp]: "runs P (Some x) = P x"
  by (simp add: runs_def)

lemma runs_bind: "runs P m \<Longrightarrow> (\<And>x. P x \<Longrightarrow> runs Q (k x)) \<Longrightarrow> runs Q (Option.bind m k)"
  by (auto simp: runs_def)

lemma runs_foldo: "P s \<Longrightarrow> (\<And>x s. P s \<Longrightarrow> runs P (g x s)) \<Longrightarrow> runs P (foldo g xs s)"
proof (induction xs arbitrary: s)
  case (Cons x xs)
  show ?case unfolding foldo.simps by (rule runs_bind [OF Cons.prems(2) [OF Cons.prems(1)] Cons.IH]) (use Cons.prems in auto)
qed simp

lemma runs_mono: "runs P m \<Longrightarrow> (\<And>x. P x \<Longrightarrow> Q x) \<Longrightarrow> runs Q m"
  by (auto simp: runs_def)

text \<open>The farm afterwards: the same backends, and nothing is farther from settled.\<close>

definition nearer :: "farm \<Rightarrow> farm \<Rightarrow> bool" where
  "nearer f g =
     (f_id g = f_id f \<and> f_mode g = f_mode f \<and> f_state g = f_state f \<and> map b_id (f_backends g) = map b_id (f_backends f) \<and>
      unsettled g \<le> unsettled f)"

definition left :: "oid \<Rightarrow> farm \<Rightarrow> objs \<Rightarrow> bool" where
  "left fid f s = (\<exists>g. get_farm fid s = Some g \<and> nearer f g)"

lemma nearer_refl [simp]: "nearer f f"
  by (simp add: nearer_def)

lemma nearer_trans: "nearer f g \<Longrightarrow> nearer g h \<Longrightarrow> nearer f h"
  by (auto simp: nearer_def)

lemma nearer_life: "life g = life f \<Longrightarrow> f_id g = f_id f \<Longrightarrow> nearer f g"
  using unsettled_life [of g f] by (simp add: nearer_def)

lemma nearer_informed: "informed f g \<Longrightarrow> nearer f g"
  using unsettled_informed [of f g] by (simp add: nearer_def informed_def)

lemma left_lives: "left fid f s \<Longrightarrow> (\<And>g. lives fid g s \<Longrightarrow> lives fid g t) \<Longrightarrow> left fid f t"
  unfolding left_def by (metis lives_def lives_start nearer_life nearer_trans)

lemma left_trans: "left fid g s \<Longrightarrow> nearer f g \<Longrightarrow> left fid f s"
  unfolding left_def using nearer_trans by blast

lemma left_upd:
  assumes "left fid f s" "\<And>g. nearer g (h g)"
  shows "left fid f (upd_farm fid h s)"
proof -
  obtain g where g: "get_farm fid s = Some g" "nearer f g" using assms(1) by (auto simp: left_def)
  have "get_farm fid (upd_farm fid h s) = Some (h g)"
    using g(1) assms(2) [of g] by (intro get_farm_upd_at) (auto simp: nearer_def)
  with g(2) assms(2) [of g] nearer_trans show ?thesis by (auto simp: left_def)
qed

text \<open>What the functions of the cycle need of the call they are given.\<close>

definition calls_run :: "set_state_call \<Rightarrow> oid \<Rightarrow> nat \<Rightarrow> bool" where
  "calls_run call fid k =
     (\<forall>bid v s f b. get_farm fid s = Some f \<and> distinct (map b_id (f_backends f)) \<and> get_bck bid f = Some b \<and>
        inner_call f b v \<and> unsettled f < k \<longrightarrow> runs (left fid f) (call bid v s))"

text \<open>A farm the calls can be made on.\<close>

definition ready :: "nat \<Rightarrow> farm \<Rightarrow> bool" where
  "ready k f = (distinct (map b_id (f_backends f)) \<and> unsettled f < k)"

lemma ready_nearer: "ready k f \<Longrightarrow> nearer f g \<Longrightarrow> ready k g"
  by (auto simp: ready_def nearer_def)

lemma left_call:
  assumes "calls_run call fid k" "ready k f" "left fid f s" "get_farm fid s = Some g" "get_bck bid g = Some b" "inner_call g b v"
  shows "runs (left fid f) (call bid v s)"
proof -
  have g: "nearer f g" using assms(3,4) by (auto simp: left_def)
  then have "ready k g" by (rule ready_nearer [OF assms(2)])
  then have "runs (left fid g) (call bid v s)" using assms(1,4-6) by (auto simp: calls_run_def ready_def)
  then show ?thesis using left_trans [OF _ g] by (rule runs_mono)
qed

lemma get_farm_bck_Some: "get_farm_bck fid bid s = Some (f, b) \<longleftrightarrow> get_farm fid s = Some f \<and> get_bck bid f = Some b"
  by (auto simp: get_farm_bck_def bind_eq_Some_conv)

lemma left_start: "get_farm fid s = Some f \<Longrightarrow> left fid f s"
  by (simp add: left_def)

lemma left_at: "left fid f s \<Longrightarrow> \<exists>g. get_farm fid s = Some g \<and> nearer f g"
  by (simp add: left_def)

lemma nearer_prio: "nearer f (f\<lparr>f_priority := pool_prio f\<rparr>)"
  using unsettled_prio by (simp add: nearer_def)

lemma nearer_counters [simp]: "nearer g (backend_s_update_counters g)"
  by (rule nearer_life) (simp_all add: life_def)

lemma gen_priority_runs:
  assumes "calls_run call fid k" "ready k f" "get_farm fid s = Some f"
  shows "runs (\<lambda>r. left fid f (snd r)) (gen_priority_call call fid s)"
proof -
  let ?s1 = "upd_farm fid (\<lambda>f. f\<lparr>f_priority := prio_loop (f_backends f) DEFAULT_PRIORITY\<rparr>) s"
  have "get_farm fid (upd_farm fid (\<lambda>g. g\<lparr>f_priority := pool_prio f\<rparr>) s) = Some (f\<lparr>f_priority := pool_prio f\<rparr>)"
    using assms(3) by (simp add: get_farm_upd_at)
  then have s1: "left fid f (upd_farm fid (\<lambda>g. g\<lparr>f_priority := pool_prio f\<rparr>) s)"
    using nearer_prio by (auto simp: left_def)
  show ?thesis
    unfolding gen_priority_call_def assms(3) option.case Let_def pool_prio_def [symmetric]
  proof (rule runs_bind [where P = "left fid f"], rule runs_foldo [where P = "left fid f", OF s1])
    fix bid t assume t: "left fid f t"
    show "runs (left fid f) (case get_farm_bck fid bid t of None \<Rightarrow> Some t
        | Some (_, b) \<Rightarrow> if b_state b = VALUE_STATE_UP \<or> b_state b = VALUE_STATE_AVAIL then call bid VALUE_STATE_UP t else Some t)"
      using t left_call [OF assms(1,2) t]
      by (auto simp: get_farm_bck_Some inner_call_def split: option.split)
  next
    fix t assume "left fid f t"
    then show "runs (\<lambda>r. left fid f (snd r))
        (Some (map_option f_priority (get_farm fid (upd_farm fid backend_s_update_counters t)) \<noteq> Some (f_priority f),
               upd_farm fid backend_s_update_counters t))"
      by (simp add: left_upd)
  qed
qed

lemma validate_runs:
  assumes "calls_run call fid k" "ready k f" "left fid f s"
  shows "runs (left fid f) (validate_call call fid s)"
  unfolding validate_call_def
proof (rule runs_foldo [where P = "left fid f", OF assms(3)])
  fix bid t assume t: "left fid f t"
  show "runs (left fid f) (case get_farm_bck fid bid t of None \<Rightarrow> Some t
      | Some (g, b) \<Rightarrow> if b_state b = VALUE_STATE_CONFERR \<and> backend_validate g b then call bid VALUE_STATE_UP t else Some t)"
    using t left_call [OF assms(1,2) t]
    by (auto simp: get_farm_bck_Some inner_call_def split: option.split)
qed

text \<open>
  The loop of \<open>backend_s_set_netinfo\<close>. A backend is only tried when it is invalid; it is valid when its
  link-layer address was found, and still invalid otherwise, and either way the call is one of the
  cycle's.
\<close>

lemma netinfo_step:
  assumes "calls_run call fid k" "ready k f" "left fid f s" "named_neighbours env"
    "farm_is_ingress_mode f" "f_state f = VALUE_STATE_UP" "get_farm fid s = Some g" "get_bck bid g = Some b"
    "\<not> backend_validate g b"
  defines "r1 \<equiv> backend_set_ifinfo env bid g"
  defines "r2 \<equiv> (if fst r1 then backend_set_ipaddr_from_ether env s bid (snd r1) else (False, snd r1))"
  defines "s1 \<equiv> upd_farm fid (\<lambda>_. snd r2) s"
  shows "runs (left fid f)
    (if fst r2 then (if map_option b_state (get_bck bid (snd r2)) = Some VALUE_STATE_CONFERR
                     then call bid VALUE_STATE_UP s1 else Some s1)
     else call bid VALUE_STATE_CONFERR s1)"
proof -
  have pool: "informed g (snd r1)" "informed (snd r1) g"
    using same_pool_ifinfo [of g env bid] by (simp_all add: same_pool_def r1_def)
  have inf: "informed g (snd r2)"
    using pool(1) informed_trans [OF pool(1) informed_ether [OF assms(4)]] by (simp add: r2_def)
  have fg: "nearer f g" using assms(3,7) by (auto simp: left_def)
  have near: "nearer f (snd r2)" by (rule nearer_trans [OF fg nearer_informed [OF inf]])
  have at: "get_farm fid s1 = Some (snd r2)"
    unfolding s1_def using assms(7) inf by (simp add: get_farm_upd_at informed_def)
  have s1: "left fid f s1" using at near by (simp add: left_def)
  note call = left_call [OF assms(1,2) s1 at]
  obtain c where c: "get_bck bid (snd r2) = Some c" using informed_get [OF inf assms(8)] by blast
  show ?thesis
  proof (cases "fst r2")
    case True
    then have "fst r1" "fst (backend_set_ipaddr_from_ether env s bid (snd r1))" "r2 = backend_set_ipaddr_from_ether env s bid (snd r1)"
      by (auto simp: r2_def split: if_splits)
    moreover have "farm_is_ingress_mode (snd r1)" "f_state (snd r1) = VALUE_STATE_UP"
      using assms(5,6) fg pool(1) by (simp_all add: nearer_def informed_def farm_is_ingress_mode_def)
    ultimately have "backend_validate (snd r2) c" using ether_valid [OF assms(4)] c by simp
    then show ?thesis using True s1 c call [OF c, of VALUE_STATE_UP] by (simp add: inner_call_def)
  next
    case False
    have "snd r2 = snd r1"
      by (rule ether_cases [OF assms(4), of s bid "snd r1"]) (use False in \<open>auto simp: r2_def split: if_splits\<close>)
    then have "informed (snd r2) g" using pool(2) by simp
    then have "\<not> backend_validate (snd r2) c" using informed_get [OF _ c] assms(8,9) by force
    then show ?thesis using False call [OF c, of VALUE_STATE_CONFERR] by (simp add: inner_call_def)
  qed
qed

lemma s_netinfo_runs:
  assumes "calls_run call fid k" "ready k f" "left fid f s" "named_neighbours env"
    "farm_is_ingress_mode f" "f_state f = VALUE_STATE_UP"
  shows "runs (left fid f) (s_set_netinfo_call call env fid s)"
  unfolding s_set_netinfo_call_def
proof (rule runs_foldo [where P = "left fid f", OF assms(3)], goal_cases)
  case (1 bid t)
  show ?case
  proof (cases "get_farm_bck fid bid t")
    case (Some r)
    obtain g b where r: "r = (g, b)" by force
    then have "get_farm fid t = Some g" "get_bck bid g = Some b" using Some by (simp_all add: get_farm_bck_Some)
    note step = netinfo_step [OF assms(1,2) 1 assms(4-6) this]
    show ?thesis
      unfolding Some r option.case prod.case Let_def
      by (cases "backend_validate g b") (simp_all only: if_True if_False runs_Some 1 step not_False_eq_True)
  qed (use 1 in simp)
qed

lemma nearer_oface [simp]: "nearer g (snd (farm_set_oface_info env g))"
  by (rule nearer_informed [OF informed_oface])

lemma nearer_have_if: "nearer f g \<Longrightarrow> nearer f (g\<lparr>f_bcks_have_if := i\<rparr>)"
  by (erule nearer_trans) (rule nearer_life, simp_all add: life_def)

lemma left_eventd [simp]: "left fid f (farm_manage_eventd s) = left fid f s"
  by (simp add: left_def)

lemma netinfo_runs:
  assumes "calls_run call fid k" "ready k f" "left fid f s" "named_neighbours env"
  shows "runs (left fid f) (set_netinfo_call call env fid s)"
proof -
  obtain g where g: "get_farm fid s = Some g" "nearer f g" using left_at [OF assms(3)] by blast
  let ?r = "if farm_is_ingress_mode g then farm_set_oface_info env g else (False, g)"
  have "nearer g (snd ?r)" by simp
  then have put: "left fid f (upd_farm fid (\<lambda>_. snd ?r) s)"
    using get_farm_upd_at [OF g(1), of "\<lambda>_. snd ?r"] nearer_trans [OF g(2)] by (simp add: left_def nearer_def)
  let ?t = "farm_manage_eventd (upd_farm fid (\<lambda>f. f\<lparr>f_bcks_have_if := backend_s_check_have_iface f\<rparr>) (upd_farm fid (\<lambda>_. snd ?r) s))"
  have "left fid f ?t" by (simp add: left_upd [OF put] nearer_have_if)
  then have loop: "runs (left fid f) (s_set_netinfo_call call env fid ?t)"
    if "farm_is_ingress_mode g" "f_state g = VALUE_STATE_UP"
    using that g(2) by (intro s_netinfo_runs [OF assms(1,2) _ assms(4)]) (simp_all add: nearer_def farm_is_ingress_mode_def)
  show ?thesis
  proof (cases "f_state g = VALUE_STATE_UP")
    case False
    then show ?thesis using g assms(3) by (simp add: set_netinfo_call_def)
  next
    case True
    show ?thesis
      unfolding set_netinfo_call_def g(1) option.case Let_def True not_True_eq_False if_False simp_thms
    proof (rule runs_bind [where P = "left fid f"], goal_cases)
      case 1
      show ?case using loop True put by simp
    next
      case (2 t)
      then show ?case by (simp add: left_upd nearer_have_if)
    qed
  qed
qed

lemma gen_priority_left:
  assumes "calls_run call fid k" "ready k f" "left fid f s"
  shows "runs (\<lambda>r. left fid f (snd r)) (gen_priority_call call fid s)"
proof -
  obtain g where g: "get_farm fid s = Some g" "nearer f g" using left_at [OF assms(3)] by blast
  show ?thesis
    using gen_priority_runs [OF assms(1) ready_nearer [OF assms(2) g(2)] g(1)] left_trans [OF _ g(2)] by (rule runs_mono)
qed

text \<open>An action of the farm: what is done once it is due, and the whole.\<close>

lemma due_action_runs:
  assumes "calls_run call fid k" "ready k f" "left fid f s" "named_neighbours env"
  shows "runs (\<lambda>r. left fid f (snd r))
    (do { (_, s3) \<leftarrow> gen_priority_call call fid s;
          let s4 = upd_farm fid (\<lambda>f. f\<lparr>f_action := action\<rparr>) (farm_manage_eventd s3);
          s5 \<leftarrow> set_netinfo_call call env fid s4;
          s6 \<leftarrow> validate_call call fid s5;
          Some (True, if action = ACTION_STOP \<or> action = ACTION_START then farmaddress_s_set_action fid action s6 else s6) })"
proof (rule runs_bind [OF gen_priority_left [OF assms(1-3)]], goal_cases)
  case (1 r)
  have "nearer g (g\<lparr>f_action := action\<rparr>)" for g by (rule nearer_life) (simp_all add: life_def)
  with 1 have s4: "left fid f (upd_farm fid (\<lambda>f. f\<lparr>f_action := action\<rparr>) (farm_manage_eventd (snd r)))"
    by (simp add: left_upd)
  show ?case
    unfolding case_prod_unfold Let_def
  proof (rule runs_bind [OF netinfo_runs [OF assms(1,2) s4 assms(4)]], rule runs_bind [OF validate_runs [OF assms(1,2)]])
    show "left fid f t \<Longrightarrow> left fid f t" for t .
    show "runs (\<lambda>r. left fid f (snd r))
        (Some (True, if action = ACTION_STOP \<or> action = ACTION_START then farmaddress_s_set_action fid action t else t))"
      if "left fid f t" for t
      using that left_lives [OF that lives_farmaddresses] by simp
  qed
qed

lemma left_policies_action: "left fid f s \<Longrightarrow> left fid f (upd_farm fid (\<lambda>f. f\<lparr>f_policies_action := a\<rparr>) s)"
  by (rule left_upd, assumption) (rule nearer_life, simp_all add: life_def)

text \<open>A reload leaves the farm nearer; any action returns.\<close>

lemma reload_runs:
  assumes "calls_run call fid k" "ready k f" "left fid f s" "named_neighbours env"
  shows "runs (\<lambda>r. left fid f (snd r)) (set_action_call call env fid ACTION_RELOAD s)"
proof -
  obtain g where g: "get_farm fid s = Some g" using left_at [OF assms(3)] by blast
  note due = due_action_runs [OF assms(1,2) _ assms(4)]
  show ?thesis
    unfolding set_action_call_def
    using due [of s ACTION_RELOAD] due [of s ACTION_START] due [OF left_policies_action, of s ACTION_START ACTION_START]
    by (auto simp: g Let_def assms(3) left_policies_action)
qed

text \<open>A forced stop validates the farm first, which may bring it up.\<close>

lemma force_left:
  assumes "get_farm fid s = Some f"
  shows "\<exists>g. get_farm fid (let (ok, s') = farm_validate fid (upd_farm fid (\<lambda>f. f\<lparr>f_policies_action := ACTION_NONE\<rparr>) s)
             in if ok then upd_farm fid (\<lambda>f. f\<lparr>f_state := VALUE_STATE_UP\<rparr>) s' else s') = Some g \<and>
           map b_id (f_backends g) = map b_id (f_backends f) \<and> unsettled g = unsettled f"
proof -
  let ?r = "farm_validate fid (upd_farm fid (\<lambda>f. f\<lparr>f_policies_action := ACTION_NONE\<rparr>) s)"
  have "lives fid f (snd ?r)"
    by (intro lives_validate lives_upd lives_start assms) (simp add: life_def)
  then obtain h where h: "get_farm fid (snd ?r) = Some h" "life h = life f" by (auto simp: lives_def)
  have "unsettled (h\<lparr>f_state := VALUE_STATE_UP\<rparr>) = unsettled h"
    by (simp add: unsettled_def pool_distance_def bck_distance_def [abs_def] backend_validate_def farm_is_ingress_mode_def pool_prio_def)
  then show ?thesis
    using unsettled_life(1,2) [OF h(2)] h(1) get_farm_upd_at [OF h(1), of "\<lambda>f. f\<lparr>f_state := VALUE_STATE_UP\<rparr>"]
    by (simp add: case_prod_unfold Let_def)
qed

lemma set_action_runs:
  assumes "calls_run call fid k" "ready k f" "get_farm fid s = Some f" "named_neighbours env"
  shows "set_action_call call env fid action s \<noteq> None"
proof -
  define force where "force = (action = ACTION_STOP \<and> f_state f = VALUE_STATE_CONFERR)"
  define s1 where "s1 = (if force
     then let (ok, s') = farm_validate fid (upd_farm fid (\<lambda>f. f\<lparr>f_policies_action := ACTION_NONE\<rparr>) s)
          in if ok then upd_farm fid (\<lambda>f. f\<lparr>f_state := VALUE_STATE_UP\<rparr>) s' else s'
     else s)"
  obtain g where g: "get_farm fid s1 = Some g" "map b_id (f_backends g) = map b_id (f_backends f)" "unsettled g = unsettled f"
    using force_left [OF assms(3)] assms(3) by (cases force) (auto simp: s1_def)
  then have rdy: "ready k g" and lg: "left fid g s1" using assms(2) left_start by (simp_all add: ready_def)
  have due: "(do { (_, s3) \<leftarrow> gen_priority_call call fid t;
          let s4 = upd_farm fid (\<lambda>f. f\<lparr>f_action := a\<rparr>) (farm_manage_eventd s3);
          s5 \<leftarrow> set_netinfo_call call env fid s4;
          s6 \<leftarrow> validate_call call fid s5;
          Some (True, if a = ACTION_STOP \<or> a = ACTION_START then farmaddress_s_set_action fid a s6 else s6) }) \<noteq> None"
    if "left fid g t" for a t
    using due_action_runs [OF assms(1) rdy that assms(4), of a] by (auto simp: runs_def)
  have two: "left fid g (if c then upd_farm fid (\<lambda>f. f\<lparr>f_policies_action := a\<rparr>) s1 else s1)" for c a
    using lg left_policies_action by simp
  have choice: "(if c then m else m') \<noteq> None" if "m \<noteq> None" "m' \<noteq> None" for c and m m' :: "(bool \<times> objs) option"
    using that by simp
  show ?thesis
    unfolding set_action_call_def assms(3) option.case Let_def [of "action = ACTION_STOP \<and> _"] force_def [symmetric]
    unfolding Let_def [of "if force then _ else _"] s1_def [symmetric]
    unfolding g(1) option.case Let_def
    by (intro choice due [OF two, unfolded Let_def] option.simps)
qed

section \<open>The cycle ends\<close>

lemma change_runs:
  assumes "calls_run call fid k" "get_farm fid s = Some f" "get_bck bid f = Some b" "effective_state f b v \<noteq> b_state b"
    "named_neighbours env"
  defines "g \<equiv> upd_bck bid (\<lambda>x. x\<lparr>b_state := effective_state f b v\<rparr>) f"
  assumes "ready k g"
  shows "runs (left fid g) (set_state_step call env fid bid v s)"
proof -
  let ?v = "effective_state f b v"
  define s1 where "s1 = upd_farm fid (upd_bck bid (\<lambda>x. x\<lparr>b_state := ?v\<rparr>)) s"
  define s2 where "s2 = (if ?v = VALUE_STATE_UP \<and> f_persistence f \<noteq> VALUE_META_NONE
    then session_backend_action env fid bid ACTION_START s1 else s1)"
  define act where "act = state_action (b_state b) ?v (b_action b)"
  define s3 where "s3 = upd_farm fid (upd_bck bid (\<lambda>b. b\<lparr>b_action := act\<rparr>)) s2"
  have "left fid g s1"
    unfolding s1_def using get_farm_upd_at [OF assms(2), of "upd_bck bid (\<lambda>x. x\<lparr>b_state := ?v\<rparr>)"]
    by (intro left_start) (simp add: g_def upd_bck_def)
  then have "left fid g s2" using left_lives [OF _ lives_sessions] by (simp add: s2_def)
  moreover have "nearer h (upd_bck bid (\<lambda>b. b\<lparr>b_action := act\<rparr>) h)" for h
    using same_pool_upd [of "\<lambda>b. b\<lparr>b_action := act\<rparr>" h bid] by (intro nearer_informed) (simp add: same_pool_def)
  ultimately have s3: "left fid g s3" by (simp add: s3_def left_upd)
  have go: "runs (left fid g) (do { (_, s4) \<leftarrow> set_action_call call env fid ACTION_RELOAD s3;
      (_, s5) \<leftarrow> gen_priority_call call fid s4; Some s5 })"
  proof (rule runs_bind [OF reload_runs [OF assms(1) \<open>ready k g\<close> s3 assms(5)]], goal_cases)
    case (1 r)
    show ?case
      unfolding case_prod_unfold
      by (rule runs_bind [OF gen_priority_left [OF assms(1) \<open>ready k g\<close> 1]]) simp
  qed
  have "set_state_step call env fid bid v s =
      (if ?v = VALUE_STATE_AVAIL then Some s3
       else if act \<noteq> ACTION_NONE then do { (_, s4) \<leftarrow> set_action_call call env fid ACTION_RELOAD s3;
         (_, s5) \<leftarrow> gen_priority_call call fid s4; Some s5 }
       else Some s3)"
    unfolding set_state_step_def s3_def s2_def s1_def act_def
    using assms(2-4) by (simp add: get_farm_bck_def Let_def eq_commute [of "b_state b"])
  then show ?thesis using go s3 by simp
qed

text \<open>One more unit of fuel allows for one more change.\<close>

lemma cycle_runs:
  assumes "named_neighbours env"
  shows "calls_run (backend_set_state n env fid) fid n"
proof (induction n)
  case 0
  show ?case by (simp add: calls_run_def)
next
  case (Suc n)
  show ?case
    unfolding calls_run_def backend_set_state.simps
  proof (intro allI impI, elim conjE)
    fix bid v s f b
    assume a: "get_farm fid s = Some f" "distinct (map b_id (f_backends f))" "get_bck bid f = Some b" "inner_call f b v"
      "unsettled f < Suc n"
    show "runs (left fid f) (set_state_step (backend_set_state n env fid) env fid bid v s)"
    proof (cases "effective_state f b v = b_state b")
      case True
      then have "set_state_step (backend_set_state n env fid) env fid bid v s = Some s"
        using a(1,3) by (simp add: set_state_step_def get_farm_bck_def)
      then show ?thesis using a(1) left_start by simp
    next
      case False
      let ?g = "upd_bck bid (\<lambda>x. x\<lparr>b_state := effective_state f b v\<rparr>) f"
      have less: "unsettled ?g < unsettled f" by (rule unsettled_inner_call [OF a(2-4) False])
      have ids: "map b_id (f_backends ?g) = map b_id (f_backends f)" by (rule state_put(3) [OF a(2,3)])
      have "ready n ?g" unfolding ready_def ids using a(2,5) less by simp
      then have "runs (left fid ?g) (set_state_step (backend_set_state n env fid) env fid bid v s)"
        by (rule change_runs [OF Suc.IH a(1,3) False assms])
      moreover have "nearer f ?g" using less ids by (simp add: nearer_def) (simp add: upd_bck_def)
      ultimately show ?thesis using left_trans runs_mono by metis
    qed
  qed
qed

text \<open>The fuel every call may be given.\<close>

definition enough_fuel :: "farm \<Rightarrow> nat" where
  "enough_fuel f = 6 * length (f_backends f) * length (f_backends f) + 8 * length (f_backends f) + 3"

lemma enough_ready: "distinct (map b_id (f_backends f)) \<Longrightarrow> enough_fuel f \<le> Suc n \<Longrightarrow> ready n f"
  using unsettled_bound [OF refl, of f] by (simp add: ready_def enough_fuel_def)



end
