(* ===== verification/Checksum.thy ===== *)
theory Checksum
  imports Prelude
begin

unbundle bit_operations_syntax

text \<open>
  The Internet checksum of the neighbour solicitations (checksum.c). Memory is a list of bytes;
  \<open>big\<close> says whether the host reads a \<open>uint16_t\<close> with the high byte first. The sum is 32 bits wide
  and wraps, as in the code.
\<close>

section \<open>Definitions\<close>

type_synonym byte = "8 word"

definition load16 :: "bool \<Rightarrow> byte \<Rightarrow> byte \<Rightarrow> 16 word" where
  "load16 big b0 b1 = (if big then ucast b0 * 256 + ucast b1 else ucast b0 + ucast b1 * 256)"

definition store16 :: "bool \<Rightarrow> 16 word \<Rightarrow> byte list" where
  "store16 big w = (if big then [ucast (drop_bit 8 w), ucast w] else [ucast w, ucast (drop_bit 8 w)])"

text \<open>The loop over the half words and the left-over byte.\<close>

fun sum_loop :: "bool \<Rightarrow> byte list \<Rightarrow> 32 word \<Rightarrow> 32 word" where
  "sum_loop big (b0 # b1 # bs) acc = sum_loop big bs (acc + ucast (load16 big b0 b1))"
| "sum_loop big [b] acc = acc + ucast b"
| "sum_loop big [] acc = acc"

lemma unat_bound: "unat (w :: 'a::len word) < 2 ^ LENGTH('a)"
  by (rule unsigned_less)

lemma fold_unat:
  fixes s :: "32 word"
  shows "unat ((s AND 0xffff) + drop_bit 16 s) = unat s mod 65536 + unat s div 65536"
proof -
  have m: "s AND 0xffff = take_bit 16 s" by (simp add: take_bit_eq_mask mask_eq_exp_minus_1)
  have lo: "unat (s AND 0xffff) = unat s mod 65536"
    unfolding m by (simp add: take_bit_eq_mod unat_mod)
  have hi: "unat (drop_bit 16 s) = unat s div 65536"
    by (simp add: drop_bit_eq_div unat_div)
  have "unat s < 4294967296" using unat_bound [of s] by simp
  then have "unat s mod 65536 + unat s div 65536 < 2 ^ 32"
    using mod_less_divisor [of 65536 "unat s"] by simp
  then show ?thesis by (simp add: unat_word_ariths(1) lo hi)
qed

text \<open>The folding loop: \<open>while (sum >> 16)\<close>.\<close>

function fold_loop :: "32 word \<Rightarrow> 32 word" where
  "fold_loop s = (if drop_bit 16 s = 0 then s else fold_loop ((s AND 0xffff) + drop_bit 16 s))"
  by auto

termination
proof (relation "measure unat")
  fix s :: "32 word"
  assume "drop_bit 16 s \<noteq> 0"
  then have "unat (drop_bit 16 s) \<noteq> 0" by (simp add: unat_eq_0)
  then have "unat s div 65536 \<noteq> 0" by (simp add: drop_bit_eq_div unat_div)
  moreover have "unat s = unat s div 65536 * 65536 + unat s mod 65536" by simp
  ultimately have "unat s mod 65536 + unat s div 65536 < unat s" by linarith
  then show "((s AND 0xffff) + drop_bit 16 s, s) \<in> measure unat" by (simp add: fold_unat)
qed simp

declare fold_loop.simps [simp del]

definition checksum :: "bool \<Rightarrow> byte list \<Rightarrow> 16 word" where
  "checksum big bs = ucast (NOT (fold_loop (sum_loop big bs 0)))"

record ip6_hdr =
  ip6_src :: "byte list"
  ip6_dst :: "byte list"
  ip6_nxt :: byte

record icmp6_hdr =
  icmp6_type :: byte
  icmp6_code :: byte
  icmp6_id :: "16 word"
  icmp6_seq :: "16 word"

abbreviation ICMP_HDRLEN :: nat where "ICMP_HDRLEN \<equiv> 8"

text \<open>The pseudo header up to the checksum field, then what follows it.\<close>

definition pseudo_head :: "bool \<Rightarrow> ip6_hdr \<Rightarrow> icmp6_hdr \<Rightarrow> nat \<Rightarrow> byte list" where
  "pseudo_head big ip icmp payloadlen =
     ip6_src ip @ ip6_dst ip @
     [0, 0, of_nat ((ICMP_HDRLEN + payloadlen) div 256), of_nat ((ICMP_HDRLEN + payloadlen) mod 256)] @
     [0, 0, 0, ip6_nxt ip, icmp6_type icmp, icmp6_code icmp] @
     store16 big (icmp6_id icmp) @ store16 big (icmp6_seq icmp)"

definition padded :: "byte list \<Rightarrow> byte list" where
  "padded payload = payload @ replicate (length payload mod 2) 0"

definition icmp6_checksum :: "bool \<Rightarrow> ip6_hdr \<Rightarrow> icmp6_hdr \<Rightarrow> byte list \<Rightarrow> 16 word" where
  "icmp6_checksum big ip icmp payload =
     checksum big (pseudo_head big ip icmp (length payload) @ [0, 0] @ padded payload)"

section \<open>The sum and its folding\<close>

text \<open>The sum over the integers.\<close>

fun half_sum :: "bool \<Rightarrow> byte list \<Rightarrow> nat" where
  "half_sum big (b0 # b1 # bs) = unat (load16 big b0 b1) + half_sum big bs"
| "half_sum big [b] = unat b"
| "half_sum big [] = 0"

lemma unat_upcast: "unat (ucast (w :: 16 word) :: 32 word) = unat w" "unat (ucast (b :: byte) :: 32 word) = unat b"
  by (simp_all add: unsigned_ucast_eq take_bit_nat_eq_self_iff less_le_trans [OF unsigned_less])

lemma sum_loop_unat: "unat (sum_loop big bs acc) = (unat acc + half_sum big bs) mod 2 ^ 32"
  by (induction big bs acc rule: sum_loop.induct)
     (simp_all add: unat_word_ariths(1) unat_upcast mod_simps add.assoc mod_less [OF unat_bound [where 'a = 32, simplified]])

lemma half_sum_le: "half_sum big bs \<le> 65535 * length bs"
proof (induction big bs rule: half_sum.induct)
  case (1 big b0 b1 bs)
  then show ?case using unat_bound [of "load16 big b0 b1"] by simp
next
  case (2 big b)
  then show ?case using unat_bound [of b] by simp
qed simp

lemma half_sum_append: "even (length xs) \<Longrightarrow> half_sum big (xs @ ys) = half_sum big xs + half_sum big ys"
  by (induction big xs rule: half_sum.induct) simp_all

lemma fold_loop_spec:
  "unat (fold_loop s) < 65536 \<and> unat (fold_loop s) mod 65535 = unat s mod 65535 \<and> (fold_loop s = 0) = (s = 0)"
proof (induction s rule: fold_loop.induct)
  case (1 s)
  show ?case
  proof (cases "drop_bit 16 s = 0")
    case True
    then have "unat (drop_bit 16 s) = 0" by simp
    then have "unat s div 65536 = 0" by (simp add: drop_bit_eq_div unat_div)
    moreover have "fold_loop s = s" using True by (subst fold_loop.simps) simp
    ultimately show ?thesis by auto
  next
    case False
    let ?t = "(s AND 0xffff) + drop_bit 16 s"
    have "unat s = 65535 * (unat s div 65536) + unat ?t" by (simp add: fold_unat)
    then have "unat s mod 65535 = unat ?t mod 65535" by (metis mod_mult_self4)
    moreover have "(unat ?t = 0) = (unat s = 0)"
      unfolding fold_unat by (metis add_is_0 div_mult_mod_eq mod_0 div_0 mult_0)
    then have "(?t = 0) = (s = 0)" by (simp only: unat_eq_0)
    moreover have "fold_loop s = fold_loop ?t" using False by (subst fold_loop.simps) simp
    ultimately show ?thesis using 1 [OF False] by metis
  qed
qed

section \<open>Properties\<close>

lemma low_not: "unat (s :: 32 word) < 65536 \<Longrightarrow> unat (ucast (NOT s) :: 16 word) = 65535 - unat s"
proof -
  assume s: "unat s < 65536"
  have "NOT s = - 1 - s" by (simp add: not_eq_complement)
  then have "unat (NOT s) = 4294967295 - unat s"
    by (simp add: unat_sub unsigned_minus_1_eq_mask mask_eq_exp_minus_1 word_le_nat_alt less_imp_le_nat [OF less_le_trans [OF s]])
  also have "\<dots> = 65535 * 65536 + (65535 - unat s)" using s by simp
  finally have "unat (NOT s) mod 65536 = (65535 * 65536 + (65535 - unat s)) mod 65536" by (rule arg_cong)
  also have "\<dots> = 65535 - unat s" unfolding mod_mult_self3 by (simp add: mod_less)
  finally have "unat (NOT s) mod 65536 = 65535 - unat s" .
  then show ?thesis by (simp add: unsigned_ucast_eq take_bit_eq_mod del: unsigned_not_eq)
qed

lemma checksum_unat: "unat (checksum big bs) = 65535 - unat (fold_loop (sum_loop big bs 0))"
  using low_not fold_loop_spec by (simp add: checksum_def)

lemma sum_exact: "length bs < 65536 \<Longrightarrow> unat (sum_loop big bs 0) = half_sum big bs"
  using half_sum_le [of big bs] by (simp add: sum_loop_unat)

lemma checksum_zero:
  assumes "length bs < 65536"
  shows "checksum big bs = 0 \<longleftrightarrow> half_sum big bs \<noteq> 0 \<and> half_sum big bs mod 65535 = 0"
proof -
  let ?s = "sum_loop big bs 0"
  have n: "unat ?s = half_sum big bs" by (rule sum_exact [OF assms])
  have f: "unat (fold_loop ?s) < 65536" "unat (fold_loop ?s) mod 65535 = half_sum big bs mod 65535"
    "(unat (fold_loop ?s) = 0) = (half_sum big bs = 0)"
    using fold_loop_spec [of ?s] n by (auto simp: unat_eq_0)
  have "checksum big bs = 0 \<longleftrightarrow> unat (checksum big bs) = 0" by (simp only: unat_eq_0)
  also have "\<dots> \<longleftrightarrow> unat (fold_loop ?s) = 65535" using f(1) by (auto simp: checksum_unat)
  also have "\<dots> \<longleftrightarrow> half_sum big bs \<noteq> 0 \<and> half_sum big bs mod 65535 = 0"
  proof
    assume "unat (fold_loop ?s) = 65535"
    then show "half_sum big bs \<noteq> 0 \<and> half_sum big bs mod 65535 = 0" using f by simp
  next
    assume "half_sum big bs \<noteq> 0 \<and> half_sum big bs mod 65535 = 0"
    then show "unat (fold_loop ?s) = 65535" using f by (auto simp: mod_eq_0_iff_dvd elim!: dvdE)
  qed
  finally show ?thesis .
qed

lemma half_sum_store [simp]: "half_sum big (store16 big w) = unat w"
proof -
  have lo: "ucast (ucast w :: byte) = take_bit 8 w" by (rule bit_word_eqI) (auto simp: bit_simps)
  have hi: "ucast (ucast (drop_bit 8 w) :: byte) = drop_bit 8 w"
    by (rule bit_word_eqI) (auto simp: bit_simps dest: bit_imp_le_length)
  have "take_bit 8 w + push_bit 8 (drop_bit 8 w) = w" using bits_ident [of 8 w] by (simp add: add.commute)
  then show ?thesis by (simp add: store16_def load16_def lo hi push_bit_eq_mult add.commute mult.commute)
qed

text \<open>
  The checksum is the one's complement sum: added to the sum of the half words it is a multiple of
  65535, whatever the byte order of the host, and the loop that folds the sum ends.
\<close>

lemma checksum_complements:
  assumes "length bs < 65536"
  shows "(unat (checksum big bs) + half_sum big bs) mod 65535 = 0"
proof -
  let ?u = "unat (fold_loop (sum_loop big bs 0))"
  have f: "?u < 65536" "?u mod 65535 = half_sum big bs mod 65535"
    using fold_loop_spec [of "sum_loop big bs 0"] sum_exact [OF assms] by auto
  have "(65535 - ?u + half_sum big bs) mod 65535 = (65535 - ?u + ?u) mod 65535"
    using f(2) by (metis mod_add_right_eq)
  with f(1) show ?thesis by (simp add: checksum_unat)
qed

lemma icmp6_sums:
  assumes "length (ip6_src ip) = 16" "length (ip6_dst ip) = 16" "length payload < 65000"
  shows "checksum big (pseudo_head big ip icmp (length payload) @
           store16 big (icmp6_checksum big ip icmp payload) @ padded payload) = 0"
proof -
  let ?h = "pseudo_head big ip icmp (length payload)" and ?c = "icmp6_checksum big ip icmp payload"
  let ?n = "half_sum big ?h + half_sum big (padded payload)"
  have h: "length ?h = 46" using assms by (simp add: pseudo_head_def store16_def)
  have p: "length (padded payload) \<le> length payload + 1" by (simp add: padded_def)
  have z: "half_sum big (?h @ [0, 0] @ padded payload) = ?n"
    using h by (simp add: half_sum_append load16_def)
  have "length (store16 big ?c) = 2" by (simp add: store16_def)
  then have c: "half_sum big (?h @ store16 big ?c @ padded payload) = unat ?c + ?n"
    using h by (simp add: half_sum_append)
  have len: "length (?h @ [0, 0] @ padded payload) < 65536"
    "length (?h @ store16 big ?c @ padded payload) < 65536"
    using h p assms(3) by (simp_all add: store16_def)
  have "(unat ?c + ?n) mod 65535 = 0"
    using checksum_complements [OF len(1), of big] z by (simp add: icmp6_checksum_def)
  moreover have "unat ?c + ?n \<noteq> 0"
  proof
    assume "unat ?c + ?n = 0"
    then have "checksum big (?h @ [0, 0] @ padded payload) = 0" "?n = 0"
      by (simp_all add: icmp6_checksum_def unat_eq_0)
    then show False using checksum_zero [OF len(1), of big] z by simp
  qed
  ultimately show ?thesis using checksum_zero [OF len(2), of big] c by simp
qed

text \<open>
  The receiver's check succeeds: a neighbour solicitation whose ICMPv6 checksum field holds what
  \<open>icmp6_checksum\<close> returned has a pseudo packet whose checksum is zero.
\<close>

lemma icmp6_checksum_verifies:
  assumes "length (ip6_src ip) = 16" "length (ip6_dst ip) = 16" "length payload < 65000"
  shows "checksum big (pseudo_head big ip icmp (length payload) @
           store16 big (icmp6_checksum big ip icmp payload) @ padded payload) = 0"
  by (rule icmp6_sums [OF assms])

end
