(* ===== verification/Policies.thy ===== *)
theory Policies
  imports Lifecycle
begin

text \<open>
  Policies and their elements (policies.c, elements.c, farmpolicy.c): the elements read from the
  listing of the kernel's set, the actions pending on elements and policies, and what a policy's
  action asks of the farms and addresses that use it. \<open>farm_set_action\<close> takes fuel, so these take it too.
\<close>

section \<open>Parsing a set\<close>

text \<open>
  One element: its address up to the next comma or space, then, when the text has counters, the packets
  between \<open>counter packets \<close> and \<open> bytes \<close>, and the bytes. The code steps over the packets and
  \<open> bytes \<close> by 8 characters, as if the packets had one digit. \<open>None\<close> where the code would follow a
  NULL pointer, take a text of negative length or leave the text.
\<close>

definition element_end :: "string \<Rightarrow> string option" where
  "element_end ini =
     (case (strstr ini '','', strstr ini '' '') of
        (None, x) \<Rightarrow> x
      | (Some f, None) \<Rightarrow> Some f
      | (Some f, Some g) \<Rightarrow> Some (if length g > length f then g else f))"

definition counters_end :: "string \<Rightarrow> string option" where
  "counters_end ini = (case strstr ini '','' of Some f \<Rightarrow> Some f | None \<Rightarrow> strstr ini '' '')"

definition parse_element :: "string \<Rightarrow> ((string \<times> string \<times> string) \<times> string) option" where
  "parse_element ini =
     (case element_end ini of
        None \<Rightarrow> None
      | Some fin \<Rightarrow>
          let addr = text_upto ini fin; ini1 = drop 1 fin
          in case strstr ini1 '' bytes '' of
               None \<Rightarrow> Some ((addr, ''0'', ''0''), dropWhile is_blank ini1)
             | Some b \<Rightarrow>
                 let ini2 = drop 16 ini1; ini3 = drop 8 ini2
                 in if length ini1 < 16 \<or> length ini2 < length b \<or> length ini2 < 8 then None
                    else case counters_end ini3 of
                           None \<Rightarrow> None
                         | Some q \<Rightarrow>
                             Some ((addr, text_upto ini2 b, text_upto ini3 q), dropWhile is_blank (drop 1 q)))"

lemma strstr_nonempty: "strstr h n = Some t \<Longrightarrow> n \<noteq> [] \<Longrightarrow> t \<noteq> []"
  by (drule strstr_Some) auto

lemma parse_element_shorter: "parse_element ini = Some (x, rest) \<Longrightarrow> length rest < length ini"
proof -
  assume p: "parse_element ini = Some (x, rest)"
  then obtain fin where fin: "element_end ini = Some fin"
    by (auto simp: parse_element_def split: option.splits)
  then have fin_le: "length fin \<le> length ini" "fin \<noteq> []"
    by (auto simp: element_end_def dest: strstr_length strstr_nonempty split: option.splits if_splits)
  have "length rest \<le> length (drop 1 fin)"
  proof (cases "strstr (drop 1 fin) '' bytes ''")
    case None
    with p fin have "rest = dropWhile is_blank (drop 1 fin)" by (auto simp: parse_element_def Let_def)
    then show ?thesis by (simp only: length_dropWhile_le)
  next
    case (Some b)
    with p fin obtain q where q: "counters_end (drop 8 (drop 16 (drop 1 fin))) = Some q"
      and rest: "rest = dropWhile is_blank (drop 1 q)"
      by (auto simp: parse_element_def Let_def split: option.splits if_splits)
    have "length q \<le> length (drop 8 (drop 16 (drop 1 fin)))"
      using q by (auto simp: counters_end_def dest: strstr_length split: option.splits)
    moreover have "length rest \<le> length (drop 1 q)" unfolding rest by (rule length_dropWhile_le)
    ultimately show ?thesis by simp
  qed
  with fin_le show ?thesis by (cases fin) auto
qed

function parse_elements_loop :: "string \<Rightarrow> (string \<times> string \<times> string) list option" where
  "parse_elements_loop ini =
     (case parse_element ini of
        None \<Rightarrow> None
      | Some (x, rest) \<Rightarrow>
          if rest \<noteq> [] \<and> hd rest \<noteq> CHR ''}'' then map_option (Cons x) (parse_elements_loop rest) else Some [x])"
  by pat_completeness auto
termination
  by (relation "measure length") (auto dest: parse_element_shorter)

declare parse_elements_loop.simps [simp del]

definition nft_parse_elements :: "string \<Rightarrow> (string \<times> string \<times> string) list option" where
  "nft_parse_elements buf =
     (case strstr buf ''elements = { '' of None \<Rightarrow> Some [] | Some p \<Rightarrow> parse_elements_loop (drop 13 p))"

section \<open>Elements\<close>

definition element_create :: "oid \<Rightarrow> string \<Rightarrow> cptr \<Rightarrow> string \<Rightarrow> string \<Rightarrow> objs \<Rightarrow> oid \<times> objs" where
  "element_create pid data time counter_pkts counter_bytes s =
     (let eid = next_oid s;
          e = \<lparr>e_id = eid, e_data = data, e_time = (if time = Some [] then None else time), e_action = ACTION_START,
               e_counter_pkts = counter_pkts, e_counter_bytes = counter_bytes\<rparr>
      in (eid, upd_policy pid (\<lambda>p. p\<lparr>p_elements := p_elements p @ [e], p_total_elem := p_total_elem p + 1\<rparr>)
                 (s\<lparr>next_oid := Suc eid\<rparr>)))"

definition element_lookup_by_name :: "policy \<Rightarrow> string \<Rightarrow> element option" where
  "element_lookup_by_name p data = find (\<lambda>e. e_data e = data) (p_elements p)"

definition element_delete_node :: "oid \<Rightarrow> oid \<Rightarrow> objs \<Rightarrow> objs" where
  "element_delete_node pid eid = upd_policy pid (\<lambda>p. p\<lparr>p_elements := kdel e_id eid (p_elements p)\<rparr>)"

section \<open>Policies\<close>

definition policy_set_family :: "family \<Rightarrow> policy \<Rightarrow> policy" where
  "policy_set_family new_value p =
     (if new_value \<noteq> VALUE_FAMILY_IPV4 \<and> new_value \<noteq> VALUE_FAMILY_IPV6 then p
      else if p_family p = new_value then p else p\<lparr>p_family := new_value\<rparr>)"

definition policy_set_type :: "ptype \<Rightarrow> policy \<Rightarrow> policy" where
  "policy_set_type new_value p = p\<lparr>p_type := new_value\<rparr>"

text \<open>\<open>farm_set_action\<close> on the objects, without its result.\<close>

definition farm_act :: "nat \<Rightarrow> netenv \<Rightarrow> oid \<Rightarrow> action \<Rightarrow> objs \<Rightarrow> objs option" where
  "farm_act n env fid action s = map_option snd (farm_set_action n env fid action s)"

definition farmpolicy_s_lookup_policy_action :: "nat \<Rightarrow> netenv \<Rightarrow> string \<Rightarrow> action \<Rightarrow> oid \<Rightarrow> objs \<Rightarrow> objs option" where
  "farmpolicy_s_lookup_policy_action n env name action fid s =
     (case get_farm fid s of
        None \<Rightarrow> Some s
      | Some f \<Rightarrow>
          let (ret, s1) = (case farmpolicy_lookup_by_name f name s of
                             None \<Rightarrow> (False, s) | Some fp \<Rightarrow> farmpolicy_set_action fid (fp_id fp) action s)
          in if ret then map_option (farmaddress_s_set_action fid ACTION_RELOAD) (farm_act n env fid ACTION_RELOAD s1)
             else Some s1)"

definition farm_s_lookup_policy_action :: "nat \<Rightarrow> netenv \<Rightarrow> string \<Rightarrow> action \<Rightarrow> objs \<Rightarrow> objs option" where
  "farm_s_lookup_policy_action n env name action s =
     foldo (farmpolicy_s_lookup_policy_action n env name action) (map f_id (farms s)) s"

text \<open>A deleted policy is taken from the farms only; the addresses that use it keep their links.\<close>

definition policy_set_action :: "nat \<Rightarrow> netenv \<Rightarrow> oid \<Rightarrow> action \<Rightarrow> objs \<Rightarrow> (bool \<times> objs) option" where
  "policy_set_action n env pid action s =
     (case get_policy pid s of
        None \<Rightarrow> Some (False, s)
      | Some p \<Rightarrow>
          if p_action p = action \<or> p_action p = ACTION_START \<and> action = ACTION_RELOAD then Some (False, s)
          else if action = ACTION_DELETE
          then do { s1 \<leftarrow> farm_s_lookup_policy_action n env (p_name p) action s; Some (True, policy_delete pid s1) }
          else
            do { s1 \<leftarrow> (if action = ACTION_STOP \<or> action = ACTION_RELOAD
                        then map_option (address_s_lookup_policy_action (p_name p) action)
                               (farm_s_lookup_policy_action n env (p_name p) action s)
                        else Some s);
                 Some (True, upd_policy pid (\<lambda>p. p\<lparr>p_action := action\<rparr>) s1) })"

definition policy_act :: "nat \<Rightarrow> netenv \<Rightarrow> oid \<Rightarrow> action \<Rightarrow> objs \<Rightarrow> objs option" where
  "policy_act n env pid action s = map_option snd (policy_set_action n env pid action s)"

definition policy_s_set_action :: "nat \<Rightarrow> netenv \<Rightarrow> action \<Rightarrow> objs \<Rightarrow> objs option" where
  "policy_s_set_action n env action s = foldo (\<lambda>pid. policy_act n env pid action) (map p_id (policies s)) s"

definition element_delete :: "nat \<Rightarrow> netenv \<Rightarrow> oid \<Rightarrow> oid \<Rightarrow> objs \<Rightarrow> objs option" where
  "element_delete n env pid eid s =
     map_option (element_delete_node pid eid)
       (policy_act n env pid ACTION_RELOAD (upd_policy pid (\<lambda>p. p\<lparr>p_total_elem := p_total_elem p - 1\<rparr>) s))"

definition element_set_action :: "nat \<Rightarrow> netenv \<Rightarrow> oid \<Rightarrow> oid \<Rightarrow> action \<Rightarrow> objs \<Rightarrow> (bool \<times> objs) option" where
  "element_set_action n env pid eid action s =
     (if action = ACTION_DELETE then map_option (Pair True) (element_delete n env pid eid s)
      else
        Some (case Option.bind (get_policy pid s) (\<lambda>p. kfind e_id eid (p_elements p)) of
                None \<Rightarrow> False | Some e \<Rightarrow> e_action e \<noteq> action,
              upd_policy pid (\<lambda>p. p\<lparr>p_elements := kupd e_id eid (\<lambda>e. e\<lparr>e_action := action\<rparr>) (p_elements p)\<rparr>) s))"

definition elem_ids :: "oid \<Rightarrow> objs \<Rightarrow> oid list" where
  "elem_ids pid s = (case get_policy pid s of None \<Rightarrow> [] | Some p \<Rightarrow> map e_id (p_elements p))"

text \<open>Stopping all elements flushes the policy instead.\<close>

definition element_s_set_action :: "nat \<Rightarrow> netenv \<Rightarrow> oid \<Rightarrow> action \<Rightarrow> objs \<Rightarrow> objs option" where
  "element_s_set_action n env pid action s =
     (if action = ACTION_STOP then policy_act n env pid ACTION_FLUSH s
      else foldo (\<lambda>eid s. map_option snd (element_set_action n env pid eid action s)) (elem_ids pid s) s)"

definition element_s_delete :: "nat \<Rightarrow> netenv \<Rightarrow> oid \<Rightarrow> objs \<Rightarrow> objs option" where
  "element_s_delete n env pid s =
     map_option (upd_policy pid (\<lambda>p. p\<lparr>p_total_elem := 0\<rparr>))
       (foldo (element_delete n env pid) (elem_ids pid s) s)"

text \<open>The elements of the kernel are added behind the ones that are there.\<close>

definition element_get_list :: "netenv \<Rightarrow> oid \<Rightarrow> objs \<Rightarrow> objs option" where
  "element_get_list env pid s =
     (case get_policy pid s of
        None \<Rightarrow> Some s
      | Some p \<Rightarrow>
          map_option (\<lambda>es. fold (\<lambda>(addr, pkts, bytes) s. snd (element_create pid addr None pkts bytes s)) es
                             (upd_policy pid (\<lambda>p. p\<lparr>p_total_elem := 0\<rparr>) s))
            (nft_parse_elements (nft_list_elements env p)))"

section \<open>The listing of a set\<close>

definition counted_ok :: "string \<times> char \<times> string \<Rightarrow> bool" where
  "counted_ok = (\<lambda>(addr, d, bytes). plain addr \<and> is_digit d \<and> plain bytes)"

fun render_element :: "string \<times> char \<times> string \<Rightarrow> string" where
  "render_element (addr, d, bytes) = addr @ '' counter packets '' @ [d] @ '' bytes '' @ bytes"

fun render_elements :: "(string \<times> char \<times> string) list \<Rightarrow> string" where
  "render_elements [] = []"
| "render_elements [x] = render_element x"
| "render_elements (x # xs) = render_element x @ '', '' @ render_elements xs"

definition set_end :: "string \<Rightarrow> bool" where
  "set_end rest = (starts_with '' }'' rest \<and> CHR '','' \<notin> set rest)"

lemma element_end_plain:
  assumes "plain addr"
  shows "element_end (addr @ CHR '' '' # x) = Some (CHR '' '' # x)"
proof -
  have sp: "strstr (addr @ CHR '' '' # x) '' '' = Some (CHR '' '' # x)"
    using strstr_first [of "CHR '' ''" addr "[]" x] plain_no_space [OF assms] by simp
  have co: "strstr (addr @ CHR '' '' # x) '','' = strstr x '',''"
    using strstr_skip [of "CHR '',''" "addr @ '' ''" x "[]"] plain_no_space [OF assms] by simp
  show ?thesis
    by (auto simp: element_end_def sp co dest!: strstr_length split: option.split)
qed

lemma bytes_found:
  assumes "is_digit d"
  shows "strstr (''counter packets '' @ [d] @ '' bytes '' @ s) '' bytes '' = Some ('' bytes '' @ s)"
proof -
  have d: "d \<noteq> CHR ''b''" "d \<noteq> CHR '' ''" using assms by (auto simp: is_digit_def)
  have "strstr (''counter'' @ '' packets '' @ [d] @ '' bytes '' @ s) '' bytes '' =
        strstr ('' packets '' @ [d] @ '' bytes '' @ s) '' bytes ''"
    by (rule strstr_skip) simp
  also have "\<dots> = strstr (''packets'' @ '' '' @ [d] @ '' bytes '' @ s) '' bytes ''"
    by (simp add: starts_with_Cons)
  also have "\<dots> = strstr ('' '' @ [d] @ '' bytes '' @ s) '' bytes ''"
    by (rule strstr_skip) simp
  also have "\<dots> = strstr ([d] @ '' bytes '' @ s) '' bytes ''"
    using d by (simp add: starts_with_Cons)
  also have "\<dots> = Some ('' bytes '' @ s)"
    using strstr_first [of "CHR '' ''" "[d]" "''bytes ''" s] d by simp
  finally show ?thesis by simp
qed

lemma parse_element_render:
  assumes x: "counted_ok (addr, d, bytes)" and s: "counters_end (bytes @ s) = Some s"
  shows "parse_element (render_element (addr, d, bytes) @ s) = Some ((addr, [d], bytes), dropWhile is_blank (drop 1 s))"
proof -
  from x have p: "plain addr" "is_digit d" "plain bytes" by (simp_all add: counted_ok_def)
  show ?thesis
    using element_end_plain [OF p(1), of "''counter packets '' @ [d] @ '' bytes '' @ bytes @ s"] bytes_found [OF p(2), of "bytes @ s"] s
      text_upto_append [of addr "'' counter packets '' @ [d] @ '' bytes '' @ bytes @ s"] text_upto_append [of bytes s]
      text_upto_append [of "[d]" "'' bytes '' @ bytes @ s"]
    by (simp add: parse_element_def Let_def)
qed

lemma counters_end_comma: "plain b \<Longrightarrow> counters_end (b @ CHR '','' # r) = Some (CHR '','' # r)"
  using strstr_first [of "CHR '',''" b "[]" r] by (simp add: counters_end_def plain_no_space)

lemma counters_end_last:
  assumes "plain b" "set_end r"
  shows "counters_end (b @ r) = Some r"
proof -
  obtain r0 where r: "r = CHR '' '' # r0" using assms(2) by (cases r) (auto simp: set_end_def starts_with_def)
  have "strstr (b @ r) '','' = None"
    using strstr_skip [of "CHR '',''" "b @ r" "[]" "[]"] plain_no_space assms by (simp add: set_end_def)
  moreover have "strstr (b @ r) '' '' = Some r"
    using strstr_first [of "CHR '' ''" b "[]" r0] plain_no_space assms(1) r by simp
  ultimately show ?thesis by (simp add: counters_end_def)
qed

lemma render_element_head: "counted_ok x \<Longrightarrow> \<exists>c t. render_element x @ s = c # t \<and> \<not> is_blank c"
  by (cases x; cases "fst x") (auto simp: counted_ok_def plain_def)

lemma parse_elements_render:
  assumes "set_end rest"
  shows "es \<noteq> [] \<Longrightarrow> \<forall>x \<in> set es. counted_ok x \<and> hd (fst x) \<noteq> CHR ''}'' \<Longrightarrow>
    parse_elements_loop (render_elements es @ rest) = Some (map (\<lambda>(addr, d, bytes). (addr, [d], bytes)) es)"
proof (induction es rule: render_elements.induct)
  case (2 x)
  obtain addr d bytes where x: "x = (addr, d, bytes)" by (cases x)
  have "parse_element (render_element x @ rest) = Some ((addr, [d], bytes), dropWhile is_blank (drop 1 rest))"
    using 2 x parse_element_render counters_end_last assms by (auto simp: counted_ok_def)
  moreover have "hd (dropWhile is_blank (drop 1 rest)) = CHR ''}''"
    using assms by (cases rest; cases "tl rest") (auto simp: set_end_def starts_with_Cons is_blank_def starts_with_def)
  ultimately show ?case by (subst parse_elements_loop.simps) (simp add: x)
next
  case (3 x y ys)
  obtain addr d bytes where x: "x = (addr, d, bytes)" by (cases x)
  let ?r = "render_elements (y # ys) @ rest"
  obtain c t where r: "?r = c # t" "\<not> is_blank c" "c \<noteq> CHR ''}''"
    using "3.prems"(2) by (cases ys; cases y; cases "fst y") (auto simp: counted_ok_def plain_def)
  have "dropWhile is_blank (CHR '' '' # ?r) = ?r" using r by (simp add: is_blank_def)
  moreover have "parse_element (render_element x @ CHR '','' # CHR '' '' # ?r) = Some ((addr, [d], bytes), dropWhile is_blank (CHR '' '' # ?r))"
    using "3.prems"(2) x parse_element_render [of addr d bytes "CHR '','' # CHR '' '' # ?r"] counters_end_comma [of bytes "CHR '' '' # ?r"]
    by (auto simp: counted_ok_def)
  ultimately have "parse_element (render_elements (x # y # ys) @ rest) = Some ((addr, [d], bytes), ?r)" by simp
  with "3.IH" "3.prems" x r show ?case by (subst parse_elements_loop.simps) auto
qed simp

text \<open>
  (C34) The listing of the kernel's set is read back, as long as no element has seen ten packets: when the
  set lists its elements as \<open>address counter packets d bytes b\<close> with a single digit \<open>d\<close>, the parser
  returns exactly the addresses with their two counters, in order.
\<close>

theorem parse_elements_listed:
  assumes "es \<noteq> []" "\<forall>x \<in> set es. counted_ok x \<and> hd (fst x) \<noteq> CHR ''}''" "set_end rest"
  shows "nft_parse_elements (''elements = { '' @ render_elements es @ rest) =
           Some (map (\<lambda>(addr, d, bytes). (addr, [d], bytes)) es)"
  using parse_elements_render [OF assms(3,1,2)] strstr_self [of "''elements = { ''"]
  by (simp add: nft_parse_elements_def)

theorem parse_elements_listed_witness:
  "nft_parse_elements (''elements = { '' @
     render_elements [(''1.1.1.1'', CHR ''3'', ''180''), (''10.0.0.0/8'', CHR ''0'', ''0'')] @ '' }'') =
   Some [(''1.1.1.1'', ''3'', ''180''), (''10.0.0.0/8'', ''0'', ''0'')]"
  using parse_elements_listed [of "[(''1.1.1.1'', CHR ''3'', ''180''), (''10.0.0.0/8'', CHR ''0'', ''0'')]" "'' }''"]
  by (simp add: counted_ok_def plain_def set_end_def starts_with_def is_blank_def is_digit_def)

text \<open>From the tenth packet on the byte counter is cut at the wrong place and what is left is taken for an element.\<close>

lemma parse_elements_ten:
  "nft_parse_elements ''elements = { 1.1.1.1 counter packets 12 bytes 720 }'' =
     Some [(''1.1.1.1'', ''12'', []), (''720'', ''0'', ''0'')]"
  by code_simp

end
