(* ===== verification/Balancer.thy ===== *)
theory Balancer
  imports Sessions
begin

unbundle bit_operations_syntax

text \<open>
  The load balancing rules of nft.c: the printed names of families and protocols, the scheduler
  expression and the maps from the scheduler's value to a backend. A function that appends to the
  \<open>u_buffer\<close> returns the text it appends.
\<close>

section \<open>Names\<close>

datatype map_mode =
    BCK_MAP_NONE | BCK_MAP_IPADDR | BCK_MAP_ETHADDR | BCK_MAP_WEIGHT | BCK_MAP_MARK
  | BCK_MAP_IPADDR_PORT | BCK_MAP_NAME | BCK_MAP_SRCIPADDR | BCK_MAP_BCK_IPADDR | BCK_MAP_BCK_MARK
  | BCK_MAP_BCK_IPADDR_F_PORT | BCK_MAP_BCK_BF_SRCIPADDR | BCK_MAP_BCK_ID | BCK_MAP_OFACE
  | BCK_MAP_PROTO_IPADDR_PORT | BCK_MAP_BCK_PROTO_IPADDR_F_PORT | BCK_MAP_PROTO_IPADDR
  | BCK_MAP_PROTO_PORT | BCK_MAP_PORT

abbreviation NFTLB_TABLE_NAME :: string where "NFTLB_TABLE_NAME \<equiv> ''nftlb''"
abbreviation NFTLB_F_CHAIN_ING_FILTER :: flags where "NFTLB_F_CHAIN_ING_FILTER \<equiv> 1"
abbreviation NFTLB_F_CHAIN_ING_DNAT :: flags where "NFTLB_F_CHAIN_ING_DNAT \<equiv> 2"
abbreviation NFTLB_F_CHAIN_PRE_FILTER :: flags where "NFTLB_F_CHAIN_PRE_FILTER \<equiv> 4"
abbreviation NFTLB_F_CHAIN_PRE_DNAT :: flags where "NFTLB_F_CHAIN_PRE_DNAT \<equiv> 8"
abbreviation NFTLB_F_CHAIN_FWD_FILTER :: flags where "NFTLB_F_CHAIN_FWD_FILTER \<equiv> 16"
abbreviation NFTLB_F_CHAIN_POS_SNAT :: flags where "NFTLB_F_CHAIN_POS_SNAT \<equiv> 32"
abbreviation NFTLB_F_CHAIN_OUT_FILTER :: flags where "NFTLB_F_CHAIN_OUT_FILTER \<equiv> 64"
abbreviation NFTLB_F_CHAIN_OUT_DNAT :: flags where "NFTLB_F_CHAIN_OUT_DNAT \<equiv> 128"

text \<open>\<open>printf\<close> of a NULL string.\<close>

definition cstr :: "cptr \<Rightarrow> string" where
  "cstr p = (case p of None \<Rightarrow> ''(null)'' | Some t \<Rightarrow> t)"

fun print_nft_family_type :: "family \<Rightarrow> string" where
  "print_nft_family_type VALUE_FAMILY_IPV6 = ''ipv6_addr''"
| "print_nft_family_type _ = ''ipv4_addr''"

fun print_nft_family :: "family \<Rightarrow> string" where
  "print_nft_family VALUE_FAMILY_NETDEV = ''netdev''"
| "print_nft_family VALUE_FAMILY_IPV6 = ''ip6''"
| "print_nft_family _ = ''ip''"

fun print_nft_family_protocol :: "family \<Rightarrow> string" where
  "print_nft_family_protocol VALUE_FAMILY_IPV6 = ''nexthdr''"
| "print_nft_family_protocol _ = ''protocol''"

definition print_nft_table_family :: "family \<Rightarrow> flags \<Rightarrow> string" where
  "print_nft_table_family family type =
     (if family = VALUE_FAMILY_NETDEV \<or> flag type NFTLB_F_CHAIN_ING_FILTER \<or> flag type NFTLB_F_CHAIN_ING_DNAT
      then ''netdev'' else if family = VALUE_FAMILY_IPV6 then ''ip6'' else ''ip'')"

fun print_nft_protocol :: "proto \<Rightarrow> string" where
  "print_nft_protocol VALUE_PROTO_UDP = ''udp''"
| "print_nft_protocol VALUE_PROTO_SCTP = ''sctp''"
| "print_nft_protocol _ = ''tcp''"

text \<open>Chains of an object; \<open>snprintf\<close> cuts the name to the buffer of 256 bytes.\<close>

definition get_chain_name :: "string \<Rightarrow> flags \<Rightarrow> string" where
  "get_chain_name name type =
     take 255
       (if flag type NFTLB_F_CHAIN_ING_FILTER then name
        else if flag type NFTLB_F_CHAIN_PRE_FILTER then ''filter-'' @ name
        else if flag type NFTLB_F_CHAIN_PRE_DNAT then ''nat-'' @ name
        else if flag type NFTLB_F_CHAIN_FWD_FILTER then ''forward-'' @ name
        else if flag type NFTLB_F_CHAIN_ING_DNAT then name @ ''-back''
        else if flag type NFTLB_F_CHAIN_OUT_FILTER then ''filter-'' @ name
        else if flag type NFTLB_F_CHAIN_OUT_DNAT then ''nat-'' @ name
        else [])"

section \<open>Scheduler\<close>

text \<open>The two forms of \<open>NFTLB_MAP_KEY_TYPE\<close> (true) and \<open>NFTLB_MAP_KEY_RULE\<close> (false).\<close>

definition run_farm_rules_gen_meta_param :: "proto \<Rightarrow> family \<Rightarrow> flags \<Rightarrow> bool \<Rightarrow> string" where
  "run_farm_rules_gen_meta_param protocol family param key_type =
     (let sep = (\<lambda>items t. (if items then '' .'' @ t else t));
          srcip = flag param VALUE_META_NONE \<or> flag param VALUE_META_SRCIP;
          dstip = flag param VALUE_META_DSTIP;
          sport = flag param VALUE_META_SRCPORT;
          dport = flag param VALUE_META_DSTPORT;
          smac = flag param VALUE_META_SRCMAC;
          i1 = srcip; i2 = (i1 \<or> dstip); i3 = (i2 \<or> sport); i4 = (i3 \<or> dport); i5 = (i4 \<or> smac)
      in (if srcip then (if key_type then '' '' @ print_nft_family_type family
                         else '' '' @ print_nft_family family @ '' saddr'') else []) @
         (if dstip then sep i1 (if key_type then '' '' @ print_nft_family_type family
                                else '' '' @ print_nft_family family @ '' daddr'') else []) @
         (if sport then sep i2 (if key_type then '' inet_service''
                                else '' '' @ print_nft_protocol protocol @ '' sport'') else []) @
         (if dport then sep i3 (if key_type then '' inet_service''
                                else '' '' @ print_nft_protocol protocol @ '' dport'') else []) @
         (if smac then sep i4 (if key_type then '' ether_addr'' else '' ether saddr'') else []) @
         (if flag param VALUE_META_DSTMAC
          then sep i5 (if key_type then '' ether_addr'' else '' ether daddr'') else []) @
         (if flag param VALUE_META_MARK then sep i5 '' mark'' else []))"

fun run_farm_rules_gen_sched :: "farm \<Rightarrow> address \<Rightarrow> family \<Rightarrow> string option" where
  "run_farm_rules_gen_sched f a family =
     (case f_scheduler f of
        VALUE_SCHED_RR \<Rightarrow> Some ('' numgen inc mod '' @ print_d (f_total_weight f))
      | VALUE_SCHED_WEIGHT \<Rightarrow> Some ('' numgen random mod '' @ print_d (f_total_weight f))
      | VALUE_SCHED_HASH \<Rightarrow>
          Some ('' jhash'' @ run_farm_rules_gen_meta_param (a_protocol a) family (f_schedparam f) False @
                '' mod '' @ print_d (f_total_weight f))
      | VALUE_SCHED_SYMHASH \<Rightarrow> Some ('' symhash mod '' @ print_d (f_total_weight f)))"

section \<open>Backend maps\<close>

abbreviation NFTLB_MAX_PORTS :: nat where "NFTLB_MAX_PORTS \<equiv> 65535"

function first_port_loop :: "address \<Rightarrow> nat \<Rightarrow> int" where
  "first_port_loop a iport =
     (if iport \<le> NFTLB_MAX_PORTS
      then if a_port_list a iport then int iport + 1 else first_port_loop a (iport + 1)
      else 0)"
  by auto

termination
  by (relation "measure (\<lambda>(a, iport). NFTLB_MAX_PORTS + 1 - iport)") auto

declare first_port_loop.simps [simp del]

definition get_nftst_first_port :: "address \<Rightarrow> int" where
  "get_nftst_first_port a =
     (if a_protocol a = VALUE_PROTO_ALL \<or> a_nports a = 0 then 0
      else if a_nports a > 0 then first_port_loop a 0 else 0)"

text \<open>Which backends a map lists; \<open>usable\<close> is \<open>NFTLB_CHECK_USABLE\<close>.\<close>

definition bck_listed :: "farm \<Rightarrow> map_mode \<Rightarrow> bool \<Rightarrow> backend \<Rightarrow> bool" where
  "bck_listed f data_mode usable b =
     ((if usable then backend_is_usable f b else backend_is_available f b) \<and>
      \<not> (data_mode = BCK_MAP_PORT \<and> backend_no_port b))"

text \<open>The key of a backend and the start of the next weight range.\<close>

fun bck_key :: "netenv \<Rightarrow> farm \<Rightarrow> map_mode \<Rightarrow> int \<Rightarrow> backend \<Rightarrow> string \<times> int" where
  "bck_key env f BCK_MAP_MARK last_w b = ('' 0x'' @ print_x (backend_get_mark env f b), last_w)"
| "bck_key env f BCK_MAP_IPADDR last_w b = ('' '' @ cstr (b_ipaddr b), last_w)"
| "bck_key env f BCK_MAP_WEIGHT last_w b =
     (let new = last_w + b_weight b - 1
      in ('' '' @ print_d last_w @ (if new \<noteq> last_w then ''-'' @ print_d new else []), new + 1))"
| "bck_key env f BCK_MAP_ETHADDR last_w b = ('' '' @ cstr (b_ethaddr b), last_w)"
| "bck_key env f _ last_w b = ([], last_w)"

fun bck_data :: "netenv \<Rightarrow> farm \<Rightarrow> address \<Rightarrow> map_mode \<Rightarrow> backend \<Rightarrow> string" where
  "bck_data env f a BCK_MAP_MARK b = '' 0x'' @ print_x (backend_get_mark env f b)"
| "bck_data env f a BCK_MAP_ETHADDR b = '' '' @ cstr (b_ethaddr b)"
| "bck_data env f a BCK_MAP_IPADDR_PORT b =
     (if backend_no_port b then '' '' @ cstr (b_ipaddr b) @ '' . '' @ print_d (get_nftst_first_port a)
      else '' '' @ cstr (b_ipaddr b) @ '' . '' @ b_port b)"
| "bck_data env f a BCK_MAP_PORT b = '' '' @ b_port b"
| "bck_data env f a BCK_MAP_IPADDR b = '' '' @ cstr (b_ipaddr b)"
| "bck_data env f a BCK_MAP_OFACE b = '' '' @ (if b_oface b \<noteq> None then cstr (b_oface b) else cstr (f_oface f))"
| "bck_data env f a _ b = []"

text \<open>The loop over the backends: \<open>i\<close> counts the entries, \<open>last_w\<close> is the start of the next range.\<close>

fun bck_map_loop ::
  "netenv \<Rightarrow> farm \<Rightarrow> address \<Rightarrow> map_mode \<Rightarrow> map_mode \<Rightarrow> bool \<Rightarrow> backend list \<Rightarrow> nat \<Rightarrow> int \<Rightarrow> string \<times> nat" where
  "bck_map_loop env f a key_mode data_mode usable [] i last_w = ([], i)"
| "bck_map_loop env f a key_mode data_mode usable (b # bs) i last_w =
     (if \<not> bck_listed f data_mode usable b
      then bck_map_loop env f a key_mode data_mode usable bs i last_w
      else
        let (key, last') = bck_key env f key_mode last_w b;
            (rest, n) = bck_map_loop env f a key_mode data_mode usable bs (i + 1) last'
        in ((if i \<noteq> 0 then '','' else []) @ key @ '':'' @ bck_data env f a data_mode b @ rest, n))"

text \<open>The text, and whether the map has an entry (the code returns -1 when it has none).\<close>

definition run_farm_rules_gen_bck_map ::
  "netenv \<Rightarrow> farm \<Rightarrow> address \<Rightarrow> map_mode \<Rightarrow> map_mode \<Rightarrow> bool \<Rightarrow> string \<times> bool" where
  "run_farm_rules_gen_bck_map env f a key_mode data_mode usable =
     (let (text, n) = bck_map_loop env f a key_mode data_mode usable (f_backends f) 0 0
      in ('' map {'' @ text @ '' }'', n \<noteq> 0))"

section \<open>Weight ranges\<close>

text \<open>The ranges the weight map is made of, from the number \<open>l\<close> on.\<close>

fun weight_ranges :: "backend list \<Rightarrow> int \<Rightarrow> (int \<times> int \<times> backend) list" where
  "weight_ranges [] l = []"
| "weight_ranges (b # bs) l = (l, l + b_weight b - 1, b) # weight_ranges bs (l + b_weight b)"

definition range_text :: "netenv \<Rightarrow> farm \<Rightarrow> address \<Rightarrow> map_mode \<Rightarrow> int \<times> int \<times> backend \<Rightarrow> string" where
  "range_text env f a data_mode r =
     (case r of (lo, hi, b) \<Rightarrow>
        '' '' @ print_d lo @ (if hi \<noteq> lo then ''-'' @ print_d hi else []) @ '':'' @ bck_data env f a data_mode b)"

definition in_range :: "int \<Rightarrow> int \<times> int \<times> backend \<Rightarrow> bool" where
  "in_range k r = (fst r \<le> k \<and> k \<le> fst (snd r))"

definition commas :: "string list \<Rightarrow> string" where
  "commas ts = (case ts of [] \<Rightarrow> [] | t # ts \<Rightarrow> t @ concat (map (\<lambda>t. '','' @ t) ts))"

lemma bck_map_loop_weight:
  assumes "data_mode \<noteq> BCK_MAP_PORT"
  shows "bck_map_loop env f a BCK_MAP_WEIGHT data_mode False bs i l =
     (let ts = map (range_text env f a data_mode) (weight_ranges (filter (backend_is_available f) bs) l)
      in (if i = 0 then commas ts else concat (map (\<lambda>t. '','' @ t) ts), i + length ts))"
  using assms
  by (induction bs arbitrary: i l)
     (auto simp: bck_listed_def commas_def range_text_def Let_def algebra_simps)

lemma weight_ranges_bcks: "map (snd \<circ> snd) (weight_ranges bs l) = bs"
  by (induction bs arbitrary: l) auto

lemma weight_ranges_size: "(lo, hi, b) \<in> set (weight_ranges bs l) \<Longrightarrow> hi - lo + 1 = b_weight b"
  by (induction bs arbitrary: l) auto

lemma weight_ranges_within:
  assumes "(lo, hi, b) \<in> set (weight_ranges bs l)" "\<forall>b \<in> set bs. b_weight b \<ge> 1"
  shows "l \<le> lo \<and> hi < l + sum_list (map b_weight bs)"
  using assms
proof (induction bs arbitrary: l)
  case (Cons c bs)
  have "0 \<le> sum_list (map b_weight bs)"
    using Cons.prems(2) by (intro sum_list_nonneg) (auto intro: order_trans [of 0 1])
  with Cons.IH [of "l + b_weight c"] Cons.prems show ?case by auto
qed simp

lemma weight_ranges_unique:
  assumes "\<forall>b \<in> set bs. b_weight b \<ge> 1" "l \<le> k" "k < l + sum_list (map b_weight bs)"
  shows "\<exists>!i. i < length (weight_ranges bs l) \<and> in_range k (weight_ranges bs l ! i)"
  using assms
proof (induction bs arbitrary: l)
  case (Cons b bs)
  let ?rs = "weight_ranges bs (l + b_weight b)"
  show ?case
  proof (cases "k < l + b_weight b")
    case True
    have no: "\<not> in_range k r" if "r \<in> set ?rs" for r
      using that True weight_ranges_within [of "fst r" "fst (snd r)" "snd (snd r)" bs "l + b_weight b"] Cons.prems(1)
      by (simp add: in_range_def)
    have "j = 0" if "j < length (weight_ranges (b # bs) l)" "in_range k (weight_ranges (b # bs) l ! j)" for j
      using that no [OF nth_mem, of "j - 1"] by (cases j) simp_all
    moreover have "in_range k (weight_ranges (b # bs) l ! 0)"
      using True Cons.prems(2) by (simp add: in_range_def)
    ultimately show ?thesis by (intro ex1I [of _ 0]) simp_all
  next
    case False
    then obtain i where i: "i < length ?rs" "in_range k (?rs ! i)"
      "\<And>j. j < length ?rs \<and> in_range k (?rs ! j) \<Longrightarrow> j = i"
      using Cons.IH [of "l + b_weight b"] Cons.prems by auto
    have "j = Suc i" if "j < length (weight_ranges (b # bs) l)" "in_range k (weight_ranges (b # bs) l ! j)" for j
      using that False i(3) [of "j - 1"] by (cases j) (simp_all add: in_range_def)
    with i(1,2) show ?thesis by (intro ex1I [of _ "Suc i"]) simp_all
  qed
qed simp

lemma bck_map_loop_key:
  assumes "key_mode \<noteq> BCK_MAP_WEIGHT"
  shows "bck_map_loop env f a key_mode data_mode usable bs i l =
     (let ts = map (\<lambda>b. fst (bck_key env f key_mode 0 b) @ '':'' @ bck_data env f a data_mode b)
                 (filter (bck_listed f data_mode usable) bs)
      in (if i = 0 then commas ts else concat (map (\<lambda>t. '','' @ t) ts), i + length ts))"
proof -
  let ?K = "\<lambda>b. fst (bck_key env f key_mode 0 b)"
  have "bck_key env f key_mode l b = (?K b, l)" for l b
    using assms by (cases key_mode) simp_all
  then obtain K where key: "\<And>l b. bck_key env f key_mode l b = (K b, l)" by (rule that)
  show ?thesis
    unfolding key by (induction bs arbitrary: i) (simp_all add: key commas_def Let_def)
qed

lemma first_port_spec:
  "first_port_loop a i =
     (if \<exists>j. i \<le> j \<and> j \<le> NFTLB_MAX_PORTS \<and> a_port_list a j then int (LEAST j. i \<le> j \<and> a_port_list a j) + 1 else 0)"
proof (induction a i rule: first_port_loop.induct)
  case (1 a i)
  consider "i > NFTLB_MAX_PORTS" | "i \<le> NFTLB_MAX_PORTS" "a_port_list a i" | "i \<le> NFTLB_MAX_PORTS" "\<not> a_port_list a i"
    by linarith
  then show ?case
  proof cases
    case 1
    then show ?thesis by (subst first_port_loop.simps) auto
  next
    case 2
    then have "(LEAST j. i \<le> j \<and> a_port_list a j) = i" by (intro Least_equality) auto
    with 2 show ?thesis by (subst first_port_loop.simps) auto
  next
    case 3
    have step: "i \<le> j \<and> a_port_list a j \<longleftrightarrow> i + 1 \<le> j \<and> a_port_list a j" for j
      using 3(2) by (cases "i = j") auto
    have ex: "(\<exists>j. i \<le> j \<and> j \<le> NFTLB_MAX_PORTS \<and> a_port_list a j) =
              (\<exists>j. i + 1 \<le> j \<and> j \<le> NFTLB_MAX_PORTS \<and> a_port_list a j)"
      using step by blast
    have "first_port_loop a i = first_port_loop a (i + 1)" using 3 by (subst first_port_loop.simps) simp
    with 1 [OF 3] show ?thesis unfolding ex step by simp
  qed
qed

text \<open>
  (C14) The scheduler reaches every number below the total weight of the farm, and the map it is looked
  up in is a partition of exactly these numbers: the map has one entry per available backend, in
  order; the range of a backend has as many numbers as its weight; every number the scheduler yields
  is in exactly one range; and no range goes beyond them. So a backend gets a share of its weight out
  of the total weight, and no number is left without a backend.
\<close>

theorem weight_map_partition:
  assumes "\<forall>b \<in> set (f_backends f). b_weight b \<ge> 1" "f_total_weight f = pool_weight f" "data_mode \<noteq> BCK_MAP_PORT"
  shows "\<exists>rs. fst (run_farm_rules_gen_bck_map env f a BCK_MAP_WEIGHT data_mode False) =
              '' map {'' @ commas (map (range_text env f a data_mode) rs) @ '' }'' \<and>
           map (snd \<circ> snd) rs = filter (backend_is_available f) (f_backends f) \<and>
           list_all (\<lambda>(lo, hi, b). hi - lo + 1 = b_weight b \<and> 0 \<le> lo \<and> hi < f_total_weight f) rs \<and>
           (\<forall>k. 0 \<le> k \<and> k < f_total_weight f \<longrightarrow> (\<exists>!i. i < length rs \<and> in_range k (rs ! i)))"
proof -
  let ?bs = "filter (backend_is_available f) (f_backends f)"
  let ?rs = "weight_ranges ?bs 0"
  have w: "\<forall>b \<in> set ?bs. b_weight b \<ge> 1" "f_total_weight f = sum_list (map b_weight ?bs)"
    using assms(1,2) by (auto simp: pool_weight_def)
  have "fst (run_farm_rules_gen_bck_map env f a BCK_MAP_WEIGHT data_mode False) =
          '' map {'' @ commas (map (range_text env f a data_mode) ?rs) @ '' }''"
    using bck_map_loop_weight [OF assms(3)] by (simp add: run_farm_rules_gen_bck_map_def Let_def)
  moreover have "list_all (\<lambda>(lo, hi, b). hi - lo + 1 = b_weight b \<and> 0 \<le> lo \<and> hi < f_total_weight f) ?rs"
    using weight_ranges_size weight_ranges_within [OF _ w(1), of _ _ _ 0] w(2) by (fastforce simp: list_all_iff)
  moreover have "\<forall>k. 0 \<le> k \<and> k < f_total_weight f \<longrightarrow> (\<exists>!i. i < length ?rs \<and> in_range k (?rs ! i))"
    using weight_ranges_unique [OF w(1), of 0] w(2) by simp
  ultimately show ?thesis using weight_ranges_bcks [of ?bs 0] by blast
qed

text \<open>A pool of two, used by the examples below.\<close>

definition duo :: farm where
  "duo = backend_s_update_counters (new_farm 0 ''lb''\<lparr>f_state := VALUE_STATE_UP, f_backends :=
     [new_backend 1 ''b1'' 1\<lparr>b_ipaddr := Some ''10.0.0.1'', b_state := VALUE_STATE_UP, b_weight := 3\<rparr>,
      new_backend 2 ''b2'' 2\<lparr>b_ipaddr := Some ''10.0.0.2'', b_state := VALUE_STATE_UP\<rparr>]\<rparr>)"

lemma duo_weight: "f_total_weight duo = 4" "pool_weight duo = 4"
  by (simp_all add: duo_def backend_s_update_counters_eq pool_weight_def backend_is_available_def backend_validate_def
      backend_below_prio_def farm_is_ingress_mode_def new_farm_def new_backend_def)

lemma duo_bcks:
  "filter (backend_is_available duo) (f_backends duo) = f_backends duo" "length (f_backends duo) = 2"
  "\<forall>b \<in> set (f_backends duo). b_weight b \<ge> 1"
  by (simp_all add: duo_def backend_s_update_counters_eq backend_is_available_def backend_validate_def
      backend_below_prio_def farm_is_ingress_mode_def new_farm_def new_backend_def)

theorem weight_map_partition_witness:
  "\<exists>rs. fst (run_farm_rules_gen_bck_map offline duo (new_address 0 ''a'') BCK_MAP_WEIGHT BCK_MAP_MARK False) =
         '' map {'' @ commas (map (range_text offline duo (new_address 0 ''a'') BCK_MAP_MARK) rs) @ '' }'' \<and>
      length rs = 2 \<and> (\<exists>!i. i < length rs \<and> in_range 3 (rs ! i))"
proof -
  obtain rs where rs: "fst (run_farm_rules_gen_bck_map offline duo (new_address 0 ''a'') BCK_MAP_WEIGHT BCK_MAP_MARK False) =
         '' map {'' @ commas (map (range_text offline duo (new_address 0 ''a'') BCK_MAP_MARK) rs) @ '' }''"
    "map (snd \<circ> snd) rs = filter (backend_is_available duo) (f_backends duo)"
    "\<forall>k. 0 \<le> k \<and> k < f_total_weight duo \<longrightarrow> (\<exists>!i. i < length rs \<and> in_range k (rs ! i))"
    using weight_map_partition [of duo BCK_MAP_MARK offline "new_address 0 ''a''"] duo_bcks(3) duo_weight by auto
  have "length rs = 2" using arg_cong [OF rs(2), of length] duo_bcks(1,2) by simp
  moreover have "\<exists>!i. i < length rs \<and> in_range 3 (rs ! i)" using spec [OF rs(3), of 3] duo_weight(1) by simp
  ultimately show ?thesis using rs(1) by blast
qed


text \<open>
  Backends without a port get the first port of the virtual address: the least port of the array,
  and 0 when the address is for every protocol or has no port.
\<close>

lemma first_port_least:
  "get_nftst_first_port a =
     (if a_protocol a \<noteq> VALUE_PROTO_ALL \<and> a_nports a > 0 \<and> (\<exists>j. j \<le> NFTLB_MAX_PORTS \<and> a_port_list a j)
      then int (LEAST j. a_port_list a j) + 1 else 0)"
  by (auto simp: get_nftst_first_port_def first_port_spec)

end
