(* ===== verification/Nft.thy ===== *)
theory Nft
  imports Balancer
begin

unbundle bit_operations_syntax

text \<open>
  The state of nft.c and its base tables and chains: the command buffer and the commands handed to
  libnftables, the counters of elements per service map (\<open>service_counters\<close>), the flags of the base
  chains already installed (\<open>nft_base_rules\<close>), and the functions that create, flush and delete tables
  and chains. An object of the code that is passed as \<open>struct nftst\<close> is a record of the identities of
  the farm, the address, the backend and the policy it holds. libnftables is the parameter
  \<open>nft_run_cmd\<close>: whether a command fails, given the commands run before it.
\<close>

section \<open>State\<close>

record srv_counters =
  proto_ip_port_cnt :: flags
  proto_port_cnt :: flags
  proto_ip_cnt :: flags
  bckmark_cnt :: flags

record if_base_rule =
  if_name :: string
  if_rules_v4 :: flags
  if_rules_v6 :: flags

text \<open>
  An entry that \<open>del_ndv_base\<close> has freed and left in the array is \<open>None\<close>. The code goes on to read it, which
  is undefined; the model takes the freed name as equal to no other.
\<close>

record nft_base_rules =
  tables :: flags
  dnat_rules_v4 :: flags
  dnat_rules_v6 :: flags
  snat_rules_v4 :: flags
  snat_rules_v6 :: flags
  filter_rules_v4 :: flags
  filter_rules_v6 :: flags
  fwd_rules_v4 :: flags
  fwd_rules_v6 :: flags
  out_filter_rules_v4 :: flags
  out_filter_rules_v6 :: flags
  out_nat_rules_v4 :: flags
  out_nat_rules_v6 :: flags
  ndv_ingress_policies :: nat
  ndv_ingress_rules :: "if_base_rule option list"
  ndv_ingress_dnat_rules :: "if_base_rule option list"

text \<open>The counters are indexed by the position of the chain and by whether the family is IPv6.\<close>

record nftw =
  w_objs :: objs
  w_base :: nft_base_rules
  w_cnt :: "int \<Rightarrow> bool \<Rightarrow> srv_counters"
  w_buf :: string
  w_cmds :: "string list"
  w_serialize :: bool
  w_flowtable_prio :: int
  w_cmdtry :: nat

text \<open>
  The surroundings: the network, libnftables and \<open>obj_recovery\<close>, which exec_cmd calls when a command
  fails and which is defined on top of this theory.
\<close>

record nftenv =
  net :: netenv
  nft_run_cmd :: "string list \<Rightarrow> string \<Rightarrow> bool"
  recovery :: "nftw \<Rightarrow> nftw"

record nftst =
  n_farm :: "oid option"
  n_address :: "oid option"
  n_backend :: "oid option"
  n_policy :: "oid option"
  n_action :: action

definition upd_objs :: "(objs \<Rightarrow> objs) \<Rightarrow> nftw \<Rightarrow> nftw" where
  "upd_objs g w = w\<lparr>w_objs := g (w_objs w)\<rparr>"

definition upd_base :: "(nft_base_rules \<Rightarrow> nft_base_rules) \<Rightarrow> nftw \<Rightarrow> nftw" where
  "upd_base g w = w\<lparr>w_base := g (w_base w)\<rparr>"

text \<open>Statements in sequence.\<close>

definition steps :: "(nftw \<Rightarrow> nftw) list \<Rightarrow> nftw \<Rightarrow> nftw" where
  "steps gs w = fold (\<lambda>g w. g w) gs w"

lemma steps_simps [simp]: "steps [] w = w" "steps (g # gs) w = steps gs (g w)"
  by (simp_all add: steps_def)

lemma steps_append [simp]: "steps (gs @ hs) w = steps hs (steps gs w)"
  by (simp add: steps_def)

definition only_if :: "bool \<Rightarrow> (nftw \<Rightarrow> nftw) \<Rightarrow> nftw \<Rightarrow> nftw" where
  "only_if c g w = (if c then g w else w)"

lemma only_if_simps [simp]: "only_if True g w = g w" "only_if False g w = w"
  by (simp_all add: only_if_def)

section \<open>Objects under translation\<close>

definition nftst_create_from_farm :: "oid \<Rightarrow> nftw \<Rightarrow> nftst" where
  "nftst_create_from_farm fid w =
     \<lparr>n_farm = Some fid, n_address = None, n_backend = None, n_policy = None,
      n_action = (case get_farm fid (w_objs w) of None \<Rightarrow> ACTION_NONE | Some f \<Rightarrow> f_action f)\<rparr>"

definition nftst_create_from_address :: "oid \<Rightarrow> nftw \<Rightarrow> nftst" where
  "nftst_create_from_address aid w =
     \<lparr>n_farm = None, n_address = Some aid, n_backend = None, n_policy = None,
      n_action = (case get_address aid (w_objs w) of None \<Rightarrow> ACTION_NONE | Some a \<Rightarrow> a_action a)\<rparr>"

definition nftst_set_address :: "nftst \<Rightarrow> oid option \<Rightarrow> nftst" where
  [simp]: "nftst_set_address n a = n\<lparr>n_address := a\<rparr>"

definition nftst_set_backend :: "nftst \<Rightarrow> oid option \<Rightarrow> nftst" where
  [simp]: "nftst_set_backend n b = n\<lparr>n_backend := b\<rparr>"

definition nftst_set_action :: "nftst \<Rightarrow> action \<Rightarrow> nftst" where
  [simp]: "nftst_set_action n a = n\<lparr>n_action := a\<rparr>"

definition nftst_set_policy :: "nftst \<Rightarrow> oid option \<Rightarrow> nftst" where
  [simp]: "nftst_set_policy n p = n\<lparr>n_policy := p\<rparr>"

definition nftst_get_farm :: "nftst \<Rightarrow> nftw \<Rightarrow> farm option" where
  "nftst_get_farm n w = Option.bind (n_farm n) (\<lambda>fid. get_farm fid (w_objs w))"

definition nftst_get_address :: "nftst \<Rightarrow> nftw \<Rightarrow> address option" where
  "nftst_get_address n w = Option.bind (n_address n) (\<lambda>aid. get_address aid (w_objs w))"

definition nftst_has_farm :: "nftst \<Rightarrow> nftw \<Rightarrow> bool" where
  [simp]: "nftst_has_farm n w = (nftst_get_farm n w \<noteq> None)"

definition nftst_has_address :: "nftst \<Rightarrow> nftw \<Rightarrow> bool" where
  [simp]: "nftst_has_address n w = (nftst_get_address n w \<noteq> None)"

definition nftst_get_policy :: "nftst \<Rightarrow> nftw \<Rightarrow> policy option" where
  "nftst_get_policy n w = Option.bind (n_policy n) (\<lambda>pid. get_policy pid (w_objs w))"

definition nftst_get_backend :: "nftst \<Rightarrow> nftw \<Rightarrow> backend option" where
  "nftst_get_backend n w = Option.bind (nftst_get_farm n w) (\<lambda>f. Option.bind (n_backend n) (\<lambda>bid. get_bck bid f))"

text \<open>
  What the code reads through the pointers of \<open>n\<close>. It never asks whether the farm or the address it
  works on is there; for one that is not, the model reads the values of a new object.
\<close>

definition nfarm :: "nftst \<Rightarrow> nftw \<Rightarrow> farm" where
  "nfarm n w = (case nftst_get_farm n w of None \<Rightarrow> new_farm 0 [] | Some f \<Rightarrow> f)"

definition naddr :: "nftst \<Rightarrow> nftw \<Rightarrow> address" where
  "naddr n w = (case nftst_get_address n w of None \<Rightarrow> new_address 0 [] | Some a \<Rightarrow> a)"

definition nftst_get_family :: "nftst \<Rightarrow> nftw \<Rightarrow> family option" where
  "nftst_get_family n w = map_option a_family (nftst_get_address n w)"

definition nftst_get_proto :: "nftst \<Rightarrow> nftw \<Rightarrow> proto option" where
  "nftst_get_proto n w = map_option a_protocol (nftst_get_address n w)"

definition nftst_get_name :: "nftst \<Rightarrow> nftw \<Rightarrow> string" where
  "nftst_get_name n w =
     (case nftst_get_farm n w of
        Some f \<Rightarrow> f_name f
      | None \<Rightarrow> (case nftst_get_address n w of Some a \<Rightarrow> a_name a | None \<Rightarrow> cstr None))"

definition nftst_get_chains :: "nftst \<Rightarrow> nftw \<Rightarrow> flags" where
  "nftst_get_chains n w =
     (case nftst_get_farm n w of
        Some f \<Rightarrow> f_nft_chains f
      | None \<Rightarrow> (case nftst_get_address n w of Some a \<Rightarrow> a_nft_chains a | None \<Rightarrow> -1))"

definition nftst_set_chains :: "nftst \<Rightarrow> flags \<Rightarrow> nftw \<Rightarrow> nftw" where
  "nftst_set_chains n new_value w =
     upd_objs (\<lambda>s.
       let s1 = (case n_farm n of None \<Rightarrow> s | Some fid \<Rightarrow> upd_farm fid (\<lambda>f. f\<lparr>f_nft_chains := new_value\<rparr>) s)
       in case n_address n of None \<Rightarrow> s1 | Some aid \<Rightarrow> upd_address aid (\<lambda>a. a\<lparr>a_nft_chains := new_value\<rparr>) s1) w"

text \<open>\<open>nftst_actions_done\<close>: nothing is pending on the objects any more.\<close>

definition farm_actions_done :: "farm \<Rightarrow> farm" where
  "farm_actions_done f =
     f\<lparr>f_backends := map (\<lambda>b. b\<lparr>b_action := ACTION_NONE\<rparr>) (f_backends f),
       f_addresses := map (\<lambda>fa. fa\<lparr>fa_action := ACTION_NONE\<rparr>) (f_addresses f),
       f_action := ACTION_NONE, f_reload_action := VALUE_RLD_NONE, f_policies_action := ACTION_NONE\<rparr>"

definition nftst_actions_done :: "nftst \<Rightarrow> nftw \<Rightarrow> nftw" where
  "nftst_actions_done n w =
     upd_objs (\<lambda>s.
       let s1 = (case n_farm n of None \<Rightarrow> s | Some fid \<Rightarrow> upd_farm fid farm_actions_done s)
       in case n_address n of
            None \<Rightarrow> s1
          | Some aid \<Rightarrow>
              upd_address aid (\<lambda>a. a\<lparr>a_action := ACTION_NONE, a_policies_action := ACTION_NONE\<rparr>) s1) w"

section \<open>Commands\<close>

definition u_buf_concat :: "string \<Rightarrow> nftw \<Rightarrow> nftw" where
  "u_buf_concat t w = w\<lparr>w_buf := w_buf w @ t\<rparr>"

text \<open>
  \<open>exec_cmd\<close>: an empty command is not run, a failing one starts the recovery. The recovery works in
  buffers of its own, so the caller's buffer is the same afterwards.
\<close>

definition exec_cmd :: "nftenv \<Rightarrow> string \<Rightarrow> nftw \<Rightarrow> nftw" where
  "exec_cmd env cmd w =
     (if cmd = [] then w
      else
        let failed = nft_run_cmd env (w_cmds w) cmd;
            w1 = w\<lparr>w_cmds := w_cmds w @ [cmd]\<rparr>
        in if failed then (recovery env w1)\<lparr>w_buf := w_buf w1\<rparr> else w1)"

definition exec_cmd_unbuffered :: "nftenv \<Rightarrow> nftw \<Rightarrow> nftw" where
  "exec_cmd_unbuffered env w = (exec_cmd env (w_buf w) w)\<lparr>w_buf := []\<rparr>"

definition concat_exec_cmd :: "nftenv \<Rightarrow> string \<Rightarrow> nftw \<Rightarrow> nftw" where
  "concat_exec_cmd env t w =
     (let w1 = u_buf_concat t w in if w_serialize w1 then exec_cmd_unbuffered env w1 else w1)"

text \<open>The parts of a command, separated by spaces.\<close>

fun words :: "string list \<Rightarrow> string" where
  "words [] = []"
| "words [t] = t"
| "words (t # ts) = t @ '' '' @ words ts"

declare words.simps [simp del]

fun comma_list :: "string list \<Rightarrow> string" where
  "comma_list [] = []"
| "comma_list [t] = t"
| "comma_list (t # ts) = t @ '', '' @ comma_list ts"

section \<open>Service counters\<close>

abbreviation NFTLB_IP_ACTIVE :: flags where "NFTLB_IP_ACTIVE \<equiv> 1"
abbreviation NFTLB_PROTO_IP_PORT_ACTIVE :: flags where "NFTLB_PROTO_IP_PORT_ACTIVE \<equiv> 2"
abbreviation NFTLB_PROTO_IP_ACTIVE :: flags where "NFTLB_PROTO_IP_ACTIVE \<equiv> 4"
abbreviation NFTLB_PROTO_PORT_ACTIVE :: flags where "NFTLB_PROTO_PORT_ACTIVE \<equiv> 8"
abbreviation NFTLB_MARK_ACTIVE :: flags where "NFTLB_MARK_ACTIVE \<equiv> 16"
abbreviation NFTLB_TABLE_IP_ACTIVE :: flags where "NFTLB_TABLE_IP_ACTIVE \<equiv> 32"
abbreviation NFTLB_TABLE_IP6_ACTIVE :: flags where "NFTLB_TABLE_IP6_ACTIVE \<equiv> 64"
abbreviation NFTLB_TABLE_NETDEV_ACTIVE :: flags where "NFTLB_TABLE_NETDEV_ACTIVE \<equiv> 128"

definition get_chain_pos_counter :: "flags \<Rightarrow> int" where
  "get_chain_pos_counter type =
     (if flag type NFTLB_F_CHAIN_ING_FILTER then 0
      else if flag type NFTLB_F_CHAIN_PRE_FILTER then 2
      else if flag type NFTLB_F_CHAIN_PRE_DNAT then 3
      else if flag type NFTLB_F_CHAIN_FWD_FILTER then 4
      else if flag type NFTLB_F_CHAIN_POS_SNAT then 5
      else if flag type NFTLB_F_CHAIN_ING_DNAT then 1
      else if flag type NFTLB_F_CHAIN_OUT_FILTER then 6
      else if flag type NFTLB_F_CHAIN_OUT_DNAT then 7
      else -1)"

text \<open>The counter \<open>get_service_counter\<close> points to: read and written.\<close>

definition sel_counter :: "flags \<Rightarrow> srv_counters \<Rightarrow> flags" where
  "sel_counter structure c =
     (if flag structure NFTLB_PROTO_PORT_ACTIVE then proto_port_cnt c
      else if flag structure NFTLB_PROTO_IP_ACTIVE then proto_ip_cnt c
      else if flag structure NFTLB_PROTO_IP_PORT_ACTIVE then proto_ip_port_cnt c
      else bckmark_cnt c)"

definition put_counter :: "flags \<Rightarrow> flags \<Rightarrow> srv_counters \<Rightarrow> srv_counters" where
  "put_counter structure v c =
     (if flag structure NFTLB_PROTO_PORT_ACTIVE then c\<lparr>proto_port_cnt := v\<rparr>
      else if flag structure NFTLB_PROTO_IP_ACTIVE then c\<lparr>proto_ip_cnt := v\<rparr>
      else if flag structure NFTLB_PROTO_IP_PORT_ACTIVE then c\<lparr>proto_ip_port_cnt := v\<rparr>
      else c\<lparr>bckmark_cnt := v\<rparr>)"

definition get_service_counter :: "flags \<Rightarrow> flags \<Rightarrow> family option \<Rightarrow> nftw \<Rightarrow> flags" where
  "get_service_counter type structure family w =
     sel_counter structure (w_cnt w (get_chain_pos_counter type) (family = Some VALUE_FAMILY_IPV6))"

definition set_service_counter :: "flags \<Rightarrow> flags \<Rightarrow> family option \<Rightarrow> flags \<Rightarrow> nftw \<Rightarrow> nftw" where
  "set_service_counter type structure family v w =
     (let p = get_chain_pos_counter type; i = (family = Some VALUE_FAMILY_IPV6)
      in w\<lparr>w_cnt := (w_cnt w)(p := (w_cnt w p)(i := put_counter structure v (w_cnt w p i)))\<rparr>)"

definition get_rules_needed :: "address \<Rightarrow> flags" where
  "get_rules_needed a =
     (if address_no_port a then NFTLB_IP_ACTIVE OR NFTLB_PROTO_IP_ACTIVE
      else if address_no_ipaddr a then NFTLB_IP_ACTIVE OR NFTLB_PROTO_PORT_ACTIVE
      else NFTLB_IP_ACTIVE OR NFTLB_PROTO_IP_PORT_ACTIVE)"

text \<open>
  The parameters \<open>structure\<close> (used as a truth value) and \<open>family\<close> are passed as the code passes them;
  a family of 0 is \<open>VALUE_FAMILY_IPV4\<close>.
\<close>

definition service_structure :: "address \<Rightarrow> flags \<Rightarrow> bool \<Rightarrow> flags" where
  "service_structure a type structure =
     (if flag type NFTLB_F_CHAIN_POS_SNAT \<and> structure then NFTLB_IP_ACTIVE OR NFTLB_MARK_ACTIVE else get_rules_needed a)"

definition update_service_counters ::
  "address \<Rightarrow> flags \<Rightarrow> bool \<Rightarrow> family \<Rightarrow> flags \<Rightarrow> action \<Rightarrow> nftw \<Rightarrow> nftw" where
  "update_service_counters a type structure family qty action w =
     (let st = service_structure a type structure;
          c = get_service_counter type st (Some family) w
      in if action = ACTION_START \<or> action = ACTION_RELOAD
         then set_service_counter type st (Some family) (c + qty) w
         else if (action = ACTION_STOP \<or> action = ACTION_DELETE) \<and> sint c \<ge> sint qty
         then set_service_counter type st (Some family) (c - qty) w
         else w)"

section \<open>Base rules\<close>

abbreviation NFTLB_MAX_IFACES :: nat where "NFTLB_MAX_IFACES \<equiv> 100"

definition no_base_rules :: nft_base_rules where
  "no_base_rules = \<lparr>tables = 0, dnat_rules_v4 = 0, dnat_rules_v6 = 0, snat_rules_v4 = 0, snat_rules_v6 = 0,
     filter_rules_v4 = 0, filter_rules_v6 = 0, fwd_rules_v4 = 0, fwd_rules_v6 = 0, out_filter_rules_v4 = 0,
     out_filter_rules_v6 = 0, out_nat_rules_v4 = 0, out_nat_rules_v6 = 0, ndv_ingress_policies = 0,
     ndv_ingress_rules = [], ndv_ingress_dnat_rules = []\<rparr>"

text \<open>The number of ingress policies is not reset.\<close>

definition reset_ndv_base :: "if_base_rule option list \<Rightarrow> if_base_rule option list" where
  [simp]: "reset_ndv_base es = []"

definition clean_rules_counters :: "nftw \<Rightarrow> nftw" where
  "clean_rules_counters =
     upd_base (\<lambda>b. no_base_rules\<lparr>ndv_ingress_policies := ndv_ingress_policies b,
       ndv_ingress_rules := reset_ndv_base (ndv_ingress_rules b),
       ndv_ingress_dnat_rules := reset_ndv_base (ndv_ingress_dnat_rules b)\<rparr>)"

fun get_ndv_base :: "if_base_rule option list \<Rightarrow> string \<Rightarrow> if_base_rule option" where
  "get_ndv_base [] ifname = None"
| "get_ndv_base (e # es) ifname =
     (case e of
        Some r \<Rightarrow> if if_name r = ifname then Some r else get_ndv_base es ifname
      | None \<Rightarrow> get_ndv_base es ifname)"

definition add_ndv_base :: "if_base_rule option list \<Rightarrow> string \<Rightarrow> if_base_rule option list" where
  "add_ndv_base es ifname =
     (if length es = NFTLB_MAX_IFACES then es
      else es @ [Some \<lparr>if_name = ifname, if_rules_v4 = 0, if_rules_v6 = 0\<rparr>])"

fun upd_ndv_base :: "(if_base_rule \<Rightarrow> if_base_rule option) \<Rightarrow> string \<Rightarrow> if_base_rule option list \<Rightarrow> if_base_rule option list" where
  "upd_ndv_base g ifname [] = []"
| "upd_ndv_base g ifname (e # es) =
     (case e of
        Some r \<Rightarrow> if if_name r = ifname then g r # es else e # upd_ndv_base g ifname es
      | None \<Rightarrow> e # upd_ndv_base g ifname es)"

text \<open>
  \<open>del_ndv_base\<close> frees the entry but leaves its pointer in the array, and takes the last entry off by
  counting one down.
\<close>

definition del_ndv_base :: "if_base_rule option list \<Rightarrow> string \<Rightarrow> if_base_rule option list" where
  "del_ndv_base es ifname =
     (if get_ndv_base es ifname = None then es
      else butlast (upd_ndv_base (\<lambda>_. None) ifname es))"

text \<open>Of two interfaces, taking the first off forgets the second and leaves a freed entry.\<close>

lemma del_ndv_base_forgets:
  assumes "if_name r1 \<noteq> if_name r2"
  shows "del_ndv_base [Some r1, Some r2] (if_name r1) = [None]"
    "get_ndv_base (del_ndv_base [Some r1, Some r2] (if_name r1)) (if_name r2) = None"
  by (simp_all add: del_ndv_base_def)

definition if_rules :: "family \<Rightarrow> if_base_rule option \<Rightarrow> flags option" where
  "if_rules family e =
     (case (e, family) of
        (Some r, VALUE_FAMILY_IPV4) \<Rightarrow> Some (if_rules_v4 r)
      | (Some r, VALUE_FAMILY_IPV6) \<Rightarrow> Some (if_rules_v6 r)
      | _ \<Rightarrow> None)"

definition by_family :: "family \<Rightarrow> flags \<Rightarrow> flags \<Rightarrow> flags option" where
  "by_family family v4 v6 =
     (case family of VALUE_FAMILY_IPV4 \<Rightarrow> Some v4 | VALUE_FAMILY_IPV6 \<Rightarrow> Some v6 | _ \<Rightarrow> None)"

text \<open>
  \<open>get_rules_applied\<close> returns a pointer: here first its side effect, the entry it adds for an
  interface it has not seen, then the value it points to (\<open>None\<close> for NULL), then a write through it.
\<close>

definition note_iface :: "flags \<Rightarrow> string \<Rightarrow> nftw \<Rightarrow> nftw" where
  "note_iface type iface =
     upd_base (\<lambda>b.
       if flag type NFTLB_F_CHAIN_ING_FILTER
       then if get_ndv_base (ndv_ingress_rules b) iface = None
            then b\<lparr>ndv_ingress_rules := add_ndv_base (ndv_ingress_rules b) iface\<rparr> else b
       else if flag type NFTLB_F_CHAIN_ING_DNAT
       then if get_ndv_base (ndv_ingress_dnat_rules b) iface = None
            then b\<lparr>ndv_ingress_dnat_rules := add_ndv_base (ndv_ingress_dnat_rules b) iface\<rparr> else b
       else b)"

definition get_rules_applied :: "flags \<Rightarrow> family \<Rightarrow> string \<Rightarrow> nftw \<Rightarrow> flags option" where
  "get_rules_applied type family iface w =
     (let b = w_base w
      in if flag type NFTLB_F_CHAIN_ING_FILTER then if_rules family (get_ndv_base (ndv_ingress_rules b) iface)
         else if flag type NFTLB_F_CHAIN_ING_DNAT then if_rules family (get_ndv_base (ndv_ingress_dnat_rules b) iface)
         else if flag type NFTLB_F_CHAIN_PRE_DNAT then by_family family (dnat_rules_v4 b) (dnat_rules_v6 b)
         else if flag type NFTLB_F_CHAIN_PRE_FILTER then by_family family (filter_rules_v4 b) (filter_rules_v6 b)
         else if flag type NFTLB_F_CHAIN_FWD_FILTER then by_family family (fwd_rules_v4 b) (fwd_rules_v6 b)
         else if flag type NFTLB_F_CHAIN_POS_SNAT then by_family family (snat_rules_v4 b) (snat_rules_v6 b)
         else if flag type NFTLB_F_CHAIN_OUT_FILTER then by_family family (out_filter_rules_v4 b) (out_filter_rules_v6 b)
         else if flag type NFTLB_F_CHAIN_OUT_DNAT then by_family family (out_nat_rules_v4 b) (out_nat_rules_v6 b)
         else None)"

definition put_if_rules :: "family \<Rightarrow> flags \<Rightarrow> if_base_rule \<Rightarrow> if_base_rule" where
  "put_if_rules family v r =
     (if family = VALUE_FAMILY_IPV4 then r\<lparr>if_rules_v4 := v\<rparr>
      else if family = VALUE_FAMILY_IPV6 then r\<lparr>if_rules_v6 := v\<rparr> else r)"

definition put_base_rules :: "flags \<Rightarrow> family \<Rightarrow> string \<Rightarrow> flags \<Rightarrow> nft_base_rules \<Rightarrow> nft_base_rules" where
  "put_base_rules type family iface v b =
     (let v4 = (family = VALUE_FAMILY_IPV4); v6 = (family = VALUE_FAMILY_IPV6)
      in if flag type NFTLB_F_CHAIN_ING_FILTER
         then b\<lparr>ndv_ingress_rules := upd_ndv_base (\<lambda>r. Some (put_if_rules family v r)) iface (ndv_ingress_rules b)\<rparr>
         else if flag type NFTLB_F_CHAIN_ING_DNAT
         then b\<lparr>ndv_ingress_dnat_rules := upd_ndv_base (\<lambda>r. Some (put_if_rules family v r)) iface (ndv_ingress_dnat_rules b)\<rparr>
         else if flag type NFTLB_F_CHAIN_PRE_DNAT
         then (if v4 then b\<lparr>dnat_rules_v4 := v\<rparr> else if v6 then b\<lparr>dnat_rules_v6 := v\<rparr> else b)
         else if flag type NFTLB_F_CHAIN_PRE_FILTER
         then (if v4 then b\<lparr>filter_rules_v4 := v\<rparr> else if v6 then b\<lparr>filter_rules_v6 := v\<rparr> else b)
         else if flag type NFTLB_F_CHAIN_FWD_FILTER
         then (if v4 then b\<lparr>fwd_rules_v4 := v\<rparr> else if v6 then b\<lparr>fwd_rules_v6 := v\<rparr> else b)
         else if flag type NFTLB_F_CHAIN_POS_SNAT
         then (if v4 then b\<lparr>snat_rules_v4 := v\<rparr> else if v6 then b\<lparr>snat_rules_v6 := v\<rparr> else b)
         else if flag type NFTLB_F_CHAIN_OUT_FILTER
         then (if v4 then b\<lparr>out_filter_rules_v4 := v\<rparr> else if v6 then b\<lparr>out_filter_rules_v6 := v\<rparr> else b)
         else if flag type NFTLB_F_CHAIN_OUT_DNAT
         then (if v4 then b\<lparr>out_nat_rules_v4 := v\<rparr> else if v6 then b\<lparr>out_nat_rules_v6 := v\<rparr> else b)
         else b)"

definition set_rules_applied :: "flags \<Rightarrow> family \<Rightarrow> string \<Rightarrow> (flags \<Rightarrow> flags) \<Rightarrow> nftw \<Rightarrow> nftw" where
  "set_rules_applied type family iface g w =
     (case get_rules_applied type family iface w of
        None \<Rightarrow> w
      | Some v \<Rightarrow> upd_base (put_base_rules type family iface (g v)) w)"

section \<open>Names of services\<close>

definition print_nft_mode_service :: "flags \<Rightarrow> family \<Rightarrow> string" where
  "print_nft_mode_service mode family =
     (if flag mode NFTLB_PROTO_IP_ACTIVE then ''services''
      else if flag mode NFTLB_PROTO_PORT_ACTIVE then ''port-services''
      else ''proto-services'') @
     (if family = VALUE_FAMILY_IPV6 then ''6'' else [])"

definition get_address_service_mode :: "address \<Rightarrow> flags" where
  "get_address_service_mode a =
     (if address_no_port a then NFTLB_PROTO_IP_ACTIVE
      else if address_no_ipaddr a then NFTLB_PROTO_PORT_ACTIVE
      else NFTLB_PROTO_IP_PORT_ACTIVE)"

definition get_nft_name_service :: "flags \<Rightarrow> string \<Rightarrow> flags \<Rightarrow> family \<Rightarrow> string" where
  "get_nft_name_service srv_mode trailing type family =
     (if flag type NFTLB_F_CHAIN_ING_FILTER then print_nft_mode_service srv_mode family @ trailing
      else if flag type NFTLB_F_CHAIN_PRE_FILTER then ''filter-'' @ print_nft_mode_service srv_mode family @ trailing
      else if flag type NFTLB_F_CHAIN_PRE_DNAT then ''nat-'' @ print_nft_mode_service srv_mode family @ trailing
      else if flag type NFTLB_F_CHAIN_FWD_FILTER then ''forward-'' @ print_nft_mode_service srv_mode family @ trailing
      else if flag type NFTLB_F_CHAIN_POS_SNAT
        then print_nft_mode_service NFTLB_PROTO_IP_ACTIVE family @ ''-back'' @ trailing
      else if flag type NFTLB_F_CHAIN_ING_DNAT then print_nft_mode_service srv_mode family @ ''-dnat'' @ trailing
      else if flag type NFTLB_F_CHAIN_OUT_FILTER then ''output-filter-'' @ print_nft_mode_service srv_mode family @ trailing
      else if flag type NFTLB_F_CHAIN_OUT_DNAT then ''output-nat-'' @ print_nft_mode_service srv_mode family @ trailing
      else [])"

definition get_address_service :: "address \<Rightarrow> flags \<Rightarrow> family \<Rightarrow> map_mode \<Rightarrow> string" where
  "get_address_service a type family key_mode =
     (if flag type NFTLB_F_CHAIN_ING_FILTER \<or> flag type NFTLB_F_CHAIN_ING_DNAT
      then get_nft_name_service (get_address_service_mode a) (''-'' @ cstr (a_iface a)) type family
      else if flag type NFTLB_F_CHAIN_POS_SNAT \<and> (key_mode = BCK_MAP_BCK_ID \<or> key_mode = BCK_MAP_BCK_MARK)
      then get_nft_name_service (get_address_service_mode a) ''-m'' type family
      else get_nft_name_service (get_address_service_mode a) [] type family)"

section \<open>Tables and chains\<close>

text \<open>The table commands are run at once, with all that is in the buffer.\<close>

definition nft_table_handler :: "nftenv \<Rightarrow> string \<Rightarrow> action \<Rightarrow> nftw \<Rightarrow> nftw" where
  "nft_table_handler env str_family action w =
     (let old_serial = w_serialize w;
          w1 = w\<lparr>w_serialize := True\<rparr>;
          cmd = (\<lambda>verb. concat_exec_cmd env (words ['' ;'', verb, ''table'', str_family, NFTLB_TABLE_NAME]));
          w2 = (case action of
                  ACTION_RELOAD \<Rightarrow> cmd ''flush'' w1
                | ACTION_START \<Rightarrow> cmd ''add'' w1
                | ACTION_STOP \<Rightarrow> cmd ''delete'' w1
                | ACTION_DELETE \<Rightarrow> cmd ''delete'' w1
                | _ \<Rightarrow> w1)
      in w2\<lparr>w_serialize := old_serial\<rparr>)"

definition nft_chain_handler ::
  "nftenv \<Rightarrow> string \<Rightarrow> string \<Rightarrow> cptr \<Rightarrow> cptr \<Rightarrow> cptr \<Rightarrow> int \<Rightarrow> action \<Rightarrow> nftw \<Rightarrow> nftw" where
  "nft_chain_handler env str_family chain str_type hook str_device priority action w =
     (case action of
        ACTION_RELOAD \<Rightarrow> concat_exec_cmd env (words ['' ; flush chain'', str_family, NFTLB_TABLE_NAME, chain]) w
      | ACTION_START \<Rightarrow>
          concat_exec_cmd env
            (words ['' ; add chain'', str_family, NFTLB_TABLE_NAME, chain] @
             (if \<not> obj_equ_attribute_string str_type [] \<and> \<not> obj_equ_attribute_string hook []
              then '' { type '' @ cstr str_type @ '' hook '' @ cstr hook @
                   (if \<not> obj_equ_attribute_string str_device [] then '' device '' @ cstr str_device else []) @
                   '' priority '' @ print_d priority @ '' ;}''
              else [])) w
      | ACTION_STOP \<Rightarrow> concat_exec_cmd env (words ['' ; delete chain'', str_family, NFTLB_TABLE_NAME, chain]) w
      | ACTION_DELETE \<Rightarrow> concat_exec_cmd env (words ['' ; delete chain'', str_family, NFTLB_TABLE_NAME, chain]) w
      | _ \<Rightarrow> w)"

text \<open>What a request for a chain becomes, given whether the chain is there.\<close>

fun chain_action :: "bool \<Rightarrow> action \<Rightarrow> action" where
  "chain_action present ACTION_RELOAD = (if present then ACTION_RELOAD else ACTION_START)"
| "chain_action present ACTION_START = (if present then ACTION_RELOAD else ACTION_START)"
| "chain_action present ACTION_DELETE = (if present then ACTION_DELETE else ACTION_NONE)"
| "chain_action present ACTION_STOP = (if present then ACTION_STOP else ACTION_NONE)"
| "chain_action present a = a"

definition run_nftst_rules_gen_chain :: "nftenv \<Rightarrow> nftst \<Rightarrow> family \<Rightarrow> flags \<Rightarrow> action \<Rightarrow> nftw \<Rightarrow> nftw" where
  "run_nftst_rules_gen_chain env n family type action w =
     (let chain = get_chain_name (nftst_get_name n w) type;
          action = chain_action (flag (nftst_get_chains n w) type) action;
          handle = nft_chain_handler env (print_nft_table_family family type) chain None None None 0 action
      in if type = NFTLB_F_CHAIN_OUT_FILTER \<or> type = NFTLB_F_CHAIN_OUT_DNAT then w
         else if action = ACTION_RELOAD \<or> action = ACTION_START
         then let w1 = handle w in nftst_set_chains n (nftst_get_chains n w1 OR type) w1
         else if (action = ACTION_DELETE \<or> action = ACTION_STOP) \<and>
                 (case nftst_get_farm n w of
                    Some f \<Rightarrow> f_addresses_used f = 1
                  | None \<Rightarrow> nftst_get_address n w \<noteq> None)
         then let w1 = handle w in nftst_set_chains n (nftst_get_chains n w1 AND NOT type) w1
         else w)"

definition run_base_chain_set_meta_mark :: "nftenv \<Rightarrow> flags \<Rightarrow> string \<Rightarrow> string \<Rightarrow> nftw \<Rightarrow> nftw" where
  "run_base_chain_set_meta_mark env type chain_family base_chain =
     steps
       [only_if (flag type NFTLB_F_CHAIN_PRE_FILTER) (concat_exec_cmd env
          (words ['' ; add rule'', chain_family, NFTLB_TABLE_NAME, base_chain, ''meta mark 0x0 meta mark set ct mark''])),
        only_if (flag type NFTLB_F_CHAIN_PRE_DNAT) (concat_exec_cmd env
          (words ['' ; add rule'', chain_family, NFTLB_TABLE_NAME, base_chain,
                  ''ct state new meta mark 0x0 meta mark set ct mark'']))]"

definition run_base_chain_postrouting_masquerade :: "nftenv \<Rightarrow> flags \<Rightarrow> string \<Rightarrow> nftw \<Rightarrow> nftw" where
  "run_base_chain_postrouting_masquerade env type chain_family =
     only_if (flag type NFTLB_F_CHAIN_POS_SNAT) (steps
       [concat_exec_cmd env
          (words ['' ; add rule'', chain_family, NFTLB_TABLE_NAME, ''postrouting ct mark 0x0 ct mark set meta mark'']),
        concat_exec_cmd env
          (words ['' ; add rule'', chain_family, NFTLB_TABLE_NAME,
                  ''postrouting ct mark and 0x'' @ print_x (masquerade_mark (net env)) @ '' == 0x'' @
                  print_x (masquerade_mark (net env)) @ '' masquerade''])])"

definition run_base_chain_postrouting_bckmark :: "nftenv \<Rightarrow> string \<Rightarrow> flags \<Rightarrow> family \<Rightarrow> nftw \<Rightarrow> nftw" where
  "run_base_chain_postrouting_bckmark env service type family =
     only_if (\<not> flag (NOT type) NFTLB_F_CHAIN_POS_SNAT) (steps
       [concat_exec_cmd env
          (words ['' ; add map'', print_nft_family family, NFTLB_TABLE_NAME, service, ''{ type mark :'',
                  print_nft_family_type family, '';}'']),
        concat_exec_cmd env
          (words ['' ; add rule'', print_nft_family family, NFTLB_TABLE_NAME,
                  ''postrouting snat to ct mark map @'' @ service])])"

definition run_farm_map ::
  "nftenv \<Rightarrow> address \<Rightarrow> family \<Rightarrow> flags \<Rightarrow> string \<Rightarrow> flags \<Rightarrow> flags \<Rightarrow> int \<Rightarrow> action \<Rightarrow> nftw \<Rightarrow> nftw" where
  "run_farm_map env a family stage mapname key data timeout action w =
     (if action = ACTION_START then
        concat_exec_cmd env
          (words ['' ; add map'', print_nft_table_family family stage, NFTLB_TABLE_NAME, mapname, ''{ type ''] @
           run_farm_rules_gen_meta_param (a_protocol a) family key True @ '' :'' @
           run_farm_rules_gen_meta_param (a_protocol a) family data True @ '';'' @
           (if timeout \<noteq> -1 then '' timeout '' @ print_d timeout @ ''s;'' else []) @ '' }'') w
      else if action = ACTION_DELETE \<or> action = ACTION_STOP then
        concat_exec_cmd env (words ['' ; delete map'', print_nft_table_family family stage, NFTLB_TABLE_NAME, mapname]) w
      else w)"

section \<open>Base table and base chains\<close>

definition ip_table_flag :: "family \<Rightarrow> flags" where
  "ip_table_flag family =
     (if family = VALUE_FAMILY_IPV4 then NFTLB_TABLE_IP_ACTIVE
      else if family = VALUE_FAMILY_IPV6 then NFTLB_TABLE_IP6_ACTIVE else 0)"

text \<open>No destination or filter chain of the family is installed.\<close>

definition ip_rules_empty :: "family \<Rightarrow> nft_base_rules \<Rightarrow> bool" where
  "ip_rules_empty family b =
     (if family = VALUE_FAMILY_IPV4 then dnat_rules_v4 b = 0 \<and> filter_rules_v4 b = 0
      else family = VALUE_FAMILY_IPV6 \<and> dnat_rules_v6 b = 0 \<and> filter_rules_v6 b = 0)"

definition run_base_table :: "nftenv \<Rightarrow> flags \<Rightarrow> family \<Rightarrow> action \<Rightarrow> nftw \<Rightarrow> nftw" where
  "run_base_table env type family action =
     (let chain_family = print_nft_table_family family type;
          pre = (flag type NFTLB_F_CHAIN_PRE_DNAT \<or> flag type NFTLB_F_CHAIN_PRE_FILTER)
      in steps
           [\<lambda>w. only_if ((action = ACTION_STOP \<or> action = ACTION_DELETE) \<and> pre \<and>
                         flag (tables (w_base w)) (ip_table_flag family) \<and> ip_rules_empty family (w_base w))
                  (steps [upd_base (\<lambda>b. b\<lparr>tables := tables b AND NOT (ip_table_flag family)\<rparr>),
                          nft_table_handler env chain_family ACTION_DELETE]) w,
            \<lambda>w. only_if ((action = ACTION_STOP \<or> action = ACTION_DELETE) \<and> flag type NFTLB_F_CHAIN_ING_FILTER \<and>
                         flag (tables (w_base w)) NFTLB_TABLE_NETDEV_ACTIVE \<and> ndv_ingress_policies (w_base w) = 0 \<and>
                         ndv_ingress_rules (w_base w) = [] \<and> ndv_ingress_dnat_rules (w_base w) = [])
                  (steps [upd_base (\<lambda>b. b\<lparr>tables := tables b AND NOT NFTLB_TABLE_NETDEV_ACTIVE\<rparr>),
                          nft_table_handler env chain_family ACTION_DELETE]) w,
            \<lambda>w. only_if ((action = ACTION_RELOAD \<or> action = ACTION_START) \<and> pre \<and>
                         flag (NOT (tables (w_base w))) (ip_table_flag family) \<and> ip_rules_empty family (w_base w))
                  (steps [upd_base (\<lambda>b. b\<lparr>tables := tables b OR ip_table_flag family\<rparr>),
                          nft_table_handler env chain_family ACTION_START]) w,
            \<lambda>w. only_if ((action = ACTION_RELOAD \<or> action = ACTION_START) \<and> flag type NFTLB_F_CHAIN_ING_FILTER \<and>
                         flag (NOT (tables (w_base w))) NFTLB_TABLE_NETDEV_ACTIVE \<and>
                         ndv_ingress_rules (w_base w) = [] \<and> ndv_ingress_dnat_rules (w_base w) = [])
                  (steps [upd_base (\<lambda>b. b\<lparr>tables := tables b OR NFTLB_TABLE_NETDEV_ACTIVE\<rparr>),
                          nft_table_handler env chain_family ACTION_START]) w])"

text \<open>The interface, type, hook, device, priority and name of a base chain, and the suffix of its maps.\<close>

record base_chain =
  bc_iface :: string
  bc_prio :: int
  bc_type :: string
  bc_hook :: string
  bc_device :: string
  bc_name :: string
  bc_trailing :: string

definition base_chain_info :: "flags \<Rightarrow> address \<Rightarrow> farm option \<Rightarrow> base_chain option" where
  "base_chain_info type a f =
     (let plain = (\<lambda>prio t hook name.
            Some \<lparr>bc_iface = [], bc_prio = prio, bc_type = t, bc_hook = hook, bc_device = [], bc_name = name, bc_trailing = []\<rparr>)
      in if flag type NFTLB_F_CHAIN_ING_FILTER then
           (let iface = cstr (a_iface a)
            in Some \<lparr>bc_iface = iface, bc_prio = 101, bc_type = ''filter'', bc_hook = ''ingress'', bc_device = take 15 iface,
                     bc_name = take 255 (''ingress-'' @ iface), bc_trailing = take 255 (''-'' @ iface)\<rparr>)
         else if flag type NFTLB_F_CHAIN_ING_DNAT then
           (case f of
              None \<Rightarrow> None
            | Some f \<Rightarrow>
                let iface = cstr (f_oface f)
                in Some \<lparr>bc_iface = iface, bc_prio = 100, bc_type = ''filter'', bc_hook = ''ingress'', bc_device = take 15 iface,
                         bc_name = ''ingress-dnat-'' @ take 15 iface, bc_trailing = take 255 (''-'' @ iface)\<rparr>)
         else if flag type NFTLB_F_CHAIN_PRE_FILTER then plain (-150) ''filter'' ''prerouting'' ''filter''
         else if flag type NFTLB_F_CHAIN_PRE_DNAT then plain (-100) ''nat'' ''prerouting'' ''prerouting''
         else if flag type NFTLB_F_CHAIN_POS_SNAT then plain 100 ''nat'' ''postrouting'' ''postrouting''
         else if flag type NFTLB_F_CHAIN_FWD_FILTER then plain (-100) ''filter'' ''forward'' ''forward''
         else if flag type NFTLB_F_CHAIN_OUT_FILTER then plain (-150) ''filter'' ''output'' ''output-filter''
         else if flag type NFTLB_F_CHAIN_OUT_DNAT then plain (-100) ''nat'' ''output'' ''output-nat''
         else None)"

text \<open>All four counters of a chain are zero.\<close>

definition counters_empty :: "flags \<Rightarrow> family \<Rightarrow> nftw \<Rightarrow> bool" where
  "counters_empty type family w =
     list_all (\<lambda>st. get_service_counter type st (Some family) w = 0)
       [NFTLB_PROTO_IP_PORT_ACTIVE, NFTLB_PROTO_PORT_ACTIVE, NFTLB_PROTO_IP_ACTIVE, NFTLB_MARK_ACTIVE]"

definition srv_active :: flags where
  "srv_active = NFTLB_PROTO_IP_PORT_ACTIVE OR NFTLB_PROTO_PORT_ACTIVE OR NFTLB_PROTO_IP_ACTIVE OR NFTLB_MARK_ACTIVE"

text \<open>The map of a kind of service and the rule that looks packets up in it.\<close>

definition service_keys :: "flags \<Rightarrow> family \<Rightarrow> bool \<Rightarrow> string \<times> string" where
  "service_keys st family back =
     (let addr = print_nft_family family @ (if back then '' saddr'' else '' daddr'');
          port = (if back then ''th sport'' else ''th dport'');
          proto = print_nft_family family @ '' '' @ print_nft_family_protocol family
      in if st = NFTLB_PROTO_IP_PORT_ACTIVE
         then (''inet_proto . '' @ print_nft_family_type family @ '' . inet_service'', proto @ '' . '' @ addr @ '' . '' @ port)
         else if st = NFTLB_PROTO_PORT_ACTIVE
         then (''inet_proto . inet_service'', proto @ '' . '' @ port)
         else (''inet_proto . '' @ print_nft_family_type family, proto @ '' . '' @ addr))"

definition run_base_service ::
  "nftenv \<Rightarrow> flags \<Rightarrow> flags \<Rightarrow> family \<Rightarrow> base_chain \<Rightarrow> flags \<Rightarrow> nftw \<Rightarrow> nftw" where
  "run_base_service env st type family bc rules_needed w =
     (let chain_family = print_nft_table_family family type;
          service = get_nft_name_service st (bc_trailing bc) type family;
          back = flag type NFTLB_F_CHAIN_ING_DNAT;
          keys = (if \<not> back \<and> flag type NFTLB_F_CHAIN_FWD_FILTER then (''mark'', ''ct mark'') else service_keys st family back)
      in case get_rules_applied type family (bc_iface bc) w of
           None \<Rightarrow> w
         | Some base_rules \<Rightarrow>
             only_if (flag rules_needed st \<and> \<not> flag base_rules st \<and> \<not> flag type NFTLB_F_CHAIN_POS_SNAT)
               (steps
                  [concat_exec_cmd env
                     (words ['' ; add map'', chain_family, NFTLB_TABLE_NAME, service, ''{ type'', fst keys, '': verdict ;}'']),
                   concat_exec_cmd env
                     (words ['' ; add rule'', chain_family, NFTLB_TABLE_NAME, bc_name bc, snd keys, ''vmap @'' @ service]),
                   set_rules_applied type family (bc_iface bc) (\<lambda>v. v OR st)]) w)"

text \<open>Installing what is needed and not there yet.\<close>

definition run_base_chain_start ::
  "nftenv \<Rightarrow> flags \<Rightarrow> family \<Rightarrow> base_chain \<Rightarrow> flags \<Rightarrow> nftw \<Rightarrow> nftw" where
  "run_base_chain_start env type family bc rules_needed =
     (let chain_family = print_nft_table_family family type
      in steps
           [\<lambda>w. case get_rules_applied type family (bc_iface bc) w of
                  None \<Rightarrow> w
                | Some base_rules \<Rightarrow>
                    only_if (flag rules_needed NFTLB_IP_ACTIVE \<and> \<not> flag base_rules NFTLB_IP_ACTIVE)
                      (steps
                         [nft_chain_handler env chain_family (bc_name bc) (Some (bc_type bc)) (Some (bc_hook bc))
                            (Some (bc_device bc)) (bc_prio bc) ACTION_START,
                          run_base_chain_set_meta_mark env type chain_family (bc_name bc),
                          only_if (flag type NFTLB_F_CHAIN_POS_SNAT)
                            (steps [run_base_chain_postrouting_masquerade env type chain_family,
                                    run_base_chain_postrouting_bckmark env
                                      (get_nft_name_service NFTLB_PROTO_IP_PORT_ACTIVE ''-m'' type family) type family]),
                          set_rules_applied type family (bc_iface bc) (\<lambda>v. v OR NFTLB_IP_ACTIVE)]) w,
            run_base_service env NFTLB_PROTO_IP_PORT_ACTIVE type family bc rules_needed,
            run_base_service env NFTLB_PROTO_PORT_ACTIVE type family bc rules_needed,
            run_base_service env NFTLB_PROTO_IP_ACTIVE type family bc rules_needed])"

text \<open>A map that lost its last element: the chain is rebuilt without it.\<close>

definition run_base_chain_flush ::
  "nftenv \<Rightarrow> address \<Rightarrow> flags \<Rightarrow> family \<Rightarrow> base_chain \<Rightarrow> nftw \<Rightarrow> nftw" where
  "run_base_chain_flush env a type family bc w =
     (let chain_family = print_nft_table_family family type;
          empty = (\<lambda>st v. flag v st \<and> get_service_counter type st (Some family) w = 0)
      in case get_rules_applied type family (bc_iface bc) w of
           None \<Rightarrow> w
         | Some v \<Rightarrow>
             only_if (empty NFTLB_PROTO_IP_PORT_ACTIVE v \<or> empty NFTLB_PROTO_PORT_ACTIVE v \<or>
                      empty NFTLB_PROTO_IP_ACTIVE v \<or> empty NFTLB_MARK_ACTIVE v)
               (steps
                  [nft_chain_handler env chain_family (bc_name bc) None None None 0 ACTION_RELOAD,
                   run_base_chain_set_meta_mark env type chain_family (bc_name bc),
                   run_farm_map env a family type (get_address_service a type family BCK_MAP_NONE) 0 0 0 ACTION_DELETE,
                   set_rules_applied type family (bc_iface bc) (\<lambda>v. v AND NOT srv_active)]) w)"

text \<open>Deleting a base chain whose maps are all empty; with the prerouting chain goes the postrouting one.\<close>

definition run_base_chain_delete ::
  "nftenv \<Rightarrow> address \<Rightarrow> flags \<Rightarrow> family \<Rightarrow> base_chain \<Rightarrow> nftw \<Rightarrow> nftw" where
  "run_base_chain_delete env a type family bc =
     (let chain_family = print_nft_table_family family type;
          servicem = get_address_service a NFTLB_F_CHAIN_POS_SNAT family BCK_MAP_BCK_MARK
      in steps
           [set_rules_applied type family (bc_iface bc) (\<lambda>v. v AND NOT NFTLB_IP_ACTIVE),
            nft_chain_handler env chain_family (bc_name bc) None None None 0 ACTION_DELETE,
            only_if (flag type NFTLB_F_CHAIN_ING_FILTER)
              (upd_base (\<lambda>b. b\<lparr>ndv_ingress_rules := del_ndv_base (ndv_ingress_rules b) (cstr (a_iface a))\<rparr>)),
            only_if (flag type NFTLB_F_CHAIN_ING_DNAT \<and> \<not> flag type NFTLB_F_CHAIN_ING_FILTER)
              (upd_base (\<lambda>b. b\<lparr>ndv_ingress_dnat_rules := del_ndv_base (ndv_ingress_dnat_rules b) (cstr (a_iface a))\<rparr>)),
            only_if (flag type NFTLB_F_CHAIN_PRE_DNAT)
              (steps [nft_chain_handler env chain_family ''postrouting'' None None None 0 ACTION_DELETE,
                      run_farm_map env a family type servicem 0 0 0 ACTION_DELETE,
                      set_rules_applied NFTLB_F_CHAIN_POS_SNAT family []
                        (\<lambda>v. v AND NOT (NFTLB_IP_ACTIVE OR srv_active))])])"

definition run_base_chain :: "nftenv \<Rightarrow> nftst \<Rightarrow> flags \<Rightarrow> family \<Rightarrow> flags \<Rightarrow> action \<Rightarrow> nftw \<Rightarrow> nftw" where
  "run_base_chain env n type family rules_needed action w =
     (let a = naddr n w
      in case base_chain_info type a (nftst_get_farm n w) of
           None \<Rightarrow> w
         | Some bc \<Rightarrow>
             let w0 = note_iface type (bc_iface bc) w
             in if get_rules_applied type family (bc_iface bc) w0 = None then w0
                else if action = ACTION_STOP \<or> action = ACTION_DELETE then
                  let w1 = run_base_chain_flush env a type family bc w0
                  in if counters_empty type family w1 then
                       if flag type NFTLB_F_CHAIN_PRE_DNAT \<and> \<not> counters_empty NFTLB_F_CHAIN_POS_SNAT family w1 then w1
                       else if flag type NFTLB_F_CHAIN_POS_SNAT then w1
                       else run_base_chain_delete env a type family bc w1
                     else
                       let used = (\<lambda>st. if get_service_counter type st (Some family) w1 \<noteq> 0 then st else 0)
                       in (case get_rules_applied type family (bc_iface bc) w1 of
                             None \<Rightarrow> w1
                           | Some v \<Rightarrow>
                               run_base_chain_start env type family bc
                                 (v OR used NFTLB_PROTO_IP_PORT_ACTIVE OR used NFTLB_PROTO_PORT_ACTIVE OR
                                  used NFTLB_PROTO_IP_ACTIVE OR used NFTLB_MARK_ACTIVE) w1)
                else run_base_chain_start env type family bc rules_needed w0)"

section \<open>Properties\<close>

lemma sint_nonneg: "0 \<le> sint (x :: flags) \<Longrightarrow> uint x = sint x"
  using sint_lt [of x] by (simp add: uint_sint take_bit_int_eq_self)

lemma sint_plus: "0 \<le> sint x \<Longrightarrow> 0 \<le> sint y \<Longrightarrow> sint x + sint y < 2 ^ 31 \<Longrightarrow> sint (x + y :: flags) = sint x + sint y"
  by (simp add: sint_word_add signed_take_bit_int_eq_self)

lemma set_get_counter [simp]: "get_service_counter ty st fam (set_service_counter ty st fam x w) = x"
  by (simp add: get_service_counter_def set_service_counter_def Let_def sel_counter_def put_counter_def)

lemma set_set_counter [simp]:
  "set_service_counter ty st fam y (set_service_counter ty st fam x w) = set_service_counter ty st fam y w"
  by (simp add: set_service_counter_def Let_def put_counter_def)

lemma set_counter_same [simp]: "set_service_counter ty st fam (get_service_counter ty st fam w) w = w"
  by (simp add: get_service_counter_def set_service_counter_def Let_def sel_counter_def put_counter_def fun_upd_idem)

text \<open>
  (C35) The elements counted when a service is started are uncounted when it is stopped, as long as the
  counter stays below 2 to the power 31; and stopping never wraps a counter below zero.
\<close>

theorem service_counters_balanced:
  assumes "0 \<le> sint qty" "0 \<le> sint (get_service_counter type (service_structure a type structure) (Some family) w)"
    "sint (get_service_counter type (service_structure a type structure) (Some family) w) + sint qty < 2 ^ 31"
  shows "update_service_counters a type structure family qty ACTION_STOP
           (update_service_counters a type structure family qty ACTION_START w) = w \<and>
         unat (get_service_counter type (service_structure a type structure) (Some family)
           (update_service_counters a type structure family qty ACTION_STOP w)) \<le>
         unat (get_service_counter type (service_structure a type structure) (Some family) w)"
proof -
  define c where "c = get_service_counter type (service_structure a type structure) (Some family) w"
  have "sint qty \<le> sint (c + qty)"
    using sint_plus [of c qty] assms by (simp add: c_def)
  then have "update_service_counters a type structure family qty ACTION_STOP
      (update_service_counters a type structure family qty ACTION_START w) = w"
    by (simp add: update_service_counters_def Let_def flip: c_def) (simp add: c_def)
  moreover have "qty \<le> c \<Longrightarrow> unat (c - qty) \<le> unat c"
    by (simp add: unat_sub)
  moreover have "sint qty \<le> sint c \<Longrightarrow> qty \<le> c"
    using sint_nonneg [of qty] sint_nonneg [of c] assms(1,2) by (simp add: word_le_def c_def)
  ultimately show ?thesis
    by (simp add: update_service_counters_def Let_def flip: c_def)
qed

definition no_services :: nftw where
  "no_services = \<lparr>w_objs = objects_init, w_base = no_base_rules,
     w_cnt = (\<lambda>_ _. \<lparr>proto_ip_port_cnt = 0, proto_port_cnt = 0, proto_ip_cnt = 0, bckmark_cnt = 0\<rparr>),
     w_buf = [], w_cmds = [], w_serialize = False, w_flowtable_prio = 0, w_cmdtry = 0\<rparr>"

theorem service_counters_balanced_witness:
  "update_service_counters (new_address 0 ''vs'') NFTLB_F_CHAIN_PRE_DNAT False VALUE_FAMILY_IPV4 2 ACTION_STOP
     (update_service_counters (new_address 0 ''vs'') NFTLB_F_CHAIN_PRE_DNAT False VALUE_FAMILY_IPV4 2 ACTION_START no_services) =
   no_services"
  by (rule service_counters_balanced [THEN conjunct1])
    (simp_all add: no_services_def get_service_counter_def sel_counter_def)

text \<open>The chain flags of a farm.\<close>

lemma set_chains_farm:
  assumes "n_farm n = Some fid" "get_farm fid (w_objs w) = Some f"
  shows "nftst_get_chains n w = f_nft_chains f" "nftst_get_chains n (nftst_set_chains n x w) = x"
  using assms by (simp_all add: nftst_get_chains_def nftst_get_farm_def nftst_set_chains_def upd_objs_def Let_def
      get_farm_def upd_farm_def upd_address_def kfind_kupd split: option.split)

text \<open>
  (C17) A farm's chain is added when it is not there, flushed when it is there and asked for again, and
  deleted when the farm stops and no other address of the farm uses it; otherwise nothing is sent. The
  flag of the chain tells afterwards whether the chain is there.
\<close>

theorem chain_tracks:
  assumes "n_farm n = Some fid" "get_farm fid (w_objs w) = Some f" "\<not> w_serialize w" "type \<noteq> 0"
    "type \<noteq> NFTLB_F_CHAIN_OUT_FILTER" "type \<noteq> NFTLB_F_CHAIN_OUT_DNAT"
    "target = print_nft_table_family family type @ '' '' @ NFTLB_TABLE_NAME @ '' '' @ get_chain_name (f_name f) type"
  shows
    "w_buf (run_nftst_rules_gen_chain env n family type ACTION_START w) =
       w_buf w @ (if flag (f_nft_chains f) type then '' ; flush chain '' else '' ; add chain '') @ target \<and>
     flag (nftst_get_chains n (run_nftst_rules_gen_chain env n family type ACTION_START w)) type \<and>
     (f_addresses_used f = 1 \<longrightarrow>
        w_buf (run_nftst_rules_gen_chain env n family type ACTION_STOP w) =
          w_buf w @ (if flag (f_nft_chains f) type then '' ; delete chain '' @ target else []) \<and>
        \<not> flag (nftst_get_chains n (run_nftst_rules_gen_chain env n family type ACTION_STOP w)) type) \<and>
     (f_addresses_used f \<noteq> 1 \<longrightarrow> run_nftst_rules_gen_chain env n family type ACTION_STOP w = w)"
proof -
  have farm: "nftst_get_farm n w = Some f" "nftst_get_name n w = f_name f" "nftst_get_chains n w = f_nft_chains f"
    using assms(1,2) by (simp_all add: nftst_get_farm_def nftst_get_name_def nftst_get_chains_def)
  have send: "concat_exec_cmd env t w = w\<lparr>w_buf := w_buf w @ t\<rparr>" for t
    using assms(3) by (simp add: concat_exec_cmd_def u_buf_concat_def)
  have put: "w_buf (nftst_set_chains n x v) = w_buf v" for x v
    by (simp add: nftst_set_chains_def upd_objs_def)
  have get: "nftst_get_chains n (nftst_set_chains n x (w\<lparr>w_buf := b\<rparr>)) = x"
    "nftst_get_chains n (w\<lparr>w_buf := b\<rparr>) = f_nft_chains f" for x b
    using set_chains_farm [of n fid "w\<lparr>w_buf := b\<rparr>" f] assms(1,2) by simp_all
  have on: "flag (c OR type) type" and off: "\<not> flag (c AND NOT type) type" for c
    using assms(4) by (auto simp: flag_def word_bw_assocs word_bw_comms(1) intro!: bit_word_eqI simp: bit_simps bit_eq_iff)
  show ?thesis
    using assms(5,6)
    by (simp add: run_nftst_rules_gen_chain_def Let_def farm nft_chain_handler_def send put get on off assms(7)
        obj_equ_attribute_string_def words.simps)
qed

text \<open>An idle program with one farm, and surroundings in which no command fails.\<close>

definition idle_env :: nftenv where
  "idle_env = \<lparr>net = offline, nft_run_cmd = (\<lambda>_ _. False), recovery = (\<lambda>w. w)\<rparr>"

definition one_farm :: nftw where
  "one_farm = no_services\<lparr>w_objs := objects_init\<lparr>farms := [new_farm 0 ''lb'']\<rparr>\<rparr>"

theorem chain_tracks_witness:
  "w_buf (run_nftst_rules_gen_chain idle_env (nftst_create_from_farm 0 one_farm) VALUE_FAMILY_IPV4 NFTLB_F_CHAIN_PRE_DNAT
     ACTION_START one_farm) = '' ; add chain ip nftlb nat-lb''"
  using chain_tracks [of "nftst_create_from_farm 0 one_farm" 0 one_farm "new_farm 0 ''lb''" NFTLB_F_CHAIN_PRE_DNAT _
      VALUE_FAMILY_IPV4 idle_env]
  by (simp add: one_farm_def no_services_def nftst_create_from_farm_def get_farm_def new_farm_def flag_def
      get_chain_name_def print_nft_table_family_def)

end
