(* ===== verification/NftMaps.thy ===== *)
theory NftMaps
  imports Nft Ports
begin

unbundle bit_operations_syntax

text \<open>
  The service maps of nft.c: the elements of a virtual service (address, port and protocol to chain),
  the elements of the return traffic keyed by backend, with the counters they are accounted in, and
  the chain of a service.
\<close>

section \<open>Elements\<close>

text \<open>The text \<open>run_nftst_rules_gen_srv_data\<close> leaves in the buffer, which starts with \<open>data_str\<close> in it.\<close>

definition set_srcaddr :: "cptr \<Rightarrow> bool" where
  "set_srcaddr p = (p \<noteq> None \<and> p \<noteq> Some [])"

fun run_nftst_rules_gen_srv_data :: "farm option \<Rightarrow> backend option \<Rightarrow> string \<Rightarrow> map_mode \<Rightarrow> string \<Rightarrow> string" where
  "run_nftst_rules_gen_srv_data f b chain BCK_MAP_SRCIPADDR data_str =
     (case f of Some f \<Rightarrow> '': '' @ cstr (f_srcaddr f) @ '' '' | None \<Rightarrow> data_str)"
| "run_nftst_rules_gen_srv_data f b chain BCK_MAP_NAME data_str = '': goto '' @ chain @ '' ''"
| "run_nftst_rules_gen_srv_data f b chain BCK_MAP_BCK_BF_SRCIPADDR data_str =
     (case (b, f) of
        (Some b, Some f) \<Rightarrow>
          if set_srcaddr (b_srcaddr b) then '': '' @ cstr (b_srcaddr b) @ '' ''
          else if set_srcaddr (f_srcaddr f) then '': '' @ cstr (f_srcaddr f) @ '' '' else data_str
      | (Some b, None) \<Rightarrow> if set_srcaddr (b_srcaddr b) then '': '' @ cstr (b_srcaddr b) @ '' '' else data_str
      | (None, Some f) \<Rightarrow> if set_srcaddr (f_srcaddr f) then '': '' @ cstr (f_srcaddr f) @ '' '' else data_str
      | (None, None) \<Rightarrow> data_str)"
| "run_nftst_rules_gen_srv_data f b chain _ data_str = data_str"

text \<open>
  The loops over the ports of an address: from port \<open>iport\<close> on, while \<open>nports\<close> ports are to come. The
  entry of a port also depends on how many are left. The text and the number of entries.
\<close>

function port_loop :: "address \<Rightarrow> (int \<Rightarrow> int \<Rightarrow> string) \<Rightarrow> int \<Rightarrow> int \<Rightarrow> string \<times> nat" where
  "port_loop a entry iport nports =
     (if iport \<le> int NFTLB_MAX_PORTS \<and> nports > 0
      then if \<not> a_port_list a (nat (iport - 1)) then port_loop a entry (iport + 1) nports
           else let (t, k) = port_loop a entry (iport + 1) (nports - 1) in (entry iport nports @ t, Suc k)
      else ([], 0))"
  by auto

termination
  by (relation "measure (\<lambda>(a, entry, iport, nports). nat (int NFTLB_MAX_PORTS + 1 - iport))") auto

declare port_loop.simps [simp del]

text \<open>Whether the separator comes after the entry (as for most maps) or before it (\<open>BCK_MAP_PROTO_PORT\<close>).\<close>

definition comma_after :: "string \<Rightarrow> int \<Rightarrow> string" where
  "comma_after t nports = t @ (if nports \<noteq> 1 then '', '' else [])"

definition comma_before :: "string \<Rightarrow> int \<Rightarrow> string" where
  "comma_before t nports = (if nports \<noteq> 1 then '', '' else []) @ t"

definition element_cmd :: "string \<Rightarrow> string \<Rightarrow> string \<Rightarrow> string" where
  "element_cmd action_str nft_family service =
     words ['' ;'', action_str, ''element'', nft_family, NFTLB_TABLE_NAME, service, ''{ '']"

definition port_elements ::
  "nftenv \<Rightarrow> address \<Rightarrow> string \<Rightarrow> (int \<Rightarrow> int \<Rightarrow> string) \<Rightarrow> nftw \<Rightarrow> nat \<times> nftw" where
  "port_elements env a cmd entry w =
     (if a_nports a = 0 then (0, w)
      else let (t, k) = port_loop a entry 1 (a_nports a) in (k, concat_exec_cmd env (cmd @ t @ '' }'') w))"

section \<open>Elements keyed by backend\<close>

text \<open>
  The key of a backend in the map, or \<open>None\<close> when the loop goes on to the next backend; an empty first
  component stands for the branch that leaves the key of the backend before. The second component is
  the \<open>structure\<close> as a truth value.
\<close>

definition bck_elem_key ::
  "nftenv \<Rightarrow> farm \<Rightarrow> backend \<Rightarrow> map_mode \<Rightarrow> string \<Rightarrow> int \<Rightarrow> bool \<Rightarrow> (string option \<times> bool) option" where
  "bck_elem_key env f b key_mode protocol iport first_port =
     (let bckmark = backend_get_mark (net env) f b; ip = cstr (b_ipaddr b); id = (key_mode = BCK_MAP_BCK_ID)
      in if (id \<or> key_mode = BCK_MAP_BCK_MARK) \<and> bckmark \<noteq> DEFAULT_MARK
         then if first_port then Some (Some (''0x'' @ print_x bckmark), True) else None
         else if (id \<or> key_mode = BCK_MAP_BCK_PROTO_IPADDR_F_PORT) \<and> backend_no_port b
         then Some (Some (protocol @ '' . '' @ ip @ '' . '' @ print_d iport), True)
         else if (id \<or> key_mode = BCK_MAP_BCK_PROTO_IPADDR_F_PORT) \<and> \<not> backend_no_port b
         then Some (Some (protocol @ '' . '' @ ip @ '' . '' @ b_port b), True)
         else if (id \<or> key_mode = BCK_MAP_BCK_IPADDR_F_PORT) \<and> backend_no_port b
         then Some (Some (ip @ '' . '' @ print_d iport), True)
         else if id \<and> \<not> backend_no_port b
         then if first_port then Some (Some (ip @ '' . '' @ b_port b), True) else None
         else if id \<or> key_mode = BCK_MAP_BCK_IPADDR
         then if first_port then Some (Some ip, True) else None
         else if first_port then Some (None, False) else None)"

text \<open>The locals of the loop: the key and data text, the number of elements, and the state.\<close>

record elem_loop =
  l_key :: string
  l_data :: string
  l_output :: nat
  l_w :: nftw

definition bck_elem_step ::
  "nftenv \<Rightarrow> nftst \<Rightarrow> family \<Rightarrow> flags \<Rightarrow> proto \<Rightarrow> action \<Rightarrow> map_mode \<Rightarrow> map_mode \<Rightarrow> int \<Rightarrow> bool \<Rightarrow> oid \<Rightarrow> elem_loop \<Rightarrow> elem_loop" where
  "bck_elem_step env n family type protocol action key_mode data_mode iport first_port bid l =
     (let w = l_w l; f = nfarm n w; a = naddr n w;
          nft_family = print_nft_table_family family type;
          chain = get_chain_name (nftst_get_name n w) type;
          service = get_address_service a type (a_family a) key_mode;
          action_str = (if action = ACTION_RELOAD \<or> action = ACTION_START then ''add'' else ''delete'')
      in case get_bck bid f of
           None \<Rightarrow> l
         | Some b \<Rightarrow>
             if \<not> backend_validate f b then l
             else if type = NFTLB_F_CHAIN_POS_SNAT \<and>
                     flag (backend_get_mark (net env) f b) (masquerade_mark (net env)) then l
             else case bck_elem_key env f b key_mode (print_nft_protocol protocol) iport first_port of
                    None \<Rightarrow> l
                  | Some (key, structure) \<Rightarrow>
                      let key_str = (case key of None \<Rightarrow> l_key l | Some k \<Rightarrow> take 255 k);
                          data_str = run_nftst_rules_gen_srv_data (Some f) (Some b) chain data_mode (l_data l);
                          l1 = l\<lparr>l_key := key_str, l_data := data_str\<rparr>;
                          undo = (b_action b = ACTION_STOP \<or> b_action b = ACTION_DELETE \<or> b_action b = ACTION_RELOAD)
                      in if undo \<and> action = ACTION_START then l1
                         else
                           let w1 = only_if undo
                                 (steps [concat_exec_cmd env (element_cmd ''delete'' nft_family service @ key_str @ '' }''),
                                         update_service_counters a type structure family 1 ACTION_DELETE]) w;
                               skip = (case get_bck bid (nfarm n w1) of
                                         None \<Rightarrow> True
                                       | Some b1 \<Rightarrow> \<not> backend_is_usable (nfarm n w1) b1 \<or>
                                                    (action = ACTION_RELOAD \<and> b_action b1 = ACTION_NONE))
                           in if skip then l1\<lparr>l_w := w1\<rparr>
                              else l1\<lparr>l_output := Suc (l_output l1),
                                      l_w := steps
                                        [concat_exec_cmd env (element_cmd action_str nft_family service @ key_str @ '' '' @ data_str @ ''}''),
                                         update_service_counters a type structure family 1 action] w1\<rparr>)"

text \<open>The loop over the ports around it; an address for all protocols counts as one port.\<close>

function bck_port_loop ::
  "nftenv \<Rightarrow> nftst \<Rightarrow> family \<Rightarrow> flags \<Rightarrow> proto \<Rightarrow> action \<Rightarrow> map_mode \<Rightarrow> map_mode \<Rightarrow> int \<Rightarrow> int \<Rightarrow> bool \<Rightarrow> elem_loop \<Rightarrow> elem_loop" where
  "bck_port_loop env n family type protocol action key_mode data_mode iport nports first_port l =
     (if iport \<le> int NFTLB_MAX_PORTS \<and> nports > 0
      then if \<not> a_port_list (naddr n (l_w l)) (nat (iport - 1)) \<and> nftst_get_proto n (l_w l) \<noteq> Some VALUE_PROTO_ALL
           then bck_port_loop env n family type protocol action key_mode data_mode (iport + 1) nports first_port l
           else
             let ids = map b_id (f_backends (nfarm n (l_w l)));
                 l1 = fold (bck_elem_step env n family type protocol action key_mode data_mode iport first_port) ids l
             in bck_port_loop env n family type protocol action key_mode data_mode (iport + 1) (nports - 1) False l1
      else l)"
  by pat_completeness auto

termination
  by (relation "measure (\<lambda>(env, n, family, type, protocol, action, key_mode, data_mode, iport, nports, first_port, l).
                  nat (int NFTLB_MAX_PORTS + 1 - iport))") auto

declare bck_port_loop.simps [simp del]

section \<open>Service maps\<close>

text \<open>The number of elements written and the new state.\<close>

definition run_nftst_rules_gen_srv_map ::
  "nftenv \<Rightarrow> nftst \<Rightarrow> family \<Rightarrow> flags \<Rightarrow> proto \<Rightarrow> action \<Rightarrow> map_mode \<Rightarrow> map_mode \<Rightarrow> nftw \<Rightarrow> nat \<times> nftw" where
  "run_nftst_rules_gen_srv_map env n family type proto action key_mode data_mode w =
     (let a = naddr n w;
          nft_family = print_nft_table_family family type;
          chain = get_chain_name (nftst_get_name n w) type;
          service = get_address_service a type (a_family a) BCK_MAP_NONE;
          protocol = print_nft_protocol proto;
          action_str = (if action = ACTION_RELOAD \<or> action = ACTION_START then ''add'' else ''delete'');
          cmd = element_cmd action_str nft_family service;
          data = run_nftst_rules_gen_srv_data (nftst_get_farm n w) (nftst_get_backend n w) chain data_mode []
      in if action = ACTION_NONE \<or> action = ACTION_FLUSH then (0, w)
         else case key_mode of
           BCK_MAP_IPADDR \<Rightarrow> (1, concat_exec_cmd env (cmd @ a_ipaddr a @ '' '' @ data @ ''}'') w)
         | BCK_MAP_PROTO_IPADDR \<Rightarrow>
             (1, concat_exec_cmd env (cmd @ protocol @ '' . '' @ a_ipaddr a @ '' '' @ data @ ''}'') w)
         | BCK_MAP_IPADDR_PORT \<Rightarrow>
             port_elements env a cmd (\<lambda>p. comma_after (a_ipaddr a @ '' . '' @ print_d p @ '' '' @ data)) w
         | BCK_MAP_PROTO_IPADDR_PORT \<Rightarrow>
             port_elements env a cmd
               (\<lambda>p. comma_after (protocol @ '' . '' @ a_ipaddr a @ '' . '' @ print_d p @ '' '' @ data)) w
         | BCK_MAP_PROTO_PORT \<Rightarrow>
             port_elements env a cmd (\<lambda>p. comma_before (protocol @ '' . '' @ print_d p @ '' '' @ data)) w
         | _ \<Rightarrow>
             (let l = bck_port_loop env n family type proto action key_mode data_mode 1
                        (if a_protocol a = VALUE_PROTO_ALL then 1 else a_nports a) True
                        \<lparr>l_key = [], l_data = [], l_output = 0, l_w = w\<rparr>
              in (l_output l, l_w l)))"

definition service_key_mode :: "address \<Rightarrow> map_mode \<Rightarrow> map_mode" where
  "service_key_mode a full =
     (if address_no_port a then BCK_MAP_PROTO_IPADDR else if address_no_ipaddr a then BCK_MAP_PROTO_PORT else full)"

text \<open>
  The last statement passes the family where \<open>update_service_counters\<close> takes the structure, and 0
  where it takes the family.
\<close>

definition run_nftst_rules_gen_srv_map_by_type ::
  "nftenv \<Rightarrow> nftst \<Rightarrow> flags \<Rightarrow> family \<Rightarrow> proto \<Rightarrow> action \<Rightarrow> nftw \<Rightarrow> nftw" where
  "run_nftst_rules_gen_srv_map_by_type env n type family protocol action w =
     (let a = naddr n w;
          any = (\<lambda>m. flag type m);
          modes =
            (if any NFTLB_F_CHAIN_ING_FILTER \<or> any NFTLB_F_CHAIN_PRE_FILTER \<or> any NFTLB_F_CHAIN_PRE_DNAT
             then Some (service_key_mode a BCK_MAP_PROTO_IPADDR_PORT, BCK_MAP_NAME)
             else if any NFTLB_F_CHAIN_FWD_FILTER then Some (BCK_MAP_BCK_MARK, BCK_MAP_NAME)
             else if any NFTLB_F_CHAIN_POS_SNAT then Some (BCK_MAP_BCK_ID, BCK_MAP_BCK_BF_SRCIPADDR)
             else if any NFTLB_F_CHAIN_ING_DNAT
             then Some (service_key_mode a BCK_MAP_BCK_PROTO_IPADDR_F_PORT, BCK_MAP_NAME)
             else if any NFTLB_F_CHAIN_OUT_FILTER \<or> any NFTLB_F_CHAIN_OUT_DNAT
             then Some (service_key_mode a BCK_MAP_PROTO_IPADDR_PORT, BCK_MAP_NAME)
             else None)
      in case modes of
           None \<Rightarrow> w
         | Some (key_mode, data_mode) \<Rightarrow>
             let (elements, w1) = run_nftst_rules_gen_srv_map env n family type protocol action key_mode data_mode w
             in only_if (elements \<noteq> 0 \<and> flag (NOT type) NFTLB_F_CHAIN_POS_SNAT \<and> flag (NOT type) NFTLB_F_CHAIN_FWD_FILTER)
                  (update_service_counters a type (family \<noteq> VALUE_FAMILY_IPV4) VALUE_FAMILY_IPV4 (of_nat elements) action) w1)"

definition run_nftst_rules_gen_srv_map_by_protocol ::
  "nftenv \<Rightarrow> nftst \<Rightarrow> flags \<Rightarrow> family \<Rightarrow> action \<Rightarrow> nftw \<Rightarrow> nftw" where
  "run_nftst_rules_gen_srv_map_by_protocol env n type family action w =
     (let proto = a_protocol (naddr n w)
      in if proto \<noteq> VALUE_PROTO_ALL \<or> flag type NFTLB_F_CHAIN_FWD_FILTER \<or> flag type NFTLB_F_CHAIN_POS_SNAT
         then run_nftst_rules_gen_srv_map_by_type env n type family proto action w
         else steps (map (\<lambda>p. run_nftst_rules_gen_srv_map_by_type env n type family p action)
                       [VALUE_PROTO_TCP, VALUE_PROTO_UDP, VALUE_PROTO_SCTP]) w)"

definition run_nftst_rules_gen_vsrv ::
  "nftenv \<Rightarrow> nftst \<Rightarrow> flags \<Rightarrow> family \<Rightarrow> action \<Rightarrow> action \<Rightarrow> nftw \<Rightarrow> nftw" where
  "run_nftst_rules_gen_vsrv env n type family srv_action action =
     (let srv_action = (if srv_action = ACTION_NONE then action else srv_action);
          chain = run_nftst_rules_gen_chain env n family type action;
          elements = run_nftst_rules_gen_srv_map_by_protocol env n type family srv_action
      in case srv_action of
           ACTION_RELOAD \<Rightarrow> chain
         | ACTION_START \<Rightarrow> steps [chain, elements]
         | ACTION_DELETE \<Rightarrow> steps [elements, chain]
         | ACTION_STOP \<Rightarrow> steps [elements, chain]
         | _ \<Rightarrow> (\<lambda>w. w))"

definition run_farm_snat :: "nftenv \<Rightarrow> nftst \<Rightarrow> family \<Rightarrow> action \<Rightarrow> nftw \<Rightarrow> nftw" where
  "run_farm_snat env n family action w =
     (let gen = run_nftst_rules_gen_srv_map_by_protocol env n NFTLB_F_CHAIN_POS_SNAT family action;
          f = nfarm n w
      in if f_mode f \<noteq> VALUE_MODE_SNAT \<and> f_mode f \<noteq> VALUE_MODE_LOCAL then w
         else if action = ACTION_RELOAD \<or> action = ACTION_START then gen w
         else only_if ((action = ACTION_STOP \<or> action = ACTION_DELETE) \<and>
                       (family = VALUE_FAMILY_IPV4 \<and> snat_rules_v4 (w_base w) \<noteq> 0 \<or>
                        family = VALUE_FAMILY_IPV6 \<and> snat_rules_v6 (w_base w) \<noteq> 0)) gen w)"

section \<open>Properties\<close>

lemma sorted_insert_below:
  assumes "finite S" "\<And>q. q \<in> S \<Longrightarrow> (p :: int) < q"
  shows "sorted_list_of_set (insert p S) = p # sorted_list_of_set S"
proof -
  have "p \<notin> S" using assms(2) by blast
  then have "sorted_list_of_set (insert p S) = insort p (sorted_list_of_set S)"
    using assms(1) by simp
  also have "\<dots> = p # sorted_list_of_set S"
    using assms by (intro insort_is_Cons) (simp add: less_imp_le)
  finally show ?thesis .
qed

lemma comma_list_Cons: "comma_list (t # ts) = t @ (if ts = [] then [] else '', '') @ comma_list ts"
  by (cases ts) simp_all

lemma port_loop_from:
  assumes "1 \<le> i" "k = int (card (port_set a \<inter> {i..}))"
  shows "port_loop a (\<lambda>p. comma_after (e p)) i k =
    (comma_list (map e (sorted_list_of_set (port_set a \<inter> {i..}))), nat k)"
  using assms
proof (induction "nat (int NFTLB_MAX_PORTS + 1 - i)" arbitrary: i k rule: less_induct)
  case less
  let ?S = "\<lambda>i. port_set a \<inter> {i..}"
  have fin: "finite (?S j)" for j by (simp add: finite_port_set)
  show ?case
  proof (cases "i \<le> int NFTLB_MAX_PORTS \<and> k > 0")
    case False
    have "?S i = {}" if "int NFTLB_MAX_PORTS < i"
      using that by (auto simp: port_set_def port_in_range_def)
    then have "?S i = {}" "k = 0"
      using False less.prems(2) fin by (cases "i \<le> int NFTLB_MAX_PORTS"; force)+
    then show ?thesis by (simp add: port_loop.simps)
  next
    case True
    have IH: "j = int (card (?S (i + 1))) \<Longrightarrow> port_loop a (\<lambda>p. comma_after (e p)) (i + 1) j =
        (comma_list (map e (sorted_list_of_set (?S (i + 1)))), nat j)" for j
      using True less.prems(1) by (intro less.hyps) auto
    show ?thesis
    proof (cases "a_port_list a (nat (i - 1))")
      case False
      then have "?S i = ?S (i + 1)"
        by (auto simp: port_set_def order_le_less)
      with True False IH less.prems show ?thesis by (simp add: port_loop.simps [of a _ i])
    next
      case port: True
      then have S: "?S i = insert i (?S (i + 1))"
        using True less.prems(1) by (auto simp: port_set_def port_in_range_def order_le_less)
      then have k: "k = int (card (?S (i + 1))) + 1" "k \<noteq> 1 \<longleftrightarrow> sorted_list_of_set (?S (i + 1)) \<noteq> []"
        using less.prems(2) fin by (simp_all add: sorted_list_of_set_eq_Nil_iff)
      have "sorted_list_of_set (?S i) = i # sorted_list_of_set (?S (i + 1))"
        unfolding S using fin by (intro sorted_insert_below) auto
      with True port k IH [of "k - 1"] show ?thesis
        by (simp add: port_loop.simps [of a _ i] comma_list_Cons comma_after_def nat_add_distrib)
    qed
  qed
qed

lemma port_loop_all:
  assumes "nports_ok a"
  shows "port_loop a (\<lambda>p. comma_after (e p)) 1 (a_nports a) =
    (comma_list (map e (sorted_list_of_set (port_set a))), card (port_set a))"
proof -
  have "port_set a \<inter> {1..} = port_set a" by (auto simp: port_set_def port_in_range_def)
  then show ?thesis using assms port_loop_from [of 1 "a_nports a" a e] by (simp add: nports_ok_def)
qed

text \<open>
  (C20) A virtual service on a port list gets exactly one map element per port: the command lists the
  ports of the address in ascending order, separated by commas, and as many elements are counted as the
  address has ports.
\<close>

theorem service_elements_per_port:
  assumes "nftst_get_address n w = Some a" "nports_ok a" "port_set a \<noteq> {}" "\<not> w_serialize w" "action = ACTION_START"
  shows "run_nftst_rules_gen_srv_map env n family type proto action BCK_MAP_PROTO_IPADDR_PORT BCK_MAP_NAME w =
    (card (port_set a),
     w\<lparr>w_buf := w_buf w @ '' ; add element '' @ print_nft_table_family family type @ '' '' @ NFTLB_TABLE_NAME @ '' '' @
         get_address_service a type (a_family a) BCK_MAP_NONE @ '' { '' @
         comma_list (map (\<lambda>p. print_nft_protocol proto @ '' . '' @ a_ipaddr a @ '' . '' @ print_d p @ '' : goto '' @
                              get_chain_name (nftst_get_name n w) type @ '' '') (sorted_list_of_set (port_set a))) @ '' }''\<rparr>)"
proof -
  have "a_nports a \<noteq> 0" using assms(2,3) by (simp add: nports_ok_def)
  with assms show ?thesis
    by (simp add: run_nftst_rules_gen_srv_map_def naddr_def port_elements_def port_loop_all
        concat_exec_cmd_def u_buf_concat_def element_cmd_def words.simps)
qed

definition two_ports :: address where
  "two_ports = new_address 0 ''vs''\<lparr>a_ipaddr := ''10.0.0.1'', a_ports := ''80,81'', a_nports := 2,
     a_port_list := (\<lambda>i. i = 79 \<or> i = 80)\<rparr>"

lemma two_ports_set: "port_set two_ports = {80, 81}"
  by (auto simp: two_ports_def port_set_def port_in_range_def new_address_def)

theorem service_elements_per_port_witness:
  "w_buf (snd (run_nftst_rules_gen_srv_map idle_env
       \<lparr>n_farm = None, n_address = Some 0, n_backend = None, n_policy = None, n_action = ACTION_START\<rparr>
       VALUE_FAMILY_IPV4 NFTLB_F_CHAIN_PRE_DNAT VALUE_PROTO_TCP ACTION_START BCK_MAP_PROTO_IPADDR_PORT BCK_MAP_NAME
       (no_services\<lparr>w_objs := objects_init\<lparr>addresses := [two_ports]\<rparr>\<rparr>))) =
   '' ; add element ip nftlb nat-proto-services { tcp . 10.0.0.1 . 80 : goto nat-vs , tcp . 10.0.0.1 . 81 : goto nat-vs  }''"
proof -
  let ?w = "no_services\<lparr>w_objs := objects_init\<lparr>addresses := [two_ports]\<rparr>\<rparr>"
  let ?n = "\<lparr>n_farm = None, n_address = Some 0, n_backend = None, n_policy = None, n_action = ACTION_START\<rparr>"
  have a: "nftst_get_address ?n ?w = Some two_ports" "nftst_get_name ?n ?w = ''vs''" "\<not> w_serialize ?w" "w_buf ?w = []"
    by (simp_all add: nftst_get_address_def nftst_get_name_def nftst_get_farm_def get_address_def two_ports_def
        new_address_def no_services_def)
  have t: "a_ipaddr two_ports = ''10.0.0.1''" "a_family two_ports = VALUE_FAMILY_IPV4" "a_nports two_ports = 2"
    "get_address_service two_ports NFTLB_F_CHAIN_PRE_DNAT VALUE_FAMILY_IPV4 BCK_MAP_NONE = ''nat-proto-services''"
    by (simp_all add: two_ports_def new_address_def flag_def get_address_service_def get_nft_name_service_def
        get_address_service_mode_def address_no_port_def address_no_ipaddr_def obj_equ_attribute_string_def
        print_nft_mode_service_def)
  have ok: "nports_ok two_ports" "port_set two_ports \<noteq> {}"
    by (simp_all add: nports_ok_def two_ports_set t)
  have d: "print_d 80 = ''80''" "print_d 81 = ''81''" by code_simp+
  have s: "sorted_list_of_set {80, 81 :: int} = [80, 81]" by simp
  show ?thesis
    unfolding service_elements_per_port [OF a(1) ok a(3) refl] two_ports_set t s a
    by (simp add: a d flag_def print_nft_table_family_def get_chain_name_def)
qed



end
