(* ===== verification/NftRules.thy ===== *)
theory NftRules
  imports NftMaps
begin

unbundle bit_operations_syntax

text \<open>
  The rules of a farm in nft.c: log prefixes, helpers, persistence maps and sessions, limits and
  policies, address translation, forwarding, and the four ways a farm is translated (\<open>run_farm_dsr\<close>,
  \<open>run_farm_stlsnat\<close>, \<open>run_farm_local\<close>, \<open>run_farm_nat\<close>).
\<close>

section \<open>Log prefixes\<close>

text \<open>
  \<open>logprefix_replace\<close> copies the character after a replaced token without looking for a token there;
  at the end of the text the character is the terminating NUL.
\<close>

function logprefix_replace :: "string \<Rightarrow> string \<Rightarrow> string \<Rightarrow> string" where
  "logprefix_replace buf token v =
     (case buf of
        [] \<Rightarrow> []
      | c # cs \<Rightarrow>
          if starts_with token buf
          then v @ (case drop (length token) buf of
                      [] \<Rightarrow> [] | d # ds \<Rightarrow> d # logprefix_replace ds token v)
          else c # logprefix_replace cs token v)"
  by pat_completeness auto

termination
proof (relation "measure (\<lambda>(buf, _, _). length buf)")
  fix buf c cs token d ds and v :: string
  assume "buf = c # cs" "drop (length token) buf = d # ds"
  then have "length (d # ds) \<le> length buf" by (metis diff_le_self length_drop)
  then show "((ds, token, v), (buf, token, v)) \<in> measure (\<lambda>(buf, _, _). length buf)" by simp
qed auto

declare logprefix_replace.simps [simp del]

fun print_nft_prefix_policy :: "ptype \<Rightarrow> string" where
  "print_nft_prefix_policy VALUE_TYPE_ALLOW = ''WL''"
| "print_nft_prefix_policy VALUE_TYPE_DENY = ''BL''"

definition print_nft_verdict :: "flags \<Rightarrow> ptype \<Rightarrow> string" where
  "print_nft_verdict verdict type =
     (if type = VALUE_TYPE_ALLOW \<and> flag verdict VALUE_VERDICT_ACCEPT then ''accept''
      else if type = VALUE_TYPE_DENY \<and> flag verdict VALUE_VERDICT_DROP then ''drop'' else [])"

definition replace_name :: "string \<Rightarrow> string option \<Rightarrow> string \<Rightarrow> string" where
  "replace_name token name t = (case name of None \<Rightarrow> t | Some v \<Rightarrow> logprefix_replace t token v)"

text \<open>The replacements all the limits share, on the prefix of the limit.\<close>

definition limit_prefix :: "string \<Rightarrow> string \<Rightarrow> farm \<Rightarrow> address option \<Rightarrow> string" where
  "limit_prefix prefix kname f a =
     replace_name ''ANAME'' (map_option a_name a)
       (logprefix_replace (logprefix_replace prefix ''KNAME'' kname) ''FNAME'' (f_name f))"

text \<open>The type in the prefix of a log rule.\<close>

definition log_type :: "flags \<Rightarrow> farm option \<Rightarrow> address option \<Rightarrow> string option" where
  "log_type type f a =
     (let log = (case f of None \<Rightarrow> 0 | Some f \<Rightarrow> f_log f)
      in if (a \<noteq> None \<or> flag log VALUE_LOG_INPUT) \<and>
            (flag type NFTLB_F_CHAIN_ING_FILTER \<or> flag type NFTLB_F_CHAIN_PRE_FILTER \<or> flag type NFTLB_F_CHAIN_PRE_DNAT)
         then Some ''IN''
         else if flag log VALUE_LOG_FORWARD \<and> flag type NFTLB_F_CHAIN_FWD_FILTER then Some ''FWD''
         else if flag log VALUE_LOG_OUTPUT \<and> (flag type NFTLB_F_CHAIN_POS_SNAT \<or> flag type NFTLB_F_CHAIN_ING_DNAT)
         then Some ''OUT''
         else None)"

definition print_log_format :: "key \<Rightarrow> flags \<Rightarrow> nftst \<Rightarrow> nftw \<Rightarrow> string" where
  "print_log_format k type n w =
     (let f = nftst_get_farm n w; a = nftst_get_address n w; b = nftst_get_backend n w; p = nftst_get_policy n w;
          fm = nfarm n w
      in if f = None \<and> a = None then []
         else if k = KEY_LOGPREFIX then
           (case p of
              Some p \<Rightarrow>
                logprefix_replace
                  (logprefix_replace
                    (replace_name ''ANAME'' (map_option a_name a)
                      (replace_name ''FNAME'' (map_option f_name f)
                        (logprefix_replace (p_logprefix p) ''KNAME'' ''policy'')))
                    ''PNAME'' (p_name p))
                  ''TYPE'' (print_nft_prefix_policy (p_type p))
            | None \<Rightarrow>
                let t = (case a of
                           Some a \<Rightarrow> logprefix_replace (a_logprefix a) ''ANAME'' (a_name a)
                         | None \<Rightarrow> logprefix_replace (f_logprefix fm) ''FNAME'' (f_name fm))
                in replace_name ''TYPE'' (log_type type f a) (logprefix_replace t ''KNAME'' ''log''))
         else if k = KEY_NEWRTLIMIT_LOGPREFIX then limit_prefix (f_newrtlimit_logprefix fm) ''new-rtlimit'' fm a
         else if k = KEY_RSTRTLIMIT_LOGPREFIX then limit_prefix (f_rstrtlimit_logprefix fm) ''rst-rtlimit'' fm a
         else if k = KEY_ESTCONNLIMIT_LOGPREFIX then
           (case b of
              Some b \<Rightarrow>
                replace_name ''ANAME'' (map_option a_name a)
                  (replace_name ''FNAME'' (map_option f_name f)
                    (logprefix_replace (logprefix_replace (b_estconnlimit_logprefix b) ''KNAME'' ''est-connlimit'')
                      ''BNAME'' (b_name b)))
            | None \<Rightarrow> limit_prefix (f_estconnlimit_logprefix fm) ''est-connlimit'' fm a)
         else if k = KEY_TCPSTRICT_LOGPREFIX then limit_prefix (f_tcpstrict_logprefix fm) ''tcp-strict'' fm a
         else [])"

definition dquote :: "string \<Rightarrow> string" where
  "dquote t = [CHR 0x22] @ t @ [CHR 0x22]"

definition run_farm_log_prefix :: "oid \<Rightarrow> flags \<Rightarrow> flags \<Rightarrow> nftw \<Rightarrow> nftw" where
  "run_farm_log_prefix fid key type w =
     (let n = nftst_create_from_farm fid w
      in only_if (flag (f_log (nfarm n w)) key)
           (u_buf_concat ('' log prefix '' @ dquote (print_log_format KEY_LOGPREFIX type n w))) w)"

definition run_farm_gen_log_rules :: "nftenv \<Rightarrow> oid \<Rightarrow> family \<Rightarrow> string \<Rightarrow> flags \<Rightarrow> flags \<Rightarrow> nftw \<Rightarrow> nftw" where
  "run_farm_gen_log_rules env fid family chain key type w =
     only_if (flag (f_log (nfarm (nftst_create_from_farm fid w) w)) key)
       (steps [u_buf_concat (words ['' ; add rule'', print_nft_table_family family type, NFTLB_TABLE_NAME, chain]),
               run_farm_log_prefix fid key type,
               concat_exec_cmd env []]) w"

section \<open>Helpers\<close>

definition run_farm_helper :: "nftenv \<Rightarrow> farm \<Rightarrow> family \<Rightarrow> action \<Rightarrow> string \<Rightarrow> nftw \<Rightarrow> nftw" where
  "run_farm_helper env f family action protocol w =
     (let fam = print_nft_table_family family NFTLB_F_CHAIN_PRE_FILTER;
          helper = cstr (obj_print_helper (f_helper f));
          name = f_name f @ ''-'' @ helper @ ''-'' @ protocol
      in if action = ACTION_START then
           concat_exec_cmd env
             (words ['' ; add ct helper'', fam, NFTLB_TABLE_NAME, name, ''{ type'', dquote helper, ''protocol'', protocol, ''; } ;'']) w
         else if action = ACTION_DELETE \<or> action = ACTION_STOP then
           concat_exec_cmd env (words ['' ; delete ct helper'', fam, NFTLB_TABLE_NAME, name, ''; '']) w
         else w)"

definition run_farm_rules_filter_helper :: "nftenv \<Rightarrow> nftst \<Rightarrow> family \<Rightarrow> string \<Rightarrow> action \<Rightarrow> nftw \<Rightarrow> nftw" where
  "run_farm_rules_filter_helper env n family chain action w =
     (let f = nfarm n w; a = naddr n w;
          fam = print_nft_table_family family NFTLB_F_CHAIN_PRE_FILTER;
          one = (\<lambda>protocol. steps
            [run_farm_helper env f family action protocol,
             only_if (action = ACTION_START \<or> action = ACTION_RELOAD) (concat_exec_cmd env
               (words ['' ; add rule'', fam, NFTLB_TABLE_NAME, chain, fam, print_nft_family_protocol family, protocol,
                       ''ct helper set'', f_name f @ ''-'' @ cstr (obj_print_helper (f_helper f)) @ ''-'' @ protocol]))])
      in if f_helper f = VALUE_HELPER_NONE \<or>
            \<not> (f_mode f = VALUE_MODE_SNAT \<or> f_mode f = VALUE_MODE_LOCAL \<or> f_mode f = VALUE_MODE_DNAT)
         then w
         else steps
           [only_if (a_protocol a = VALUE_PROTO_TCP \<or> a_protocol a = VALUE_PROTO_ALL) (one ''tcp''),
            only_if (a_protocol a = VALUE_PROTO_UDP \<or> a_protocol a = VALUE_PROTO_ALL) (one ''udp'')] w)"

section \<open>Persistence\<close>

definition get_stage_by_farm_mode :: "farm \<Rightarrow> flags" where
  "get_stage_by_farm_mode f =
     (if f_mode f = VALUE_MODE_DSR then NFTLB_F_CHAIN_ING_FILTER
      else if f_mode f = VALUE_MODE_STLSDNAT then NFTLB_F_CHAIN_ING_DNAT
      else NFTLB_F_CHAIN_PRE_FILTER)"

definition session_map :: "session_type \<Rightarrow> farm \<Rightarrow> string" where
  "session_map stype f =
     take 255 ((if stype = SESSION_TYPE_STATIC then ''static-sessions-'' else ''persist-'') @ f_name f)"

definition run_farm_sessions_map :: "nftenv \<Rightarrow> nftst \<Rightarrow> session_type \<Rightarrow> family \<Rightarrow> action \<Rightarrow> nftw \<Rightarrow> nftw" where
  "run_farm_sessions_map env n stype family action w =
     (let f = nfarm n w;
          ttl = (if stype = SESSION_TYPE_STATIC then 0 else f_persistttl f);
          (stage, data) =
            (if f_mode f = VALUE_MODE_DSR then (NFTLB_F_CHAIN_ING_FILTER, VALUE_META_DSTMAC)
             else if f_mode f = VALUE_MODE_STLSDNAT then (NFTLB_F_CHAIN_ING_FILTER, VALUE_META_DSTIP)
             else (NFTLB_F_CHAIN_PRE_FILTER, VALUE_META_MARK))
      in if f_persistence f = VALUE_META_NONE then w
         else run_farm_map env (naddr n w) family stage (session_map stype f) (f_persistence f) data ttl action w)"

text \<open>What a session is bound to in the map: an address or a mark of its backend.\<close>

definition session_target :: "nftenv \<Rightarrow> farm \<Rightarrow> session \<Rightarrow> string option" where
  "session_target env f s =
     (case Option.bind (s_bck s) (\<lambda>bid. get_bck bid f) of
        None \<Rightarrow> None
      | Some b \<Rightarrow>
          if \<not> backend_is_available f b then None
          else if f_mode f = VALUE_MODE_DSR then b_ethaddr b
          else if f_mode f = VALUE_MODE_STLSDNAT then b_ipaddr b
          else if b_mark b = DEFAULT_MARK then None
          else Some (''0x'' @ print_x (backend_get_mark (net env) f b)))"

definition session_elements ::
  "nftenv \<Rightarrow> farm \<Rightarrow> session_type \<Rightarrow> family \<Rightarrow> action \<Rightarrow> session \<Rightarrow> nftw \<Rightarrow> nftw" where
  "session_elements env f stype family action s =
     (let fam = print_nft_table_family family (get_stage_by_farm_mode f);
          element = (\<lambda>verb rest. concat_exec_cmd env
            (words ['' ;'', verb, ''element'', fam, NFTLB_TABLE_NAME, session_map stype f, ''{'', s_client s @ rest, ''}'']))
      in steps
           [only_if (action = ACTION_RELOAD \<and> (s_action s = ACTION_STOP \<or> s_action s = ACTION_DELETE) \<or> s_action s = ACTION_RELOAD)
              (element ''delete'' []),
            case session_target env f s of
              None \<Rightarrow> (\<lambda>w. w)
            | Some target \<Rightarrow>
                only_if (action = ACTION_START \<or> s_action s = ACTION_START \<or> s_action s = ACTION_RELOAD)
                  (element ''add''
                     ((case (stype, s_expiration s) of
                         (SESSION_TYPE_TIMED, Some e) \<Rightarrow> '' expires '' @ e | _ \<Rightarrow> []) @ '' : '' @ target))])"

definition run_farm_manage_sessions :: "nftenv \<Rightarrow> oid \<Rightarrow> session_type \<Rightarrow> family \<Rightarrow> action \<Rightarrow> nftw \<Rightarrow> nftw" where
  "run_farm_manage_sessions env fid stype family action w =
     (case get_farm fid (w_objs w) of
        None \<Rightarrow> w
      | Some f \<Rightarrow>
          if action \<noteq> ACTION_START \<and> action \<noteq> ACTION_RELOAD \<or> f_persistence f = VALUE_META_NONE \<or> f_bcks_usable f = 0
          then w
          else
            fold (\<lambda>s w.
              let f1 = (case get_farm fid (w_objs w) of None \<Rightarrow> f | Some f1 \<Rightarrow> f1);
                  w1 = session_elements env f1 stype family action s w
              in upd_objs (upd_farm fid (\<lambda>f. upd_sessions stype
                   (kupd s_id (s_id s) (\<lambda>s. s\<lparr>s_action := ACTION_NONE\<rparr>)) (total_sessions stype f) f)) w1)
              (sessions_of stype f) w)"

definition run_farm_rules_update_sessions :: "nftenv \<Rightarrow> nftst \<Rightarrow> family \<Rightarrow> string \<Rightarrow> action \<Rightarrow> nftw \<Rightarrow> nftw" where
  "run_farm_rules_update_sessions env n family chain action w =
     (let f = nfarm n w; a = naddr n w; map_str = session_map SESSION_TYPE_TIMED f;
          meta = (\<lambda>param. run_farm_rules_gen_meta_param (a_protocol a) family param False);
          rule = words ['' ; add rule'', print_nft_table_family family NFTLB_F_CHAIN_PRE_FILTER, NFTLB_TABLE_NAME, chain]
      in if f_persistence f = VALUE_META_NONE \<or> f_total_bcks f = 0 \<or> action \<noteq> ACTION_START \<and> action \<noteq> ACTION_RELOAD then w
         else if f_mode f = VALUE_MODE_DSR \<or> f_mode f = VALUE_MODE_STLSDNAT then
           steps [concat_exec_cmd env ('' update @'' @ map_str @ '' { '' @ meta (f_persistence f) @ '' : ''),
                  concat_exec_cmd env (meta (if f_mode f = VALUE_MODE_DSR then VALUE_META_DSTMAC else VALUE_META_DSTIP) @ '' }'')] w
         else
           concat_exec_cmd env
             (rule @
              (if farm_get_masquerade f
               then '' ct mark != { 0x00000000, '' @ print_u (unat (masquerade_mark (net env))) @ '' } update @''
               else '' ct mark != 0x00000000 update @'') @
              map_str @ '' { '' @ meta (f_persistence f) @ '' : ct mark }'') w)"

text \<open>The forwarding part of the ingress rules.\<close>

definition run_fwd_to :: "nftenv \<Rightarrow> nftst \<Rightarrow> nftw \<Rightarrow> nftw" where
  "run_fwd_to env n w =
     (let f = nfarm n w; a = naddr n w
      in u_buf_concat
           ('' fwd to'' @
            (if f_bcks_have_if f
             then '' ether daddr'' @ fst (run_farm_rules_gen_bck_map (net env) f a BCK_MAP_ETHADDR BCK_MAP_OFACE False)
             else '' '' @ cstr (f_oface f))) w)"

definition run_stls_rewrite :: "nftenv \<Rightarrow> nftst \<Rightarrow> nftw \<Rightarrow> nftw" where
  "run_stls_rewrite env n w =
     (let f = nfarm n w; a = naddr n w; bck_map = (\<lambda>k d. fst (run_farm_rules_gen_bck_map (net env) f a k d False))
      in u_buf_concat
           (bck_map BCK_MAP_IPADDR BCK_MAP_ETHADDR @
            (if f_bcks_have_port f then '' th dport set ether daddr'' @ bck_map BCK_MAP_ETHADDR BCK_MAP_PORT else []) @
            '' ether saddr set '' @ cstr (f_oethaddr f)) w)"

definition run_farm_rules_check_sessions ::
  "nftenv \<Rightarrow> nftst \<Rightarrow> session_type \<Rightarrow> family \<Rightarrow> action \<Rightarrow> nftw \<Rightarrow> nftw" where
  "run_farm_rules_check_sessions env n stype family action w =
     (let f = nfarm n w; a = naddr n w; map_str = session_map stype f;
          meta = run_farm_rules_gen_meta_param (a_protocol a) family (f_persistence f) False;
          ingress = print_nft_table_family family NFTLB_F_CHAIN_ING_FILTER;
          chain = get_chain_name (f_name f) NFTLB_F_CHAIN_ING_FILTER;
          update = only_if (stype = SESSION_TYPE_TIMED) (run_farm_rules_update_sessions env n family chain action)
      in if f_persistence f = VALUE_META_NONE \<or> f_total_bcks f = 0 \<or> action \<noteq> ACTION_START \<and> action \<noteq> ACTION_RELOAD then w
         else case f_mode f of
           VALUE_MODE_DSR \<Rightarrow>
             steps [concat_exec_cmd env
                      (words ['' ; add rule'', ingress, NFTLB_TABLE_NAME, chain, ''ether daddr set''] @ meta @
                       '' map @'' @ map_str @ '' ether saddr set '' @ cstr (a_iethaddr a)),
                    update, run_fwd_to env n, concat_exec_cmd env []] w
         | VALUE_MODE_STLSDNAT \<Rightarrow>
             steps [concat_exec_cmd env
                      (words ['' ; add rule'', ingress, NFTLB_TABLE_NAME, chain, print_nft_family family, ''daddr set''] @ meta @
                       '' map @'' @ map_str @ '' ether daddr set '' @ print_nft_family family @ '' daddr''),
                    run_stls_rewrite env n, update, run_fwd_to env n, concat_exec_cmd env []] w
         | _ \<Rightarrow>
             concat_exec_cmd env
               (words ['' ; add rule'', print_nft_table_family family NFTLB_F_CHAIN_PRE_FILTER, NFTLB_TABLE_NAME,
                       get_chain_name (f_name f) NFTLB_F_CHAIN_PRE_FILTER,
                       if stype = SESSION_TYPE_STATIC then ''ct mark set'' else ''ct state new ct mark set''] @
                meta @ '' map @'' @ map_str @ (if stype = SESSION_TYPE_STATIC then '' accept'' else [])) w)"

section \<open>Limits\<close>

definition run_farm_meter :: "nftenv \<Rightarrow> farm \<Rightarrow> family \<Rightarrow> family \<Rightarrow> key \<Rightarrow> string \<Rightarrow> action \<Rightarrow> nftw \<Rightarrow> nftw" where
  "run_farm_meter env f table_family family type name action w =
     (let fam = print_nft_table_family table_family NFTLB_F_CHAIN_PRE_FILTER
      in if action = ACTION_START then
           concat_exec_cmd env
             (words ['' ; add set'', fam, NFTLB_TABLE_NAME, name, ''{ type'', print_nft_family_type family, ''; flags dynamic ; ''] @
              (if type = KEY_ELEMENTS then ''counter ; '' else []) @
              (if type \<noteq> KEY_ESTCONNLIMIT \<and> f_limitsttl f \<noteq> 0 then ''timeout '' @ print_d (f_limitsttl f) @ ''s; '' else []) @
              ''} ;'') w
         else if action = ACTION_STOP then
           concat_exec_cmd env (words ['' ; delete set'', fam, NFTLB_TABLE_NAME, name, ''; '']) w
         else w)"

definition run_farm_log_rate_limit :: "nftst \<Rightarrow> nftw \<Rightarrow> string" where
  "run_farm_log_rate_limit n w =
     (let f = nftst_get_farm n w; a = nftst_get_address n w;
          rate = (\<lambda>l u. '' limit rate '' @ obj_print_rtlimit l u)
      in if (case f of Some f \<Rightarrow> f_logrtlimit f = 0 | None \<Rightarrow> False) \<or> (case a of Some a \<Rightarrow> a_logrtlimit a = 0 | None \<Rightarrow> False)
         then []
         else (case f of Some f \<Rightarrow> rate (f_logrtlimit f) (f_logrtlimit_unit f) | None \<Rightarrow> []) @
              (case a of Some a \<Rightarrow> rate (a_logrtlimit a) (a_logrtlimit_unit a) | None \<Rightarrow> []))"

definition run_farm_rules_log_and_verdict ::
  "nftenv \<Rightarrow> nftst \<Rightarrow> int \<Rightarrow> flags \<Rightarrow> ptype \<Rightarrow> key \<Rightarrow> flags \<Rightarrow> nftw \<Rightarrow> nftw" where
  "run_farm_rules_log_and_verdict env n logrt flg verdict key chain w =
     (let log = flag flg VALUE_VERDICT_LOG; rt = (logrt \<noteq> 0)
      in concat_exec_cmd env
           ((if log
             then (if rt then '' jump {'' @ run_farm_log_rate_limit n w else []) @
                  '' log prefix '' @ dquote (print_log_format key chain n w) @ (if rt then '' ;'' else [])
             else []) @
            '' '' @ print_nft_verdict flg verdict @ (if log \<and> rt then ''; }'' else [])) w)"

text \<open>When the set of a limit is created and when it is deleted.\<close>

definition meter_start :: "farm \<Rightarrow> action \<Rightarrow> int \<Rightarrow> flags \<Rightarrow> bool" where
  "meter_start f action limit rld =
     (action = ACTION_START \<and> limit \<noteq> 0 \<or> action = ACTION_RELOAD \<and> flag (f_reload_action f) rld)"

definition meter_stop :: "farm \<Rightarrow> action \<Rightarrow> int \<Rightarrow> flags \<Rightarrow> bool" where
  "meter_stop f action limit rld =
     ((action = ACTION_STOP \<or> action = ACTION_DELETE) \<and> limit \<noteq> 0 \<or> action = ACTION_RELOAD \<and> flag (f_reload_action f) rld)"

definition burst_text :: "int \<Rightarrow> string \<Rightarrow> string" where
  "burst_text burst burst_str = (if burst \<noteq> 0 then ''burst '' @ print_d burst @ '' packets '' else burst_str)"

text \<open>
  The limits of a farm. \<open>burst_str\<close> is one buffer for both rate limits: the second writes it only when it
  has a burst of its own, and otherwise uses what the first left there.
\<close>

definition run_farm_rules_filter_policies :: "nftenv \<Rightarrow> oid \<Rightarrow> family \<Rightarrow> string \<Rightarrow> action \<Rightarrow> nftw \<Rightarrow> nftw" where
  "run_farm_rules_filter_policies env fid family chain action w0 =
     (let n = nftst_create_from_farm fid w0; f = nfarm n w0;
          fam = print_nft_table_family family NFTLB_F_CHAIN_PRE_FILTER;
          on = (action = ACTION_START \<or> action = ACTION_RELOAD);
          rule = words ['' ; add rule'', fam, NFTLB_TABLE_NAME, chain];
          deny = (\<lambda>key. run_farm_rules_log_and_verdict env n (f_logrtlimit f) (f_verdict f) VALUE_TYPE_DENY key NFTLB_F_CHAIN_PRE_FILTER);
          meter = (\<lambda>name. take 255 (name @ ''-'' @ f_name f));
          saddr = print_nft_family family @ '' saddr'';
          sets = (\<lambda>name key limit start stop.
            [only_if (meter_start f action limit start) (run_farm_meter env f family family key (meter name) ACTION_START),
             only_if (meter_stop f action limit stop) (run_farm_meter env f family family key (meter name) ACTION_STOP)]);
          burst1 = (if on \<and> f_newrtlimit f \<noteq> 0 then burst_text (f_newrtlimitbst f) [] else []);
          burst2 = burst_text (f_rstrtlimitbst f) burst1
      in steps
           ([only_if (on \<and> f_tcpstrict f = VALUE_SWITCH_ON)
               (steps [u_buf_concat (rule @ '' ct state invalid''), deny KEY_TCPSTRICT_LOGPREFIX])] @
            sets ''new-rtlimit'' KEY_NEWRTLIMIT (f_newrtlimit f) VALUE_RLD_NEWRTLIMIT_START VALUE_RLD_NEWRTLIMIT_STOP @
            [only_if (on \<and> f_newrtlimit f \<noteq> 0)
               (steps [u_buf_concat (rule @ '' ct state new add @'' @ meter ''new-rtlimit'' @ '' { '' @ saddr @ '' limit rate over '' @
                                     obj_print_rtlimit (f_newrtlimit f) (f_newrtlimit_unit f) @ '' '' @ burst1 @ '' }''),
                       deny KEY_NEWRTLIMIT_LOGPREFIX])] @
            sets ''rst-rtlimit'' KEY_RSTRTLIMIT (f_rstrtlimit f) VALUE_RLD_RSTRTLIMIT_START VALUE_RLD_RSTRTLIMIT_STOP @
            [only_if (on \<and> f_rstrtlimit f \<noteq> 0)
               (steps [u_buf_concat (rule @ '' tcp flags rst add @'' @ meter ''rst-rtlimit'' @ '' { '' @ saddr @ '' limit rate over '' @
                                     obj_print_rtlimit (f_rstrtlimit f) (f_rstrtlimit_unit f) @ '' '' @ burst2 @ '' }''),
                       deny KEY_RSTRTLIMIT_LOGPREFIX])] @
            sets ''est-connlimit'' KEY_ESTCONNLIMIT (f_estconnlimit f) VALUE_RLD_ESTCONNLIMIT_START VALUE_RLD_ESTCONNLIMIT_STOP @
            [only_if (on \<and> f_estconnlimit f \<noteq> 0)
               (steps [u_buf_concat (rule @ '' ct state new add @'' @ meter ''est-connlimit'' @ '' { '' @ saddr @ '' ct count over '' @
                                     print_d (f_estconnlimit f) @ '' }''),
                       deny KEY_ESTCONNLIMIT_LOGPREFIX]),
             only_if (on \<and> f_queue f \<noteq> -1)
               (concat_exec_cmd env (rule @ '' tcp flags syn queue num '' @ print_d (f_queue f) @ '' bypass''))]) w0)"

definition run_farm_rules_gen_limits_per_bck :: "nftenv \<Rightarrow> oid \<Rightarrow> family \<Rightarrow> string \<Rightarrow> action \<Rightarrow> nftw \<Rightarrow> nftw" where
  "run_farm_rules_gen_limits_per_bck env fid family chain action w0 =
     (let n = nftst_create_from_farm fid w0; f = nfarm n w0;
          rule = words ['' ; add rule'', print_nft_table_family family NFTLB_F_CHAIN_PRE_FILTER, NFTLB_TABLE_NAME, chain]
      in fold (\<lambda>b. only_if (b_estconnlimit b \<noteq> 0 \<and>
                            \<not> (b_action b = ACTION_STOP \<and> \<not> backend_is_usable f b \<or> action = ACTION_STOP \<or> action = ACTION_DELETE))
                     (steps [u_buf_concat (rule @ '' ct mark 0x'' @ print_x (backend_get_mark (net env) f b) @ '' ct count over '' @
                                           print_d (b_estconnlimit b)),
                             run_farm_rules_log_and_verdict env (nftst_set_backend n (Some (b_id b))) (f_logrtlimit f) (f_verdict f)
                               VALUE_TYPE_DENY KEY_ESTCONNLIMIT_LOGPREFIX NFTLB_F_CHAIN_PRE_FILTER]))
           (f_backends f) w0)"

end
