(* ===== verification/NftFarm.thy ===== *)
theory NftFarm
  imports NftRules
begin

unbundle bit_operations_syntax

text \<open>
  The translation of whole objects in nft.c: the filter, forward, output and ingress stages of a farm
  and their composition per mode, address policies, policy sets and their elements, the reset of all
  tables, and the entry points \<open>nft_rulerize_farms\<close>, \<open>nft_rulerize_address\<close> and \<open>nft_rulerize_policies\<close>.
\<close>

section \<open>Stages\<close>

definition need_filter :: "farm \<Rightarrow> bool" where
  "need_filter f = (\<not> farm_is_ingress_mode f)"

definition need_forward :: "farm \<Rightarrow> bool" where
  "need_forward f = (flag (f_log f) VALUE_LOG_FORWARD \<or> farm_needs_flowtable f)"

definition need_output :: "farm \<Rightarrow> bool" where
  "need_output f = farm_needs_intraconnect f"

definition fid_of :: "nftst \<Rightarrow> oid" where
  "fid_of n = (case n_farm n of None \<Rightarrow> 0 | Some fid \<Rightarrow> fid)"

text \<open>
  A single available backend under the symmetric hash is marked directly. The third condition of the
  last branch of the code can not hold there.
\<close>

definition run_farm_rules_filter_marks :: "nftenv \<Rightarrow> nftst \<Rightarrow> family \<Rightarrow> string \<Rightarrow> action \<Rightarrow> nftw \<Rightarrow> nftw" where
  "run_farm_rules_filter_marks env n family chain action w =
     (let f = nfarm n w; a = naddr n w; mark = farm_get_mark (net env) f;
          rule = words ['' ; add rule'', print_nft_table_family family NFTLB_F_CHAIN_PRE_FILTER, NFTLB_TABLE_NAME, chain,
                        ''ct state new ct mark 0x0 ct mark set''];
          limits = run_farm_rules_gen_limits_per_bck env (fid_of n) family chain action
      in if action = ACTION_START \<or> action = ACTION_RELOAD then
           if f_bcks_available f \<noteq> 0 then
             if f_scheduler f = VALUE_SCHED_SYMHASH \<and> f_bcks_available f = 1 then
               steps [u_buf_concat (rule @ concat (map (\<lambda>b. '' 0x'' @ print_x (backend_get_mark (net env) f b))
                                                     (filter (backend_is_available f) (f_backends f)))),
                      limits, concat_exec_cmd env []] w
             else
               (case run_farm_rules_gen_sched f a family of
                  None \<Rightarrow> u_buf_concat rule w
                | Some sched \<Rightarrow>
                    steps [u_buf_concat (rule @ sched @
                             fst (run_farm_rules_gen_bck_map (net env) f a BCK_MAP_WEIGHT BCK_MAP_MARK False)),
                           limits, concat_exec_cmd env []] w)
           else
             steps [only_if (mark \<noteq> DEFAULT_MARK) (u_buf_concat (rule @ '' 0x'' @ print_x mark)), concat_exec_cmd env []] w
         else
           steps [only_if (action = ACTION_STOP \<or> action = ACTION_DELETE) limits, concat_exec_cmd env []] w)"

definition rld_stop :: "flags \<Rightarrow> bool" where
  "rld_stop x = (flag x VALUE_RLD_NEWRTLIMIT_STOP \<or> flag x VALUE_RLD_RSTRTLIMIT_STOP \<or>
     flag x VALUE_RLD_ESTCONNLIMIT_STOP \<or> flag x VALUE_RLD_TCPSTRICT_STOP)"

definition run_farm_rules_filter :: "nftenv \<Rightarrow> nftst \<Rightarrow> family \<Rightarrow> action \<Rightarrow> nftw \<Rightarrow> nftw" where
  "run_farm_rules_filter env n family action w =
     (let f = nfarm n w; a = naddr n w; need = need_filter f; naction = n_action n; fid = fid_of n;
          chain = get_chain_name (f_name f) NFTLB_F_CHAIN_PRE_FILTER;
          action = (if action = ACTION_RELOAD \<and> \<not> need \<and> rld_stop (f_reload_action f) then ACTION_STOP else action);
          unless_local = only_if (f_mode f \<noteq> VALUE_MODE_LOCAL)
      in if \<not> need \<and> f_reload_action f = VALUE_RLD_NONE then w
         else if action = ACTION_START \<or> action = ACTION_RELOAD then
           steps
             [run_base_table env NFTLB_F_CHAIN_PRE_FILTER family action,
              run_base_chain env n NFTLB_F_CHAIN_PRE_FILTER family (get_rules_needed a) action,
              run_nftst_rules_gen_vsrv env n NFTLB_F_CHAIN_PRE_FILTER family naction action,
              run_farm_rules_filter_policies env fid family chain action,
              unless_local (steps
                [run_farm_rules_filter_helper env n family chain action,
                 run_farm_sessions_map env n SESSION_TYPE_STATIC family action,
                 run_farm_sessions_map env n SESSION_TYPE_TIMED family action,
                 run_farm_manage_sessions env fid SESSION_TYPE_STATIC family action,
                 run_farm_manage_sessions env fid SESSION_TYPE_TIMED family action,
                 run_farm_rules_check_sessions env n SESSION_TYPE_STATIC family action,
                 run_farm_rules_check_sessions env n SESSION_TYPE_TIMED family action,
                 run_farm_rules_filter_marks env n family chain action,
                 run_farm_rules_update_sessions env n family chain action])] w
         else if action = ACTION_DELETE \<or> action = ACTION_STOP then
           steps
             [run_nftst_rules_gen_vsrv env n NFTLB_F_CHAIN_PRE_FILTER family naction action,
              unless_local (steps
                [run_farm_sessions_map env n SESSION_TYPE_STATIC family action,
                 run_farm_sessions_map env n SESSION_TYPE_TIMED family action,
                 run_farm_rules_filter_marks env n family chain action,
                 run_farm_rules_filter_helper env n family chain action]),
              run_farm_rules_filter_policies env fid family chain action,
              run_base_chain env n NFTLB_F_CHAIN_PRE_FILTER family (get_rules_needed a) action] w
         else w)"

text \<open>The interfaces of a farm, each once; a name that is part of one already listed is left out.\<close>

definition add_iface :: "cptr \<Rightarrow> nat \<times> string \<Rightarrow> nat \<times> string" where
  "add_iface iface nl =
     (case iface of
        None \<Rightarrow> nl
      | Some i \<Rightarrow>
          if has_substr (snd nl) i then nl
          else (Suc (fst nl), snd nl @ (if fst nl \<noteq> 0 then '', '' else []) @ i))"

definition get_farm_interfaces :: "farm \<Rightarrow> address \<Rightarrow> nat \<times> string" where
  "get_farm_interfaces f a =
     fold (\<lambda>b. add_iface (b_oface b)) (f_backends f)
       (add_iface (f_oface f) (case a_iface a of None \<Rightarrow> (0, []) | Some i \<Rightarrow> (1, i)))"

definition get_flowtable_name :: "farm \<Rightarrow> string" where
  "get_flowtable_name f = take 255 (''ft-'' @ f_name f)"

definition run_farm_flowtable :: "nftenv \<Rightarrow> nftst \<Rightarrow> family \<Rightarrow> string \<Rightarrow> action \<Rightarrow> nftw \<Rightarrow> nftw" where
  "run_farm_flowtable env n family name action w =
     (let f = nfarm n w; (number, interfaces) = get_farm_interfaces f (naddr n w);
          fam = print_nft_table_family family NFTLB_F_CHAIN_FWD_FILTER
      in if \<not> farm_needs_flowtable f \<or> number = 0 then w
         else if action = ACTION_START then
           concat_exec_cmd env
             (words ['' ; add flowtable'', fam, NFTLB_TABLE_NAME, name, ''{ hook ingress priority'', print_d (w_flowtable_prio w),
                     ''; devices = {'', interfaces, ''} ; } ;'']) (w\<lparr>w_flowtable_prio := w_flowtable_prio w + 1\<rparr>)
         else if action = ACTION_STOP \<or> action = ACTION_DELETE then
           (let w1 = concat_exec_cmd env (words ['' ; delete flowtable'', fam, NFTLB_TABLE_NAME, name, ''; '']) w
            in w1\<lparr>w_flowtable_prio := w_flowtable_prio w1 - 1\<rparr>)
         else w)"

definition run_farm_gen_flowtable_rules :: "nftenv \<Rightarrow> nftst \<Rightarrow> family \<Rightarrow> string \<Rightarrow> string \<Rightarrow> nftw \<Rightarrow> nftw" where
  "run_farm_gen_flowtable_rules env n family chain name w =
     only_if (farm_needs_flowtable (nfarm n w) \<and> a_iface (naddr n w) \<noteq> None)
       (concat_exec_cmd env (words ['' ; add rule'', print_nft_table_family family NFTLB_F_CHAIN_FWD_FILTER, NFTLB_TABLE_NAME,
                                    chain, ''flow add @'' @ name])) w"

definition run_farm_rules_forward :: "nftenv \<Rightarrow> nftst \<Rightarrow> family \<Rightarrow> action \<Rightarrow> nftw \<Rightarrow> nftw" where
  "run_farm_rules_forward env n family action w =
     (let f = nfarm n w; a = naddr n w; naction = n_action n;
          chain = get_chain_name (f_name f) NFTLB_F_CHAIN_FWD_FILTER; flowtable = get_flowtable_name f;
          base = run_base_chain env n NFTLB_F_CHAIN_FWD_FILTER family (get_rules_needed a) action;
          log = run_farm_gen_log_rules env (fid_of n) family chain VALUE_LOG_FORWARD NFTLB_F_CHAIN_FWD_FILTER
      in if \<not> need_forward f then w
         else case action of
           ACTION_START \<Rightarrow>
             steps [run_base_table env NFTLB_F_CHAIN_FWD_FILTER family action, base,
                    run_nftst_rules_gen_vsrv env n NFTLB_F_CHAIN_FWD_FILTER family naction action, log,
                    run_farm_flowtable env n family flowtable action,
                    run_farm_gen_flowtable_rules env n family chain flowtable] w
         | ACTION_RELOAD \<Rightarrow>
             steps [run_base_table env NFTLB_F_CHAIN_FWD_FILTER family action, base,
                    run_nftst_rules_gen_chain env n family NFTLB_F_CHAIN_FWD_FILTER ACTION_RELOAD,
                    run_nftst_rules_gen_srv_map_by_protocol env n NFTLB_F_CHAIN_FWD_FILTER family ACTION_RELOAD, log,
                    run_farm_gen_flowtable_rules env n family chain flowtable] w
         | ACTION_FLUSH \<Rightarrow> w
         | ACTION_NONE \<Rightarrow> w
         | _ \<Rightarrow>
             steps [run_nftst_rules_gen_vsrv env n NFTLB_F_CHAIN_FWD_FILTER family naction action,
                    run_farm_flowtable env n family flowtable action, base] w)"

definition run_farm_rules_output :: "nftenv \<Rightarrow> nftst \<Rightarrow> family \<Rightarrow> action \<Rightarrow> nftw \<Rightarrow> nftw" where
  "run_farm_rules_output env n family action w =
     (let base = (\<lambda>type. run_base_chain env n type family (get_rules_needed (naddr n w)) action);
          vsrv = (\<lambda>type. run_nftst_rules_gen_vsrv env n type family (n_action n) action)
      in if \<not> need_output (nfarm n w) then w
         else if action = ACTION_START \<or> action = ACTION_RELOAD then
           steps [base NFTLB_F_CHAIN_OUT_FILTER, vsrv NFTLB_F_CHAIN_OUT_FILTER,
                  base NFTLB_F_CHAIN_OUT_DNAT, vsrv NFTLB_F_CHAIN_OUT_DNAT] w
         else if action = ACTION_DELETE \<or> action = ACTION_STOP then
           steps [vsrv NFTLB_F_CHAIN_OUT_FILTER, vsrv NFTLB_F_CHAIN_OUT_DNAT,
                  base NFTLB_F_CHAIN_OUT_FILTER, base NFTLB_F_CHAIN_OUT_DNAT] w
         else w)"

section \<open>Ingress policies\<close>

text \<open>When the counter set of a policy of the farm is created, deleted, and when its rule is written.\<close>

definition policy_meter_start :: "action \<Rightarrow> action \<Rightarrow> action \<Rightarrow> bool" where
  "policy_meter_start action fpa pa =
     (fpa = ACTION_RELOAD \<and> pa = ACTION_RELOAD \<or> action = ACTION_START \<and> pa \<noteq> ACTION_RELOAD \<or>
      action = ACTION_RELOAD \<and> pa = ACTION_START \<or> fpa = ACTION_START \<and> pa = ACTION_RELOAD)"

definition policy_meter_stop :: "action \<Rightarrow> action \<Rightarrow> action \<Rightarrow> bool" where
  "policy_meter_stop action fpa pa =
     ((action = ACTION_STOP \<or> action = ACTION_DELETE) \<and> pa \<noteq> ACTION_RELOAD \<or>
      action = ACTION_RELOAD \<and> pa = ACTION_STOP \<or> fpa = ACTION_STOP \<and> pa = ACTION_RELOAD)"

definition policy_rule :: "action \<Rightarrow> action \<Rightarrow> bool" where
  "policy_rule fpa pa =
     ((fpa = ACTION_NONE \<or> fpa = ACTION_START) \<and> (pa = ACTION_RELOAD \<or> pa = ACTION_START) \<or>
      fpa = ACTION_RELOAD \<and> pa = ACTION_RELOAD)"

definition farm_policy_step :: "nftenv \<Rightarrow> oid \<Rightarrow> string \<Rightarrow> action \<Rightarrow> farmpolicy \<Rightarrow> nftw \<Rightarrow> nftw" where
  "farm_policy_step env fid chain action fp w =
     (let n = nftst_set_policy (nftst_create_from_farm fid w) (Some (fp_policy fp));
          f = nfarm n w; pa = f_policies_action f; fpa = fp_action fp
      in case nftst_get_policy n w of
           None \<Rightarrow> w
         | Some p \<Rightarrow>
             let meter_str = take 255 (p_name p @ ''-'' @ f_name f @ ''-cnt'')
             in steps
                  [if policy_meter_start action fpa pa
                   then run_farm_meter env f VALUE_FAMILY_NETDEV (p_family p) KEY_ELEMENTS meter_str ACTION_START
                   else only_if (policy_meter_stop action fpa pa)
                          (run_farm_meter env f VALUE_FAMILY_NETDEV (p_family p) KEY_ELEMENTS meter_str ACTION_STOP),
                   only_if (policy_rule fpa pa) (steps
                     [u_buf_concat (words ['' ; add rule netdev'', NFTLB_TABLE_NAME, chain, print_nft_family (p_family p),
                                           ''saddr @'' @ p_name p, ''add @'' @ meter_str, ''{'', print_nft_family (p_family p), ''saddr }'']),
                      run_farm_rules_log_and_verdict env n (f_logrtlimit f) (f_verdict f) (p_type p) KEY_LOGPREFIX NFTLB_F_CHAIN_ING_FILTER]),
                   upd_objs (upd_farm fid (\<lambda>f. f\<lparr>f_policies := kupd fp_id (fp_id fp) (\<lambda>fp. fp\<lparr>fp_action := ACTION_NONE\<rparr>) (f_policies f)\<rparr>))] w)"

definition run_farm_rules_ingress_policies :: "nftenv \<Rightarrow> oid \<Rightarrow> string \<Rightarrow> action \<Rightarrow> nftw \<Rightarrow> nftw" where
  "run_farm_rules_ingress_policies env fid chain action w =
     fold (farm_policy_step env fid chain action) (f_policies (nfarm (nftst_create_from_farm fid w) w)) w"

definition address_policy_step :: "nftenv \<Rightarrow> nftst \<Rightarrow> string \<Rightarrow> addresspolicy \<Rightarrow> nftw \<Rightarrow> nftw" where
  "address_policy_step env n chain ap w =
     (let a = naddr n w
      in case get_policy (ap_policy ap) (w_objs w) of
           None \<Rightarrow> w
         | Some p \<Rightarrow>
             steps
               [u_buf_concat (words ['' ; add rule netdev'', NFTLB_TABLE_NAME, chain, print_nft_family (p_family p),
                                     ''saddr @'' @ p_name p]),
                run_farm_rules_log_and_verdict env n (a_logrtlimit a) (a_verdict a) (p_type p) KEY_LOGPREFIX NFTLB_F_CHAIN_ING_FILTER,
                upd_objs (upd_address (a_id a) (\<lambda>a. a\<lparr>a_policies := kupd ap_id (ap_id ap) (\<lambda>ap. ap\<lparr>ap_action := ACTION_NONE\<rparr>) (a_policies a)\<rparr>))] w)"

definition run_nftst_rules_ingress_policies :: "nftenv \<Rightarrow> nftst \<Rightarrow> string \<Rightarrow> action \<Rightarrow> nftw \<Rightarrow> nftw" where
  "run_nftst_rules_ingress_policies env n chain action w =
     (let a = naddr n w
      in if a_policies_action a \<noteq> ACTION_START \<and> a_policies_action a \<noteq> ACTION_RELOAD \<and> action \<noteq> ACTION_RELOAD then w
         else fold (address_policy_step env n chain) (a_policies a) w)"

definition run_nftst_ingress_policies :: "nftenv \<Rightarrow> nftst \<Rightarrow> family \<Rightarrow> action \<Rightarrow> nftw \<Rightarrow> nftw" where
  "run_nftst_ingress_policies env n family action w =
     (let f = nftst_get_farm n w; a = nftst_get_address n w; fid = fid_of n;
          chain = get_chain_name (nftst_get_name n w) NFTLB_F_CHAIN_ING_FILTER;
          base = (case f of Some f \<Rightarrow> \<not> farm_is_ingress_mode f | None \<Rightarrow> False) \<or> a \<noteq> None;
          needed = get_rules_needed (naddr n w);
          many = (case f of Some f \<Rightarrow> f_policies_used f > 1 | None \<Rightarrow> False) \<or> (case a of Some a \<Rightarrow> a_policies_used a > 1 | None \<Rightarrow> False);
          vsrv = (\<lambda>act. run_nftst_rules_gen_vsrv env n NFTLB_F_CHAIN_ING_FILTER VALUE_FAMILY_NETDEV act act);
          rules = (if f \<noteq> None then run_farm_rules_ingress_policies env fid chain action
                   else only_if (a \<noteq> None) (run_nftst_rules_ingress_policies env n chain action))
      in if (case f of
               Some f \<Rightarrow> \<not> farm_needs_policies f \<or> \<not> farm_is_ingress_mode f \<and> n_action n = ACTION_NONE
             | None \<Rightarrow> (case a of Some a \<Rightarrow> \<not> address_needs_policies a | None \<Rightarrow> False))
         then w
         else case action of
           ACTION_START \<Rightarrow>
             steps [only_if base (steps
                      [run_base_table env NFTLB_F_CHAIN_ING_FILTER family ACTION_START,
                       run_base_chain env n NFTLB_F_CHAIN_ING_FILTER family needed ACTION_START,
                       vsrv (if many then ACTION_RELOAD else ACTION_START)]),
                    rules] w
         | ACTION_RELOAD \<Rightarrow> steps [vsrv ACTION_RELOAD, rules] w
         | ACTION_FLUSH \<Rightarrow> w
         | ACTION_NONE \<Rightarrow> w
         | _ \<Rightarrow>
             steps [only_if base (steps
                      [vsrv ACTION_STOP,
                       run_base_chain env n NFTLB_F_CHAIN_ING_FILTER family needed ACTION_STOP,
                       run_base_table env NFTLB_F_CHAIN_ING_FILTER family ACTION_STOP]),
                    \<lambda>w. if (case nftst_get_farm n w of Some f \<Rightarrow> f_addresses_used f \<le> 1 | None \<Rightarrow> False)
                        then run_farm_rules_ingress_policies env fid chain action w
                        else only_if (a \<noteq> None) (run_nftst_rules_ingress_policies env n chain action) w] w)"

section \<open>Address translation\<close>

fun get_farm_rules_nat_params :: "family \<Rightarrow> map_mode \<Rightarrow> string" where
  "get_farm_rules_nat_params family BCK_MAP_IPADDR_PORT = '' '' @ print_nft_family family @ '' addr . port''"
| "get_farm_rules_nat_params family _ = []"

definition sched_text :: "farm \<Rightarrow> address \<Rightarrow> family \<Rightarrow> string" where
  "sched_text f a family = (case run_farm_rules_gen_sched f a family of None \<Rightarrow> [] | Some t \<Rightarrow> t)"

definition run_farm_rules_gen_nat :: "nftenv \<Rightarrow> nftst \<Rightarrow> family \<Rightarrow> flags \<Rightarrow> action \<Rightarrow> nftw \<Rightarrow> nftw" where
  "run_farm_rules_gen_nat env n family type action w =
     (let f = nfarm n w; a = naddr n w; fid = fid_of n;
          chain = get_chain_name (f_name f) type;
          ingress = words ['' ; add rule'', print_nft_table_family family NFTLB_F_CHAIN_ING_FILTER, NFTLB_TABLE_NAME, chain];
          bck_map = (\<lambda>k d usable. fst (run_farm_rules_gen_bck_map (net env) f a k d usable));
          check = [run_farm_rules_check_sessions env n SESSION_TYPE_STATIC family action,
                   run_farm_rules_check_sessions env n SESSION_TYPE_TIMED family action];
          log_in = run_farm_log_prefix fid VALUE_LOG_INPUT NFTLB_F_CHAIN_ING_FILTER;
          finish = [run_farm_rules_update_sessions env n family chain action,
                    run_farm_log_prefix fid VALUE_LOG_OUTPUT NFTLB_F_CHAIN_ING_DNAT, run_fwd_to env n]
      in if f_bcks_usable f = 0 then w
         else case f_mode f of
           VALUE_MODE_DSR \<Rightarrow>
             steps (check @
               [only_if (f_bcks_available f \<noteq> 0) (steps
                  ([u_buf_concat ingress, log_in,
                    u_buf_concat ('' ether saddr set '' @ cstr (f_oethaddr f) @ '' ether daddr set'' @ sched_text f a family @
                                  bck_map BCK_MAP_WEIGHT BCK_MAP_ETHADDR False)] @ finish)),
                concat_exec_cmd env []]) w
         | VALUE_MODE_STLSDNAT \<Rightarrow>
             steps
               ([concat_exec_cmd env
                   (ingress @ '' update @'' @ take 255 (''map-'' @ f_name f @ ''-back'') @ '' { '' @ print_nft_family family @
                    '' saddr : ether saddr }'')] @
                check @
                [only_if (f_bcks_available f \<noteq> 0) (steps
                   ([u_buf_concat ingress, log_in,
                     u_buf_concat ('' '' @ print_nft_family family @ '' daddr set'' @ sched_text f a family @
                                   bck_map BCK_MAP_WEIGHT BCK_MAP_IPADDR False @
                                   '' ether daddr set '' @ print_nft_family family @ '' daddr''),
                     run_stls_rewrite env n] @ finish)),
                 concat_exec_cmd env []]) w
         | VALUE_MODE_LOCAL \<Rightarrow>
             run_farm_gen_log_rules env fid family chain VALUE_LOG_INPUT NFTLB_F_CHAIN_PRE_DNAT w
         | _ \<Rightarrow>
             (let data = (if f_bcks_have_port f \<and> nftst_get_proto n w \<noteq> Some VALUE_PROTO_ALL
                          then BCK_MAP_IPADDR_PORT else BCK_MAP_IPADDR)
              in steps
                   [run_farm_gen_log_rules env fid family chain VALUE_LOG_INPUT NFTLB_F_CHAIN_PRE_DNAT,
                    concat_exec_cmd env
                      (words ['' ; add rule'', print_nft_table_family family NFTLB_F_CHAIN_PRE_DNAT, NFTLB_TABLE_NAME, chain] @
                       (if nftst_get_proto n w \<noteq> Some VALUE_PROTO_ALL
                        then '' '' @ print_nft_family family @ '' '' @ print_nft_family_protocol family @ '' '' @
                             print_nft_protocol (a_protocol a)
                        else []) @
                       '' dnat'' @ get_farm_rules_nat_params family data @ '' to ct mark'' @
                       bck_map BCK_MAP_MARK data True)] w))"

section \<open>Farms\<close>

text \<open>The policies with the action that is pending on the farm's policies at that moment.\<close>

definition farm_policies_now :: "nftenv \<Rightarrow> nftst \<Rightarrow> family \<Rightarrow> nftw \<Rightarrow> nftw" where
  "farm_policies_now env n family w = run_nftst_ingress_policies env n family (f_policies_action (nfarm n w)) w"

definition run_farm_dsr :: "nftenv \<Rightarrow> nftst \<Rightarrow> family \<Rightarrow> action \<Rightarrow> nftw \<Rightarrow> nftw" where
  "run_farm_dsr env n family action w =
     (let a = naddr n w; naction = n_action n; fid = fid_of n;
          base = run_base_chain env n NFTLB_F_CHAIN_ING_FILTER family (get_rules_needed a) action;
          vsrv = run_nftst_rules_gen_vsrv env n NFTLB_F_CHAIN_ING_FILTER family naction action;
          maps = [run_farm_sessions_map env n SESSION_TYPE_STATIC family action,
                  run_farm_sessions_map env n SESSION_TYPE_TIMED family action];
          manage = [run_farm_manage_sessions env fid SESSION_TYPE_STATIC family action,
                    run_farm_manage_sessions env fid SESSION_TYPE_TIMED family action]
      in if action = ACTION_RELOAD \<or> action = ACTION_START then
           steps ([run_base_table env NFTLB_F_CHAIN_ING_FILTER family action, base, vsrv,
                   run_nftst_ingress_policies env n family ACTION_RELOAD] @ maps @ manage @
                  [run_farm_rules_gen_nat env n family NFTLB_F_CHAIN_ING_FILTER action]) w
         else if action = ACTION_DELETE \<or> action = ACTION_STOP then
           steps ([vsrv] @ manage @ maps @
                  [base, run_base_table env NFTLB_F_CHAIN_ING_FILTER family action, farm_policies_now env n family]) w
         else w)"

definition run_farm_stlsnat :: "nftenv \<Rightarrow> nftst \<Rightarrow> family \<Rightarrow> action \<Rightarrow> nftw \<Rightarrow> nftw" where
  "run_farm_stlsnat env n family action w =
     (let f = nfarm n w; a = naddr n w; naction = n_action n; fid = fid_of n;
          map_str = take 255 (''map-'' @ f_name f @ ''-back'');
          chain = get_chain_name (f_name f) NFTLB_F_CHAIN_ING_DNAT;
          base = (\<lambda>type. run_base_chain env n type family (get_rules_needed a) action);
          vsrv = (\<lambda>type. run_nftst_rules_gen_vsrv env n type family naction action);
          back = run_farm_map env a family NFTLB_F_CHAIN_ING_DNAT map_str VALUE_META_SRCIP VALUE_META_SRCMAC (f_persistttl f) action;
          maps = [run_farm_sessions_map env n SESSION_TYPE_STATIC family action,
                  run_farm_sessions_map env n SESSION_TYPE_TIMED family action];
          manage = [run_farm_manage_sessions env fid SESSION_TYPE_STATIC family action,
                    run_farm_manage_sessions env fid SESSION_TYPE_TIMED family action]
      in if action = ACTION_RELOAD \<or> action = ACTION_START then
           steps ([farm_policies_now env n family, run_base_table env NFTLB_F_CHAIN_ING_FILTER family action,
                   base NFTLB_F_CHAIN_ING_DNAT, vsrv NFTLB_F_CHAIN_ING_DNAT, back,
                   concat_exec_cmd env
                     (words ['' ; add rule'', print_nft_table_family family NFTLB_F_CHAIN_ING_DNAT, NFTLB_TABLE_NAME, chain,
                             print_nft_family family, ''saddr set'', a_ipaddr a, ''ether saddr set'', cstr (a_iethaddr a),
                             ''ether daddr set'', print_nft_family family, ''daddr map @'' @ map_str, ''fwd to'', cstr (a_iface a)]),
                   run_base_table env NFTLB_F_CHAIN_ING_FILTER family action,
                   base NFTLB_F_CHAIN_ING_FILTER, vsrv NFTLB_F_CHAIN_ING_FILTER, farm_policies_now env n family] @
                  maps @ manage @ [run_farm_rules_gen_nat env n family NFTLB_F_CHAIN_ING_FILTER action]) w
         else if action = ACTION_DELETE \<or> action = ACTION_STOP then
           steps ([vsrv NFTLB_F_CHAIN_ING_DNAT, vsrv NFTLB_F_CHAIN_ING_FILTER] @ manage @ maps @
                  [back, base NFTLB_F_CHAIN_ING_DNAT, base NFTLB_F_CHAIN_ING_FILTER,
                   run_base_table env NFTLB_F_CHAIN_ING_FILTER family action, farm_policies_now env n family]) w
         else w)"

definition run_farm_nat :: "nftenv \<Rightarrow> nftst \<Rightarrow> family \<Rightarrow> action \<Rightarrow> nftw \<Rightarrow> nftw" where
  "run_farm_nat env n family action w =
     (let a = naddr n w;
          base = (\<lambda>type. run_base_chain env n type family (get_rules_needed a) action);
          vsrv = run_nftst_rules_gen_vsrv env n NFTLB_F_CHAIN_PRE_DNAT family (n_action n) action
      in if action = ACTION_RELOAD \<or> action = ACTION_START then
           steps [run_farm_rules_filter env n family action, farm_policies_now env n family,
                  run_base_table env NFTLB_F_CHAIN_PRE_DNAT family action,
                  base NFTLB_F_CHAIN_PRE_DNAT, base NFTLB_F_CHAIN_POS_SNAT, vsrv,
                  run_farm_rules_gen_nat env n family NFTLB_F_CHAIN_PRE_DNAT action,
                  run_farm_rules_forward env n family action, run_farm_rules_output env n family action,
                  run_farm_snat env n family action] w
         else if action = ACTION_DELETE \<or> action = ACTION_STOP then
           steps [run_farm_rules_forward env n family action, run_farm_rules_output env n family action,
                  run_farm_rules_filter env n family action, run_farm_snat env n family action, vsrv,
                  base NFTLB_F_CHAIN_PRE_DNAT, base NFTLB_F_CHAIN_POS_SNAT,
                  run_base_table env NFTLB_F_CHAIN_PRE_DNAT family action, farm_policies_now env n family] w
         else w)"

definition run_farm_local :: "nftenv \<Rightarrow> nftst \<Rightarrow> family \<Rightarrow> action \<Rightarrow> nftw \<Rightarrow> nftw" where
  "run_farm_local env n family action w =
     (let a = naddr n w;
          base = (\<lambda>type. run_base_chain env n type family (get_rules_needed a) action);
          vsrv = run_nftst_rules_gen_vsrv env n NFTLB_F_CHAIN_PRE_DNAT family action action
      in if action = ACTION_RELOAD \<or> action = ACTION_START then
           steps [run_base_table env NFTLB_F_CHAIN_PRE_DNAT family action,
                  base NFTLB_F_CHAIN_PRE_DNAT, base NFTLB_F_CHAIN_POS_SNAT, run_farm_snat env n family action,
                  run_farm_rules_filter env n family action, farm_policies_now env n family,
                  run_farm_rules_forward env n family action, run_farm_rules_output env n family action, vsrv] w
         else if action = ACTION_DELETE \<or> action = ACTION_STOP then
           steps [vsrv, run_farm_rules_forward env n family action, run_farm_rules_output env n family action,
                  run_farm_rules_filter env n family action, run_farm_snat env n family action,
                  base NFTLB_F_CHAIN_PRE_DNAT, base NFTLB_F_CHAIN_POS_SNAT,
                  run_base_table env NFTLB_F_CHAIN_PRE_DNAT family action, farm_policies_now env n family] w
         else w)"

definition run_farm_rules :: "nftenv \<Rightarrow> nftst \<Rightarrow> family \<Rightarrow> nftw \<Rightarrow> nftw" where
  "run_farm_rules env n family w =
     (let f = nfarm n w;
          action = (if f_action f = ACTION_RELOAD \<and> n_action n = ACTION_NONE then ACTION_RELOAD else n_action n)
      in case f_mode f of
           VALUE_MODE_STLSDNAT \<Rightarrow> run_farm_stlsnat env n family action w
         | VALUE_MODE_DSR \<Rightarrow> run_farm_dsr env n family action w
         | VALUE_MODE_LOCAL \<Rightarrow> run_farm_local env n family action w
         | _ \<Rightarrow> run_farm_nat env n family action w)"

definition run_address_rules :: "nftenv \<Rightarrow> nftst \<Rightarrow> family \<Rightarrow> nftw \<Rightarrow> nftw" where
  "run_address_rules env n family w =
     only_if (n_action n = ACTION_RELOAD \<or> n_action n = ACTION_START \<or> n_action n = ACTION_DELETE \<or> n_action n = ACTION_STOP)
       (run_nftst_ingress_policies env n family (a_policies_action (naddr n w))) w"

definition run_nftst :: "nftenv \<Rightarrow> nftst \<Rightarrow> nftw \<Rightarrow> nftw" where
  "run_nftst env n w =
     (let rules = (\<lambda>family w.
            if nftst_has_farm n w then run_farm_rules env n family w
            else only_if (nftst_has_address n w) (run_address_rules env n family) w);
          fam = nftst_get_family n w
      in steps [only_if (fam = Some VALUE_FAMILY_IPV4 \<or> fam = Some VALUE_FAMILY_INET) (rules VALUE_FAMILY_IPV4),
                only_if (fam = Some VALUE_FAMILY_IPV6 \<or> fam = Some VALUE_FAMILY_INET) (rules VALUE_FAMILY_IPV6)] w)"

text \<open>A buffer of its own, run at the end.\<close>

definition with_buffer :: "nftenv \<Rightarrow> (nftw \<Rightarrow> nftw) \<Rightarrow> nftw \<Rightarrow> nftw" where
  "with_buffer env g w =
     (let w1 = g (w\<lparr>w_buf := []\<rparr>); w2 = exec_cmd env (w_buf w1) w1 in w2\<lparr>w_buf := w_buf w\<rparr>)"

definition nft_rulerize_address :: "nftenv \<Rightarrow> oid \<Rightarrow> nftw \<Rightarrow> nftw" where
  "nft_rulerize_address env aid w =
     (let n = nftst_create_from_address aid w in nftst_actions_done n (with_buffer env (run_nftst env n) w))"

text \<open>The links of the farm are visited in order; the last address stays in \<open>n\<close>.\<close>

definition nft_rulerize_farms :: "nftenv \<Rightarrow> oid \<Rightarrow> nftw \<Rightarrow> nftw" where
  "nft_rulerize_farms env fid w =
     (let n = nftst_create_from_farm fid w;
          fas = f_addresses (nfarm n w);
          w1 = with_buffer env (\<lambda>w. fold (\<lambda>fa w.
                 let now = (case kfind fa_id (fa_id fa) (f_addresses (nfarm n w)) of None \<Rightarrow> fa | Some fa1 \<Rightarrow> fa1)
                 in run_nftst env (nftst_set_action (nftst_set_address n (Some (fa_address fa))) (fa_action now)) w) fas w) w
      in nftst_actions_done (nftst_set_address n (if fas = [] then None else Some (fa_address (last fas)))) w1)"

section \<open>Reset\<close>

definition farm_s_clean_nft_chains :: "objs \<Rightarrow> objs" where
  "farm_s_clean_nft_chains s = s\<lparr>farms := map (\<lambda>f. f\<lparr>f_nft_chains := 0\<rparr>) (farms s)\<rparr>"

definition address_s_clean_nft_chains :: "objs \<Rightarrow> objs" where
  "address_s_clean_nft_chains s = s\<lparr>addresses := map (\<lambda>a. a\<lparr>a_nft_chains := 0\<rparr>) (addresses s)\<rparr>"

definition nft_reset :: "nftenv \<Rightarrow> nftw \<Rightarrow> nftw" where
  "nft_reset env w =
     (let table = (\<lambda>family. nft_table_handler env (print_nft_family family) ACTION_DELETE)
      in steps
        [with_buffer env (steps
           [\<lambda>w. let b = w_base w in only_if (dnat_rules_v4 b \<noteq> 0 \<or> snat_rules_v4 b \<noteq> 0 \<or> filter_rules_v4 b \<noteq> 0 \<or> fwd_rules_v4 b \<noteq> 0 \<or>
                  out_filter_rules_v4 b \<noteq> 0 \<or> out_nat_rules_v4 b \<noteq> 0) (table VALUE_FAMILY_IPV4) w,
            \<lambda>w. let b = w_base w in only_if (dnat_rules_v6 b \<noteq> 0 \<or> snat_rules_v6 b \<noteq> 0 \<or> filter_rules_v6 b \<noteq> 0 \<or> fwd_rules_v6 b \<noteq> 0 \<or>
                  out_filter_rules_v6 b \<noteq> 0 \<or> out_nat_rules_v6 b \<noteq> 0) (table VALUE_FAMILY_IPV6) w,
            \<lambda>w. let b = w_base w in only_if (ndv_ingress_rules b \<noteq> [] \<or> ndv_ingress_dnat_rules b \<noteq> [] \<or> ndv_ingress_policies b \<noteq> 0)
                  (table VALUE_FAMILY_NETDEV) w]),
         clean_rules_counters,
         upd_objs farm_s_clean_nft_chains,
         upd_objs address_s_clean_nft_chains] w)"

text \<open>Which tables are there at the start; the answers of the three listings are \<open>found\<close>.\<close>

definition nft_check_tables :: "nftenv \<Rightarrow> nftw \<Rightarrow> bool \<times> nftw" where
  "nft_check_tables env w =
     (let probe = (\<lambda>family g w.
            let cmd = words [''list table'', print_nft_family family, NFTLB_TABLE_NAME];
                failed = nft_run_cmd env (w_cmds w) cmd; w1 = w\<lparr>w_cmds := w_cmds w @ [cmd]\<rparr>
            in only_if (\<not> failed) (upd_base g) w1);
          w1 = steps [probe VALUE_FAMILY_IPV4 (\<lambda>b. b\<lparr>dnat_rules_v4 := 1\<rparr>),
                      probe VALUE_FAMILY_IPV6 (\<lambda>b. b\<lparr>dnat_rules_v6 := 1\<rparr>),
                      probe VALUE_FAMILY_NETDEV (\<lambda>b. b\<lparr>ndv_ingress_rules := [None]\<rparr>)] w;
          b = w_base w1
      in (dnat_rules_v4 b \<noteq> 0 \<or> dnat_rules_v6 b \<noteq> 0 \<or> ndv_ingress_rules b \<noteq> [], w1))"

section \<open>Policies\<close>

text \<open>One command for the elements that \<open>sel\<close> picks; nothing is pending on them afterwards.\<close>

definition set_elements_cmd :: "nftenv \<Rightarrow> string \<Rightarrow> oid \<Rightarrow> (element \<Rightarrow> bool) \<Rightarrow> nftw \<Rightarrow> nftw" where
  "set_elements_cmd env verb pid sel w =
     (case get_policy pid (w_objs w) of
        None \<Rightarrow> w
      | Some p \<Rightarrow>
          let es = filter sel (p_elements p);
              settle = upd_objs (upd_policy pid (\<lambda>p. p\<lparr>p_elements :=
                       map (\<lambda>e. if sel e then e\<lparr>e_action := ACTION_NONE\<rparr> else e) (p_elements p)\<rparr>))
          in only_if (es \<noteq> [])
               (steps [settle, concat_exec_cmd env
                  (words ['' ;'', verb, ''element netdev'', NFTLB_TABLE_NAME, p_name p, ''{ ''] @
                   comma_list (map e_data es) @ '' }'')]) w)"

definition run_set_elements :: "nftenv \<Rightarrow> oid \<Rightarrow> nftw \<Rightarrow> nftw" where
  "run_set_elements env pid w =
     (case get_policy pid (w_objs w) of
        None \<Rightarrow> w
      | Some p \<Rightarrow>
          let pending = [set_elements_cmd env ''add'' pid (\<lambda>e. e_action e = ACTION_START),
                         set_elements_cmd env ''delete'' pid (\<lambda>e. e_action e = ACTION_DELETE \<or> e_action e = ACTION_STOP)]
          in if p_total_elem p = 0 then w
             else case p_action p of
                    ACTION_START \<Rightarrow> set_elements_cmd env ''add'' pid (\<lambda>_. True) w
                  | ACTION_FLUSH \<Rightarrow>
                      steps (concat_exec_cmd env (words ['' ; flush set netdev'', NFTLB_TABLE_NAME, p_name p]) # pending) w
                  | ACTION_RELOAD \<Rightarrow> steps pending w
                  | ACTION_DELETE \<Rightarrow> set_elements_cmd env ''delete'' pid (\<lambda>_. True) w
                  | ACTION_STOP \<Rightarrow> set_elements_cmd env ''delete'' pid (\<lambda>_. True) w
                  | _ \<Rightarrow> w)"

text \<open>The counters that the rules of each farm keep for the policy.\<close>

definition run_set_farm_policies :: "nftenv \<Rightarrow> oid \<Rightarrow> nftw \<Rightarrow> nftw" where
  "run_set_farm_policies env pid w =
     (case get_policy pid (w_objs w) of
        None \<Rightarrow> w
      | Some p \<Rightarrow>
          if p_used p = 0 then w
          else fold (\<lambda>f w.
                 only_if (farmpolicy_lookup_by_name f (p_name p) (w_objs w) \<noteq> None \<and> p_action p = ACTION_FLUSH)
                   (concat_exec_cmd env (words ['' ; flush set netdev'', NFTLB_TABLE_NAME,
                      p_name p @ ''-'' @ f_name f @ ''-cnt''])) w) (farms (w_objs w)) w)"

definition run_policy_set :: "nftenv \<Rightarrow> oid \<Rightarrow> nftw \<Rightarrow> nftw" where
  "run_policy_set env pid w =
     (case get_policy pid (w_objs w) of
        None \<Rightarrow> w
      | Some p \<Rightarrow>
          let drop = steps
                [concat_exec_cmd env (words ['' ; delete set netdev'', NFTLB_TABLE_NAME, p_name p]),
                 upd_base (\<lambda>b. b\<lparr>ndv_ingress_policies := ndv_ingress_policies b - 1\<rparr>),
                 \<lambda>w. only_if (ndv_ingress_policies (w_base w) = 0)
                       (run_base_table env NFTLB_F_CHAIN_ING_FILTER VALUE_FAMILY_NETDEV ACTION_DELETE) w];
              act = (case p_action p of
                ACTION_START \<Rightarrow> steps
                  [run_base_table env NFTLB_F_CHAIN_ING_FILTER VALUE_FAMILY_NETDEV ACTION_START,
                   concat_exec_cmd env (words ['' ; add set netdev'', NFTLB_TABLE_NAME, p_name p, ''{ type'',
                     print_nft_family_type (p_family p), ''; flags interval ; auto-merge ; counter ; }'']),
                   upd_base (\<lambda>b. b\<lparr>ndv_ingress_policies := ndv_ingress_policies b + 1\<rparr>),
                   run_set_elements env pid]
              | ACTION_RELOAD \<Rightarrow> run_set_elements env pid
              | ACTION_FLUSH \<Rightarrow> steps [run_set_elements env pid, run_set_farm_policies env pid]
              | ACTION_STOP \<Rightarrow> drop
              | ACTION_DELETE \<Rightarrow> drop
              | _ \<Rightarrow> (\<lambda>w. w))
          in steps [act, upd_objs (upd_policy pid (\<lambda>p. p\<lparr>p_action := ACTION_NONE\<rparr>))] w)"

definition nft_rulerize_policies :: "nftenv \<Rightarrow> oid \<Rightarrow> nftw \<Rightarrow> nftw" where
  "nft_rulerize_policies env pid w = with_buffer env (run_policy_set env pid) w"

section \<open>Listings\<close>

text \<open>
  The listing that is asked of libnftables: none when the object of the key is missing, or for another
  key. The farm and the address are asked first, as in the code.
\<close>

definition nft_get_rules_buffer :: "key \<Rightarrow> nftst \<Rightarrow> nftw \<Rightarrow> string option" where
  "nft_get_rules_buffer key n w =
     (if key = KEY_SESSIONS
      then case (nftst_get_farm n w, nftst_get_address n w) of
             (Some f, Some a) \<Rightarrow>
               Some (words [''list map'', print_nft_table_family (a_family a) (get_stage_by_farm_mode f),
                            ''nftlb persist-'' @ f_name f])
           | _ \<Rightarrow> None
      else if key = KEY_POLICIES
      then map_option (\<lambda>p. ''list set netdev nftlb '' @ p_name p) (nftst_get_policy n w)
      else None)"

end
