(* ===== verification/Rulerize.thy ===== *)
theory Rulerize
  imports Policies NftFarm
begin

text \<open>
  From pending actions to rules (farms.c, addresses.c, policies.c, backends.c, objects.c): which objects
  are translated, in which order, and what happens to a farm that can not be; deleting a backend, which
  translates in between; the recovery from a failed command; and the change of a neighbour's link-layer
  address that the event listener reports. All of them pass the fuel of \<open>backend_set_state\<close> on and are
  \<open>None\<close> when it runs out.
\<close>

section \<open>The objects inside the program state\<close>

definition on_objs :: "(objs \<Rightarrow> objs option) \<Rightarrow> nftw \<Rightarrow> nftw option" where
  "on_objs g w = map_option (\<lambda>s. w\<lparr>w_objs := s\<rparr>) (g (w_objs w))"

definition ask_objs :: "(objs \<Rightarrow> ('a \<times> objs) option) \<Rightarrow> nftw \<Rightarrow> ('a \<times> nftw) option" where
  "ask_objs g w = map_option (\<lambda>(x, s). (x, w\<lparr>w_objs := s\<rparr>)) (g (w_objs w))"

lemma on_objs_simps [simp]:
  "on_objs g w = Some w' \<longleftrightarrow> (\<exists>s. g (w_objs w) = Some s \<and> w' = w\<lparr>w_objs := s\<rparr>)"
  "on_objs g w = None \<longleftrightarrow> g (w_objs w) = None"
  by (auto simp: on_objs_def)

section \<open>Farms\<close>

definition farm_set_state :: "nat \<Rightarrow> netenv \<Rightarrow> oid \<Rightarrow> ostate \<Rightarrow> objs \<Rightarrow> objs option" where
  "farm_set_state n env fid new_value s =
     (case get_farm fid s of
        None \<Rightarrow> Some s
      | Some f \<Rightarrow>
          let old_value = f_state f;
              new_value = (if new_value = VALUE_STATE_AVAIL then VALUE_STATE_UP else new_value);
              put = upd_farm fid (\<lambda>f. f\<lparr>f_state := new_value\<rparr>)
          in if new_value = VALUE_STATE_CONFERR then farm_act n env fid ACTION_NONE (put s)
             else if old_value \<noteq> VALUE_STATE_UP \<and> new_value = VALUE_STATE_UP
             then do { s1 \<leftarrow> farm_act n env fid ACTION_START s; farm_set_netinfo n env fid (put s1) }
             else do { s1 \<leftarrow> (if old_value = VALUE_STATE_UP \<and> new_value \<noteq> VALUE_STATE_UP
                            then farm_act n env fid ACTION_STOP s else Some s);
                       Some (farm_manage_eventd (put s1)) })"

definition farm_s_set_action :: "nat \<Rightarrow> netenv \<Rightarrow> action \<Rightarrow> objs \<Rightarrow> objs option" where
  "farm_s_set_action n env action s = foldo (\<lambda>fid. farm_act n env fid action) (map f_id (farms s)) s"

text \<open>The argument of \<open>farm_s_set_reload_start\<close> is not used.\<close>

definition farm_s_set_reload_start :: "nat \<Rightarrow> netenv \<Rightarrow> objs \<Rightarrow> objs option" where
  "farm_s_set_reload_start n env s =
     foldo (\<lambda>fid s. case get_farm fid s of
                      None \<Rightarrow> Some s
                    | Some f \<Rightarrow> if f_state f = VALUE_STATE_UP then farm_act n env fid ACTION_START s else Some s)
       (map f_id (farms s)) s"

text \<open>A farm in a configuration error that has become valid is taken up before anything else.\<close>

definition farm_revalidate :: "nat \<Rightarrow> netenv \<Rightarrow> oid \<Rightarrow> objs \<Rightarrow> objs option" where
  "farm_revalidate n env fid s =
     (case get_farm fid s of
        None \<Rightarrow> Some s
      | Some f \<Rightarrow>
          if f_state f = VALUE_STATE_CONFERR
          then (let (ok, s1) = farm_validate fid s in if ok then farm_set_state n env fid VALUE_STATE_UP s1 else Some s1)
          else Some s)"

text \<open>Whether the farm is to be translated now; the check also writes the messages of the validation.\<close>

definition farm_ready :: "oid \<Rightarrow> objs \<Rightarrow> bool \<times> objs" where
  "farm_ready fid s =
     (case get_farm fid s of
        None \<Rightarrow> (False, s)
      | Some f \<Rightarrow>
          let (ok, s1) = (if f_action f = ACTION_START \<or> f_action f = ACTION_RELOAD then farm_is_available fid s else (True, s))
          in (ok \<and> map_option f_state (get_farm fid s1) \<noteq> Some VALUE_STATE_CONFERR, s1))"

definition farm_rulerize :: "nat \<Rightarrow> nftenv \<Rightarrow> oid \<Rightarrow> nftw \<Rightarrow> nftw option" where
  "farm_rulerize n env fid w =
     (case get_farm fid (w_objs w) of
        None \<Rightarrow> Some w
      | Some f \<Rightarrow>
          if f_action f = ACTION_NONE then Some w
          else
            do { s1 \<leftarrow> farm_revalidate n (net env) fid (w_objs w);
                 let (ready, s2) = farm_ready fid s1;
                 if ready then Some (nft_rulerize_farms env fid (w\<lparr>w_objs := s2\<rparr>))
                 else
                   do { s3 \<leftarrow> (if map_option f_state (get_farm fid s2) = Some VALUE_STATE_UP
                               then farm_set_state n (net env) fid VALUE_STATE_CONFERR s2 else Some s2);
                        Some (w\<lparr>w_objs := upd_farm fid (\<lambda>f. f\<lparr>f_action := ACTION_NONE\<rparr>) s3\<rparr>) } })"

definition farm_s_rulerize :: "nat \<Rightarrow> nftenv \<Rightarrow> nftw \<Rightarrow> nftw option" where
  "farm_s_rulerize n env w = foldo (farm_rulerize n env) (map f_id (farms (w_objs w))) w"

section \<open>Addresses and policies\<close>

text \<open>An address that a farm uses is translated with the farm.\<close>

definition address_rulerize :: "nftenv \<Rightarrow> oid \<Rightarrow> nftw \<Rightarrow> nftw" where
  "address_rulerize env aid w =
     (case get_address aid (w_objs w) of
        None \<Rightarrow> w | Some a \<Rightarrow> if a_used a \<noteq> 0 then w else nft_rulerize_address env aid w)"

definition address_s_rulerize :: "nftenv \<Rightarrow> nftw \<Rightarrow> nftw" where
  "address_s_rulerize env w = fold (address_rulerize env) (map a_id (addresses (w_objs w))) w"

definition policy_rulerize :: "nat \<Rightarrow> nftenv \<Rightarrow> oid \<Rightarrow> nftw \<Rightarrow> nftw option" where
  "policy_rulerize n env pid w =
     (case get_policy pid (w_objs w) of
        None \<Rightarrow> Some w
      | Some p \<Rightarrow>
          if p_action p = ACTION_NONE then Some w
          else on_objs (element_s_delete n (net env) pid) (nft_rulerize_policies env pid w))"

definition policy_s_rulerize :: "nat \<Rightarrow> nftenv \<Rightarrow> nftw \<Rightarrow> nftw option" where
  "policy_s_rulerize n env w = foldo (policy_rulerize n env) (map p_id (policies (w_objs w))) w"

section \<open>All objects\<close>

datatype obj_start = OBJ_START | OBJ_START_INV

definition obj_rulerize :: "nat \<Rightarrow> nftenv \<Rightarrow> obj_start \<Rightarrow> nftw \<Rightarrow> nftw option" where
  "obj_rulerize n env mode w =
     (let w0 = upd_objs obj_config_init w
      in if mode = OBJ_START_INV
         then do { w1 \<leftarrow> farm_s_rulerize n env w0; policy_s_rulerize n env (address_s_rulerize env w1) }
         else do { w1 \<leftarrow> policy_s_rulerize n env w0; farm_s_rulerize n env (address_s_rulerize env w1) })"

text \<open>
  \<open>obj_recovery\<close>: all tables are dropped and everything is translated again. A command that fails
  meanwhile finds \<open>cmdtry\<close> set and starts no other recovery. The translation functions report no error,
  so the recovery always takes itself for successful.
\<close>

definition obj_recovery :: "nat \<Rightarrow> nftenv \<Rightarrow> nftw \<Rightarrow> nftw option" where
  "obj_recovery n env w =
     (if w_cmdtry w \<noteq> 0 then Some w
      else
        let env1 = env\<lparr>recovery := \<lambda>w. w\<rparr>
        in do { w1 \<leftarrow> on_objs (policy_s_set_action n (net env) ACTION_START) (nft_reset env1 (w\<lparr>w_cmdtry := 1\<rparr>));
                w2 \<leftarrow> on_objs (farm_s_set_reload_start n (net env)) w1;
                w3 \<leftarrow> obj_rulerize n env1 OBJ_START w2;
                Some (w3\<lparr>w_cmdtry := 0\<rparr>) })"

section \<open>Backends\<close>

definition session_backend_act :: "netenv \<Rightarrow> oid \<Rightarrow> oid \<Rightarrow> action \<Rightarrow> nftw \<Rightarrow> nftw" where
  "session_backend_act env fid bid action = upd_objs (session_backend_action env fid bid action)"

text \<open>\<open>backend_set_action\<close> for all actions but deletion.\<close>

definition backend_start_stop :: "nat \<Rightarrow> netenv \<Rightarrow> oid \<Rightarrow> oid \<Rightarrow> action \<Rightarrow> objs \<Rightarrow> (bool \<times> objs) option" where
  "backend_start_stop n env fid bid action s =
     (case get_farm_bck fid bid s of
        None \<Rightarrow> Some (False, s)
      | Some (f, b) \<Rightarrow>
          let put = upd_farm fid (upd_bck bid (\<lambda>b. b\<lparr>b_action := action\<rparr>));
              on = backend_is_available f b
          in if action = ACTION_STOP
             then do { s1 \<leftarrow> backend_set_state n env fid bid VALUE_STATE_DOWN (if on then put s else s); Some (on, s1) }
             else if action = ACTION_START
             then do { s1 \<leftarrow> backend_set_state n env fid bid VALUE_STATE_UP (if on then s else put s); Some (\<not> on, s1) }
             else if b_action b > action then Some (True, put s)
             else Some (False, s))"

definition backend_delete :: "nat \<Rightarrow> nftenv \<Rightarrow> oid \<Rightarrow> oid \<Rightarrow> nftw \<Rightarrow> nftw option" where
  "backend_delete n env fid bid w =
     do { (_, w1) \<leftarrow> ask_objs (backend_start_stop n (net env) fid bid ACTION_STOP) w;
          let w2 = session_backend_act (net env) fid bid ACTION_STOP w1;
          w3 \<leftarrow> (case get_farm_bck fid bid (w_objs w2) of
                   None \<Rightarrow> Some w2
                 | Some (f, b) \<Rightarrow>
                     if backend_below_prio f b
                     then do { (_, w') \<leftarrow> ask_objs (backend_s_gen_priority n (net env) fid) w2;
                               obj_rulerize n env OBJ_START w' }
                     else Some w2);
          let w4 = upd_objs (upd_farm fid (\<lambda>f. backend_s_set_ports (backend_delete_node bid f)))
                     (session_backend_act (net env) fid bid ACTION_DELETE w3);
          (changed, w5) \<leftarrow> ask_objs (backend_s_gen_priority n (net env) fid) w4;
          if changed
          then do { w6 \<leftarrow> on_objs (farm_act n (net env) fid ACTION_RELOAD) w5;
                    obj_rulerize n env OBJ_START (upd_objs (farmaddress_s_set_action fid ACTION_RELOAD) w6) }
          else Some w5 }"

definition backend_set_action :: "nat \<Rightarrow> nftenv \<Rightarrow> oid \<Rightarrow> oid \<Rightarrow> action \<Rightarrow> nftw \<Rightarrow> (bool \<times> nftw) option" where
  "backend_set_action n env fid bid action w =
     (if action = ACTION_DELETE then map_option (Pair True) (backend_delete n env fid bid w)
      else ask_objs (backend_start_stop n (net env) fid bid action) w)"

definition backend_s_set_action :: "nat \<Rightarrow> nftenv \<Rightarrow> oid \<Rightarrow> action \<Rightarrow> nftw \<Rightarrow> nftw option" where
  "backend_s_set_action n env fid action w =
     foldo (\<lambda>bid w. map_option snd (backend_set_action n env fid bid action w)) (bck_ids fid (w_objs w)) w"

section \<open>A neighbour's link-layer address\<close>

definition set_ether_step :: "nat \<Rightarrow> nftenv \<Rightarrow> oid \<Rightarrow> string \<Rightarrow> string \<Rightarrow> oid \<Rightarrow> bool \<times> nftw \<Rightarrow> (bool \<times> nftw) option" where
  "set_ether_step n env fid ip_bck ether_bck bid r =
     (let w = snd r
      in case get_farm_bck fid bid (w_objs w) of
           None \<Rightarrow> Some r
         | Some (f, b) \<Rightarrow>
             if cstr (b_ipaddr b) \<noteq> ip_bck \<or> b_ethaddr b = Some ether_bck then Some r
             else
               let persist = (f_persistence f \<noteq> VALUE_META_NONE);
                   w1 = only_if persist (upd_objs (session_get_timed (net env) fid)) w;
                   w2 = upd_objs (upd_farm fid (upd_bck bid (\<lambda>b. b\<lparr>b_ethaddr := Some ether_bck\<rparr>))) w1
               in if persist
                  then do { w3 \<leftarrow> on_objs (farm_act n (net env) fid ACTION_RELOAD) (session_backend_act (net env) fid bid ACTION_RELOAD w2);
                            w4 \<leftarrow> obj_rulerize n env OBJ_START w3;
                            Some (True, upd_objs (upd_farm fid (session_s_delete SESSION_TYPE_TIMED)) w4) }
                  else Some (True, w2))"

definition backend_s_set_ether_by_ipaddr ::
  "nat \<Rightarrow> nftenv \<Rightarrow> oid \<Rightarrow> string \<Rightarrow> string \<Rightarrow> nftw \<Rightarrow> (bool \<times> nftw) option" where
  "backend_s_set_ether_by_ipaddr n env fid ip_bck ether_bck w =
     foldo (set_ether_step n env fid ip_bck ether_bck) (bck_ids fid (w_objs w)) (False, w)"

definition farm_set_backend_ether :: "nat \<Rightarrow> nftenv \<Rightarrow> int \<Rightarrow> string \<Rightarrow> string \<Rightarrow> oid \<Rightarrow> nftw \<Rightarrow> nftw option" where
  "farm_set_backend_ether n env interface_idx ip_bck ether_bck fid w =
     (let (valid, s1) = farm_validate fid (w_objs w)
      in if \<not> valid then on_objs (farm_set_state n (net env) fid VALUE_STATE_CONFERR) (w\<lparr>w_objs := s1\<rparr>)
         else do { (changed, w1) \<leftarrow> backend_s_set_ether_by_ipaddr n env fid ip_bck ether_bck (w\<lparr>w_objs := s1\<rparr>);
                   if changed
                   then do { w2 \<leftarrow> on_objs (farm_act n (net env) fid ACTION_RELOAD)
                                (upd_objs (upd_farm fid (\<lambda>f. f\<lparr>f_ofidx := interface_idx\<rparr>)) w1);
                             farm_rulerize n env fid w2 }
                   else Some w1 })"

definition farm_s_set_backend_ether_by_oifidx :: "nat \<Rightarrow> nftenv \<Rightarrow> int \<Rightarrow> string \<Rightarrow> string \<Rightarrow> nftw \<Rightarrow> nftw option" where
  "farm_s_set_backend_ether_by_oifidx n env interface_idx ip_bck ether_bck w =
     foldo (farm_set_backend_ether n env interface_idx ip_bck ether_bck) (map f_id (farms (w_objs w))) w"

section \<open>Farms that can not be translated\<close>

lemma get_farm_output [simp]: "get_farm fid (put_output msg s) = get_farm fid s"
  by (simp add: get_farm_def put_output_def)

lemma none_greatest [simp]: "\<not> ACTION_NONE < a"
  by (cases a) (simp_all add: less_action_def)

lemma farm_act_none [simp]: "farm_act n env fid ACTION_NONE s = Some s"
  by (auto simp: farm_act_def farm_set_action_def set_action_call_def split: option.split)

lemma validate_iface_keeps:
  "get_farm fid s = Some f \<Longrightarrow>
     \<exists>f'. get_farm fid (snd (farmaddress_s_validate_iface fid s)) = Some f' \<and> f_state f' = f_state f \<and> f_action f' = f_action f"
  by (simp add: farmaddress_s_validate_iface_def get_farm_upd)

lemma farm_validate_keeps:
  assumes "get_farm fid s = Some f"
  shows "\<exists>f'. get_farm fid (snd (farm_validate fid s)) = Some f' \<and> f_state f' = f_state f \<and> f_action f' = f_action f"
proof -
  obtain ok1 s1 where v1: "farmaddress_s_validate_iface fid s = (ok1, s1)" by force
  obtain ok2 s2 where v2: "farmaddress_s_validate_iface fid s1 = (ok2, s2)" by force
  show ?thesis
    using assms validate_iface_keeps [OF assms] validate_iface_keeps [of fid s1]
    by (fastforce simp: farm_validate_def v1 v2 split: prod.splits)
qed

text \<open>
  (C11) A farm that does not validate is not translated: when a farm that is up and to be started or
  reloaded fails its validation, no command is sent and no rule recorded, the farm is left in the
  configuration error with nothing pending, and translating it again does nothing.
\<close>

theorem invalid_farm_not_translated:
  assumes f: "get_farm fid (w_objs w) = Some f" "f_state f = VALUE_STATE_UP" "f_action f = ACTION_START \<or> f_action f = ACTION_RELOAD"
    and bad: "\<not> fst (farm_validate fid (w_objs w))"
  shows "\<exists>s f'. farm_rulerize n env fid w = Some (w\<lparr>w_objs := s\<rparr>) \<and> get_farm fid s = Some f' \<and>
                f_state f' = VALUE_STATE_CONFERR \<and> f_action f' = ACTION_NONE \<and>
                farm_rulerize n env fid (w\<lparr>w_objs := s\<rparr>) = Some (w\<lparr>w_objs := s\<rparr>)"
proof -
  obtain s1 where v: "farm_validate fid (w_objs w) = (False, s1)" using bad by (cases "farm_validate fid (w_objs w)") auto
  obtain f1 where f1: "get_farm fid s1 = Some f1" "f_state f1 = VALUE_STATE_UP"
    using farm_validate_keeps [OF f(1)] v f(2) by auto
  let ?s = "upd_farm fid (\<lambda>f. f\<lparr>f_action := ACTION_NONE\<rparr>) (upd_farm fid (\<lambda>f. f\<lparr>f_state := VALUE_STATE_CONFERR\<rparr>) s1)"
  have "farm_revalidate n (net env) fid (w_objs w) = Some (w_objs w)"
    using f by (simp add: farm_revalidate_def)
  moreover have "farm_ready fid (w_objs w) = (False, s1)"
    using f v by (auto simp: farm_ready_def farm_is_available_def)
  moreover have "farm_set_state n (net env) fid VALUE_STATE_CONFERR s1 = Some (upd_farm fid (\<lambda>f. f\<lparr>f_state := VALUE_STATE_CONFERR\<rparr>) s1)"
    using f1 by (simp add: farm_set_state_def)
  ultimately have r: "farm_rulerize n env fid w = Some (w\<lparr>w_objs := ?s\<rparr>)"
    using f f1 by (auto simp: farm_rulerize_def)
  have g: "get_farm fid ?s = Some (f1\<lparr>f_state := VALUE_STATE_CONFERR, f_action := ACTION_NONE\<rparr>)"
    using f1 by (simp add: get_farm_upd)
  moreover have "farm_rulerize n env fid (w\<lparr>w_objs := ?s\<rparr>) = Some (w\<lparr>w_objs := ?s\<rparr>)"
    using g by (simp add: farm_rulerize_def)
  ultimately show ?thesis using r by auto
qed

text \<open>An ingress farm without an address.\<close>

definition bad_farm :: nftw where
  "bad_farm = no_services\<lparr>w_objs := objects_init\<lparr>farms := [(new_farm 0 ''lb'')\<lparr>f_mode := VALUE_MODE_DSR\<rparr>]\<rparr>\<rparr>"

theorem invalid_farm_not_translated_witness:
  "\<exists>s f'. farm_rulerize 5 idle_env 0 bad_farm = Some (bad_farm\<lparr>w_objs := s\<rparr>) \<and> get_farm 0 s = Some f' \<and>
     f_state f' = VALUE_STATE_CONFERR \<and> f_action f' = ACTION_NONE \<and>
     farm_rulerize 5 idle_env 0 (bad_farm\<lparr>w_objs := s\<rparr>) = Some (bad_farm\<lparr>w_objs := s\<rparr>)"
  by (rule invalid_farm_not_translated [where f = "(new_farm 0 ''lb'')\<lparr>f_mode := VALUE_MODE_DSR\<rparr>"])
    (simp_all add: bad_farm_def no_services_def objects_init_def new_farm_def get_farm_def farm_validate_def
      farm_validate_helper_protocol_def farmaddress_s_validate_iface_def farm_is_ingress_mode_def farm_needs_policies_def)

end
