(* ===== verification/FarmAttr.thy ===== *)
theory FarmAttr
  imports Rulerize Ports
begin

unbundle bit_operations_syntax

text \<open>
  The attributes of farms and addresses (farms.c, addresses.c, farmaddress.c): whether a new value is a
  change, what is stopped before it, the setters, and what is started after it. The handlers work on the
  current objects of the parser and return the code the C function returns; they are \<open>None\<close> where the
  fuel of the life cycle runs out or a port list is written outside its bounds.
\<close>

section \<open>Current objects\<close>

text \<open>The setters of \<open>current_obj\<close>; its getters are the fields themselves.\<close>

definition obj_set_current_farm :: "oid option \<Rightarrow> objs \<Rightarrow> objs" where
  [simp]: "obj_set_current_farm f s = s\<lparr>cur_farm := f\<rparr>"

definition obj_set_current_backend :: "oid option \<Rightarrow> objs \<Rightarrow> objs" where
  [simp]: "obj_set_current_backend b s = s\<lparr>cur_backend := b\<rparr>"

definition obj_set_current_policy :: "oid option \<Rightarrow> objs \<Rightarrow> objs" where
  [simp]: "obj_set_current_policy p s = s\<lparr>cur_policy := p\<rparr>"

definition obj_set_current_farmpolicy :: "oid option \<Rightarrow> objs \<Rightarrow> objs" where
  [simp]: "obj_set_current_farmpolicy fp s = s\<lparr>cur_farmpolicy := fp\<rparr>"

definition obj_set_current_element :: "oid option \<Rightarrow> objs \<Rightarrow> objs" where
  [simp]: "obj_set_current_element e s = s\<lparr>cur_element := e\<rparr>"

definition obj_set_current_session :: "oid option \<Rightarrow> objs \<Rightarrow> objs" where
  [simp]: "obj_set_current_session se s = s\<lparr>cur_session := se\<rparr>"

definition obj_set_current_address :: "oid option \<Rightarrow> objs \<Rightarrow> objs" where
  [simp]: "obj_set_current_address a s = s\<lparr>cur_address := a\<rparr>"

definition obj_set_current_farmaddress :: "oid option \<Rightarrow> objs \<Rightarrow> objs" where
  [simp]: "obj_set_current_farmaddress fa s = s\<lparr>cur_farmaddress := fa\<rparr>"

definition obj_set_current_addresspolicy :: "oid option \<Rightarrow> objs \<Rightarrow> objs" where
  [simp]: "obj_set_current_addresspolicy ap s = s\<lparr>cur_addresspolicy := ap\<rparr>"

section \<open>Values and results\<close>

fun parser_code :: "parser_output \<Rightarrow> int" where
  "parser_code PARSER_OK = 0"
| "parser_code PARSER_FAILED = 1"
| "parser_code PARSER_IGNORE = 2"
| "parser_code PARSER_STRUCT_FAILED = 3"
| "parser_code PARSER_VALID_FAILED = 4"
| "parser_code PARSER_IDEM_VALUE = 5"
| "parser_code PARSER_OBJ_UNKNOWN = 6"

text \<open>The text of the pair; the code never passes a pair without one to a key that needs it.\<close>

definition c_str :: "config_pair \<Rightarrow> string" where
  "c_str c = (case c_str_value c of None \<Rightarrow> [] | Some t \<Rightarrow> t)"

definition equ_str :: "cptr \<Rightarrow> config_pair \<Rightarrow> bool" where
  "equ_str p c = obj_equ_attribute_string p (c_str c)"

definition obj_equ_attribute_int :: "cint \<Rightarrow> cint \<Rightarrow> bool" where
  "obj_equ_attribute_int a b = (cint_code a = cint_code b)"

definition equ_int :: "cint \<Rightarrow> config_pair \<Rightarrow> bool" where
  "equ_int v c = obj_equ_attribute_int v (c_int_value c)"

text \<open>
  The value of a pair at the type of the attribute: \<open>config_value\<close> has stored it there with the
  constructor of the key, and the second argument is what the attribute keeps otherwise.
\<close>

fun as_int :: "cint \<Rightarrow> int \<Rightarrow> int" where "as_int (CInt i) _ = i" | "as_int _ d = d"
fun as_flags :: "cint \<Rightarrow> flags \<Rightarrow> flags" where "as_flags (CFlags v) _ = v" | "as_flags _ d = d"
fun as_family :: "cint \<Rightarrow> family \<Rightarrow> family" where "as_family (CFamily v) _ = v" | "as_family _ d = d"
fun as_mode :: "cint \<Rightarrow> mode \<Rightarrow> mode" where "as_mode (CMode v) _ = v" | "as_mode _ d = d"
fun as_proto :: "cint \<Rightarrow> proto \<Rightarrow> proto" where "as_proto (CProto v) _ = v" | "as_proto _ d = d"
fun as_sched :: "cint \<Rightarrow> sched \<Rightarrow> sched" where "as_sched (CSched v) _ = v" | "as_sched _ d = d"
fun as_helper :: "cint \<Rightarrow> helper \<Rightarrow> helper" where "as_helper (CHelper v) _ = v" | "as_helper _ d = d"
fun as_state :: "cint \<Rightarrow> ostate \<Rightarrow> ostate" where "as_state (CState v) _ = v" | "as_state _ d = d"
fun as_action :: "cint \<Rightarrow> action \<Rightarrow> action" where "as_action (CAction v) _ = v" | "as_action _ d = d"
fun as_switch :: "cint \<Rightarrow> switch \<Rightarrow> switch" where "as_switch (CSwitch v) _ = v" | "as_switch _ d = d"
fun as_type :: "cint \<Rightarrow> ptype \<Rightarrow> ptype" where "as_type (CType v) _ = v" | "as_type _ d = d"
fun as_route :: "cint \<Rightarrow> route \<Rightarrow> route" where "as_route (CRoute v) _ = v" | "as_route _ d = d"

section \<open>Current objects\<close>

definition cur_farm_obj :: "objs \<Rightarrow> farm option" where
  "cur_farm_obj s = Option.bind (cur_farm s) (\<lambda>i. get_farm i s)"

definition cur_address_obj :: "objs \<Rightarrow> address option" where
  "cur_address_obj s = Option.bind (cur_address s) (\<lambda>i. get_address i s)"

text \<open>The farm address the parser works on, or the farm's first one.\<close>

definition cur_farm_address :: "farm \<Rightarrow> objs \<Rightarrow> address option" where
  "cur_farm_address f s =
     (let fa = (case Option.bind (cur_farmaddress s) (\<lambda>i. kfind fa_id i (f_addresses f)) of
                  Some fa \<Rightarrow> Some fa | None \<Rightarrow> farmaddress_get_first f)
      in Option.bind fa (\<lambda>fa. get_address (fa_address fa) s))"

section \<open>Addresses\<close>

definition address_set_iface_info :: "netenv \<Rightarrow> address \<Rightarrow> address" where
  "address_set_iface_info env a =
     (if a_iface a = Some IFACE_LOOPBACK then a\<lparr>a_ifidx := 0\<rparr>
      else case net_get_local_ifname_per_vip env (a_ipaddr a) of
             None \<Rightarrow> a
           | Some if_str \<Rightarrow>
               let iface = net_strim_netface if_str; a1 = a\<lparr>a_iface := Some iface\<rparr>; if_index = if_nametoindex env iface
               in if if_index = 0 then a1
                  else a1\<lparr>a_ifidx := if_index, a_iethaddr := Some (net_get_local_ifinfo env iface)\<rparr>)"

text \<open>The farms on the address that do not know their output interface yet take the one of the address.\<close>

definition farm_s_set_oface_info :: "oid \<Rightarrow> objs \<Rightarrow> objs" where
  "farm_s_set_oface_info aid s =
     (case get_address aid s of
        None \<Rightarrow> s
      | Some a \<Rightarrow>
          if a_iface a = None then s
          else s\<lparr>farms := map (\<lambda>f.
                 if f_ofidx f \<noteq> DEFAULT_IFIDX \<or> farmaddress_lookup_by_name f (a_name a) s = None then f
                 else f\<lparr>f_oface := a_iface a,
                        f_oethaddr := (case a_iethaddr a of None \<Rightarrow> f_oethaddr f | e \<Rightarrow> e),
                        f_ofidx := a_ifidx a\<rparr>) (farms s)\<rparr>)"

definition address_set_netinfo :: "netenv \<Rightarrow> oid \<Rightarrow> objs \<Rightarrow> objs" where
  "address_set_netinfo env aid s = farm_s_set_oface_info aid (upd_address aid (address_set_iface_info env) s)"

definition address_set_protocol :: "proto \<Rightarrow> address \<Rightarrow> address" where
  "address_set_protocol new_value a = a\<lparr>a_protocol := new_value\<rparr>"

definition address_set_verdict :: "flags \<Rightarrow> address \<Rightarrow> bool \<times> address" where
  "address_set_verdict new_value a =
     (if new_value = VALUE_VERDICT_NONE then (True, a) else (False, a\<lparr>a_verdict := new_value\<rparr>))"

definition address_changed :: "config_pair \<Rightarrow> objs \<Rightarrow> bool" where
  "address_changed c s =
     (case cur_address_obj s of
        None \<Rightarrow> True
      | Some a \<Rightarrow>
          let k = c_key c
          in if k = Some KEY_NAME then True
             else if k = Some KEY_FQDN then \<not> equ_str (Some (a_fqdn a)) c
             else if k = Some KEY_IFACE then \<not> equ_str (a_iface a) c
             else if k = Some KEY_IETHADDR then \<not> equ_str (a_iethaddr a) c
             else if k = Some KEY_FAMILY then \<not> equ_int (CFamily (a_family a)) c
             else if k = Some KEY_IPADDR then \<not> equ_str (Some (a_ipaddr a)) c
             else if k = Some KEY_PORTS then \<not> equ_str (Some (a_ports a)) c
             else if k = Some KEY_PROTO then \<not> equ_int (CProto (a_protocol a)) c
             else if k = Some KEY_VERDICT then \<not> equ_int (CFlags (a_verdict a)) c
             else if k = Some KEY_LOGPREFIX then \<not> equ_str (Some (a_logprefix a)) c
             else if k = Some KEY_ACTION then \<not> equ_int (CAction (a_action a)) c
             else False)"

text \<open>
  \<open>address_set_action\<close> returns 1 when it acts, which the caller hands on as \<open>PARSER_FAILED\<close>.
\<close>

definition address_set_attribute :: "netenv \<Rightarrow> config_pair \<Rightarrow> objs \<Rightarrow> (int \<times> objs) option" where
  "address_set_attribute env c s =
     (let k = c_key c; v = c_int_value c; t = c_str c; ok = (\<lambda>s. Some (parser_code PARSER_OK, s))
      in if k = Some KEY_NAME then
           (case address_lookup_by_name t s of
              Some a \<Rightarrow> ok (obj_set_current_address (Some (a_id a)) s)
            | None \<Rightarrow> (let (aid, s1) = address_create t s in ok (obj_set_current_address (Some aid) s1)))
         else case cur_address_obj s of
           None \<Rightarrow> Some (parser_code PARSER_OBJ_UNKNOWN, s)
         | Some a \<Rightarrow>
             let aid = a_id a; upd = (\<lambda>g. upd_address aid g s)
             in if k = Some KEY_FQDN then ok (upd (\<lambda>a. a\<lparr>a_fqdn := t\<rparr>))
                else if k = Some KEY_IFACE then ok (upd (\<lambda>a. a\<lparr>a_iface := Some (net_strim_netface t)\<rparr>))
                else if k = Some KEY_FAMILY then ok (upd (\<lambda>a. a\<lparr>a_family := as_family v (a_family a)\<rparr>))
                else if k = Some KEY_ETHADDR then ok (upd (\<lambda>a. a\<lparr>a_iethaddr := Some t\<rparr>))
                else if k = Some KEY_IETHADDR then ok (address_set_netinfo env aid (upd (\<lambda>a. a\<lparr>a_iethaddr := Some t\<rparr>)))
                else if k = Some KEY_IPADDR then ok (address_set_netinfo env aid (upd (\<lambda>a. a\<lparr>a_ipaddr := t\<rparr>)))
                else if k = Some KEY_PORTS then
                  map_option (\<lambda>a'. (parser_code PARSER_OK, upd (\<lambda>_. a'))) (address_set_ports a t)
                else if k = Some KEY_PROTO then ok (upd (\<lambda>a. address_set_protocol (as_proto v (a_protocol a)) a))
                else if k = Some KEY_VERDICT then
                  (let (failed, a') = address_set_verdict (as_flags v (a_verdict a)) a
                   in if failed then Some (parser_code PARSER_FAILED, s) else ok (upd (\<lambda>_. a')))
                else if k = Some KEY_LOGPREFIX then ok (upd (\<lambda>a. a\<lparr>a_logprefix := t\<rparr>))
                else if k = Some KEY_ACTION then
                  (let (acted, s1) = address_set_action aid (as_action v (a_action a)) s in Some (of_bool acted, s1))
                else if k = Some KEY_USED then ok s
                else Some (parser_code PARSER_STRUCT_FAILED, s))"

definition address_pre_actionable :: "objs \<Rightarrow> int" where
  "address_pre_actionable s = (if cur_address_obj s = None then -1 else int (action_code ACTION_START))"

definition address_pos_actionable :: "objs \<Rightarrow> int" where
  "address_pos_actionable s = (if cur_address_obj s = None then -1 else 0)"

section \<open>The default address of a farm\<close>

text \<open>\<open>None\<close> when no name is free, which can not be.\<close>

definition farmaddress_create_default :: "objs \<Rightarrow> objs option" where
  "farmaddress_create_default s =
     (case cur_farm_obj s of
        None \<Rightarrow> Some s
      | Some f \<Rightarrow>
          (case farmaddress_get_first f of
             Some fa \<Rightarrow> Some (obj_set_current_farmaddress (Some (fa_id fa)) s)
           | None \<Rightarrow>
               (case farmaddress_set_default_addr_name (f_name f) s of
                  None \<Rightarrow> None
                | Some fa_name \<Rightarrow>
                    let (aid, s1) = address_create fa_name s;
                        (faid, s2) = farmaddress_create (f_id f) aid (obj_set_current_address (Some aid) s1)
                    in Some (obj_set_current_farmaddress (Some faid) s2))))"

text \<open>A farm that is renamed takes its default address along.\<close>

definition farmaddress_rename_default :: "config_pair \<Rightarrow> objs \<Rightarrow> objs option" where
  "farmaddress_rename_default c s =
     (case Option.bind (Option.bind (cur_farm_obj s) farmaddress_get_first) (\<lambda>fa. get_address (fa_address fa) s) of
        None \<Rightarrow> Some s
      | Some a \<Rightarrow>
          if \<not> has_substr (a_name a) ''-addr'' then Some s
          else map_option (\<lambda>fa_name. upd_address (a_id a) (\<lambda>a. a\<lparr>a_name := fa_name\<rparr>) s)
                 (farmaddress_set_default_addr_name (c_str c) s))"

definition farmaddress_s_validate_helper :: "farm \<Rightarrow> helper \<Rightarrow> objs \<Rightarrow> parser_output" where
  "farmaddress_s_validate_helper f new_value s =
     (if new_value = VALUE_HELPER_NONE \<or>
         list_all (\<lambda>fa. case get_address (fa_address fa) s of
             None \<Rightarrow> True
           | Some a \<Rightarrow>
               \<not> ((new_value = VALUE_HELPER_FTP \<or> new_value = VALUE_HELPER_PPTP) \<and> a_protocol a \<noteq> VALUE_PROTO_TCP \<or>
                  (new_value = VALUE_HELPER_TFTP \<or> new_value = VALUE_HELPER_SNMP) \<and> a_protocol a \<noteq> VALUE_PROTO_UDP \<or>
                  new_value = VALUE_HELPER_SIP \<and> a_protocol a = VALUE_PROTO_SCTP)) (f_addresses f)
      then PARSER_OK else PARSER_VALID_FAILED)"

definition farmaddress_set_attribute :: "netenv \<Rightarrow> config_pair \<Rightarrow> objs \<Rightarrow> (int \<times> objs) option" where
  "farmaddress_set_attribute env c s =
     (case cur_farm_obj s of
        None \<Rightarrow> Some (parser_code PARSER_OBJ_UNKNOWN, s)
      | Some f \<Rightarrow>
          if c_key c = Some KEY_NAME then
            let (aid, s1) = (case address_lookup_by_name (c_str c) s of
                               Some a \<Rightarrow> (a_id a, s) | None \<Rightarrow> address_create (c_str c) s);
                s2 = obj_set_current_address (Some aid) s1
            in case farmaddress_lookup_by_name f (c_str c) s2 of
                 Some _ \<Rightarrow> Some (0, s2)
               | None \<Rightarrow>
                   (let (faid, s3) = farmaddress_create (f_id f) aid s2
                    in Some (parser_code PARSER_OK, obj_set_current_farmaddress (Some faid) s3))
          else address_set_attribute env c s)"

text \<open>
  The result of \<open>farm_set_action\<close> is used as the action; without a current farm it is -1.
\<close>

definition farmaddress_pre_actionable :: "nat \<Rightarrow> netenv \<Rightarrow> objs \<Rightarrow> (int \<times> objs) option" where
  "farmaddress_pre_actionable n env s =
     (case cur_farm_obj s of
        None \<Rightarrow> Some (-1, s)
      | Some f \<Rightarrow> map_option (map_prod of_bool id) (farm_set_action n env (f_id f) ACTION_RELOAD s))"

definition farmaddress_pos_actionable :: "nat \<Rightarrow> netenv \<Rightarrow> objs \<Rightarrow> objs option" where
  "farmaddress_pos_actionable n env s =
     (case cur_farm_obj s of
        None \<Rightarrow> Some s
      | Some f \<Rightarrow> if cur_farmaddress s = None then Some s else farm_act n env (f_id f) ACTION_RELOAD s)"

section \<open>Setters of a farm\<close>

definition farm_set_mark :: "netenv \<Rightarrow> flags \<Rightarrow> farm \<Rightarrow> farm" where
  "farm_set_mark env new_value f =
     (if f_mode f \<noteq> VALUE_MODE_DNAT \<and> f_mode f \<noteq> VALUE_MODE_SNAT \<and> f_mode f \<noteq> VALUE_MODE_LOCAL then f
      else if flag new_value (masquerade_mark env) then f
      else f\<lparr>f_mark := new_value\<rparr>)"

definition farm_set_mode :: "nat \<Rightarrow> netenv \<Rightarrow> oid \<Rightarrow> mode \<Rightarrow> objs \<Rightarrow> objs option" where
  "farm_set_mode n env fid new_value s =
     (if map_option f_mode (get_farm fid s) = Some new_value then Some s
      else do { s1 \<leftarrow> farm_set_netinfo n env fid (upd_farm fid (\<lambda>f. f\<lparr>f_mode := new_value\<rparr>) s);
                backend_s_validate n env fid s1 })"

definition farm_set_sched :: "sched \<Rightarrow> farm \<Rightarrow> farm" where
  "farm_set_sched new_value f =
     f\<lparr>f_scheduler := new_value,
       f_schedparam := (if new_value \<noteq> VALUE_SCHED_HASH then VALUE_META_NONE
                        else if f_schedparam f = VALUE_META_NONE then VALUE_META_SRCIP else f_schedparam f)\<rparr>"

definition farm_set_persistence :: "flags \<Rightarrow> farm \<Rightarrow> farm" where
  "farm_set_persistence new_value f = (session_s_delete SESSION_TYPE_STATIC f)\<lparr>f_persistence := new_value\<rparr>"

text \<open>True when the value is refused.\<close>

definition farm_set_verdict :: "oid \<Rightarrow> flags \<Rightarrow> objs \<Rightarrow> bool \<times> objs" where
  "farm_set_verdict fid new_value s =
     (if new_value = VALUE_VERDICT_NONE then (True, s)
      else (False, farmaddress_s_set_action fid ACTION_RELOAD
                     (farmpolicy_s_set_action fid ACTION_RELOAD (upd_farm fid (\<lambda>f. f\<lparr>f_verdict := new_value\<rparr>) s))))"

definition farm_set_limitsttl :: "int \<Rightarrow> farm \<Rightarrow> farm" where
  "farm_set_limitsttl new_value f = f\<lparr>f_limitsttl := new_value\<rparr>"

text \<open>What a change of a limit leaves to be reloaded; ingress farms have no limits.\<close>

definition rld_flag :: "bool \<Rightarrow> flags \<Rightarrow> flags \<Rightarrow> farm \<Rightarrow> farm" where
  "rld_flag off stop start f =
     (if f_mode f = VALUE_MODE_DSR \<or> f_mode f = VALUE_MODE_STLSDNAT then f
      else f\<lparr>f_reload_action := f_reload_action f OR (if off then stop else start)\<rparr>)"

definition farm_set_newrtlimit :: "int \<Rightarrow> int \<Rightarrow> farm \<Rightarrow> farm" where
  "farm_set_newrtlimit new_value new_unit f =
     (if f_newrtlimit f = new_value \<and> f_newrtlimit_unit f = new_unit then f
      else rld_flag (new_value = 0) VALUE_RLD_NEWRTLIMIT_STOP VALUE_RLD_NEWRTLIMIT_START
             (f\<lparr>f_newrtlimit := new_value, f_newrtlimit_unit := new_unit\<rparr>))"

text \<open>A change of the unit alone is not taken over.\<close>

definition farm_set_rstrtlimit :: "int \<Rightarrow> int \<Rightarrow> farm \<Rightarrow> farm" where
  "farm_set_rstrtlimit new_value new_unit f =
     (if f_rstrtlimit f = new_value then f
      else rld_flag (new_value = 0) VALUE_RLD_RSTRTLIMIT_STOP VALUE_RLD_RSTRTLIMIT_START
             (f\<lparr>f_rstrtlimit := new_value, f_rstrtlimit_unit := new_unit\<rparr>))"

definition farm_set_estconnlimit :: "int \<Rightarrow> farm \<Rightarrow> farm" where
  "farm_set_estconnlimit new_value f =
     (if f_estconnlimit f = new_value then f
      else rld_flag (new_value = 0) VALUE_RLD_ESTCONNLIMIT_STOP VALUE_RLD_ESTCONNLIMIT_START (f\<lparr>f_estconnlimit := new_value\<rparr>))"

definition farm_set_tcpstrict :: "switch \<Rightarrow> farm \<Rightarrow> farm" where
  "farm_set_tcpstrict new_value f =
     rld_flag (new_value = VALUE_SWITCH_OFF) VALUE_RLD_TCPSTRICT_STOP VALUE_RLD_TCPSTRICT_START (f\<lparr>f_tcpstrict := new_value\<rparr>)"

definition farm_set_queue :: "int \<Rightarrow> farm \<Rightarrow> farm" where
  "farm_set_queue new_value f = rld_flag (new_value = -1) VALUE_RLD_QUEUE_STOP VALUE_RLD_QUEUE_START (f\<lparr>f_queue := new_value\<rparr>)"

definition farm_set_helper :: "oid \<Rightarrow> helper \<Rightarrow> objs \<Rightarrow> parser_output \<times> objs" where
  "farm_set_helper fid new_value s =
     (case get_farm fid s of
        None \<Rightarrow> (PARSER_OK, s)
      | Some f \<Rightarrow>
          if farmaddress_s_validate_helper f new_value s \<noteq> PARSER_OK then (PARSER_VALID_FAILED, s)
          else (PARSER_OK, upd_farm fid (\<lambda>f. f\<lparr>f_helper := new_value\<rparr>) s))"

definition farm_set_priority :: "int \<Rightarrow> farm \<Rightarrow> farm" where
  "farm_set_priority new_value f = (if new_value \<le> 0 then f else f\<lparr>f_priority := new_value\<rparr>)"

section \<open>Changes of a farm\<close>

text \<open>The keys that are attributes of the farm's address.\<close>

definition farm_address_equal :: "address \<Rightarrow> config_pair \<Rightarrow> bool option" where
  "farm_address_equal a c =
     (let k = c_key c
      in if k = Some KEY_IETHADDR then Some (equ_str (a_iethaddr a) c)
         else if k = Some KEY_IFACE then Some (equ_str (a_iface a) c)
         else if k = Some KEY_VIRTADDR then Some (equ_str (Some (a_ipaddr a)) c)
         else if k = Some KEY_FAMILY then Some (equ_int (CFamily (a_family a)) c)
         else if k = Some KEY_VIRTPORTS then Some (equ_str (Some (a_ports a)) c)
         else if k = Some KEY_PROTO then Some (equ_int (CProto (a_protocol a)) c)
         else None)"

definition farm_string_equal :: "farm \<Rightarrow> config_pair \<Rightarrow> bool option" where
  "farm_string_equal f c =
     (let k = c_key c
      in if k = Some KEY_NEWNAME then Some (equ_str (Some (f_name f)) c)
         else if k = Some KEY_FQDN then Some (equ_str (Some (f_fqdn f)) c)
         else if k = Some KEY_OETHADDR then Some (equ_str (f_oethaddr f) c)
         else if k = Some KEY_OFACE then Some (equ_str (f_oface f) c)
         else if k = Some KEY_SRCADDR then Some (equ_str (f_srcaddr f) c)
         else if k = Some KEY_LOGPREFIX then Some (equ_str (Some (f_logprefix f)) c)
         else if k = Some KEY_NEWRTLIMIT_LOGPREFIX then Some (equ_str (Some (f_newrtlimit_logprefix f)) c)
         else if k = Some KEY_RSTRTLIMIT_LOGPREFIX then Some (equ_str (Some (f_rstrtlimit_logprefix f)) c)
         else if k = Some KEY_ESTCONNLIMIT_LOGPREFIX then Some (equ_str (Some (f_estconnlimit_logprefix f)) c)
         else if k = Some KEY_TCPSTRICT_LOGPREFIX then Some (equ_str (Some (f_tcpstrict_logprefix f)) c)
         else None)"

definition farm_int_equal :: "farm \<Rightarrow> config_pair \<Rightarrow> bool option" where
  "farm_int_equal f c =
     (let k = c_key c; rate = (\<lambda>l u. equ_int (CInt l) c \<and> u = c_int_value2 c)
      in if k = Some KEY_MODE then Some (equ_int (CMode (f_mode f)) c)
         else if k = Some KEY_RESPONSETTL then Some (equ_int (CInt (f_responsettl f)) c)
         else if k = Some KEY_SCHED then Some (equ_int (CSched (f_scheduler f)) c)
         else if k = Some KEY_SCHEDPARAM then Some (equ_int (CFlags (f_schedparam f)) c)
         else if k = Some KEY_PERSISTENCE then Some (equ_int (CFlags (f_persistence f)) c)
         else if k = Some KEY_PERSISTTM then Some (equ_int (CInt (f_persistttl f)) c)
         else if k = Some KEY_HELPER then Some (equ_int (CHelper (f_helper f)) c)
         else if k = Some KEY_LOG then Some (equ_int (CFlags (f_log f)) c)
         else if k = Some KEY_LOG_RTLIMIT then Some (rate (f_logrtlimit f) (f_logrtlimit_unit f))
         else if k = Some KEY_MARK then Some (equ_int (CFlags (f_mark f)) c)
         else if k = Some KEY_STATE then Some (equ_int (CState (f_state f)) c)
         else if k = Some KEY_ACTION then Some (equ_int (CAction (f_action f)) c)
         else if k = Some KEY_LIMITSTTL then Some (equ_int (CInt (f_limitsttl f)) c)
         else if k = Some KEY_NEWRTLIMIT then Some (rate (f_newrtlimit f) (f_newrtlimit_unit f))
         else if k = Some KEY_NEWRTLIMITBURST then Some (equ_int (CInt (f_newrtlimitbst f)) c)
         else if k = Some KEY_RSTRTLIMIT then Some (rate (f_rstrtlimit f) (f_rstrtlimit_unit f))
         else if k = Some KEY_RSTRTLIMITBURST then Some (equ_int (CInt (f_rstrtlimitbst f)) c)
         else if k = Some KEY_ESTCONNLIMIT then Some (equ_int (CInt (f_estconnlimit f)) c)
         else if k = Some KEY_TCPSTRICT then Some (equ_int (CSwitch (f_tcpstrict f)) c)
         else if k = Some KEY_QUEUE then Some (equ_int (CInt (f_queue f)) c)
         else if k = Some KEY_VERDICT then Some (equ_int (CFlags (f_verdict f)) c)
         else if k = Some KEY_FLOWOFFLOAD then Some (equ_int (CSwitch (f_flow_offload f)) c)
         else if k = Some KEY_INTRACONNECT then Some (equ_int (CSwitch (f_intra_connect f)) c)
         else None)"

text \<open>
  Without a current farm the result -1 counts as a change; without an address, so does every attribute
  of the address. A key that is in none of the lists is no change.
\<close>

definition address_keys :: "key list" where
  "address_keys = [KEY_IETHADDR, KEY_IFACE, KEY_VIRTADDR, KEY_FAMILY, KEY_VIRTPORTS, KEY_PROTO]"

definition farm_changed :: "config_pair \<Rightarrow> objs \<Rightarrow> bool" where
  "farm_changed c s =
     (case cur_farm_obj s of
        None \<Rightarrow> True
      | Some f \<Rightarrow>
          if key_in (c_key c) [KEY_NAME, KEY_ETHADDR] then True
          else if key_in (c_key c) address_keys
          then (case cur_farm_address f s of None \<Rightarrow> True | Some a \<Rightarrow> farm_address_equal a c \<noteq> Some True)
          else (case farm_string_equal f c of
                  Some e \<Rightarrow> \<not> e
                | None \<Rightarrow> (case farm_int_equal f c of Some e \<Rightarrow> \<not> e | None \<Rightarrow> False)))"

text \<open>Limits do not restart an ingress farm.\<close>

definition farm_actionable :: "config_pair \<Rightarrow> objs \<Rightarrow> bool" where
  "farm_actionable c s =
     (case cur_farm_obj s of
        None \<Rightarrow> True
      | Some f \<Rightarrow>
          \<not> (key_in (c_key c) [KEY_NEWRTLIMIT, KEY_NEWRTLIMITBURST, KEY_RSTRTLIMIT, KEY_RSTRTLIMITBURST, KEY_ESTCONNLIMIT,
                KEY_TCPSTRICT, KEY_QUEUE, KEY_FLOWOFFLOAD, KEY_NEWRTLIMIT_LOGPREFIX, KEY_RSTRTLIMIT_LOGPREFIX,
                KEY_ESTCONNLIMIT_LOGPREFIX, KEY_TCPSTRICT_LOGPREFIX] \<and> farm_is_ingress_mode f))"

text \<open>The attributes that need the farm stopped while they change.\<close>

definition restart_keys :: "key list" where
  "restart_keys = [KEY_NEWNAME, KEY_FAMILY, KEY_VIRTADDR, KEY_VIRTPORTS, KEY_SRCADDR, KEY_MODE, KEY_RESPONSETTL, KEY_PROTO,
     KEY_PERSISTENCE, KEY_PERSISTTM, KEY_FLOWOFFLOAD, KEY_LOG, KEY_HELPER, KEY_INTRACONNECT, KEY_LIMITSTTL]"

definition farm_pre_actionable :: "nat \<Rightarrow> nftenv \<Rightarrow> config_pair \<Rightarrow> nftw \<Rightarrow> nftw option" where
  "farm_pre_actionable n env c w =
     (case cur_farm_obj (w_objs w) of
        None \<Rightarrow> Some w
      | Some f \<Rightarrow>
          if key_in (c_key c) restart_keys
          then do { (acted, w1) \<leftarrow> ask_objs (farm_set_action n (net env) (f_id f) ACTION_STOP) w;
                    if acted then farm_rulerize n env (f_id f) w1 else Some w1 }
          else Some w)"

definition farm_pos_actionable :: "nat \<Rightarrow> netenv \<Rightarrow> config_pair \<Rightarrow> objs \<Rightarrow> objs option" where
  "farm_pos_actionable n env c s =
     (case cur_farm_obj s of
        None \<Rightarrow> Some s
      | Some f \<Rightarrow>
          if c_key c = Some KEY_NAME \<or> c_key c = Some KEY_STATE then Some s
          else if key_in (c_key c) restart_keys then farm_act n env (f_id f) ACTION_START s
          else farm_act n env (f_id f) ACTION_RELOAD s)"

section \<open>Attributes of a farm\<close>

text \<open>
  The setters are grouped by what they touch: the address of the farm, texts of the farm, and its
  numbers. Each group returns \<open>None\<close> for a key that is not in it.
\<close>

definition farm_set_address_attribute :: "netenv \<Rightarrow> config_pair \<Rightarrow> oid \<Rightarrow> objs \<Rightarrow> (int \<times> objs) option" where
  "farm_set_address_attribute env c fid s0 =
     do { s \<leftarrow> farmaddress_create_default s0;
          let k = c_key c; let v = c_int_value c; let t = c_str c;
          (case Option.bind (cur_farmaddress s)
                  (\<lambda>i. Option.bind (get_farm fid s) (\<lambda>f. Option.bind (kfind fa_id i (f_addresses f)) (\<lambda>fa. get_address (fa_address fa) s))) of
             None \<Rightarrow> Some (parser_code PARSER_OK, s)
           | Some a \<Rightarrow>
               let aid = a_id a; upd = (\<lambda>g. upd_address aid g s); ok = (\<lambda>s. Some (parser_code PARSER_OK, s))
               in if k = Some KEY_IFACE
                  then ok (address_set_netinfo env aid (upd (\<lambda>a. a\<lparr>a_iface := Some (net_strim_netface t)\<rparr>)))
                  else if k = Some KEY_FAMILY then ok (upd (\<lambda>a. a\<lparr>a_family := as_family v (a_family a)\<rparr>))
                  else if k = Some KEY_ETHADDR
                  then ok (upd_farm fid (\<lambda>f. f\<lparr>f_oethaddr := Some t\<rparr>) (upd (\<lambda>a. a\<lparr>a_iethaddr := Some t\<rparr>)))
                  else if k = Some KEY_IETHADDR then ok (upd (\<lambda>a. a\<lparr>a_iethaddr := Some t\<rparr>))
                  else if k = Some KEY_VIRTADDR
                  then ok (address_set_netinfo env aid (upd (\<lambda>a. a\<lparr>a_ipaddr := t\<rparr>)))
                  else if k = Some KEY_VIRTPORTS
                  then map_option (\<lambda>a'. (parser_code PARSER_OK, upd (\<lambda>_. a'))) (address_set_ports a t)
                  else ok (upd (\<lambda>a. address_set_protocol (as_proto v (a_protocol a)) a))) }"

definition farm_set_string :: "config_pair \<Rightarrow> (farm \<Rightarrow> farm) option" where
  "farm_set_string c =
     (let k = c_key c; t = c_str c
      in if k = Some KEY_FQDN then Some (\<lambda>f. f\<lparr>f_fqdn := t\<rparr>)
         else if k = Some KEY_OETHADDR then Some (\<lambda>f. f\<lparr>f_oethaddr := Some t\<rparr>)
         else if k = Some KEY_SRCADDR then Some (\<lambda>f. f\<lparr>f_srcaddr := Some t\<rparr>)
         else if k = Some KEY_LOGPREFIX then Some (\<lambda>f. f\<lparr>f_logprefix := t\<rparr>)
         else if k = Some KEY_NEWRTLIMIT_LOGPREFIX then Some (\<lambda>f. f\<lparr>f_newrtlimit_logprefix := t\<rparr>)
         else if k = Some KEY_RSTRTLIMIT_LOGPREFIX then Some (\<lambda>f. f\<lparr>f_rstrtlimit_logprefix := t\<rparr>)
         else if k = Some KEY_ESTCONNLIMIT_LOGPREFIX then Some (\<lambda>f. f\<lparr>f_estconnlimit_logprefix := t\<rparr>)
         else if k = Some KEY_TCPSTRICT_LOGPREFIX then Some (\<lambda>f. f\<lparr>f_tcpstrict_logprefix := t\<rparr>)
         else None)"

definition farm_set_int :: "netenv \<Rightarrow> config_pair \<Rightarrow> (farm \<Rightarrow> farm) option" where
  "farm_set_int env c =
     (let k = c_key c; v = c_int_value c; u = c_int_value2 c
      in if k = Some KEY_RESPONSETTL then Some (\<lambda>f. f\<lparr>f_responsettl := as_int v (f_responsettl f)\<rparr>)
         else if k = Some KEY_SCHED then Some (\<lambda>f. farm_set_sched (as_sched v (f_scheduler f)) f)
         else if k = Some KEY_SCHEDPARAM then Some (\<lambda>f. f\<lparr>f_schedparam := as_flags v (f_schedparam f)\<rparr>)
         else if k = Some KEY_PERSISTENCE then Some (\<lambda>f. farm_set_persistence (as_flags v (f_persistence f)) f)
         else if k = Some KEY_PERSISTTM then Some (\<lambda>f. f\<lparr>f_persistttl := as_int v (f_persistttl f)\<rparr>)
         else if k = Some KEY_PRIORITY then Some (\<lambda>f. farm_set_priority (as_int v (f_priority f)) f)
         else if k = Some KEY_LOG then Some (\<lambda>f. f\<lparr>f_log := as_flags v (f_log f)\<rparr>)
         else if k = Some KEY_MARK then Some (\<lambda>f. farm_set_mark env (as_flags v (f_mark f)) f)
         else if k = Some KEY_LIMITSTTL then Some (\<lambda>f. farm_set_limitsttl (as_int v (f_limitsttl f)) f)
         else if k = Some KEY_NEWRTLIMIT then Some (\<lambda>f. farm_set_newrtlimit (as_int v (f_newrtlimit f)) u f)
         else if k = Some KEY_NEWRTLIMITBURST then Some (\<lambda>f. f\<lparr>f_newrtlimitbst := as_int v (f_newrtlimitbst f)\<rparr>)
         else if k = Some KEY_RSTRTLIMIT then Some (\<lambda>f. farm_set_rstrtlimit (as_int v (f_rstrtlimit f)) u f)
         else if k = Some KEY_RSTRTLIMITBURST then Some (\<lambda>f. f\<lparr>f_rstrtlimitbst := as_int v (f_rstrtlimitbst f)\<rparr>)
         else if k = Some KEY_ESTCONNLIMIT then Some (\<lambda>f. farm_set_estconnlimit (as_int v (f_estconnlimit f)) f)
         else if k = Some KEY_TCPSTRICT then Some (\<lambda>f. farm_set_tcpstrict (as_switch v (f_tcpstrict f)) f)
         else if k = Some KEY_QUEUE then Some (\<lambda>f. farm_set_queue (as_int v (f_queue f)) f)
         else if k = Some KEY_INTRACONNECT then Some (\<lambda>f. f\<lparr>f_intra_connect := as_switch v (f_intra_connect f)\<rparr>)
         else None)"

text \<open>
  The attributes whose setters look beyond the farm. \<open>farm_set_action\<close> returns 1 when it acts, and the
  caller takes that for \<open>PARSER_FAILED\<close>.
\<close>

definition farm_set_special :: "nat \<Rightarrow> netenv \<Rightarrow> config_pair \<Rightarrow> farm \<Rightarrow> objs \<Rightarrow> (int \<times> objs) option" where
  "farm_set_special n env c f s =
     (let k = c_key c; v = c_int_value c; t = c_str c; fid = f_id f; ok = map_option (Pair (parser_code PARSER_OK))
      in if k = Some KEY_NEWNAME then
           ok (if farm_lookup_by_name t s \<noteq> None then Some s
               else map_option (upd_farm fid (\<lambda>f. f\<lparr>f_name := t\<rparr>)) (farmaddress_rename_default c s))
         else if k = Some KEY_OFACE
         then ok (farm_set_netinfo n env fid (upd_farm fid (\<lambda>f. f\<lparr>f_oface := Some (net_strim_netface t)\<rparr>) s))
         else if k = Some KEY_MODE then ok (farm_set_mode n env fid (as_mode v (f_mode f)) s)
         else if k = Some KEY_HELPER then
           (let (ret, s1) = farm_set_helper fid (as_helper v (f_helper f)) s in Some (parser_code ret, s1))
         else if k = Some KEY_STATE then
           ok (if as_state v (f_state f) \<noteq> VALUE_STATE_CONFERR then farm_set_state n env fid (as_state v (f_state f)) s else Some s)
         else if k = Some KEY_ACTION then
           map_option (map_prod of_bool id) (farm_set_action n env fid (as_action v (f_action f)) s)
         else if k = Some KEY_VERDICT then
           (let (refused, s1) = farm_set_verdict fid (as_flags v (f_verdict f)) s
            in Some (parser_code (if refused then PARSER_FAILED else PARSER_OK), s1))
         else if k = Some KEY_FLOWOFFLOAD
         then ok (farm_set_netinfo n env fid (upd_farm fid (\<lambda>f. f\<lparr>f_flow_offload := as_switch v (f_flow_offload f)\<rparr>) s))
         else if k = Some KEY_LOG_RTLIMIT then
           (let s1 = upd_farm fid (\<lambda>f. f\<lparr>f_logrtlimit := as_int v (f_logrtlimit f), f_logrtlimit_unit := c_int_value2 c\<rparr>) s
            in ok (Some (if farm_needs_policies f
                         then farmpolicy_s_set_action fid ACTION_RELOAD (upd_farm fid (\<lambda>f. f\<lparr>f_policies_action := ACTION_RELOAD\<rparr>) s1)
                         else s1)))
         else Some (parser_code PARSER_STRUCT_FAILED, s))"

definition farm_set_attribute :: "nat \<Rightarrow> netenv \<Rightarrow> config_pair \<Rightarrow> objs \<Rightarrow> (int \<times> objs) option" where
  "farm_set_attribute n env c s =
     (if c_key c = Some KEY_NAME then
        let (fid, s1) = (case farm_lookup_by_name (c_str c) s of Some f \<Rightarrow> (f_id f, s) | None \<Rightarrow> farm_create (c_str c) s)
        in Some (parser_code PARSER_OK,
                 obj_set_current_farmpolicy None (obj_set_current_farmaddress None (obj_set_current_farm (Some fid) s1)))
      else case cur_farm_obj s of
        None \<Rightarrow> Some (parser_code PARSER_OBJ_UNKNOWN, s)
      | Some f \<Rightarrow>
          if key_in (c_key c) (KEY_ETHADDR # address_keys) then farm_set_address_attribute env c (f_id f) s
          else (case farm_set_string c of
                  Some g \<Rightarrow> Some (parser_code PARSER_OK, upd_farm (f_id f) g s)
                | None \<Rightarrow>
                    (case farm_set_int env c of
                       Some g \<Rightarrow> Some (parser_code PARSER_OK, upd_farm (f_id f) g s)
                     | None \<Rightarrow> farm_set_special n env c f s)))"

end
