(* ===== verification/Attributes.thy ===== *)
theory Attributes
  imports FarmAttr
begin

unbundle bit_operations_syntax

text \<open>
  The attributes of the other objects (backends.c, sessions.c, farmpolicy.c, addresspolicy.c, policies.c,
  elements.c) and \<open>obj_set_attribute\<close> of objects.c, through which every value of a configuration goes.
\<close>

section \<open>Backends\<close>

text \<open>
  The current backend with its farm (\<open>b->parent\<close>). That need not be the current farm: a document that
  gives an attribute before the name of the first backend of a farm means the last backend read before.
\<close>

definition cur_backend_obj :: "objs \<Rightarrow> (farm \<times> backend) option" where
  "cur_backend_obj s =
     (if cur_farm_obj s = None then None
      else Option.bind (cur_backend s) (\<lambda>i. Option.bind (find (\<lambda>f. get_bck i f \<noteq> None) (farms s)) (\<lambda>f.
             map_option (Pair f) (get_bck i f))))"

definition backend_set_priority :: "nat \<Rightarrow> netenv \<Rightarrow> oid \<Rightarrow> oid \<Rightarrow> int \<Rightarrow> objs \<Rightarrow> objs option" where
  "backend_set_priority n env fid bid new_value s =
     (if new_value \<le> 0 then Some s
      else map_option snd (backend_s_gen_priority n env fid
             (upd_farm fid (upd_bck bid (\<lambda>b. b\<lparr>b_priority := new_value\<rparr>)) s)))"

definition backend_set_ipaddr :: "nat \<Rightarrow> netenv \<Rightarrow> oid \<Rightarrow> oid \<Rightarrow> string \<Rightarrow> objs \<Rightarrow> objs option" where
  "backend_set_ipaddr n env fid bid new_value s =
     (case get_farm_bck fid bid s of
        None \<Rightarrow> Some s
      | Some (f, b) \<Rightarrow>
          let f1 = upd_bck bid (\<lambda>b. b\<lparr>b_ipaddr := Some new_value, b_ethaddr := Some []\<rparr>) f;
              r1 = backend_set_ifinfo env bid f1;
              r2 = (if fst r1 then backend_set_ipaddr_from_ether env s bid (snd r1) else (False, snd r1));
              s1 = upd_farm fid (\<lambda>_. snd r2) s
          in if b_ipaddr b = None then Some s1
             else if fst r2
             then (if b_state b = VALUE_STATE_CONFERR then backend_set_state n env fid bid VALUE_STATE_UP s1 else Some s1)
             else backend_set_state n env fid bid VALUE_STATE_CONFERR s1)"

definition backend_changed :: "config_pair \<Rightarrow> objs \<Rightarrow> bool" where
  "backend_changed c s =
     (case cur_backend_obj s of
        None \<Rightarrow> True
      | Some (f, b) \<Rightarrow>
          let k = c_key c
          in if k = Some KEY_NAME then True
             else if k = Some KEY_NEWNAME then \<not> equ_str (Some (b_name b)) c
             else if k = Some KEY_FQDN then \<not> equ_str (Some (b_fqdn b)) c
             else if k = Some KEY_IPADDR then \<not> equ_str (b_ipaddr b) c
             else if k = Some KEY_ETHADDR then \<not> equ_str (b_ethaddr b) c
             else if k = Some KEY_PORT then \<not> equ_str (Some (b_port b)) c
             else if k = Some KEY_SRCADDR then \<not> equ_str (b_srcaddr b) c
             else if k = Some KEY_WEIGHT then \<not> equ_int (CInt (b_weight b)) c
             else if k = Some KEY_PRIORITY then \<not> equ_int (CInt (b_priority b)) c
             else if k = Some KEY_MARK then \<not> equ_int (CFlags (b_mark b)) c
             else if k = Some KEY_STATE then \<not> equ_int (CState (b_state b)) c
             else if k = Some KEY_ACTION then \<not> equ_int (CAction (b_action b)) c
             else if k = Some KEY_ESTCONNLIMIT then \<not> equ_int (CInt (b_estconnlimit b)) c
             else if k = Some KEY_ESTCONNLIMIT_LOGPREFIX then \<not> equ_str (Some (b_estconnlimit_logprefix b)) c
             else False)"

text \<open>The setters that only touch the farm.\<close>

definition backend_set_plain :: "config_pair \<Rightarrow> oid \<Rightarrow> (farm \<Rightarrow> farm) option" where
  "backend_set_plain c bid =
     (let k = c_key c; v = c_int_value c; t = c_str c
      in if k = Some KEY_NEWNAME then Some (upd_bck bid (\<lambda>b. b\<lparr>b_name := t\<rparr>))
         else if k = Some KEY_FQDN then Some (upd_bck bid (\<lambda>b. b\<lparr>b_fqdn := t\<rparr>))
         else if k = Some KEY_ETHADDR then Some (upd_bck bid (\<lambda>b. b\<lparr>b_ethaddr := Some t\<rparr>))
         else if k = Some KEY_PORT then Some (backend_set_port bid t)
         else if k = Some KEY_SRCADDR then Some (backend_set_srcaddr bid t)
         else if k = Some KEY_WEIGHT then Some (\<lambda>f. case get_bck bid f of
                None \<Rightarrow> f | Some b \<Rightarrow> backend_set_weight bid (as_int v (b_weight b)) f)
         else if k = Some KEY_MARK then Some (upd_bck bid (\<lambda>b. backend_set_mark (as_flags v (b_mark b)) b))
         else if k = Some KEY_ESTCONNLIMIT
         then Some (upd_bck bid (\<lambda>b. backend_set_estconnlimit (as_int v (b_estconnlimit b)) b))
         else if k = Some KEY_ESTCONNLIMIT_LOGPREFIX then Some (upd_bck bid (\<lambda>b. b\<lparr>b_estconnlimit_logprefix := t\<rparr>))
         else None)"

definition backend_set_attribute :: "nat \<Rightarrow> nftenv \<Rightarrow> config_pair \<Rightarrow> nftw \<Rightarrow> (int \<times> nftw) option" where
  "backend_set_attribute n env c w =
     (let s = w_objs w; k = c_key c; v = c_int_value c; t = c_str c; ok = map_option (Pair (parser_code PARSER_OK))
      in case cur_farm_obj s of
           None \<Rightarrow> Some (parser_code PARSER_OBJ_UNKNOWN, w)
         | Some f \<Rightarrow>
             if k = Some KEY_NAME then
               let (bid, s1) = (case backend_lookup_by_key (net env) f KEY_NAME t 0 of
                      Some b \<Rightarrow> (b_id b, s)
                    | None \<Rightarrow> (next_oid s, upd_farm (f_id f) (backend_create (farms s) (next_oid s) t) (s\<lparr>next_oid := Suc (next_oid s)\<rparr>)))
               in ok (Some (w\<lparr>w_objs := obj_set_current_backend (Some bid) s1\<rparr>))
             else case cur_backend_obj s of
               None \<Rightarrow> Some (parser_code PARSER_OBJ_UNKNOWN, w)
             | Some (f, b) \<Rightarrow>
                 let fid = f_id f; bid = b_id b
                 in case backend_set_plain c bid of
                      Some g \<Rightarrow> ok (Some (upd_objs (upd_farm fid g) w))
                    | None \<Rightarrow>
                        if k = Some KEY_IPADDR then ok (on_objs (backend_set_ipaddr n (net env) fid bid t) w)
                        else if k = Some KEY_PRIORITY
                        then ok (on_objs (backend_set_priority n (net env) fid bid (as_int v (b_priority b))) w)
                        else if k = Some KEY_STATE then
                          ok (on_objs (backend_set_state n (net env) fid bid
                                (if as_state v (b_state b) = VALUE_STATE_CONFERR then VALUE_STATE_UP else as_state v (b_state b))) w)
                        else if k = Some KEY_ACTION
                        then ok (map_option snd (backend_set_action n env fid bid (as_action v (b_action b)) w))
                        else Some (-1, w))"

text \<open>
  Before and after a change of a running backend. The action that \<open>bck_pre_actionable\<close> returns tells
  \<open>bck_pos_actionable\<close> what to do; \<open>None\<close> is its -1, which does nothing there.
\<close>

definition reload_farm :: "nat \<Rightarrow> nftenv \<Rightarrow> oid \<Rightarrow> nftw \<Rightarrow> nftw option" where
  "reload_farm n env fid w =
     do { w1 \<leftarrow> on_objs (farm_act n (net env) fid ACTION_RELOAD) w;
          farm_rulerize n env fid (upd_objs (farmaddress_s_set_action fid ACTION_RELOAD) w1) }"

definition bck_pre_actionable :: "nat \<Rightarrow> nftenv \<Rightarrow> config_pair \<Rightarrow> nftw \<Rightarrow> (action option \<times> nftw) option" where
  "bck_pre_actionable n env c w =
     (case cur_backend_obj (w_objs w) of
        None \<Rightarrow> Some (None, w)
      | Some (g, b) \<Rightarrow>
          let fid = the (cur_farm (w_objs w))
          in if b_state b \<noteq> VALUE_STATE_UP \<and> b_state b \<noteq> VALUE_STATE_CONFERR \<and> c_key c = Some KEY_PRIORITY
             then do { w1 \<leftarrow> on_objs (farm_act n (net env) fid ACTION_STOP) w;
                       w2 \<leftarrow> farm_rulerize n env fid (upd_objs (farmaddress_s_set_action fid ACTION_STOP) w1);
                       Some (Some ACTION_FLUSH, w2) }
             else if b_state b \<noteq> VALUE_STATE_UP \<and> c_key c \<noteq> Some KEY_STATE then Some (Some ACTION_NONE, w)
             else if key_in (c_key c) [KEY_ETHADDR, KEY_IPADDR, KEY_SRCADDR, KEY_MARK, KEY_PRIORITY, KEY_ESTCONNLIMIT]
             then do { (acted, w1) \<leftarrow> backend_set_action n env (f_id g) (b_id b) ACTION_STOP w;
                       w2 \<leftarrow> (if acted then reload_farm n env fid w1 else Some w1);
                       Some (Some ACTION_START, w2) }
             else if key_in (c_key c) [KEY_PORT, KEY_STATE, KEY_WEIGHT, KEY_ESTCONNLIMIT_LOGPREFIX]
             then Some (Some ACTION_RELOAD, w)
             else Some (Some ACTION_NONE, w))"

definition bck_pos_actionable :: "nat \<Rightarrow> nftenv \<Rightarrow> action option \<Rightarrow> nftw \<Rightarrow> nftw option" where
  "bck_pos_actionable n env action w =
     (case cur_backend_obj (w_objs w) of
        None \<Rightarrow> Some w
      | Some (g, b) \<Rightarrow>
          let fid = the (cur_farm (w_objs w))
          in if action = Some ACTION_START
             then do { (acted, w1) \<leftarrow> backend_set_action n env (f_id g) (b_id b) ACTION_START w;
                       if acted then reload_farm n env fid w1 else Some w1 }
             else if action = Some ACTION_RELOAD then on_objs (farm_act n (net env) fid ACTION_RELOAD) w
             else if action = Some ACTION_FLUSH
             then do { w1 \<leftarrow> on_objs (farm_act n (net env) fid ACTION_START) w; farm_rulerize n env fid w1 }
             else Some w)"

section \<open>Sessions\<close>

text \<open>
  A session is looked for in the current farm. (In the code the current session may also be one of a
  farm read before, when a document gives the backend of the first session of a farm before its client.)
\<close>

definition cur_session_obj :: "objs \<Rightarrow> (farm \<times> session) option" where
  "cur_session_obj s =
     Option.bind (cur_farm_obj s) (\<lambda>f. Option.bind (cur_session s) (\<lambda>i. map_option (Pair f) (kfind s_id i (f_static_sessions f))))"

definition session_act :: "action \<Rightarrow> farm \<Rightarrow> session \<Rightarrow> objs \<Rightarrow> bool \<times> objs" where
  "session_act action f se s =
     (let (acted, f1) = session_set_action SESSION_TYPE_STATIC action se f in (acted, upd_farm (f_id f) (\<lambda>_. f1) s))"

definition session_set_attribute :: "nat \<Rightarrow> netenv \<Rightarrow> config_pair \<Rightarrow> objs \<Rightarrow> (int \<times> objs) option" where
  "session_set_attribute n env c s =
     (let k = c_key c; t = c_str c; ok = map_option (Pair (parser_code PARSER_OK))
      in case cur_farm_obj s of
           None \<Rightarrow> Some (parser_code PARSER_OBJ_UNKNOWN, s)
         | Some f \<Rightarrow>
             if k = Some KEY_CLIENT then
               (case session_lookup_by_key f SESSION_TYPE_STATIC KEY_CLIENT t of
                  Some se \<Rightarrow> ok (Some (obj_set_current_session (Some (s_id se)) s))
                | None \<Rightarrow>
                    (case session_create env (next_oid s) SESSION_TYPE_STATIC t [] [] f of
                       None \<Rightarrow> Some (parser_code PARSER_FAILED, s)
                     | Some f1 \<Rightarrow>
                         ok (Some (obj_set_current_session (Some (next_oid s)) ((upd_farm (f_id f) (\<lambda>_. f1) s)\<lparr>next_oid := Suc (next_oid s)\<rparr>)))))
             else case cur_session_obj s of
               None \<Rightarrow> Some (parser_code PARSER_OBJ_UNKNOWN, s)
             | Some (f, se) \<Rightarrow>
                 if k = Some KEY_BACKEND then
                   (case backend_lookup_by_key env f KEY_NAME t 0 of
                      None \<Rightarrow> Some (parser_code PARSER_OBJ_UNKNOWN, s)
                    | Some b \<Rightarrow>
                        let se1 = se\<lparr>s_bck := Some (b_id b)\<rparr>;
                            f1 = upd_sessions SESSION_TYPE_STATIC (kupd s_id (s_id se) (\<lambda>_. se1)) (total_sessions SESSION_TYPE_STATIC f) f;
                            (acted, s1) = session_act ACTION_START f1 se1 s
                        in ok (if acted then farm_act n env (f_id f) ACTION_RELOAD s1 else Some s1))
                 else Some (-1, s))"

text \<open>Stopped before its backend changes, started after; the same step with two actions.\<close>

definition session_actionable :: "nat \<Rightarrow> nftenv \<Rightarrow> action \<Rightarrow> config_pair \<Rightarrow> nftw \<Rightarrow> nftw option" where
  "session_actionable n env action c w =
     (case cur_session_obj (w_objs w) of
        None \<Rightarrow> Some w
      | Some (f, se) \<Rightarrow>
          if c_key c = Some KEY_BACKEND
          then (let (acted, s1) = session_act action f se (w_objs w); w1 = w\<lparr>w_objs := s1\<rparr>
                in if acted
                   then do { w2 \<leftarrow> on_objs (farm_act n (net env) (f_id f) ACTION_RELOAD) w1; farm_rulerize n env (f_id f) w2 }
                   else Some w1)
          else Some w)"

definition session_pre_actionable :: "nat \<Rightarrow> nftenv \<Rightarrow> config_pair \<Rightarrow> nftw \<Rightarrow> nftw option" where
  "session_pre_actionable n env = session_actionable n env ACTION_STOP"

definition session_pos_actionable :: "nat \<Rightarrow> nftenv \<Rightarrow> config_pair \<Rightarrow> nftw \<Rightarrow> nftw option" where
  "session_pos_actionable n env = session_actionable n env ACTION_START"

section \<open>Policies of farms and addresses\<close>

definition farmpolicy_set_attribute :: "config_pair \<Rightarrow> objs \<Rightarrow> int \<times> objs" where
  "farmpolicy_set_attribute c s =
     (case cur_farm_obj s of
        None \<Rightarrow> (parser_code PARSER_OBJ_UNKNOWN, s)
      | Some f \<Rightarrow>
          if c_key c = Some KEY_NAME then
            (case policy_lookup_by_name (c_str c) s of
               None \<Rightarrow> (parser_code PARSER_OBJ_UNKNOWN, put_output (''. Unknown policy '' @ quoted (c_str c)) s)
             | Some p \<Rightarrow>
                 (case farmpolicy_lookup_by_name f (c_str c) s of
                    Some _ \<Rightarrow> (0, s)
                  | None \<Rightarrow>
                      (let (fpid, s1) = farmpolicy_create (f_id f) (p_id p) s
                       in (parser_code PARSER_OK, obj_set_current_farmpolicy (Some fpid) s1))))
          else (parser_code PARSER_STRUCT_FAILED, s))"

definition farmpolicy_pre_actionable :: "nat \<Rightarrow> nftenv \<Rightarrow> nftw \<Rightarrow> nftw option" where
  "farmpolicy_pre_actionable n env w =
     (case cur_farm_obj (w_objs w) of None \<Rightarrow> Some w | Some f \<Rightarrow> reload_farm n env (f_id f) w)"

definition farmpolicy_pos_actionable :: "nat \<Rightarrow> netenv \<Rightarrow> objs \<Rightarrow> objs option" where
  "farmpolicy_pos_actionable n env s =
     (case cur_farm_obj s of
        None \<Rightarrow> Some s
      | Some f \<Rightarrow>
          if cur_farmpolicy s = None then Some s
          else map_option (farmaddress_s_set_action (f_id f) ACTION_RELOAD) (farm_act n env (f_id f) ACTION_RELOAD s))"

definition addresspolicy_set_attribute :: "config_pair \<Rightarrow> objs \<Rightarrow> int \<times> objs" where
  "addresspolicy_set_attribute c s =
     (case cur_address_obj s of
        None \<Rightarrow> (parser_code PARSER_OBJ_UNKNOWN, s)
      | Some a \<Rightarrow>
          if c_key c = Some KEY_NAME then
            (case policy_lookup_by_name (c_str c) s of
               None \<Rightarrow> (-1, s)
             | Some p \<Rightarrow>
                 (case addresspolicy_lookup_by_name a (c_str c) s of
                    Some _ \<Rightarrow> (0, s)
                  | None \<Rightarrow>
                      (let (apid, s1) = addresspolicy_create (a_id a) (p_id p) s
                       in (parser_code PARSER_OK, obj_set_current_addresspolicy (Some apid) s1))))
          else (parser_code PARSER_STRUCT_FAILED, s))"

definition addresspolicy_pre_actionable :: "nftenv \<Rightarrow> nftw \<Rightarrow> nftw" where
  "addresspolicy_pre_actionable env w =
     (case cur_address_obj (w_objs w) of
        None \<Rightarrow> w
      | Some a \<Rightarrow> address_rulerize env (a_id a) (upd_objs (\<lambda>s. snd (address_set_action (a_id a) ACTION_RELOAD s)) w))"

definition addresspolicy_pos_actionable :: "objs \<Rightarrow> objs" where
  "addresspolicy_pos_actionable s =
     (case cur_address_obj s of
        None \<Rightarrow> s
      | Some a \<Rightarrow> if cur_addresspolicy s = None then s else snd (address_set_action (a_id a) ACTION_RELOAD s))"

section \<open>Policies and elements\<close>

definition cur_policy_obj :: "objs \<Rightarrow> policy option" where
  "cur_policy_obj s = Option.bind (cur_policy s) (\<lambda>i. get_policy i s)"

definition policy_changed :: "config_pair \<Rightarrow> objs \<Rightarrow> bool" where
  "policy_changed c s =
     (case cur_policy_obj s of
        None \<Rightarrow> True
      | Some p \<Rightarrow>
          let k = c_key c
          in if k = Some KEY_NAME then True
             else if k = Some KEY_TYPE then \<not> equ_int (CType (p_type p)) c
             else if k = Some KEY_FAMILY then \<not> equ_int (CFamily (p_family p)) c
             else if k = Some KEY_TIMEOUT then \<not> equ_int (CInt (p_timeout p)) c
             else if k = Some KEY_LOGPREFIX then \<not> equ_str (Some (p_logprefix p)) c
             else False)"

definition policy_set_attribute :: "nat \<Rightarrow> netenv \<Rightarrow> config_pair \<Rightarrow> objs \<Rightarrow> (int \<times> objs) option" where
  "policy_set_attribute n env c s =
     (let k = c_key c; v = c_int_value c; t = c_str c; ok = map_option (Pair (parser_code PARSER_OK))
      in if k = Some KEY_NAME then
           (let (pid, act, s1) = (case policy_lookup_by_name t s of
                    Some p \<Rightarrow> (p_id p, ACTION_RELOAD, s)
                  | None \<Rightarrow> (let (pid, s1) = policy_create t s in (pid, ACTION_START, s1)))
            in ok (map_option (obj_set_current_policy (Some pid)) (policy_act n env pid act s1)))
         else case cur_policy_obj s of
           None \<Rightarrow> Some (parser_code PARSER_OBJ_UNKNOWN, s)
         | Some p \<Rightarrow>
             let pid = p_id p; upd = (\<lambda>g. ok (Some (upd_policy pid g s)))
             in if k = Some KEY_TYPE then upd (\<lambda>p. policy_set_type (as_type v (p_type p)) p)
                else if k = Some KEY_ROUTE then upd (\<lambda>p. p\<lparr>p_route := as_route v (p_route p)\<rparr>)
                else if k = Some KEY_FAMILY then upd (\<lambda>p. policy_set_family (as_family v (p_family p)) p)
                else if k = Some KEY_TIMEOUT then upd (\<lambda>p. p\<lparr>p_timeout := as_int v (p_timeout p)\<rparr>)
                else if k = Some KEY_ACTION then ok (policy_act n env pid (as_action v (p_action p)) s)
                else if k = Some KEY_LOGPREFIX then upd (\<lambda>p. p\<lparr>p_logprefix := t\<rparr>)
                else if k = Some KEY_USED then ok (Some s)
                else Some (parser_code PARSER_STRUCT_FAILED, s))"

definition policy_pre_actionable :: "nat \<Rightarrow> netenv \<Rightarrow> config_pair \<Rightarrow> objs \<Rightarrow> objs option" where
  "policy_pre_actionable n env c s =
     (case cur_policy_obj s of
        None \<Rightarrow> Some s
      | Some p \<Rightarrow>
          if key_in (c_key c) [KEY_NAME, KEY_USED] then Some s
          else if key_in (c_key c) [KEY_FAMILY, KEY_ROUTE, KEY_TIMEOUT] then policy_act n env (p_id p) ACTION_STOP s
          else policy_act n env (p_id p) ACTION_RELOAD s)"

definition policy_pos_actionable :: "nat \<Rightarrow> netenv \<Rightarrow> config_pair \<Rightarrow> objs \<Rightarrow> objs option" where
  "policy_pos_actionable n env c s =
     (case cur_policy_obj s of
        None \<Rightarrow> Some s
      | Some p \<Rightarrow>
          if key_in (c_key c) [KEY_NAME, KEY_USED] then Some s
          else if key_in (c_key c) [KEY_FAMILY, KEY_TYPE, KEY_ROUTE, KEY_TIMEOUT] then policy_act n env (p_id p) ACTION_START s
          else policy_act n env (p_id p) ACTION_RELOAD s)"

text \<open>The current element with its policy (\<open>e->policy\<close>), which may be another one than the current policy.\<close>

definition cur_element_obj :: "objs \<Rightarrow> (policy \<times> element) option" where
  "cur_element_obj s =
     (if cur_policy_obj s = None then None
      else Option.bind (cur_element s) (\<lambda>i. Option.bind (find (\<lambda>p. kfind e_id i (p_elements p) \<noteq> None) (policies s)) (\<lambda>p.
             map_option (Pair p) (kfind e_id i (p_elements p)))))"

definition element_set_attribute :: "nat \<Rightarrow> netenv \<Rightarrow> config_pair \<Rightarrow> objs \<Rightarrow> (int \<times> objs) option" where
  "element_set_attribute n env c s =
     (let k = c_key c; v = c_int_value c; t = c_str c
      in case cur_policy_obj s of
           None \<Rightarrow> Some (parser_code PARSER_OBJ_UNKNOWN, s)
         | Some p \<Rightarrow>
             if k = Some KEY_DATA then
               (let (eid, s1) = element_create (p_id p) t None ''0'' ''0'' s in Some (0, obj_set_current_element (Some eid) s1))
             else case cur_element_obj s of
               None \<Rightarrow> Some (parser_code PARSER_OBJ_UNKNOWN, s)
             | Some (p, e) \<Rightarrow>
                 if k = Some KEY_TIME then
                   Some (0, upd_policy (p_id p) (\<lambda>p. p\<lparr>p_elements := kupd e_id (e_id e) (\<lambda>e. e\<lparr>e_time := Some t\<rparr>) (p_elements p)\<rparr>) s)
                 else if k = Some KEY_ACTION then
                   map_option (Pair 0 \<circ> snd) (element_set_action n env (p_id p) (e_id e) (as_action v (e_action e)) s)
                 else Some (-1, s))"

definition element_pos_actionable :: "nat \<Rightarrow> netenv \<Rightarrow> config_pair \<Rightarrow> action \<Rightarrow> objs \<Rightarrow> objs option" where
  "element_pos_actionable n env c apply_action s =
     (case cur_element_obj s of
        None \<Rightarrow> Some s
      | Some (p, e) \<Rightarrow>
          let pid = the (cur_policy s)
          in if c_key c = Some KEY_DATA then
               (if apply_action \<noteq> ACTION_START
                then do { s1 \<leftarrow> map_option snd (element_set_action n env (p_id p) (e_id e) apply_action s);
                          policy_act n env pid ACTION_RELOAD s1 }
                else Some s)
             else policy_act n env pid ACTION_RELOAD s)"

section \<open>Every object\<close>

definition ask_farm_attribute :: "nat \<Rightarrow> nftenv \<Rightarrow> config_pair \<Rightarrow> bool \<Rightarrow> nftw \<Rightarrow> (int \<times> nftw) option" where
  "ask_farm_attribute n env c actionable w =
     (if \<not> farm_changed c (w_objs w) then Some (parser_code PARSER_OK, w)
      else
        let actionable = (actionable \<and> farm_actionable c (w_objs w))
        in do { w1 \<leftarrow> (if actionable then farm_pre_actionable n env c w else Some w);
                (ret, w2) \<leftarrow> ask_objs (farm_set_attribute n (net env) c) w1;
                w3 \<leftarrow> (if actionable \<and> ret = parser_code PARSER_OK then on_objs (farm_pos_actionable n (net env) c) w2 else Some w2);
                Some (ret, w3) })"

definition ask_backend_attribute :: "nat \<Rightarrow> nftenv \<Rightarrow> config_pair \<Rightarrow> bool \<Rightarrow> nftw \<Rightarrow> (int \<times> nftw) option" where
  "ask_backend_attribute n env c actionable w =
     (if \<not> backend_changed c (w_objs w) then Some (parser_code PARSER_OK, w)
      else do { (action, w1) \<leftarrow> (if actionable then bck_pre_actionable n env c w else Some (Some ACTION_NONE, w));
                (ret, w2) \<leftarrow> backend_set_attribute n env c w1;
                w3 \<leftarrow> (if actionable \<and> action \<noteq> Some ACTION_NONE then bck_pos_actionable n env action w2 else Some w2);
                Some (ret, w3) })"

text \<open>The handlers before, at and after a change, each only when the change is to be acted on.\<close>

definition around :: "bool \<Rightarrow> (nftw \<Rightarrow> nftw option) \<Rightarrow> (nftw \<Rightarrow> (int \<times> nftw) option) \<Rightarrow> (nftw \<Rightarrow> nftw option) \<Rightarrow>
    nftw \<Rightarrow> (int \<times> nftw) option" where
  "around actionable pre at post w =
     do { w1 \<leftarrow> (if actionable then pre w else Some w);
          (ret, w2) \<leftarrow> at w1;
          w3 \<leftarrow> (if actionable then post w2 else Some w2);
          Some (ret, w3) }"

definition obj_set_attribute :: "nat \<Rightarrow> nftenv \<Rightarrow> config_pair \<Rightarrow> bool \<Rightarrow> action \<Rightarrow> nftw \<Rightarrow> (int \<times> nftw) option" where
  "obj_set_attribute n env c actionable apply_action w =
     (let e = net env; lift = (\<lambda>g w. Some (fst (g (w_objs w)), w\<lparr>w_objs := snd (g (w_objs w))\<rparr>))
      in case c_level c of
           Some LEVEL_FARMS \<Rightarrow> ask_farm_attribute n env c actionable w
         | Some LEVEL_BCKS \<Rightarrow> ask_backend_attribute n env c actionable w
         | Some LEVEL_SESSIONS \<Rightarrow>
             around actionable (session_pre_actionable n env c) (ask_objs (session_set_attribute n e c)) (session_pos_actionable n env c) w
         | Some LEVEL_FARMPOLICY \<Rightarrow>
             around actionable (farmpolicy_pre_actionable n env) (lift (farmpolicy_set_attribute c)) (on_objs (farmpolicy_pos_actionable n e)) w
         | Some LEVEL_POLICIES \<Rightarrow>
             if \<not> policy_changed c (w_objs w) then Some (parser_code PARSER_OK, w)
             else around actionable (on_objs (policy_pre_actionable n e c)) (ask_objs (policy_set_attribute n e c))
                    (on_objs (policy_pos_actionable n e c)) w
         | Some LEVEL_ELEMENTS \<Rightarrow>
             around actionable Some (ask_objs (element_set_attribute n e c)) (on_objs (element_pos_actionable n e c apply_action)) w
         | Some LEVEL_ADDRESSES \<Rightarrow>
             if \<not> address_changed c (w_objs w) then Some (parser_code PARSER_OK, w)
             else ask_objs (address_set_attribute e c) w
         | Some LEVEL_FARMADDRESS \<Rightarrow>
             do { (action, w1) \<leftarrow> (if actionable then ask_objs (farmaddress_pre_actionable n e) w else Some (int (action_code ACTION_NONE), w));
                  (ret, w2) \<leftarrow> ask_objs (farmaddress_set_attribute e c) w1;
                  w3 \<leftarrow> (if actionable \<and> action \<noteq> 0 then on_objs (farmaddress_pos_actionable n e) w2 else Some w2);
                  Some (ret, w3) }
         | Some LEVEL_ADDRESSPOLICY \<Rightarrow>
             around actionable (Some \<circ> addresspolicy_pre_actionable env) (lift (addresspolicy_set_attribute c))
               (Some \<circ> upd_objs addresspolicy_pos_actionable) w
         | _ \<Rightarrow> Some (parser_code PARSER_STRUCT_FAILED, w))"

section \<open>Result codes\<close>

text \<open>
  The codes an attribute handler may return: success, failure, a wrong structure, a value refused, an
  unknown object, and the plain -1 of the handlers that do not know the key.
\<close>

definition handler_codes :: "int set" where
  "handler_codes = parser_code ` {PARSER_OK, PARSER_FAILED, PARSER_STRUCT_FAILED, PARSER_VALID_FAILED, PARSER_OBJ_UNKNOWN} \<union> {-1}"

lemma handler_codes_mem [simp]: "x \<in> handler_codes \<longleftrightarrow> x \<in> {-1, 0, 1, 3, 4, 6}"
  by (auto simp: handler_codes_def)

definition in_codes :: "(int \<times> 'a) option \<Rightarrow> bool" where
  "in_codes r = pred_option (\<lambda>x. fst x \<in> handler_codes) r"

lemma in_codes_simps [simp]:
  "in_codes None" "in_codes (Some x) \<longleftrightarrow> fst x \<in> handler_codes"
  "c \<in> handler_codes \<Longrightarrow> in_codes (map_option (Pair c) r)"
  "c \<in> handler_codes \<Longrightarrow> in_codes (map_option (\<lambda>a. (c, h a)) r)"
  "in_codes (map_option (map_prod of_bool id) b)"
  "in_codes (if P then p else q) \<longleftrightarrow> (P \<longrightarrow> in_codes p) \<and> (\<not> P \<longrightarrow> in_codes q)"
  by (cases r; cases b; auto simp: in_codes_def)+

lemma codes_farm_special: "in_codes (farm_set_special n env c f s)"
  by (auto simp: farm_set_special_def Let_def farm_set_helper_def split: prod.split option.splits)

lemma codes_farm_address: "in_codes (farm_set_address_attribute env c fid s)"
  by (auto simp: farm_set_address_attribute_def Let_def bind_eq_Some_conv split: prod.split option.split bind_splits)

lemma codes_farm: "in_codes (farm_set_attribute n env c s)"
  using codes_farm_special codes_farm_address
  by (auto simp: farm_set_attribute_def Let_def split: prod.split option.split)

lemma codes_address: "in_codes (address_set_attribute env c s)"
  by (auto simp: address_set_attribute_def Let_def split: prod.split option.split)

lemma codes_backend: "in_codes (backend_set_attribute n env c w)"
  by (auto simp: backend_set_attribute_def Let_def split: prod.split option.split)

lemma codes_session: "in_codes (session_set_attribute n env c s)"
  by (auto simp: session_set_attribute_def Let_def split: prod.split option.split)

lemma codes_policy: "in_codes (policy_set_attribute n env c s)"
  by (auto simp: policy_set_attribute_def Let_def split: prod.split option.split)

lemma codes_element: "in_codes (element_set_attribute n env c s)"
  by (auto simp: element_set_attribute_def Let_def comp_def split: prod.split option.split)

lemma codes_farmaddress: "in_codes (farmaddress_set_attribute env c s)"
  using codes_address by (auto simp: farmaddress_set_attribute_def Let_def split: prod.split option.split)

lemma in_codes_bind:
  "(\<And>x. in_codes (g x)) \<Longrightarrow> in_codes (Option.bind r g)"
  by (cases r) simp_all

lemma codes_ask_objs: "in_codes (g (w_objs w)) \<Longrightarrow> in_codes (ask_objs g w)"
  by (auto simp: ask_objs_def in_codes_def option.pred_map comp_def case_prod_beta elim: option.pred_mono_strong)

lemma in_codes_then:
  "in_codes r \<Longrightarrow> in_codes (Option.bind r (\<lambda>(ret, w). Option.bind (g ret w) (\<lambda>w'. Some (ret, w'))))"
  by (auto simp: in_codes_def split: prod.split bind_splits)

lemma codes_around: "(\<And>w. in_codes (at w)) \<Longrightarrow> in_codes (around actionable pre at post w)"
  unfolding around_def by (intro in_codes_bind in_codes_then)



end
