(* ===== verification/Config.thy ===== *)
theory Config
  imports Attributes
begin

text \<open>
  Reading a configuration (config.c): the walk over a JSON document that turns every string into an
  attribute of the current object, and the actions the server asks for by name. jansson is not part of
  the sources: the document it parses from a text is a value of \<open>json\<close>, whose objects keep the order of
  their members, and its functions are parameters (\<open>jansson\<close>).
\<close>

section \<open>Documents\<close>

datatype json = JObject "(string \<times> json) list" | JArray "json list" | JString string | JOther

text \<open>
  \<open>json_load\<close> is \<open>json_loadb\<close> and \<open>json_loadf\<close>, \<open>None\<close> a text that is no document; \<open>json_text\<close> says which
  texts \<open>json_string\<close> accepts (it refuses what is not UTF-8); \<open>json_dumps\<close> prints a document.
\<close>

record jansson =
  json_load :: "string \<Rightarrow> json option"
  json_text :: "string \<Rightarrow> bool"
  json_dumps :: "json \<Rightarrow> string option"

text \<open>A library that parses nothing and prints nothing.\<close>

definition no_jansson :: jansson where
  "no_jansson = \<lparr>json_load = (\<lambda>_. None), json_text = (\<lambda>_. True), json_dumps = (\<lambda>_. Some [])\<rparr>"

datatype config_src = CONFIG_SRC_FILE | CONFIG_SRC_BUFFER

section \<open>Walking a document\<close>

text \<open>The static pair \<open>c\<close> of config.c goes along with the program state.\<close>

type_synonym cstate = "config_pair \<times> nftw"

text \<open>
  A string: the value of the current key. \<open>obj_set_attribute\<close> gets the source as its flag \<open>actionable\<close>.
  The response text of the value parser is appended in any case.
\<close>

definition config_json_string :: "nat \<Rightarrow> nftenv \<Rightarrow> config_src \<Rightarrow> action \<Rightarrow> string \<Rightarrow> cstate \<Rightarrow> (int \<times> cstate) option" where
  "config_json_string n env source apply_action value cw =
     (case config_value value (fst cw) of
        (ret, c, msg) \<Rightarrow>
          let w = upd_objs (put_output msg) (snd cw)
          in if ret = PARSER_IGNORE then Some (0, c, w)
             else if ret \<noteq> PARSER_OK then Some (parser_code ret, c, w)
             else map_option (\<lambda>(ret, w). (ret, init_pair, w))
                    (obj_set_attribute n env c (source = CONFIG_SRC_BUFFER) apply_action w))"

text \<open>The level of the objects in an array.\<close>

definition array_level :: "level \<Rightarrow> key option \<Rightarrow> level" where
  "array_level level key =
     (if level = LEVEL_INIT \<and> key = Some KEY_FARMS then LEVEL_FARMS
      else if level = LEVEL_INIT \<and> key = Some KEY_POLICIES then LEVEL_POLICIES
      else if level = LEVEL_INIT \<and> key = Some KEY_ADDRESSES then LEVEL_ADDRESSES
      else if level = LEVEL_FARMS \<and> key = Some KEY_BCKS then LEVEL_BCKS
      else if level = LEVEL_FARMS \<and> key = Some KEY_ADDRESSES then LEVEL_FARMADDRESS
      else if level = LEVEL_FARMS \<and> key = Some KEY_SESSIONS then LEVEL_SESSIONS
      else if level = LEVEL_FARMS \<and> key = Some KEY_POLICIES then LEVEL_FARMPOLICY
      else if level = LEVEL_POLICIES \<and> key = Some KEY_ELEMENTS then LEVEL_ELEMENTS
      else if level = LEVEL_ADDRESSES \<and> key = Some KEY_POLICIES then LEVEL_ADDRESSPOLICY
      else level)"

text \<open>
  The walk. \<open>json_members\<close> is the loop of \<open>config_json_object\<close> and \<open>json_items\<close> the one of
  \<open>config_json_array\<close>; their second argument is the result so far. A member that is skipped leaves the
  index of its key as the result, which the next member or the caller takes over.
\<close>

fun config_json :: "nat \<Rightarrow> nftenv \<Rightarrow> config_src \<Rightarrow> action \<Rightarrow> level \<Rightarrow> key option \<Rightarrow> json \<Rightarrow> cstate \<Rightarrow> (int \<times> cstate) option"
and json_members :: "nat \<Rightarrow> nftenv \<Rightarrow> config_src \<Rightarrow> action \<Rightarrow> level \<Rightarrow> int \<Rightarrow> (string \<times> json) list \<Rightarrow> cstate \<Rightarrow> (int \<times> cstate) option"
and json_items :: "nat \<Rightarrow> nftenv \<Rightarrow> config_src \<Rightarrow> action \<Rightarrow> level \<Rightarrow> int \<Rightarrow> json list \<Rightarrow> cstate \<Rightarrow> (int \<times> cstate) option" where
  "config_json n env source act level key (JObject kvs) cw = json_members n env source act level (parser_code PARSER_OK) kvs cw"
| "config_json n env source act level key (JArray js) cw = json_items n env source act (array_level level key) (parser_code PARSER_OK) js cw"
| "config_json n env source act level key (JString t) cw = config_json_string n env source act t cw"
| "config_json n env source act level key JOther cw = Some (parser_code PARSER_OK, cw)"
| "json_members n env source act level ret [] cw = Some (ret, cw)"
| "json_members n env source act level ret ((name, v) # kvs) (c, w) =
     (case config_key name of
        None \<Rightarrow> Some (-1, c\<lparr>c_level := Some level\<rparr>, upd_objs (put_output (''. Unknown key '' @ quoted name)) w)
      | Some k \<Rightarrow>
          let cw1 = (c\<lparr>c_level := Some level, c_key := Some k\<rparr>, w)
          in if jump_config_value level k then json_members n env source act level (key_index (Some k)) kvs cw1
             else case config_json n env source act level (Some k) v cw1 of
                    None \<Rightarrow> None
                  | Some (r, cw2) \<Rightarrow> if r \<noteq> 0 then Some (r, cw2) else json_members n env source act level r kvs cw2)"
| "json_items n env source act level ret [] cw = Some (ret, cw)"
| "json_items n env source act level ret (j # js) cw =
     (if ret \<noteq> parser_code PARSER_OK then Some (ret, cw)
      else case config_json n env source act level None j cw of
             None \<Rightarrow> None
           | Some (r, cw2) \<Rightarrow> json_items n env source act level r js cw2)"

definition config_json_object :: "nat \<Rightarrow> nftenv \<Rightarrow> config_src \<Rightarrow> action \<Rightarrow> level \<Rightarrow> (string \<times> json) list \<Rightarrow> cstate \<Rightarrow> (int \<times> cstate) option" where
  "config_json_object n env source act level kvs = json_members n env source act level (parser_code PARSER_OK) kvs"

definition config_json_array :: "nat \<Rightarrow> nftenv \<Rightarrow> config_src \<Rightarrow> action \<Rightarrow> level \<Rightarrow> json list \<Rightarrow> cstate \<Rightarrow> (int \<times> cstate) option" where
  "config_json_array n env source act level js = json_items n env source act level (parser_code PARSER_OK) js"

definition config_buffer :: "nat \<Rightarrow> nftenv \<Rightarrow> jansson \<Rightarrow> string \<Rightarrow> action \<Rightarrow> cstate \<Rightarrow> (int \<times> cstate) option" where
  "config_buffer n env js buf apply_action cw =
     (case json_load js buf of
        None \<Rightarrow> Some (parser_code PARSER_STRUCT_FAILED, cw)
      | Some root \<Rightarrow> config_json n env CONFIG_SRC_BUFFER apply_action LEVEL_INIT None root cw)"

text \<open>The file is given by its contents, \<open>None\<close> when it can not be opened.\<close>

definition config_file :: "nat \<Rightarrow> nftenv \<Rightarrow> jansson \<Rightarrow> string option \<Rightarrow> cstate \<Rightarrow> (int \<times> cstate) option" where
  "config_file n env js file cw =
     (case file of
        None \<Rightarrow> Some (parser_code PARSER_FAILED, cw)
      | Some text \<Rightarrow>
          (case json_load js text of
             None \<Rightarrow> Some (parser_code PARSER_STRUCT_FAILED, cw)
           | Some root \<Rightarrow> config_json n env CONFIG_SRC_FILE ACTION_START LEVEL_INIT None root cw))"

section \<open>Sections in the wrong place\<close>

text \<open>The code and the program state of a result, without the static pair.\<close>

definition outcome :: "(int \<times> cstate) option \<Rightarrow> (int \<times> nftw) option" where
  "outcome = map_option (\<lambda>(ret, c, w). (ret, w))"

text \<open>The walk over a non-empty object overwrites the result so far and the current key.\<close>

lemma members_overwrite:
  assumes "kvs \<noteq> []" "c_str_value c = c_str_value d" "c_int_value c = c_int_value d"
    "c_int_value2 c = c_int_value2 d" "c_action c = c_action d"
  shows "outcome (json_members n env src act level r kvs (c, w)) = outcome (json_members n env src act level r' kvs (d, w))"
proof -
  obtain name v rest where kvs: "kvs = (name, v) # rest" using assms(1) by (metis list.exhaust prod.exhaust)
  have "c\<lparr>c_level := Some level, c_key := Some k\<rparr> = d\<lparr>c_level := Some level, c_key := Some k\<rparr>" for k
    using assms(2-) by (cases c; cases d) simp
  then show ?thesis by (simp add: kvs outcome_def split: option.split)
qed

lemma key_index_pos: "k \<noteq> KEY_FARMS \<Longrightarrow> 0 < key_index (Some k)"
  by (simp add: key_index_def key_order_def)



end
