(* ===== verification/ConfigAct.thy ===== *)
theory ConfigAct
  imports Config
begin

text \<open>
  The actions the server asks for by the names in a request (config.c): start, stop, reload and delete
  farms, backends, sessions, policies, elements and addresses. NULL and the empty name mean the same to
  each of these functions, so a name is a plain string. The functions return the code of the C function.
\<close>

section \<open>Looking up by name\<close>

definition reply :: "parser_output \<Rightarrow> nftw \<Rightarrow> (int \<times> nftw) option" where
  "reply p w = Some (parser_code p, w)"

definition complain :: "string \<Rightarrow> parser_output \<Rightarrow> nftw \<Rightarrow> (int \<times> nftw) option" where
  "complain msg p w = reply p (upd_objs (put_output msg) w)"

definition in_farm :: "string \<Rightarrow> string" where
  "in_farm fname = '' in farm '' @ quoted fname"

text \<open>Run on the farm with the name, or report that there is none.\<close>

definition with_farm :: "string \<Rightarrow> (farm \<Rightarrow> nftw \<Rightarrow> (int \<times> nftw) option) \<Rightarrow> nftw \<Rightarrow> (int \<times> nftw) option" where
  "with_farm name g w =
     (case farm_lookup_by_name name (w_objs w) of
        None \<Rightarrow> complain (''. Unknown farm '' @ quoted name) PARSER_OBJ_UNKNOWN w
      | Some f \<Rightarrow> g f w)"

definition with_policy :: "string \<Rightarrow> (policy \<Rightarrow> nftw \<Rightarrow> (int \<times> nftw) option) \<Rightarrow> nftw \<Rightarrow> (int \<times> nftw) option" where
  "with_policy name g w =
     (case policy_lookup_by_name name (w_objs w) of
        None \<Rightarrow> complain (''. Unknown policy '' @ quoted name) PARSER_OBJ_UNKNOWN w
      | Some p \<Rightarrow> g p w)"

text \<open>The end of a function that returns \<open>PARSER_OK\<close>.\<close>

definition done_ok :: "nftw option \<Rightarrow> (int \<times> nftw) option" where
  "done_ok = map_option (Pair (parser_code PARSER_OK))"

section \<open>Farms\<close>

definition config_set_farm_action :: "nat \<Rightarrow> netenv \<Rightarrow> string \<Rightarrow> string \<Rightarrow> nftw \<Rightarrow> (int \<times> nftw) option" where
  "config_set_farm_action n env name value w =
     (if name = [] then done_ok (on_objs (farm_s_set_action n env (config_value_action value)) w)
      else with_farm name (\<lambda>f w. done_ok (on_objs (farm_act n env (f_id f) (config_value_action value)) w)) w)"

definition config_check_farm :: "string \<Rightarrow> nftw \<Rightarrow> (int \<times> nftw) option" where
  "config_check_farm name w =
     (if name = [] then reply PARSER_OBJ_UNKNOWN w else with_farm name (\<lambda>_. reply PARSER_OK) w)"

definition config_set_fpolicy_action :: "string \<Rightarrow> string \<Rightarrow> string \<Rightarrow> nftw \<Rightarrow> (int \<times> nftw) option" where
  "config_set_fpolicy_action fname fpname value w =
     (if fname = [] then complain ''. Please select a valid farm'' PARSER_STRUCT_FAILED w
      else with_farm fname (\<lambda>f w.
        if fpname = [] then Some (0, upd_objs (farmpolicy_s_set_action (f_id f) (config_value_action value)) w)
        else case farmpolicy_lookup_by_name f fpname (w_objs w) of
               None \<Rightarrow> complain (''. Unknown farm policy '' @ quoted fpname @ in_farm fname) PARSER_OBJ_UNKNOWN w
             | Some fp \<Rightarrow> reply PARSER_OK
                 (upd_objs (\<lambda>s. snd (farmpolicy_set_action (f_id f) (fp_id fp) (config_value_action value) s)) w)) w)"

definition config_set_farmaddress_action :: "string \<Rightarrow> string \<Rightarrow> string \<Rightarrow> nftw \<Rightarrow> (int \<times> nftw) option" where
  "config_set_farmaddress_action fname faname value w =
     (if fname = [] then complain ''. Please select a valid farm'' PARSER_STRUCT_FAILED w
      else with_farm fname (\<lambda>f w.
        if faname = [] then Some (0, upd_objs (farmaddress_s_set_action (f_id f) (config_value_action value)) w)
        else case farmaddress_lookup_by_name f faname (w_objs w) of
               None \<Rightarrow> complain (''. Unknown farm address '' @ quoted faname @ in_farm fname) PARSER_OBJ_UNKNOWN w
             | Some fa \<Rightarrow> Some (0,
                 upd_objs (\<lambda>s. snd (farmaddress_set_action (f_id f) (fa_id fa) (config_value_action value) s)) w)) w)"

section \<open>Backends\<close>

definition drop_timed :: "oid \<Rightarrow> nftw \<Rightarrow> nftw" where
  "drop_timed fid = upd_objs (upd_farm fid (session_s_delete SESSION_TYPE_TIMED))"

definition config_set_session_backend_action ::
  "nat \<Rightarrow> nftenv \<Rightarrow> string \<Rightarrow> string \<Rightarrow> string \<Rightarrow> nftw \<Rightarrow> (int \<times> nftw) option" where
  "config_set_session_backend_action n env fname bname value w =
     (if fname = [] \<or> bname = [] then reply PARSER_STRUCT_FAILED w
      else with_farm fname (\<lambda>f w.
        if f_persistence f = VALUE_META_NONE
        then complain (''. Farm '' @ quoted fname @ '' without session persistence'') PARSER_VALID_FAILED w
        else case backend_lookup_by_key (net env) f KEY_NAME bname 0 of
               None \<Rightarrow> complain (''. Unknown backend '' @ quoted bname @ in_farm fname) PARSER_OBJ_UNKNOWN w
             | Some b \<Rightarrow>
                 let fid = f_id f; bid = b_id b;
                     w1 = upd_objs (session_get_timed (net env) fid) w
                 in do { w2 \<leftarrow> (if config_value_action value = ACTION_DELETE
                                then do { w' \<leftarrow> on_objs (farm_act n (net env) fid ACTION_RELOAD)
                                                 (session_backend_act (net env) fid bid ACTION_STOP w1);
                                          obj_rulerize n env OBJ_START w' }
                                else Some w1);
                         Some (0, drop_timed fid (session_backend_act (net env) fid bid (config_value_action value) w2)) }) w)"

definition config_set_backend_action :: "nat \<Rightarrow> nftenv \<Rightarrow> string \<Rightarrow> string \<Rightarrow> string \<Rightarrow> nftw \<Rightarrow> (int \<times> nftw) option" where
  "config_set_backend_action n env fname bname value w =
     (if fname = [] then reply PARSER_STRUCT_FAILED w
      else with_farm fname (\<lambda>f w.
        let fid = f_id f; w1 = upd_objs (session_get_timed (net env) fid) w; action = config_value_action value
        in if bname = [] then done_ok (map_option (drop_timed fid) (backend_s_set_action n env fid action w1))
           else case Option.bind (get_farm fid (w_objs w1)) (\<lambda>f. backend_lookup_by_key (net env) f KEY_NAME bname 0) of
                  None \<Rightarrow> map_option (map_prod id (drop_timed fid))
                            (complain (''. Unknown backend '' @ quoted bname @ in_farm fname) PARSER_OBJ_UNKNOWN w1)
                | Some b \<Rightarrow> done_ok (map_option (drop_timed fid \<circ> snd) (backend_set_action n env fid (b_id b) action w1))) w)"

section \<open>Sessions\<close>

text \<open>Underscores of the URI stand for the blanks of a client with several addresses.\<close>

definition plain_client :: "string \<Rightarrow> string" where
  "plain_client sname = map (\<lambda>c. if c = CHR ''_'' then CHR '' '' else c) sname"

text \<open>\<open>session_set_action\<close> on the session with the given address; the result is what it returned.\<close>

definition session_id_act :: "session_type \<Rightarrow> oid \<Rightarrow> oid \<Rightarrow> action \<Rightarrow> nftw \<Rightarrow> int \<times> nftw" where
  "session_id_act type fid sid action w =
     (case Option.bind (get_farm fid (w_objs w)) (\<lambda>f. map_option (Pair f) (kfind s_id sid (sessions_of type f))) of
        None \<Rightarrow> (0, w)
      | Some (f, se) \<Rightarrow>
          let (acted, f1) = session_set_action type action se f in (of_bool acted, upd_objs (upd_farm fid (\<lambda>_. f1)) w))"

definition sessions_act :: "oid \<Rightarrow> action \<Rightarrow> nftw \<Rightarrow> int \<times> nftw" where
  "sessions_act fid action w =
     (case get_farm fid (w_objs w) of
        None \<Rightarrow> (0, w)
      | Some f \<Rightarrow> let (r, f1) = session_s_set_action None action f in (r, upd_objs (upd_farm fid (\<lambda>_. f1)) w))"

text \<open>The code after \<open>apply\<close>: the farm is reloaded when an action took effect.\<close>

definition apply_sessions :: "nat \<Rightarrow> nftenv \<Rightarrow> string \<Rightarrow> int \<times> nftw \<Rightarrow> nftw option" where
  "apply_sessions n env fname rw =
     (if fst rw > 0
      then do { (_, w1) \<leftarrow> config_set_farm_action n (net env) fname ''reload'' (snd rw); obj_rulerize n env OBJ_START w1 }
      else Some (snd rw))"

text \<open>
  A timed session that is not found returns at once and leaves the timed sessions of the farm in memory.
\<close>

definition config_set_session_action :: "nat \<Rightarrow> nftenv \<Rightarrow> string \<Rightarrow> string \<Rightarrow> string \<Rightarrow> nftw \<Rightarrow> (int \<times> nftw) option" where
  "config_set_session_action n env fname sname value w =
     (let action = config_value_action value
      in if fname = [] then complain ''. Please select a valid farm'' PARSER_STRUCT_FAILED w
         else with_farm fname (\<lambda>f w.
           let fid = f_id f; name = plain_client sname
           in if sname = [] then
                do { w1 \<leftarrow> apply_sessions n env fname (sessions_act fid action w);
                     reply PARSER_OK (if action = ACTION_STOP then snd (sessions_act fid ACTION_DELETE w1) else w1) }
              else case session_lookup_by_key f SESSION_TYPE_STATIC KEY_CLIENT name of
                Some se \<Rightarrow>
                  do { w1 \<leftarrow> apply_sessions n env fname (session_id_act SESSION_TYPE_STATIC fid (s_id se) action w);
                       reply PARSER_OK
                         (if action = ACTION_STOP then snd (session_id_act SESSION_TYPE_STATIC fid (s_id se) ACTION_DELETE w1)
                          else w1) }
              | None \<Rightarrow>
                  if action \<noteq> ACTION_STOP
                  then complain (''. Unknown session '' @ quoted sname @ in_farm fname) PARSER_OBJ_UNKNOWN w
                  else
                    let w1 = upd_objs (session_get_timed (net env) fid) w
                    in case Option.bind (get_farm fid (w_objs w1)) (\<lambda>f. session_lookup_by_key f SESSION_TYPE_TIMED KEY_CLIENT name) of
                         None \<Rightarrow> reply PARSER_OK w1
                       | Some se \<Rightarrow>
                           do { w2 \<leftarrow> apply_sessions n env fname (session_id_act SESSION_TYPE_TIMED fid (s_id se) action w1);
                                reply PARSER_OK (drop_timed fid w2) }) w)"

section \<open>Policies, elements and addresses\<close>

definition config_check_policy :: "string \<Rightarrow> nftw \<Rightarrow> (int \<times> nftw) option" where
  "config_check_policy name w =
     (if name = [] then reply PARSER_OBJ_UNKNOWN w else with_policy name (\<lambda>_. reply PARSER_OK) w)"

definition config_set_policy_action :: "nat \<Rightarrow> netenv \<Rightarrow> string \<Rightarrow> string \<Rightarrow> nftw \<Rightarrow> (int \<times> nftw) option" where
  "config_set_policy_action n env name value w =
     (if name = [] then done_ok (on_objs (policy_s_set_action n env (config_value_action value)) w)
      else with_policy name (\<lambda>p w. done_ok (on_objs (policy_act n env (p_id p) (config_value_action value)) w)) w)"

definition config_set_element_action :: "nat \<Rightarrow> netenv \<Rightarrow> string \<Rightarrow> string \<Rightarrow> string \<Rightarrow> nftw \<Rightarrow> (int \<times> nftw) option" where
  "config_set_element_action n env pname edata value w =
     (if pname = [] then complain ''. Please select a valid policy'' PARSER_STRUCT_FAILED w
      else with_policy pname (\<lambda>p w.
        if edata = [] then done_ok (on_objs (element_s_set_action n env (p_id p) (config_value_action value)) w)
        else case element_lookup_by_name p edata of
               None \<Rightarrow> complain (''. Unknown element '' @ quoted edata @ '' in policy '' @ quoted pname) PARSER_OBJ_UNKNOWN w
             | Some e \<Rightarrow> done_ok (on_objs (\<lambda>s. map_option snd
                              (element_set_action n env (p_id p) (e_id e) (config_value_action value) s)) w)) w)"

definition config_get_elements :: "netenv \<Rightarrow> string \<Rightarrow> nftw \<Rightarrow> (int \<times> nftw) option" where
  "config_get_elements env pname w =
     with_policy pname (\<lambda>p w. map_option (Pair 0) (on_objs (element_get_list env (p_id p)) w)) w"

definition config_delete_elements :: "nat \<Rightarrow> netenv \<Rightarrow> string \<Rightarrow> nftw \<Rightarrow> (int \<times> nftw) option" where
  "config_delete_elements n env pname w =
     with_policy pname (\<lambda>p w. map_option (Pair 0) (on_objs (element_s_delete n env (p_id p)) w)) w"

definition config_set_address_action :: "string \<Rightarrow> string \<Rightarrow> nftw \<Rightarrow> (int \<times> nftw) option" where
  "config_set_address_action name value w =
     (if name = [] then reply PARSER_OK (upd_objs (address_s_set_action (config_value_action value)) w)
      else case address_lookup_by_name name (w_objs w) of
             None \<Rightarrow> complain (''. Unknown address '' @ quoted name) PARSER_OBJ_UNKNOWN w
           | Some a \<Rightarrow> reply PARSER_OK (upd_objs (\<lambda>s. snd (address_set_action (a_id a) (config_value_action value) s)) w))"

end
