(* ===== verification/ConfigDump.thy ===== *)
theory ConfigDump
  imports ConfigAct
begin

text \<open>
  Printing a configuration (config.c): the JSON documents that answer a GET request. \<open>add_dump_list\<close> is
  one definition per level. A number goes through the ten bytes of \<open>value\<close>; a dump is \<open>None\<close> when one
  does not fit there with its terminator, or when a link to an object that is gone is followed.
\<close>

section \<open>Items\<close>

type_synonym members = "(string \<times> json) list"

definition json_object_set :: "string \<Rightarrow> json \<Rightarrow> members \<Rightarrow> members" where
  "json_object_set name v m = (if name \<in> fst ` set m then map (\<lambda>(k, x). (k, if k = name then v else x)) m else m @ [(name, v)])"

definition add_dump_obj :: "jansson \<Rightarrow> string \<Rightarrow> cptr \<Rightarrow> members \<Rightarrow> members" where
  "add_dump_obj js name value m =
     (case value of None \<Rightarrow> m | Some v \<Rightarrow> if json_text js v then json_object_set name (JString v) m else m)"

text \<open>A member of an item: a text that is passed on, or one printed into \<open>value\<close>.\<close>

datatype field = Text cptr | Value string

fun dump_fields :: "jansson \<Rightarrow> (string \<times> field) list \<Rightarrow> members \<Rightarrow> members option" where
  "dump_fields js [] m = Some m"
| "dump_fields js ((name, Text v) # fs) m = dump_fields js fs (add_dump_obj js name v m)"
| "dump_fields js ((name, Value t) # fs) m = (if length t < 10 then dump_fields js fs (add_dump_obj js name (Some t) m) else None)"

definition field_if :: "bool \<Rightarrow> string \<times> field \<Rightarrow> (string \<times> field) list" where
  "field_if c x = (if c then [x] else [])"

text \<open>The items of a list, and the member that holds them.\<close>

definition dump_list :: "jansson \<Rightarrow> ('a \<Rightarrow> (string \<times> field) list option) \<Rightarrow> 'a list \<Rightarrow> json list option" where
  "dump_list js fs_of xs =
     those (map (\<lambda>x. Option.bind (fs_of x) (\<lambda>fs. map_option JObject (dump_fields js fs []))) xs)"

definition add_list :: "string \<Rightarrow> json list option \<Rightarrow> members \<Rightarrow> members option" where
  "add_list name items m = map_option (\<lambda>js. json_object_set name (JArray js) m) items"

section \<open>The fields of each object\<close>

definition int_field :: "int \<Rightarrow> field" where "int_field i = Value (config_dump_int i)"
definition hex_field :: "flags \<Rightarrow> field" where "hex_field v = Value (config_dump_hex v)"
definition text_field :: "string \<Rightarrow> field" where "text_field t = Text (Some t)"

definition farm_fields :: "farm \<Rightarrow> address option \<Rightarrow> (string \<times> field) list" where
  "farm_fields f a =
     [(''name'', text_field (f_name f))] @
     (case a of
        None \<Rightarrow> []
      | Some a \<Rightarrow> [(''family'', Text (obj_print_family (a_family a))), (''virtual-addr'', text_field (a_ipaddr a)),
                   (''virtual-ports'', text_field (a_ports a))]) @
     [(''source-addr'', text_field (case f_srcaddr f of None \<Rightarrow> [] | Some t \<Rightarrow> t)),
      (''mode'', Text (obj_print_mode (f_mode f)))] @
     field_if (f_mode f = VALUE_MODE_STLSDNAT) (''responsettl'', int_field (f_responsettl f)) @
     (case a of None \<Rightarrow> [] | Some a \<Rightarrow> [(''protocol'', Text (obj_print_proto (a_protocol a)))]) @
     [(''scheduler'', Text (obj_print_sched (f_scheduler f))),
      (''sched-param'', text_field (obj_print_meta (f_schedparam f))),
      (''persistence'', text_field (obj_print_meta (f_persistence f))),
      (''persist-ttl'', int_field (f_persistttl f)),
      (''helper'', Text (obj_print_helper (f_helper f))),
      (''log'', text_field (obj_print_log (f_log f)))] @
     field_if (f_logprefix f \<noteq> ''TYPE-FNAME '') (''log-prefix'', text_field (f_logprefix f)) @
     [(''log-rtlimit'', text_field (obj_print_rtlimit (f_logrtlimit f) (f_logrtlimit_unit f))),
      (''mark'', hex_field (f_mark f)),
      (''priority'', int_field (f_priority f)),
      (''state'', Text (obj_print_state (f_state f))),
      (''limits-ttl'', int_field (f_limitsttl f)),
      (''new-rtlimit'', text_field (obj_print_rtlimit (f_newrtlimit f) (f_newrtlimit_unit f))),
      (''new-rtlimit-burst'', int_field (f_newrtlimitbst f))] @
     field_if (f_newrtlimit_logprefix f \<noteq> ''KNAME-FNAME '') (''new-rtlimit-log-prefix'', text_field (f_newrtlimit_logprefix f)) @
     [(''rst-rtlimit'', text_field (obj_print_rtlimit (f_rstrtlimit f) (f_newrtlimit_unit f))),
      (''rst-rtlimit-burst'', int_field (f_rstrtlimitbst f))] @
     field_if (f_rstrtlimit_logprefix f \<noteq> ''KNAME-FNAME '') (''rst-rtlimit-log-prefix'', text_field (f_rstrtlimit_logprefix f)) @
     [(''est-connlimit'', int_field (f_estconnlimit f))] @
     field_if (f_estconnlimit_logprefix f \<noteq> ''KNAME-FNAME '') (''est-connlimit-log-prefix'', text_field (f_estconnlimit_logprefix f)) @
     [(''tcp-strict'', Text (obj_print_switch (f_tcpstrict f)))] @
     field_if (f_tcpstrict_logprefix f \<noteq> ''KNAME-FNAME '') (''tcp-strict-log-prefix'', text_field (f_tcpstrict_logprefix f)) @
     [(''queue'', int_field (f_queue f)),
      (''verdict'', text_field (obj_print_verdict (f_verdict f)))] @
     field_if (f_flow_offload f \<noteq> VALUE_SWITCH_OFF) (''flow-offload'', Text (obj_print_switch (f_flow_offload f))) @
     field_if (f_intra_connect f \<noteq> VALUE_SWITCH_OFF) (''intra-connect'', Text (obj_print_switch (f_intra_connect f)))"

definition backend_fields :: "backend \<Rightarrow> (string \<times> field) list" where
  "backend_fields b =
     [(''name'', text_field (b_name b)), (''ip-addr'', Text (b_ipaddr b)), (''port'', text_field (b_port b)),
      (''source-addr'', Text (b_srcaddr b)), (''weight'', int_field (b_weight b)), (''priority'', int_field (b_priority b)),
      (''mark'', hex_field (b_mark b)), (''est-connlimit'', int_field (b_estconnlimit b))] @
     field_if (b_estconnlimit_logprefix b \<noteq> ''KNAME-FNAME-BNAME '')
       (''est-connlimit-log-prefix'', text_field (b_estconnlimit_logprefix b)) @
     [(''state'', Text (obj_print_state (b_state b)))]"

definition policy_fields :: "policy \<Rightarrow> (string \<times> field) list" where
  "policy_fields p =
     [(''name'', text_field (p_name p)), (''family'', Text (obj_print_family (p_family p))),
      (''type'', Text (obj_print_policy_type (p_type p))), (''route'', Text (obj_print_policy_route (p_route p))),
      (''timeout'', int_field (p_timeout p))] @
     field_if (p_logprefix p \<noteq> ''KNAME-TYPE-PNAME-FNAME '') (''log-prefix'', text_field (p_logprefix p)) @
     [(''used'', int_field (p_used p))]"

definition farmaddress_fields :: "address \<Rightarrow> (string \<times> field) list" where
  "farmaddress_fields a =
     [(''name'', text_field (a_name a)), (''family'', Text (obj_print_family (a_family a))),
      (''ip-addr'', text_field (a_ipaddr a)), (''ports'', text_field (a_ports a)),
      (''protocol'', Text (obj_print_proto (a_protocol a))), (''used'', int_field (a_used a))]"

definition address_fields :: "address \<Rightarrow> (string \<times> field) list" where
  "address_fields a =
     [(''name'', text_field (a_name a)), (''family'', Text (obj_print_family (a_family a))),
      (''ip-addr'', text_field (a_ipaddr a)), (''ports'', text_field (a_ports a)),
      (''protocol'', Text (obj_print_proto (a_protocol a))),
      (''verdict'', text_field (obj_print_verdict (a_verdict a)))] @
     field_if (a_logprefix a \<noteq> ''TYPE-ANAME '') (''log-prefix'', text_field (a_logprefix a)) @
     [(''log-rtlimit'', text_field (obj_print_rtlimit (a_logrtlimit a) (a_logrtlimit_unit a))),
      (''used'', int_field (a_used a))]"

definition element_fields :: "element \<Rightarrow> (string \<times> field) list" where
  "element_fields e =
     [(''data'', text_field (e_data e)), (''time'', Text (e_time e)),
      (''counter-packets'', text_field (e_counter_pkts e)), (''counter-bytes'', text_field (e_counter_bytes e))]"

definition session_fields :: "farm \<Rightarrow> session \<Rightarrow> (string \<times> field) list option" where
  "session_fields f se =
     map_option (\<lambda>bck. [(''client'', text_field (s_client se)), (''backend'', text_field bck), (''expiration'', Text (s_expiration se))])
       (case s_bck se of None \<Rightarrow> Some ''UNDEFINED'' | Some bid \<Rightarrow> map_option b_name (get_bck bid f))"

definition name_fields :: "string option \<Rightarrow> (string \<times> field) list option" where
  "name_fields = map_option (\<lambda>t. [(''name'', text_field t)])"

section \<open>The lists\<close>

text \<open>An empty name, like NULL, asks for all objects.\<close>

definition asked :: "string \<Rightarrow> string \<Rightarrow> bool" where
  "asked name objname = (name = [] \<or> objname = name)"

definition dump_farm :: "jansson \<Rightarrow> objs \<Rightarrow> farm \<Rightarrow> json option" where
  "dump_farm js s f =
     (let addr = (\<lambda>fa. get_address (fa_address fa) s)
      in do { m1 \<leftarrow> dump_fields js (farm_fields f (Option.bind (farmaddress_get_first f) addr)) [];
              m2 \<leftarrow> add_list ''addresses'' (dump_list js (map_option farmaddress_fields \<circ> addr) (f_addresses f)) m1;
              m3 \<leftarrow> add_list ''backends'' (dump_list js (Some \<circ> backend_fields) (f_backends f)) m2;
              m4 \<leftarrow> add_list ''policies''
                     (dump_list js (\<lambda>fp. name_fields (map_option p_name (get_policy (fp_policy fp) s))) (f_policies f)) m3;
              m5 \<leftarrow> (if f_total_static_sessions f \<noteq> 0
                     then add_list ''sessions'' (dump_list js (session_fields f) (f_static_sessions f)) m4 else Some m4);
              Some (JObject m5) })"

definition dump_farms :: "jansson \<Rightarrow> string \<Rightarrow> objs \<Rightarrow> json option" where
  "dump_farms js name s =
     map_option (\<lambda>items. JObject [(''farms'', JArray items)])
       (those (map (dump_farm js s) (filter (\<lambda>f. asked name (f_name f)) (farms s))))"

definition dump_addresses :: "jansson \<Rightarrow> string \<Rightarrow> objs \<Rightarrow> json option" where
  "dump_addresses js name s =
     map_option (\<lambda>items. JObject [(''addresses'', JArray items)])
       (those (map (\<lambda>a.
          do { m1 \<leftarrow> dump_fields js (address_fields a) [];
               m2 \<leftarrow> add_list ''policies''
                      (dump_list js (\<lambda>ap. name_fields (map_option p_name (get_policy (ap_policy ap) s))) (a_policies a)) m1;
               Some (JObject m2) }) (filter (\<lambda>a. asked name (a_name a)) (addresses s))))"

text \<open>The elements of a policy are read from the kernel for the dump and dropped after it.\<close>

definition add_dump_elements :: "nat \<Rightarrow> netenv \<Rightarrow> jansson \<Rightarrow> oid \<Rightarrow> members \<Rightarrow> objs \<Rightarrow> (members \<times> objs) option" where
  "add_dump_elements n env js pid m s =
     do { s1 \<leftarrow> element_get_list env pid s;
          m1 \<leftarrow> add_list ''elements''
                 (dump_list js (Some \<circ> element_fields) (case get_policy pid s1 of None \<Rightarrow> [] | Some p \<Rightarrow> p_elements p)) m;
          s2 \<leftarrow> element_s_delete n env pid s1;
          Some (m1, s2) }"

definition dump_policy :: "nat \<Rightarrow> netenv \<Rightarrow> jansson \<Rightarrow> string \<Rightarrow> oid \<Rightarrow> json list \<times> objs \<Rightarrow> (json list \<times> objs) option" where
  "dump_policy n env js name pid r =
     (case get_policy pid (snd r) of
        None \<Rightarrow> Some r
      | Some p \<Rightarrow>
          if \<not> asked name (p_name p) then Some r
          else do { m1 \<leftarrow> dump_fields js (policy_fields p) [];
                    (m2, s2) \<leftarrow> add_dump_elements n env js pid m1 (snd r);
                    Some (fst r @ [JObject m2], s2) })"

definition dump_policies :: "nat \<Rightarrow> netenv \<Rightarrow> jansson \<Rightarrow> string \<Rightarrow> objs \<Rightarrow> (json \<times> objs) option" where
  "dump_policies n env js name s =
     map_option (\<lambda>(items, s). (JObject [(''policies'', JArray items)], s))
       (foldo (dump_policy n env js name) (map p_id (policies s)) ([], s))"

text \<open>The timed sessions of the kernel follow the static ones in the same array.\<close>

definition dump_sessions :: "netenv \<Rightarrow> jansson \<Rightarrow> oid \<Rightarrow> objs \<Rightarrow> (json \<times> objs) option" where
  "dump_sessions env js fid s =
     (let list = (\<lambda>type s. case get_farm fid s of
                    None \<Rightarrow> Some [] | Some f \<Rightarrow> dump_list js (session_fields f) (sessions_of type f));
          s1 = session_get_timed env fid s
      in do { static \<leftarrow> list SESSION_TYPE_STATIC s;
              timed \<leftarrow> list SESSION_TYPE_TIMED s1;
              Some (JObject [(''sessions'', JArray (static @ timed))], upd_farm fid (session_s_delete SESSION_TYPE_TIMED) s1) })"

section \<open>Answers\<close>

text \<open>What became of \<open>*buf\<close>: it is what it was, NULL because \<open>json_dumps\<close> failed, or the text of a document.\<close>

datatype dumped = Untouched | NoDump | Dump string

text \<open>The code of the C function, what it did to \<open>*buf\<close>, and the state.\<close>

type_synonym answer = "(int \<times> dumped \<times> nftw) option"

definition print_doc :: "jansson \<Rightarrow> int \<Rightarrow> json \<Rightarrow> nftw \<Rightarrow> answer" where
  "print_doc js failure doc w =
     (case json_dumps js doc of None \<Rightarrow> Some (failure, NoDump, w) | Some t \<Rightarrow> Some (parser_code PARSER_OK, Dump t, w))"

definition config_print_farms :: "jansson \<Rightarrow> string \<Rightarrow> nftw \<Rightarrow> answer" where
  "config_print_farms js name w =
     (if name \<noteq> [] \<and> farm_lookup_by_name name (w_objs w) = None then Some (-1, Untouched, w)
      else do { doc \<leftarrow> dump_farms js name (w_objs w); print_doc js (-1) doc w })"

definition config_print_farm_sessions :: "netenv \<Rightarrow> jansson \<Rightarrow> string \<Rightarrow> nftw \<Rightarrow> answer" where
  "config_print_farm_sessions env js name w =
     (if name = [] then Some (parser_code PARSER_STRUCT_FAILED, Untouched, w)
      else case farm_lookup_by_name name (w_objs w) of
             None \<Rightarrow> Some (parser_code PARSER_OBJ_UNKNOWN, Untouched, w)
           | Some f \<Rightarrow>
               do { (doc, s1) \<leftarrow> dump_sessions env js (f_id f) (w_objs w);
                    print_doc js (parser_code PARSER_FAILED) doc (w\<lparr>w_objs := s1\<rparr>) })"

definition config_print_policies :: "nat \<Rightarrow> netenv \<Rightarrow> jansson \<Rightarrow> string \<Rightarrow> nftw \<Rightarrow> answer" where
  "config_print_policies n env js name w =
     do { (doc, s1) \<leftarrow> dump_policies n env js name (w_objs w);
          print_doc js (parser_code PARSER_FAILED) doc (w\<lparr>w_objs := s1\<rparr>) }"

definition config_print_addresses :: "jansson \<Rightarrow> string \<Rightarrow> nftw \<Rightarrow> answer" where
  "config_print_addresses js name w =
     do { doc \<leftarrow> dump_addresses js name (w_objs w); print_doc js (-1) doc w }"

text \<open>\<open>config_print_response\<close>: the message as a document of its own, without escaping.\<close>

definition config_print_response :: "string \<Rightarrow> string" where
  "config_print_response msg =
     ''{'' @ [CHR 0x22] @ ''response'' @ [CHR 0x22] @ '': '' @ [CHR 0x22] @ msg @ [CHR 0x22] @ ''}''"

end
