(* ===== verification/Reload.thy ===== *)
theory Reload
  imports ConfigDump
begin

text \<open>
  Dump and load together: the members of a dumped object read back into the object they came from. Every
  member is a string whose key \<open>config_key\<close> knows, whose value \<open>config_value\<close> reads back, and which is
  no change of the object.
\<close>

section \<open>Members that change nothing\<close>

definition idle_value :: "nat \<Rightarrow> nftenv \<Rightarrow> config_src \<Rightarrow> action \<Rightarrow> level \<Rightarrow> nftw \<Rightarrow> key \<Rightarrow> string \<Rightarrow> bool" where
  "idle_value n env src act l w k v =
     (\<forall>c. c_level c = Some l \<longrightarrow> c_key c = Some k \<longrightarrow> (\<exists>c'. config_json_string n env src act v (c, w) = Some (0, c', w)))"

definition idle_member :: "nat \<Rightarrow> nftenv \<Rightarrow> config_src \<Rightarrow> action \<Rightarrow> level \<Rightarrow> nftw \<Rightarrow> string \<times> json \<Rightarrow> bool" where
  "idle_member n env src act l w x =
     (\<exists>k v. config_key (fst x) = Some k \<and> snd x = JString v \<and> \<not> jump_config_value l k \<and> idle_value n env src act l w k v)"

lemma idle_members:
  "\<forall>x \<in> set ms. idle_member n env src act l w x \<Longrightarrow> \<exists>c'. json_members n env src act l 0 ms (c, w) = Some (0, c', w)"
proof (induction ms arbitrary: c)
  case (Cons x ms)
  obtain name j where x: "x = (name, j)" by force
  obtain k v where k: "config_key name = Some k" "j = JString v" "\<not> jump_config_value l k"
    and i: "idle_value n env src act l w k v"
    using Cons.prems by (auto simp: idle_member_def x)
  obtain c1 where "config_json_string n env src act v (c\<lparr>c_level := Some l, c_key := Some k\<rparr>, w) = Some (0, c1, w)"
    using i unfolding idle_value_def by (metis config_pair.select_convs config_pair.update_convs config_pair.surjective)
  with k Cons x show ?case by auto
qed simp

lemma put_output_nil [simp]: "upd_objs (put_output []) w = w"
  by (simp add: upd_objs_def put_output_def config_set_output_def)

text \<open>The members of a dump are its fields.\<close>

lemma set_json_object_set: "x \<in> set (json_object_set name v m) \<Longrightarrow> x \<in> set m \<or> x = (name, v)"
  by (auto simp: json_object_set_def split: if_splits)

definition field_text :: "(string \<times> field) list \<Rightarrow> string \<Rightarrow> string \<Rightarrow> bool" where
  "field_text fs name t = ((name, Text (Some t)) \<in> set fs \<or> (name, Value t) \<in> set fs)"

lemma dump_fields_members:
  "dump_fields js fs m = Some ms \<Longrightarrow> x \<in> set ms \<Longrightarrow>
     x \<in> set m \<or> (\<exists>name t. x = (name, JString t) \<and> field_text fs name t)"
proof (induction js fs m rule: dump_fields.induct)
  case (2 js name v fs m)
  then have "x \<in> set (add_dump_obj js name v m) \<or> (\<exists>nm t. x = (nm, JString t) \<and> field_text fs nm t)" by simp
  then show ?case
    by (auto simp: add_dump_obj_def field_text_def split: option.splits if_splits dest!: set_json_object_set)
next
  case (3 js name t fs m)
  then have "x \<in> set (add_dump_obj js name (Some t) m) \<or> (\<exists>nm t. x = (nm, JString t) \<and> field_text fs nm t)"
    by (auto split: if_splits)
  then show ?case
    by (auto simp: add_dump_obj_def field_text_def split: option.splits if_splits dest!: set_json_object_set)
qed simp

lemma add_dump_obj_Cons: "name \<noteq> fst x \<Longrightarrow> add_dump_obj js name v (x # m) = x # add_dump_obj js name v m"
  by (cases x) (auto simp: add_dump_obj_def json_object_set_def split: option.splits)

lemma dump_fields_Cons:
  "fst x \<notin> fst ` set fs \<Longrightarrow> dump_fields js fs (x # m) = map_option (Cons x) (dump_fields js fs m)"
  by (induction js fs m rule: dump_fields.induct) (auto simp: add_dump_obj_Cons)

section \<open>Farms\<close>

text \<open>A value the current farm has already.\<close>

definition farm_same :: "objs \<Rightarrow> key \<Rightarrow> string \<Rightarrow> bool" where
  "farm_same s k v =
     (\<forall>c. c_level c = Some LEVEL_FARMS \<longrightarrow> c_key c = Some k \<longrightarrow>
        (\<exists>c'. config_value v c = (PARSER_OK, c', []) \<and> c_level c' = Some LEVEL_FARMS \<and> \<not> farm_changed c' s))"

lemma farm_same_idle: "farm_same (w_objs w) k v \<Longrightarrow> idle_value n env src act LEVEL_FARMS w k v"
  unfolding idle_value_def
proof (intro allI impI)
  fix c :: config_pair
  assume "farm_same (w_objs w) k v" "c_level c = Some LEVEL_FARMS" "c_key c = Some k"
  then obtain c' where "config_value v c = (PARSER_OK, c', [])" "c_level c' = Some LEVEL_FARMS" "\<not> farm_changed c' (w_objs w)"
    unfolding farm_same_def by blast
  then show "\<exists>c'. config_json_string n env src act v (c, w) = Some (0, c', w)"
    by (simp add: config_json_string_def obj_set_attribute_def ask_farm_attribute_def)
qed

lemmas farm_same_simps = farm_same_def config_value_def Let_def key_in_simps put_int_def farm_changed_def address_keys_def
  farm_string_equal_def farm_int_equal_def farm_address_equal_def equ_str_def c_str_def equ_int_def obj_equ_attribute_int_def

lemma farm_same_str:
  assumes "cur_farm_obj s = Some f"
  shows "farm_same s KEY_SRCADDR (case f_srcaddr f of None \<Rightarrow> [] | Some t \<Rightarrow> t)"
    "farm_same s KEY_LOGPREFIX (f_logprefix f)"
    "farm_same s KEY_NEWRTLIMIT_LOGPREFIX (f_newrtlimit_logprefix f)"
    "farm_same s KEY_RSTRTLIMIT_LOGPREFIX (f_rstrtlimit_logprefix f)"
    "farm_same s KEY_ESTCONNLIMIT_LOGPREFIX (f_estconnlimit_logprefix f)"
    "farm_same s KEY_TCPSTRICT_LOGPREFIX (f_tcpstrict_logprefix f)"
  using assms by (auto simp: farm_same_simps split: option.splits)

lemma farm_same_enum:
  assumes "cur_farm_obj s = Some f"
  shows "obj_print_mode (f_mode f) = Some v \<Longrightarrow> farm_same s KEY_MODE v"
    "obj_print_sched (f_scheduler f) = Some v \<Longrightarrow> farm_same s KEY_SCHED v"
    "obj_print_helper (f_helper f) = Some v \<Longrightarrow> farm_same s KEY_HELPER v"
    "obj_print_switch (f_tcpstrict f) = Some v \<Longrightarrow> farm_same s KEY_TCPSTRICT v"
    "obj_print_switch (f_flow_offload f) = Some v \<Longrightarrow> farm_same s KEY_FLOWOFFLOAD v"
    "obj_print_switch (f_intra_connect f) = Some v \<Longrightarrow> farm_same s KEY_INTRACONNECT v"
    "f_state f \<noteq> VALUE_STATE_AVAIL \<Longrightarrow> obj_print_state (f_state f) = Some v \<Longrightarrow> farm_same s KEY_STATE v"
  using assms parse_enum(1) [of "f_mode f"] parse_enum(3) [of "f_scheduler f"] parse_enum(4) [of "f_helper f"]
    parse_enum(5) [of "f_tcpstrict f"] parse_enum(5) [of "f_flow_offload f"] parse_enum(5) [of "f_intra_connect f"]
    parse_state [of "f_state f"]
  by (simp_all add: farm_same_simps)

lemma print_mask_parsed:
  "x < 64 \<Longrightarrow> config_value_meta (obj_print_meta x) = (x, [])"
  "x < 8 \<Longrightarrow> config_value_log (obj_print_log x) = (x, [])"
  "x < 8 \<Longrightarrow> x \<noteq> 0 \<Longrightarrow> config_value_verdict (obj_print_verdict x) = (x, [])"
proof -
  show "x < 64 \<Longrightarrow> config_value_meta (obj_print_meta x) = (x, [])"
    using flags_below [of x 64] meta_table by fastforce
  show "x < 8 \<Longrightarrow> config_value_log (obj_print_log x) = (x, [])"
    using flags_below [of x 8] log_table by fastforce
  show "x < 8 \<Longrightarrow> x \<noteq> 0 \<Longrightarrow> config_value_verdict (obj_print_verdict x) = (x, [])"
    using flags_below [of x 8] verdict_table by (fastforce simp: config_value_verdict_def Let_def)
qed

lemma farm_same_mask:
  assumes "cur_farm_obj s = Some f"
  shows "f_schedparam f < 64 \<Longrightarrow> farm_same s KEY_SCHEDPARAM (obj_print_meta (f_schedparam f))"
    "f_persistence f < 64 \<Longrightarrow> farm_same s KEY_PERSISTENCE (obj_print_meta (f_persistence f))"
    "f_log f < 8 \<Longrightarrow> farm_same s KEY_LOG (obj_print_log (f_log f))"
    "f_verdict f < 8 \<Longrightarrow> f_verdict f \<noteq> 0 \<Longrightarrow> farm_same s KEY_VERDICT (obj_print_verdict (f_verdict f))"
    "farm_same s KEY_MARK (config_dump_hex (f_mark f))"
  using assms strtol16_print_x [of "f_mark f"] by (simp_all add: farm_same_simps print_mask_parsed config_dump_hex_def)

lemma farm_same_num:
  assumes "cur_farm_obj s = Some f"
  shows "c_int_range (f_responsettl f) \<Longrightarrow> 0 \<le> f_responsettl f \<Longrightarrow> farm_same s KEY_RESPONSETTL (config_dump_int (f_responsettl f))"
    "c_int_range (f_persistttl f) \<Longrightarrow> 0 \<le> f_persistttl f \<Longrightarrow> farm_same s KEY_PERSISTTM (config_dump_int (f_persistttl f))"
    "c_int_range (f_limitsttl f) \<Longrightarrow> 0 \<le> f_limitsttl f \<Longrightarrow> farm_same s KEY_LIMITSTTL (config_dump_int (f_limitsttl f))"
    "c_int_range (f_newrtlimitbst f) \<Longrightarrow> 0 \<le> f_newrtlimitbst f \<Longrightarrow> farm_same s KEY_NEWRTLIMITBURST (config_dump_int (f_newrtlimitbst f))"
    "c_int_range (f_rstrtlimitbst f) \<Longrightarrow> 0 \<le> f_rstrtlimitbst f \<Longrightarrow> farm_same s KEY_RSTRTLIMITBURST (config_dump_int (f_rstrtlimitbst f))"
    "c_int_range (f_estconnlimit f) \<Longrightarrow> 0 \<le> f_estconnlimit f \<Longrightarrow> farm_same s KEY_ESTCONNLIMIT (config_dump_int (f_estconnlimit f))"
    "c_int_range (f_queue f) \<Longrightarrow> -1 \<le> f_queue f \<Longrightarrow> farm_same s KEY_QUEUE (config_dump_int (f_queue f))"
    "c_int_range (f_priority f) \<Longrightarrow> 1 \<le> f_priority f \<Longrightarrow> farm_same s KEY_PRIORITY (config_dump_int (f_priority f))"
  using assms by (simp_all add: farm_same_simps config_value_min_def config_dump_int_def atoi_print_d)

text \<open>A limit of zero is printed with its unit and read back per second.\<close>

definition rate_ok :: "int \<Rightarrow> int \<Rightarrow> bool" where
  "rate_ok v u = (0 \<le> v \<and> v < 2 ^ 31 \<and> 0 \<le> u \<and> u \<le> 4 \<and> (v \<noteq> 0 \<or> u = VALUE_UNIT_SECOND))"

lemma rate_parsed: "rate_ok v u \<Longrightarrow> config_value_ratelimit k i0 u0 (obj_print_rtlimit v u) = (PARSER_OK, v, u, [])"
  using ratelimit_round_trip_pos [of v u k i0 u0] ratelimit_round_trip_zero [of k i0 u0 u]
  by (cases "v = 0") (auto simp: rate_ok_def)

lemma farm_same_rate:
  assumes "cur_farm_obj s = Some f"
  shows "rate_ok (f_logrtlimit f) (f_logrtlimit_unit f) \<Longrightarrow>
       farm_same s KEY_LOG_RTLIMIT (obj_print_rtlimit (f_logrtlimit f) (f_logrtlimit_unit f))"
     "rate_ok (f_newrtlimit f) (f_newrtlimit_unit f) \<Longrightarrow>
       farm_same s KEY_NEWRTLIMIT (obj_print_rtlimit (f_newrtlimit f) (f_newrtlimit_unit f))"
    "rate_ok (f_rstrtlimit f) (f_rstrtlimit_unit f) \<Longrightarrow> f_rstrtlimit f = 0 \<or> f_newrtlimit_unit f = f_rstrtlimit_unit f \<Longrightarrow>
       farm_same s KEY_RSTRTLIMIT (obj_print_rtlimit (f_rstrtlimit f) (f_newrtlimit_unit f))"
proof -
  show "rate_ok (f_logrtlimit f) (f_logrtlimit_unit f) \<Longrightarrow>
       farm_same s KEY_LOG_RTLIMIT (obj_print_rtlimit (f_logrtlimit f) (f_logrtlimit_unit f))"
    "rate_ok (f_newrtlimit f) (f_newrtlimit_unit f) \<Longrightarrow>
       farm_same s KEY_NEWRTLIMIT (obj_print_rtlimit (f_newrtlimit f) (f_newrtlimit_unit f))"
    using assms by (simp_all add: farm_same_simps rate_parsed)
  show "farm_same s KEY_RSTRTLIMIT (obj_print_rtlimit (f_rstrtlimit f) (f_newrtlimit_unit f))"
    if "rate_ok (f_rstrtlimit f) (f_rstrtlimit_unit f)" "f_rstrtlimit f = 0 \<or> f_newrtlimit_unit f = f_rstrtlimit_unit f"
    using that(2)
  proof
    assume "f_rstrtlimit f = 0" with assms that(1) show ?thesis by (simp add: farm_same_simps ratelimit_round_trip_zero rate_ok_def)
  next
    assume "f_newrtlimit_unit f = f_rstrtlimit_unit f" with assms that(1) show ?thesis by (simp add: farm_same_simps rate_parsed)
  qed
qed

lemma farm_same_addr:
  assumes "cur_farm_obj s = Some f" "cur_farm_address f s = Some a"
  shows "a_family a \<noteq> VALUE_FAMILY_NETDEV \<Longrightarrow> obj_print_family (a_family a) = Some v \<Longrightarrow> farm_same s KEY_FAMILY v"
    "farm_same s KEY_VIRTADDR (a_ipaddr a)"
    "farm_same s KEY_VIRTPORTS (a_ports a)"
    "obj_print_proto (a_protocol a) = Some v \<Longrightarrow> farm_same s KEY_PROTO v"
  using assms parse_family [of "a_family a"] parse_enum(2) [of "a_protocol a"]
  by (simp_all add: farm_same_simps)

text \<open>
  The farms whose dump can be read back: numbers as the parser accepts them, masks of the printed bits,
  a state other than \<open>available\<close>, and the unit of the two rate limits the same, since the dump prints the
  unit of the one for both.
\<close>

definition dumpable_farm :: "farm \<Rightarrow> address option \<Rightarrow> bool" where
  "dumpable_farm f a =
     (list_all (\<lambda>v. c_int_range v \<and> 0 \<le> v)
        [f_responsettl f, f_persistttl f, f_limitsttl f, f_newrtlimitbst f, f_rstrtlimitbst f, f_estconnlimit f] \<and>
      c_int_range (f_queue f) \<and> -1 \<le> f_queue f \<and> c_int_range (f_priority f) \<and> 1 \<le> f_priority f \<and>
      f_schedparam f < 64 \<and> f_persistence f < 64 \<and> f_log f < 8 \<and> f_verdict f < 8 \<and> f_verdict f \<noteq> 0 \<and>
      rate_ok (f_logrtlimit f) (f_logrtlimit_unit f) \<and> rate_ok (f_newrtlimit f) (f_newrtlimit_unit f) \<and>
      rate_ok (f_rstrtlimit f) (f_rstrtlimit_unit f) \<and> (f_rstrtlimit f = 0 \<or> f_newrtlimit_unit f = f_rstrtlimit_unit f) \<and>
      f_state f \<noteq> VALUE_STATE_AVAIL \<and> f_name f \<noteq> [] \<and>
      (case a of None \<Rightarrow> True | Some a \<Rightarrow> a_family a \<noteq> VALUE_FAMILY_NETDEV))"

lemma farm_key_names:
  "map config_key [''family'', ''virtual-addr'', ''virtual-ports'', ''source-addr'', ''mode'', ''responsettl'', ''protocol'',
     ''scheduler'', ''sched-param'', ''persistence'', ''persist-ttl'', ''helper'', ''log'', ''log-prefix'', ''log-rtlimit'',
     ''mark'', ''priority'', ''state'', ''limits-ttl'', ''new-rtlimit'', ''new-rtlimit-burst'', ''new-rtlimit-log-prefix'',
     ''rst-rtlimit'', ''rst-rtlimit-burst'', ''rst-rtlimit-log-prefix'', ''est-connlimit'', ''est-connlimit-log-prefix'',
     ''tcp-strict'', ''tcp-strict-log-prefix'', ''queue'', ''verdict'', ''flow-offload'', ''intra-connect'', ''name''] =
   map Some [KEY_FAMILY, KEY_VIRTADDR, KEY_VIRTPORTS, KEY_SRCADDR, KEY_MODE, KEY_RESPONSETTL, KEY_PROTO,
     KEY_SCHED, KEY_SCHEDPARAM, KEY_PERSISTENCE, KEY_PERSISTTM, KEY_HELPER, KEY_LOG, KEY_LOGPREFIX, KEY_LOG_RTLIMIT,
     KEY_MARK, KEY_PRIORITY, KEY_STATE, KEY_LIMITSTTL, KEY_NEWRTLIMIT, KEY_NEWRTLIMITBURST, KEY_NEWRTLIMIT_LOGPREFIX,
     KEY_RSTRTLIMIT, KEY_RSTRTLIMITBURST, KEY_RSTRTLIMIT_LOGPREFIX, KEY_ESTCONNLIMIT, KEY_ESTCONNLIMIT_LOGPREFIX,
     KEY_TCPSTRICT, KEY_TCPSTRICT_LOGPREFIX, KEY_QUEUE, KEY_VERDICT, KEY_FLOWOFFLOAD, KEY_INTRACONNECT, KEY_NAME]"
  by code_simp

definition same_text :: "objs \<Rightarrow> string \<Rightarrow> string \<Rightarrow> bool" where
  "same_text s name t = (\<exists>k. config_key name = Some k \<and> \<not> jump_config_value LEVEL_FARMS k \<and> farm_same s k t)"

definition same_field :: "objs \<Rightarrow> string \<times> field \<Rightarrow> bool" where
  "same_field s x = (\<forall>t. snd x = Text (Some t) \<or> snd x = Value t \<longrightarrow> same_text s (fst x) t)"

lemma same_field_simps:
  "same_field s (name, text_field t) \<longleftrightarrow> same_text s name t"
  "same_field s (name, Text v) \<longleftrightarrow> (\<forall>t. v = Some t \<longrightarrow> same_text s name t)"
  "same_field s (name, int_field i) \<longleftrightarrow> same_text s name (config_dump_int i)"
  "same_field s (name, hex_field h) \<longleftrightarrow> same_text s name (config_dump_hex h)"
  "list_all (same_field s) (field_if b x) \<longleftrightarrow> (b \<longrightarrow> same_field s x)"
  by (auto simp: same_field_def text_field_def int_field_def hex_field_def field_if_def)

lemma farm_fields_same:
  assumes cur: "cur_farm_obj s = Some f" and a: "cur_farm_address f s = a" and d: "dumpable_farm f a"
  shows "list_all (same_field s) (tl (farm_fields f a))"
proof -
  note keys = farm_key_names [unfolded list.map list.inject]
  note same = farm_same_str [OF cur] farm_same_enum [OF cur] farm_same_mask [OF cur] farm_same_num [OF cur] farm_same_rate [OF cur]
  show ?thesis
    using d a same farm_same_addr [OF cur]
    unfolding dumpable_farm_def farm_fields_def
    by (cases a) (simp_all add: same_field_simps same_text_def keys jump_config_value_def)
qed

text \<open>The state after the name of a farm has been read: the farm is the current one.\<close>

definition farm_selected :: "farm \<Rightarrow> nftw \<Rightarrow> nftw" where
  "farm_selected f = upd_objs (\<lambda>s. s\<lparr>cur_farm := Some (f_id f), cur_farmaddress := None, cur_farmpolicy := None\<rparr>)"

lemma name_handlers:
  assumes "c_key c = Some KEY_NAME"
  shows "farm_changed c s" "farm_pre_actionable n env c w = Some w" "farm_pos_actionable n e c s = Some s"
  using assms
  by (simp_all add: farm_changed_def farm_pre_actionable_def farm_pos_actionable_def key_in_simps restart_keys_def split: option.split)

lemma select_farm:
  assumes "farm_lookup_by_name (f_name f) (w_objs w) = Some f" "f_name f \<noteq> []" "c_level c = Some LEVEL_FARMS" "c_key c = Some KEY_NAME"
  shows "config_json_string n env src act (f_name f) (c, w) = Some (0, init_pair, farm_selected f w)"
proof -
  let ?c = "c\<lparr>c_str_value := Some (f_name f)\<rparr>"
  have v: "config_value (f_name f) c = (PARSER_OK, ?c, [])"
    using assms by (simp add: config_value_def key_in_simps)
  have "ask_objs (farm_set_attribute n (net env) ?c) w = Some (0, farm_selected f w)"
    using assms by (simp add: ask_objs_def farm_set_attribute_def c_str_def farm_selected_def upd_objs_def)
  then have "ask_farm_attribute n env ?c b w = Some (0, farm_selected f w)" for b
    using name_handlers [of ?c] assms(4) by (auto simp: ask_farm_attribute_def Let_def on_objs_def)
  then show ?thesis
    using assms(3) by (simp add: config_json_string_def v obj_set_attribute_def)
qed

lemma farm_selected_cur:
  assumes "get_farm (f_id f) (w_objs w) = Some f"
  shows "cur_farm_obj (w_objs (farm_selected f w)) = Some f"
    "cur_farm_address f (w_objs (farm_selected f w)) = Option.bind (farmaddress_get_first f) (\<lambda>fa. get_address (fa_address fa) (w_objs w))"
  using assms by (simp_all add: farm_selected_def upd_objs_def cur_farm_obj_def cur_farm_address_def get_farm_def get_address_def)


definition fits :: "string \<times> field \<Rightarrow> bool" where
  "fits x = (case snd x of Text _ \<Rightarrow> True | Value t \<Rightarrow> length t < 10)"

lemma dump_fields_fits: "list_all fits fs \<Longrightarrow> dump_fields js fs m \<noteq> None"
  by (induction js fs m rule: dump_fields.induct) (simp_all add: fits_def)

lemma one_farm_dump:
  "dumpable_farm (new_farm 0 ''lb'') None" "dump_fields no_jansson (farm_fields (new_farm 0 ''lb'') None) [] \<noteq> None"
proof -
  show "dumpable_farm (new_farm 0 ''lb'') None"
    by (simp add: dumpable_farm_def new_farm_def rate_ok_def)
  have short: "\<forall>i \<in> set [-1, 0, 1, 60, 120]. length (config_dump_int i) < 10" "length (config_dump_hex 0) < 10" by code_simp+
  have "list_all fits (farm_fields (new_farm 0 ''lb'') None)"
    using short by (simp add: farm_fields_def new_farm_def fits_def field_if_def text_field_def int_field_def hex_field_def)
  then show "dump_fields no_jansson (farm_fields (new_farm 0 ''lb'') None) [] \<noteq> None" by (rule dump_fields_fits)
qed


end
