(* ===== verification/NftSim.thy ===== *)
theory NftSim
  imports NftFarm
begin

unbundle bit_operations_syntax

text \<open>
  What holds of the whole of nft.c because it holds of its primitives: a relation between two states
  that every primitive keeps is kept by every function that translates objects. Two instances: one
  command per step and all commands in one buffer (the option \<open>-S\<close>), and a state and the objects it
  started from.
\<close>

section \<open>The configuration behind the objects\<close>

text \<open>The objects without what the translation keeps in them: pending actions and installed chains.\<close>

definition plain_farm :: "farm \<Rightarrow> farm" where
  "plain_farm f = f\<lparr>f_action := ACTION_NONE, f_reload_action := 0, f_policies_action := ACTION_NONE, f_nft_chains := 0,
     f_backends := map (\<lambda>b. b\<lparr>b_action := ACTION_NONE\<rparr>) (f_backends f),
     f_addresses := map (\<lambda>fa. fa\<lparr>fa_action := ACTION_NONE\<rparr>) (f_addresses f),
     f_policies := map (\<lambda>fp. fp\<lparr>fp_action := ACTION_NONE\<rparr>) (f_policies f),
     f_static_sessions := map (\<lambda>s. s\<lparr>s_action := ACTION_NONE\<rparr>) (f_static_sessions f),
     f_timed_sessions := map (\<lambda>s. s\<lparr>s_action := ACTION_NONE\<rparr>) (f_timed_sessions f)\<rparr>"

definition plain_address :: "address \<Rightarrow> address" where
  "plain_address a = a\<lparr>a_action := ACTION_NONE, a_policies_action := ACTION_NONE, a_nft_chains := 0,
     a_policies := map (\<lambda>ap. ap\<lparr>ap_action := ACTION_NONE\<rparr>) (a_policies a)\<rparr>"

definition plain_policy :: "policy \<Rightarrow> policy" where
  "plain_policy p = p\<lparr>p_action := ACTION_NONE,
     p_elements := map (\<lambda>e. e\<lparr>e_action := ACTION_NONE\<rparr>) (p_elements p)\<rparr>"

definition plain_objs :: "objs \<Rightarrow> objs" where
  "plain_objs s = s\<lparr>farms := map plain_farm (farms s), addresses := map plain_address (addresses s),
     policies := map plain_policy (policies s)\<rparr>"

lemma plain_upd_farm [simp]:
  "(\<And>f. plain_farm (g f) = plain_farm f) \<Longrightarrow> plain_objs (upd_farm fid g s) = plain_objs s"
  by (simp add: plain_objs_def upd_farm_def kupd_def cong: map_cong)

lemma plain_upd_address [simp]:
  "(\<And>a. plain_address (g a) = plain_address a) \<Longrightarrow> plain_objs (upd_address aid g s) = plain_objs s"
  by (simp add: plain_objs_def upd_address_def kupd_def cong: map_cong)

lemma plain_upd_policy [simp]:
  "(\<And>p. plain_policy (g p) = plain_policy p) \<Longrightarrow> plain_objs (upd_policy pid g s) = plain_objs s"
  by (simp add: plain_objs_def upd_policy_def kupd_def cong: map_cong)

lemma plain_farm_chains [simp]: "plain_farm (f\<lparr>f_nft_chains := x\<rparr>) = plain_farm f"
  by (simp add: plain_farm_def)

lemma plain_farm_done [simp]: "plain_farm (farm_actions_done f) = plain_farm f"
  by (simp add: plain_farm_def farm_actions_done_def comp_def)

lemma plain_farm_session [simp]:
  "plain_farm (upd_sessions stype (kupd s_id sid (\<lambda>s. s\<lparr>s_action := x\<rparr>)) (total_sessions stype f) f) = plain_farm f"
  by (cases stype) (simp_all add: plain_farm_def upd_sessions_def total_sessions_def kupd_def comp_def if_distrib cong: if_cong map_cong)

lemma plain_farm_policy [simp]:
  "plain_farm (f\<lparr>f_policies := kupd fp_id i (\<lambda>fp. fp\<lparr>fp_action := x\<rparr>) (f_policies f)\<rparr>) = plain_farm f"
  by (simp add: plain_farm_def kupd_def comp_def if_distrib cong: if_cong map_cong)

lemma plain_address_chains [simp]: "plain_address (a\<lparr>a_nft_chains := x\<rparr>) = plain_address a"
  by (simp add: plain_address_def)

lemma plain_address_done [simp]: "plain_address (a\<lparr>a_action := x, a_policies_action := y\<rparr>) = plain_address a"
  by (simp add: plain_address_def)

lemma plain_address_policy [simp]:
  "plain_address (a\<lparr>a_policies := kupd ap_id i (\<lambda>ap. ap\<lparr>ap_action := x\<rparr>) (a_policies a)\<rparr>) = plain_address a"
  by (simp add: plain_address_def kupd_def comp_def if_distrib cong: if_cong map_cong)

lemma plain_policy_action [simp]: "plain_policy (p\<lparr>p_action := x\<rparr>) = plain_policy p"
  by (simp add: plain_policy_def)

lemma plain_policy_elements [simp]:
  "plain_policy (p\<lparr>p_elements := map (\<lambda>e. if sel e then e\<lparr>e_action := x\<rparr> else e) (p_elements p)\<rparr>) = plain_policy p"
  by (simp add: plain_policy_def comp_def if_distrib cong: if_cong map_cong)

section \<open>Relations that the primitives keep\<close>

named_theorems rel_intros

locale nft_relation =
  fixes env :: nftenv and R :: "nftw \<Rightarrow> nftw \<Rightarrow> bool"
  assumes R_objs: "R v w \<Longrightarrow> w_objs v = w_objs w"
    and R_base: "R v w \<Longrightarrow> w_base v = w_base w"
    and R_cnt: "R v w \<Longrightarrow> w_cnt v = w_cnt w"
    and R_prio: "R v w \<Longrightarrow> w_flowtable_prio v = w_flowtable_prio w"
    and concat_R [rel_intros]: "R v w \<Longrightarrow> R (concat_exec_cmd env t v) (concat_exec_cmd env t w)"
    and buf_R [rel_intros]: "R v w \<Longrightarrow> R (u_buf_concat t v) (u_buf_concat t w)"
    and table_R [rel_intros]: "R v w \<Longrightarrow> R (nft_table_handler env fam act v) (nft_table_handler env fam act w)"
    and upd_base_R [rel_intros]: "R v w \<Longrightarrow> R (upd_base g v) (upd_base g w)"
    and upd_cnt_R [rel_intros]: "R v w \<Longrightarrow> R (set_service_counter ty st ofam x v) (set_service_counter ty st ofam x w)"
    and upd_prio_R: "R v w \<Longrightarrow> R (v\<lparr>w_flowtable_prio := i\<rparr>) (w\<lparr>w_flowtable_prio := i\<rparr>)"
    and upd_objs_R: "R v w \<Longrightarrow> (\<And>s. plain_objs (h s) = plain_objs s) \<Longrightarrow> R (upd_objs h v) (upd_objs h w)"
begin

lemma reads:
  assumes "R v w"
  shows "w_objs v = w_objs w" "w_base v = w_base w" "w_cnt v = w_cnt w" "w_flowtable_prio v = w_flowtable_prio w"
    "nfarm n v = nfarm n w" "naddr n v = naddr n w"
    "nftst_get_farm n v = nftst_get_farm n w" "nftst_get_address n v = nftst_get_address n w"
    "nftst_get_policy n v = nftst_get_policy n w" "nftst_get_backend n v = nftst_get_backend n w"
    "nftst_get_family n v = nftst_get_family n w" "nftst_get_proto n v = nftst_get_proto n w"
    "nftst_get_name n v = nftst_get_name n w" "nftst_get_chains n v = nftst_get_chains n w"
    "nftst_create_from_farm fid v = nftst_create_from_farm fid w"
    "nftst_create_from_address aid v = nftst_create_from_address aid w"
    "get_rules_applied ty fam iface v = get_rules_applied ty fam iface w"
    "get_service_counter ty st ofam v = get_service_counter ty st ofam w"
    "counters_empty ty fam v = counters_empty ty fam w"
    "print_log_format k ty n v = print_log_format k ty n w"
    "run_farm_log_rate_limit n v = run_farm_log_rate_limit n w"
proof -
  note eqs = R_objs [OF assms] R_base [OF assms] R_cnt [OF assms] R_prio [OF assms]
  show "w_objs v = w_objs w" "w_base v = w_base w" "w_cnt v = w_cnt w" "w_flowtable_prio v = w_flowtable_prio w"
    by (simp_all add: eqs)
  show obj: "nfarm n v = nfarm n w" "naddr n v = naddr n w"
    "nftst_get_farm n v = nftst_get_farm n w" "nftst_get_address n v = nftst_get_address n w"
    "nftst_get_policy n v = nftst_get_policy n w" "nftst_get_backend n v = nftst_get_backend n w"
    "nftst_get_family n v = nftst_get_family n w" "nftst_get_proto n v = nftst_get_proto n w"
    "nftst_get_name n v = nftst_get_name n w" "nftst_get_chains n v = nftst_get_chains n w"
    "nftst_create_from_farm fid v = nftst_create_from_farm fid w"
    "nftst_create_from_address aid v = nftst_create_from_address aid w" for n
    unfolding nfarm_def naddr_def nftst_get_backend_def nftst_get_family_def nftst_get_proto_def nftst_get_name_def
      nftst_get_chains_def nftst_get_farm_def nftst_get_address_def nftst_get_policy_def
      nftst_create_from_farm_def nftst_create_from_address_def eqs by (rule refl)+
  show cnt: "get_service_counter ty st ofam v = get_service_counter ty st ofam w" for ty st ofam
    by (simp add: get_service_counter_def eqs)
  show "counters_empty ty fam v = counters_empty ty fam w"
    by (simp add: counters_empty_def cnt)
  show "get_rules_applied ty fam iface v = get_rules_applied ty fam iface w"
    by (simp add: get_rules_applied_def eqs)
  show "print_log_format k ty n v = print_log_format k ty n w" "run_farm_log_rate_limit n v = run_farm_log_rate_limit n w"
    unfolding print_log_format_def run_farm_log_rate_limit_def obj by (rule refl)+
qed

lemma steps_R [rel_intros]:
  "R v w \<Longrightarrow> R (steps [] v) (steps [] w)"
  "R (steps gs (g v)) (steps gs (h w)) \<Longrightarrow> R (steps (g # gs) v) (steps (h # gs) w)"
  by simp_all

lemma only_if_R [rel_intros]:
  "R v w \<Longrightarrow> (R v w \<Longrightarrow> c = d) \<Longrightarrow> (R v w \<Longrightarrow> R (g v) (h w)) \<Longrightarrow> R (only_if c g v) (only_if d h w)"
  by (simp add: only_if_def)

lemma if_R: "(c \<Longrightarrow> R v w) \<Longrightarrow> (\<not> c \<Longrightarrow> R v' w') \<Longrightarrow> R (if c then v else v') (if c then w else w')"
  by simp

lemma if_fun_R [rel_intros]:
  "(c \<Longrightarrow> R (g v) (g w)) \<Longrightarrow> (\<not> c \<Longrightarrow> R (h v) (h w)) \<Longrightarrow> R ((if c then g else h) v) ((if c then g else h) w)"
  by simp

lemma prio_R [rel_intros]:
  "R v w \<Longrightarrow> (R v w \<Longrightarrow> i = j) \<Longrightarrow> R (v\<lparr>w_flowtable_prio := i\<rparr>) (w\<lparr>w_flowtable_prio := j\<rparr>)"
  using upd_prio_R [of v w i] by metis

lemma fold_R: "R v w \<Longrightarrow> (\<And>x v w. R v w \<Longrightarrow> R (g x v) (g x w)) \<Longrightarrow> R (fold g xs v) (fold g xs w)"
  by (induction xs arbitrary: v w) auto

lemma set_chains_R [rel_intros]:
  assumes "R v w" "R v w \<Longrightarrow> x = y"
  shows "R (nftst_set_chains n x v) (nftst_set_chains n y w)"
  unfolding nftst_set_chains_def assms(2) [OF assms(1)]
  using assms(1) by (rule upd_objs_R) (simp add: Let_def split: option.split)

lemma actions_done_R [rel_intros]: "R v w \<Longrightarrow> R (nftst_actions_done n v) (nftst_actions_done n w)"
  unfolding nftst_actions_done_def by (erule upd_objs_R) (simp add: Let_def split: option.split)

lemma update_counters_R [rel_intros]:
  "R v w \<Longrightarrow> R (update_service_counters a ty st fam q act v) (update_service_counters a ty st fam q act w)"
  unfolding update_service_counters_def Let_def reads by (simp add: upd_cnt_R)

lemma note_iface_R [rel_intros]: "R v w \<Longrightarrow> R (note_iface ty i v) (note_iface ty i w)"
  unfolding note_iface_def by (rule upd_base_R)

lemma set_rules_R [rel_intros]: "R v w \<Longrightarrow> R (set_rules_applied ty fam i g v) (set_rules_applied ty fam i g w)"
  by (auto simp: set_rules_applied_def reads intro: upd_base_R split: option.split)

lemma chain_handler_R [rel_intros]:
  "R v w \<Longrightarrow> R (nft_chain_handler env fam c t h d p act v) (nft_chain_handler env fam c t h d p act w)"
  unfolding nft_chain_handler_def by (cases act) (simp_all add: concat_R)

lemma gen_chain_R [rel_intros]: "R v w \<Longrightarrow> R (run_nftst_rules_gen_chain env n fam ty act v) (run_nftst_rules_gen_chain env n fam ty act w)"
  unfolding run_nftst_rules_gen_chain_def Let_def by (auto simp: reads intro!: rel_intros split: option.split)

lemma meta_mark_R [rel_intros]: "R v w \<Longrightarrow> R (run_base_chain_set_meta_mark env ty fam c v) (run_base_chain_set_meta_mark env ty fam c w)"
  unfolding run_base_chain_set_meta_mark_def Let_def by (auto simp: reads intro!: rel_intros split: option.split)

lemma masq_R [rel_intros]: "R v w \<Longrightarrow> R (run_base_chain_postrouting_masquerade env ty fam v) (run_base_chain_postrouting_masquerade env ty fam w)"
  unfolding run_base_chain_postrouting_masquerade_def Let_def by (auto simp: reads intro!: rel_intros split: option.split)

lemma bckmark_R [rel_intros]: "R v w \<Longrightarrow> R (run_base_chain_postrouting_bckmark env sv ty fam v) (run_base_chain_postrouting_bckmark env sv ty fam w)"
  unfolding run_base_chain_postrouting_bckmark_def Let_def by (auto simp: reads intro!: rel_intros split: option.split)

lemma farm_map_R [rel_intros]: "R v w \<Longrightarrow> R (run_farm_map env a fam st mn k d to act v) (run_farm_map env a fam st mn k d to act w)"
  unfolding run_farm_map_def Let_def by (auto simp: reads intro!: rel_intros split: option.split)

lemma base_table_R [rel_intros]: "R v w \<Longrightarrow> R (run_base_table env ty fam act v) (run_base_table env ty fam act w)"
  unfolding run_base_table_def Let_def by (auto simp: reads intro!: rel_intros split: option.split)

lemma base_service_R [rel_intros]: "R v w \<Longrightarrow> R (run_base_service env st ty fam bc rn v) (run_base_service env st ty fam bc rn w)"
  unfolding run_base_service_def Let_def by (auto simp: reads intro!: rel_intros split: option.split)

lemma chain_start_R [rel_intros]: "R v w \<Longrightarrow> R (run_base_chain_start env ty fam bc rn v) (run_base_chain_start env ty fam bc rn w)"
  unfolding run_base_chain_start_def Let_def by (auto simp: reads intro!: rel_intros split: option.split)

lemma chain_flush_R [rel_intros]: "R v w \<Longrightarrow> R (run_base_chain_flush env a ty fam bc v) (run_base_chain_flush env a ty fam bc w)"
  unfolding run_base_chain_flush_def Let_def by (auto simp: reads intro!: rel_intros split: option.split)

lemma chain_delete_R [rel_intros]: "R v w \<Longrightarrow> R (run_base_chain_delete env a ty fam bc v) (run_base_chain_delete env a ty fam bc w)"
  unfolding run_base_chain_delete_def Let_def by (auto simp: reads intro!: rel_intros split: option.split)

lemma base_chain_R [rel_intros]:
  assumes r: "R v w"
  shows "R (run_base_chain env n ty fam rn act v) (run_base_chain env n ty fam rn act w)"
proof (cases "base_chain_info ty (naddr n w) (nftst_get_farm n w)")
  case None
  with r show ?thesis by (simp add: run_base_chain_def reads [OF r])
next
  case (Some bc)
  let ?v0 = "note_iface ty (bc_iface bc) v" and ?w0 = "note_iface ty (bc_iface bc) w"
  let ?v1 = "run_base_chain_flush env (naddr n w) ty fam bc ?v0"
  let ?w1 = "run_base_chain_flush env (naddr n w) ty fam bc ?w0"
  have r0: "R ?v0 ?w0" using r by (rule note_iface_R)
  then have r1: "R ?v1 ?w1" by (rule chain_flush_R)
  show ?thesis
    unfolding run_base_chain_def Let_def reads [OF r] Some option.case reads [OF r0] reads [OF r1]
    by (simp add: r0 r1 chain_start_R chain_delete_R split: option.split)
qed

text \<open>The loops that carry texts and counters along with the state.\<close>

definition loop_R :: "elem_loop \<Rightarrow> elem_loop \<Rightarrow> bool" where
  "loop_R l m = (l_key l = l_key m \<and> l_data l = l_data m \<and> l_output l = l_output m \<and> R (l_w l) (l_w m))"

lemma bck_elem_step_R:
  assumes l: "loop_R l m"
  shows "loop_R (bck_elem_step env n fam ty pr act km dm ip fp bid l) (bck_elem_step env n fam ty pr act km dm ip fp bid m)"
proof -
  have r: "R (l_w l) (l_w m)" and eqs: "l_key l = l_key m" "l_data l = l_data m" "l_output l = l_output m"
    using l by (simp_all add: loop_R_def)
  define undo where "undo t a st c = only_if c
    (steps [concat_exec_cmd env t, update_service_counters a ty st fam 1 ACTION_DELETE])" for t a st c
  have ru: "R (undo t a st c (l_w l)) (undo t a st c (l_w m))" for t a st c
    unfolding undo_def using r by (intro rel_intros refl)
  show ?thesis
    unfolding bck_elem_step_def Let_def reads [OF r] eqs undo_def [symmetric] reads [OF ru]
    by (auto simp: loop_R_def eqs l r ru intro!: rel_intros split: option.split)
qed

lemma bck_steps_R: "loop_R l m \<Longrightarrow> loop_R (fold (bck_elem_step env n fam ty pr act km dm ip fp) ids l)
    (fold (bck_elem_step env n fam ty pr act km dm ip fp) ids m)"
  by (induction ids arbitrary: l m) (simp_all add: bck_elem_step_R)

lemma bck_port_loop_R:
  "loop_R l m \<Longrightarrow> loop_R (bck_port_loop env n fam ty pr act km dm ip np fp l) (bck_port_loop env n fam ty pr act km dm ip np fp m)"
proof (induction "nat (int NFTLB_MAX_PORTS + 1 - ip)" arbitrary: ip np fp l m rule: less_induct)
  case less
  then have r: "R (l_w l) (l_w m)" by (simp add: loop_R_def)
  show ?case
    by (subst (1 2) bck_port_loop.simps)
      (auto simp: Let_def reads [OF r] bck_steps_R less.prems intro!: less.hyps)
qed

lemma port_elements_R:
  "R v w \<Longrightarrow> rel_prod (=) R (port_elements env a c e v) (port_elements env a c e w)"
  by (auto simp: port_elements_def concat_R split: prod.split)

lemma srv_map_R:
  assumes r: "R v w"
  shows "rel_prod (=) R (run_nftst_rules_gen_srv_map env n fam ty pr act km dm v)
           (run_nftst_rules_gen_srv_map env n fam ty pr act km dm w)"
proof -
  let ?l = "\<lambda>w. \<lparr>l_key = [], l_data = [], l_output = 0, l_w = w\<rparr>"
  have "loop_R (bck_port_loop env n fam ty pr act km dm 1 np True (?l v)) (bck_port_loop env n fam ty pr act km dm 1 np True (?l w))" for np
    by (rule bck_port_loop_R) (simp add: loop_R_def r)
  then have "l_output (bck_port_loop env n fam ty pr act km dm 1 np True (?l v)) = l_output (bck_port_loop env n fam ty pr act km dm 1 np True (?l w))"
    "R (l_w (bck_port_loop env n fam ty pr act km dm 1 np True (?l v))) (l_w (bck_port_loop env n fam ty pr act km dm 1 np True (?l w)))" for np
    by (simp_all add: loop_R_def)
  then show ?thesis
    unfolding run_nftst_rules_gen_srv_map_def Let_def reads [OF r]
    by (cases km) (simp_all add: r concat_R port_elements_R)
qed

lemma srv_map_by_type_R [rel_intros]:
  assumes r: "R v w"
  shows "R (run_nftst_rules_gen_srv_map_by_type env n ty fam pr act v) (run_nftst_rules_gen_srv_map_by_type env n ty fam pr act w)"
proof -
  have *: "R (case p of (k, x) \<Rightarrow> only_if (c k) (update_service_counters a ty s fa (q k) act) x)
             (case p' of (k, x) \<Rightarrow> only_if (c k) (update_service_counters a ty s fa (q k) act) x)"
    if "rel_prod (=) R p p'" for p p' c a s fa q
    using that by (cases p; cases p') (auto intro!: rel_intros)
  show ?thesis
    unfolding run_nftst_rules_gen_srv_map_by_type_def Let_def reads [OF r]
    by (auto simp: r srv_map_R intro!: * split: option.split)
qed

lemma srv_map_by_protocol_R [rel_intros]:
  "R v w \<Longrightarrow> R (run_nftst_rules_gen_srv_map_by_protocol env n ty fam act v) (run_nftst_rules_gen_srv_map_by_protocol env n ty fam act w)"
  unfolding run_nftst_rules_gen_srv_map_by_protocol_def Let_def by (auto simp: reads intro!: rel_intros)

lemma vsrv_R [rel_intros]:
  "R v w \<Longrightarrow> R (run_nftst_rules_gen_vsrv env n ty fam sa act v) (run_nftst_rules_gen_vsrv env n ty fam sa act w)"
  unfolding run_nftst_rules_gen_vsrv_def Let_def by (auto intro!: rel_intros split: action.split)

lemma snat_R [rel_intros]: "R v w \<Longrightarrow> R (run_farm_snat env n fam act v) (run_farm_snat env n fam act w)"
  unfolding run_farm_snat_def Let_def by (auto simp: reads intro!: rel_intros split: option.split)

lemma log_prefix_R [rel_intros]: "R v w \<Longrightarrow> R (run_farm_log_prefix fid key ty v) (run_farm_log_prefix fid key ty w)"
  unfolding run_farm_log_prefix_def Let_def by (auto simp: reads intro!: rel_intros split: option.split)

lemma gen_log_rules_R [rel_intros]: "R v w \<Longrightarrow> R (run_farm_gen_log_rules env fid fam c key ty v) (run_farm_gen_log_rules env fid fam c key ty w)"
  unfolding run_farm_gen_log_rules_def Let_def by (auto simp: reads intro!: rel_intros split: option.split)

lemma helper_R [rel_intros]: "R v w \<Longrightarrow> R (run_farm_helper env f fam act pr v) (run_farm_helper env f fam act pr w)"
  unfolding run_farm_helper_def Let_def by (auto simp: reads intro!: rel_intros split: option.split)

lemma filter_helper_R [rel_intros]: "R v w \<Longrightarrow> R (run_farm_rules_filter_helper env n fam c act v) (run_farm_rules_filter_helper env n fam c act w)"
  unfolding run_farm_rules_filter_helper_def Let_def by (auto simp: reads intro!: rel_intros split: option.split)

lemma sessions_map_R [rel_intros]: "R v w \<Longrightarrow> R (run_farm_sessions_map env n st fam act v) (run_farm_sessions_map env n st fam act w)"
  unfolding run_farm_sessions_map_def Let_def by (auto simp: reads intro!: rel_intros split: option.split)

lemma session_elements_R [rel_intros]: "R v w \<Longrightarrow> R (session_elements env f st fam act s v) (session_elements env f st fam act s w)"
  unfolding session_elements_def Let_def by (auto simp: reads intro!: rel_intros split: option.split)

lemma manage_sessions_R [rel_intros]:
  "R v w \<Longrightarrow> R (run_farm_manage_sessions env fid st fam act v) (run_farm_manage_sessions env fid st fam act w)"
  unfolding run_farm_manage_sessions_def Let_def
  by (auto simp: reads intro!: fold_R upd_objs_R session_elements_R split: option.split)

lemma update_sessions_R [rel_intros]: "R v w \<Longrightarrow> R (run_farm_rules_update_sessions env n fam c act v) (run_farm_rules_update_sessions env n fam c act w)"
  unfolding run_farm_rules_update_sessions_def Let_def by (auto simp: reads intro!: rel_intros split: option.split)

lemma fwd_to_R [rel_intros]: "R v w \<Longrightarrow> R (run_fwd_to env n v) (run_fwd_to env n w)"
  unfolding run_fwd_to_def Let_def by (auto simp: reads intro!: rel_intros split: option.split)

lemma stls_rewrite_R [rel_intros]: "R v w \<Longrightarrow> R (run_stls_rewrite env n v) (run_stls_rewrite env n w)"
  unfolding run_stls_rewrite_def Let_def by (auto simp: reads intro!: rel_intros split: option.split)

lemma check_sessions_R [rel_intros]: "R v w \<Longrightarrow> R (run_farm_rules_check_sessions env n st fam act v) (run_farm_rules_check_sessions env n st fam act w)"
  unfolding run_farm_rules_check_sessions_def Let_def by (auto simp: reads intro!: rel_intros split: mode.split)

lemma meter_R [rel_intros]: "R v w \<Longrightarrow> R (run_farm_meter env f tf fam k nm act v) (run_farm_meter env f tf fam k nm act w)"
  unfolding run_farm_meter_def Let_def by (auto simp: reads intro!: rel_intros split: option.split)

lemma log_and_verdict_R [rel_intros]: "R v w \<Longrightarrow> R (run_farm_rules_log_and_verdict env n lr fl vd k c v) (run_farm_rules_log_and_verdict env n lr fl vd k c w)"
  unfolding run_farm_rules_log_and_verdict_def Let_def by (auto simp: reads intro!: rel_intros split: option.split)

lemma filter_policies_R [rel_intros]: "R v w \<Longrightarrow> R (run_farm_rules_filter_policies env fid fam c act v) (run_farm_rules_filter_policies env fid fam c act w)"
  unfolding run_farm_rules_filter_policies_def Let_def by (auto simp: reads intro!: rel_intros split: option.split)

lemma limits_per_bck_R [rel_intros]:
  "R v w \<Longrightarrow> R (run_farm_rules_gen_limits_per_bck env fid fam c act v) (run_farm_rules_gen_limits_per_bck env fid fam c act w)"
  unfolding run_farm_rules_gen_limits_per_bck_def Let_def by (auto simp: reads intro!: fold_R rel_intros)

lemma filter_marks_R [rel_intros]: "R v w \<Longrightarrow> R (run_farm_rules_filter_marks env n fam c act v) (run_farm_rules_filter_marks env n fam c act w)"
  unfolding run_farm_rules_filter_marks_def Let_def by (auto simp: reads intro!: rel_intros split: option.split)

lemma rules_filter_R [rel_intros]: "R v w \<Longrightarrow> R (run_farm_rules_filter env n fam act v) (run_farm_rules_filter env n fam act w)"
  unfolding run_farm_rules_filter_def Let_def by (auto simp: reads intro!: rel_intros split: option.split)

lemma flowtable_R [rel_intros]: "R v w \<Longrightarrow> R (run_farm_flowtable env n fam nm act v) (run_farm_flowtable env n fam nm act w)"
  unfolding run_farm_flowtable_def Let_def by (auto simp: reads intro!: rel_intros split: prod.split)

lemma flowtable_rules_R [rel_intros]: "R v w \<Longrightarrow> R (run_farm_gen_flowtable_rules env n fam c nm v) (run_farm_gen_flowtable_rules env n fam c nm w)"
  unfolding run_farm_gen_flowtable_rules_def Let_def by (auto simp: reads intro!: rel_intros split: option.split)

lemma rules_forward_R [rel_intros]: "R v w \<Longrightarrow> R (run_farm_rules_forward env n fam act v) (run_farm_rules_forward env n fam act w)"
  unfolding run_farm_rules_forward_def Let_def by (auto simp: reads intro!: rel_intros split: action.split)

lemma rules_output_R [rel_intros]: "R v w \<Longrightarrow> R (run_farm_rules_output env n fam act v) (run_farm_rules_output env n fam act w)"
  unfolding run_farm_rules_output_def Let_def by (auto simp: reads intro!: rel_intros split: option.split)

lemma farm_policy_step_R: "R v w \<Longrightarrow> R (farm_policy_step env fid c act fp v) (farm_policy_step env fid c act fp w)"
  unfolding farm_policy_step_def Let_def by (auto simp: reads intro!: rel_intros upd_objs_R split: option.split)

lemma farm_policies_R [rel_intros]:
  "R v w \<Longrightarrow> R (run_farm_rules_ingress_policies env fid c act v) (run_farm_rules_ingress_policies env fid c act w)"
  unfolding run_farm_rules_ingress_policies_def by (simp add: reads fold_R farm_policy_step_R)

lemma address_policy_step_R: "R v w \<Longrightarrow> R (address_policy_step env n c ap v) (address_policy_step env n c ap w)"
  unfolding address_policy_step_def Let_def by (auto simp: reads intro!: rel_intros upd_objs_R split: option.split)

lemma address_policies_R [rel_intros]:
  "R v w \<Longrightarrow> R (run_nftst_rules_ingress_policies env n c act v) (run_nftst_rules_ingress_policies env n c act w)"
  unfolding run_nftst_rules_ingress_policies_def Let_def by (simp add: reads fold_R address_policy_step_R)

lemma ingress_policies_R [rel_intros]:
  assumes r: "R v w"
  shows "R (run_nftst_ingress_policies env n fam act v) (run_nftst_ingress_policies env n fam act w)"
proof -
  have stop: "R (if (case nftst_get_farm n v of Some f \<Rightarrow> f_addresses_used f \<le> 1 | None \<Rightarrow> False)
                 then run_farm_rules_ingress_policies env fid ch ac v
                 else only_if d (run_nftst_rules_ingress_policies env n ch ac) v)
                (if (case nftst_get_farm n w of Some f \<Rightarrow> f_addresses_used f \<le> 1 | None \<Rightarrow> False)
                 then run_farm_rules_ingress_policies env fid ch ac w
                 else only_if d (run_nftst_rules_ingress_policies env n ch ac) w)"
    if "R v w" for v w d fid ch ac
    using that by (simp add: reads [OF that] rel_intros)
  show ?thesis
    unfolding run_nftst_ingress_policies_def Let_def reads [OF r]
    by (rule if_R, rule r, cases act; simp only: action.case) (intro rel_intros stop r refl)+
qed

lemma gen_nat_R [rel_intros]: "R v w \<Longrightarrow> R (run_farm_rules_gen_nat env n fam ty act v) (run_farm_rules_gen_nat env n fam ty act w)"
  unfolding run_farm_rules_gen_nat_def Let_def by (auto simp: reads intro!: rel_intros split: mode.split)

lemma policies_now_R [rel_intros]: "R v w \<Longrightarrow> R (farm_policies_now env n fam v) (farm_policies_now env n fam w)"
  unfolding farm_policies_now_def Let_def by (auto simp: reads intro!: rel_intros split: option.split)

lemma dsr_R [rel_intros]: "R v w \<Longrightarrow> R (run_farm_dsr env n fam act v) (run_farm_dsr env n fam act w)"
  unfolding run_farm_dsr_def Let_def by (auto simp: reads intro!: rel_intros split: option.split)

lemma stlsnat_R [rel_intros]: "R v w \<Longrightarrow> R (run_farm_stlsnat env n fam act v) (run_farm_stlsnat env n fam act w)"
  unfolding run_farm_stlsnat_def Let_def by (auto simp: reads intro!: rel_intros split: option.split)

lemma nat_R [rel_intros]: "R v w \<Longrightarrow> R (run_farm_nat env n fam act v) (run_farm_nat env n fam act w)"
  unfolding run_farm_nat_def Let_def by (auto simp: reads intro!: rel_intros split: option.split)

lemma local_R [rel_intros]: "R v w \<Longrightarrow> R (run_farm_local env n fam act v) (run_farm_local env n fam act w)"
  unfolding run_farm_local_def Let_def by (auto simp: reads intro!: rel_intros split: option.split)

lemma farm_rules_R [rel_intros]: "R v w \<Longrightarrow> R (run_farm_rules env n fam v) (run_farm_rules env n fam w)"
  unfolding run_farm_rules_def Let_def by (auto simp: reads intro!: rel_intros split: mode.split)

lemma address_rules_R [rel_intros]: "R v w \<Longrightarrow> R (run_address_rules env n fam v) (run_address_rules env n fam w)"
  unfolding run_address_rules_def Let_def by (auto simp: reads intro!: rel_intros split: option.split)

lemma nftst_R [rel_intros]: "R v w \<Longrightarrow> R (run_nftst env n v) (run_nftst env n w)"
  unfolding run_nftst_def Let_def by (auto simp: reads intro!: rel_intros split: option.split)

lemma set_elements_R [rel_intros]: "R v w \<Longrightarrow> R (set_elements_cmd env vb pid sel v) (set_elements_cmd env vb pid sel w)"
  unfolding set_elements_cmd_def Let_def by (auto simp: reads intro!: rel_intros upd_objs_R split: option.split)

lemma run_set_elements_R [rel_intros]: "R v w \<Longrightarrow> R (run_set_elements env pid v) (run_set_elements env pid w)"
  unfolding run_set_elements_def Let_def by (auto simp: reads intro!: rel_intros split: option.split action.split)

lemma set_farm_policies_R [rel_intros]:
  "R v w \<Longrightarrow> R (run_set_farm_policies env pid v) (run_set_farm_policies env pid w)"
  unfolding run_set_farm_policies_def by (auto simp: reads intro!: fold_R rel_intros split: option.split)

lemma policy_done_R [rel_intros]:
  "R v w \<Longrightarrow> R (upd_objs (upd_policy pid (\<lambda>p. p\<lparr>p_action := x\<rparr>)) v) (upd_objs (upd_policy pid (\<lambda>p. p\<lparr>p_action := x\<rparr>)) w)"
  by (erule upd_objs_R) simp

lemma policy_set_R [rel_intros]: "R v w \<Longrightarrow> R (run_policy_set env pid v) (run_policy_set env pid w)"
  unfolding run_policy_set_def Let_def by (auto simp: reads intro!: rel_intros split: option.split action.split)

end

section \<open>Whole calls\<close>

text \<open>The entry points of nft.c, each with a buffer of its own.\<close>

datatype nft_call = Rulerize_farm oid | Rulerize_address oid | Rulerize_policy oid | Reset

fun nft_do :: "nftenv \<Rightarrow> nft_call \<Rightarrow> nftw \<Rightarrow> nftw" where
  "nft_do env (Rulerize_farm fid) = nft_rulerize_farms env fid"
| "nft_do env (Rulerize_address aid) = nft_rulerize_address env aid"
| "nft_do env (Rulerize_policy pid) = nft_rulerize_policies env pid"
| "nft_do env Reset = nft_reset env"

definition nft_calls :: "nftenv \<Rightarrow> nft_call list \<Rightarrow> nftw \<Rightarrow> nftw" where
  "nft_calls env cs w = fold (nft_do env) cs w"

text \<open>Q relates the states between calls, R the states within one.\<close>

locale nft_entry = nft_relation +
  fixes Q :: "nftw \<Rightarrow> nftw \<Rightarrow> bool"
  assumes Q_objs: "Q v w \<Longrightarrow> w_objs v = w_objs w"
    and Q_enter: "Q v w \<Longrightarrow> R (v\<lparr>w_buf := []\<rparr>) (w\<lparr>w_buf := []\<rparr>)"
    and Q_leave: "Q v0 w0 \<Longrightarrow> R v w \<Longrightarrow>
      Q ((exec_cmd env (w_buf v) v)\<lparr>w_buf := w_buf v0\<rparr>) ((exec_cmd env (w_buf w) w)\<lparr>w_buf := w_buf w0\<rparr>)"
    and Q_base: "Q v w \<Longrightarrow> Q (upd_base g v) (upd_base g w)"
    and Q_upd_objs: "Q v w \<Longrightarrow> (\<And>s. plain_objs (h s) = plain_objs s) \<Longrightarrow> Q (upd_objs h v) (upd_objs h w)"
begin

lemma with_buffer_Q:
  assumes "Q v w" "\<And>v w. R v w \<Longrightarrow> R (g v) (g w)"
  shows "Q (with_buffer env g v) (with_buffer env g w)"
  unfolding with_buffer_def Let_def using assms(1) by (rule Q_leave) (intro assms(2) Q_enter assms(1))

lemma actions_done_Q: "Q v w \<Longrightarrow> Q (nftst_actions_done n v) (nftst_actions_done n w)"
  unfolding nftst_actions_done_def by (erule Q_upd_objs) (simp add: Let_def split: option.split)

lemma rulerize_farms_Q:
  assumes q: "Q v w"
  shows "Q (nft_rulerize_farms env fid v) (nft_rulerize_farms env fid w)"
proof -
  have c: "nftst_create_from_farm fid v = nftst_create_from_farm fid w" and f: "nfarm n v = nfarm n w" for n
    using Q_objs [OF q] by (simp_all add: nftst_create_from_farm_def nfarm_def nftst_get_farm_def)
  show ?thesis
    unfolding nft_rulerize_farms_def Let_def c f
    by (intro actions_done_Q with_buffer_Q q fold_R) (simp_all add: reads nftst_R)
qed

lemma rulerize_address_Q: "Q v w \<Longrightarrow> Q (nft_rulerize_address env aid v) (nft_rulerize_address env aid w)"
  unfolding nft_rulerize_address_def Let_def nftst_create_from_address_def
  by (simp add: Q_objs actions_done_Q with_buffer_Q nftst_R)

lemma reset_Q: "Q v w \<Longrightarrow> Q (nft_reset env v) (nft_reset env w)"
  unfolding nft_reset_def farm_s_clean_nft_chains_def address_s_clean_nft_chains_def Let_def clean_rules_counters_def steps_simps
  by (intro Q_upd_objs Q_base with_buffer_Q rel_intros; (assumption | drule R_base, simp only: | simp add: plain_objs_def comp_def))

lemma nft_do_Q: "Q v w \<Longrightarrow> Q (nft_do env c v) (nft_do env c w)"
  by (cases c) (simp_all add: rulerize_farms_Q rulerize_address_Q reset_Q nft_rulerize_policies_def with_buffer_Q policy_set_R)

lemma nft_calls_Q: "Q v w \<Longrightarrow> Q (nft_calls env cs v) (nft_calls env cs w)"
  unfolding nft_calls_def by (induction cs arbitrary: v w) (simp_all add: nft_do_Q)

end

section \<open>One command at a time, or all at once\<close>

definition unfailing :: "nftenv \<Rightarrow> nftenv" where
  "unfailing env = env\<lparr>nft_run_cmd := \<lambda>_ _. False\<rparr>"

lemma unfailingI: "\<forall>h c. \<not> nft_run_cmd env h c \<Longrightarrow> unfailing env = env"
  by (cases env) (auto simp: unfailing_def)

definition same_view :: "nftw \<Rightarrow> nftw \<Rightarrow> bool" where
  "same_view v w = (w_objs v = w_objs w \<and> w_base v = w_base w \<and> w_cnt v = w_cnt w \<and>
     w_flowtable_prio v = w_flowtable_prio w)"

definition serial :: "nftw \<Rightarrow> nftw \<Rightarrow> bool" where
  "serial v w = (same_view v w \<and> w_serialize v \<and> \<not> w_serialize w \<and>
     concat (w_cmds v) @ w_buf v = concat (w_cmds w) @ w_buf w)"

definition serial_idle :: "nftw \<Rightarrow> nftw \<Rightarrow> bool" where
  "serial_idle v w = (same_view v w \<and> w_serialize v \<and> \<not> w_serialize w \<and>
     concat (w_cmds v) = concat (w_cmds w))"

lemma exec_unfailing: "exec_cmd (unfailing env) c w = (if c = [] then w else w\<lparr>w_cmds := w_cmds w @ [c]\<rparr>)"
  by (simp add: exec_cmd_def unfailing_def)

lemmas unfailing_simps = exec_unfailing concat_exec_cmd_def exec_cmd_unbuffered_def u_buf_concat_def Let_def

interpretation serial: nft_entry "unfailing env" serial serial_idle for env
proof unfold_locales
  fix v w t assume "serial v w"
  then show "serial (concat_exec_cmd (unfailing env) t v) (concat_exec_cmd (unfailing env) t w)"
    by (auto simp: serial_def same_view_def unfailing_simps)
next
  fix v w fam act assume "serial v w"
  then show "serial (nft_table_handler (unfailing env) fam act v) (nft_table_handler (unfailing env) fam act w)"
    by (cases act) (auto simp: serial_def same_view_def unfailing_simps nft_table_handler_def)
qed (auto simp: serial_def serial_idle_def same_view_def unfailing_simps upd_base_def upd_objs_def set_service_counter_def)



section \<open>The configuration is only read\<close>

definition keeps_config :: "nftenv \<Rightarrow> bool" where
  "keeps_config env =
     ((\<forall>h c. \<not> nft_run_cmd env h c) \<or> (\<forall>w. plain_objs (w_objs (recovery env w)) = plain_objs (w_objs w)))"

definition of_config :: "nftenv \<Rightarrow> objs \<Rightarrow> nftw \<Rightarrow> nftw \<Rightarrow> bool" where
  "of_config env s v w = (v = w \<and> (keeps_config env \<longrightarrow> plain_objs (w_objs w) = s))"

lemma exec_keeps: "keeps_config env \<Longrightarrow> plain_objs (w_objs (exec_cmd env c w)) = plain_objs (w_objs w)"
  by (auto simp: exec_cmd_def keeps_config_def Let_def)

lemma concat_keeps: "keeps_config env \<Longrightarrow> plain_objs (w_objs (concat_exec_cmd env t w)) = plain_objs (w_objs w)"
  by (simp add: concat_exec_cmd_def exec_cmd_unbuffered_def u_buf_concat_def exec_keeps Let_def)

interpretation config: nft_entry env "of_config env s" "of_config env s" for env s
proof unfold_locales
  fix v w fam act assume "of_config env s v w"
  then show "of_config env s (nft_table_handler env fam act v) (nft_table_handler env fam act w)"
    by (cases act) (auto simp: of_config_def nft_table_handler_def Let_def concat_keeps)
qed (auto simp: of_config_def upd_base_def upd_objs_def set_service_counter_def u_buf_concat_def Let_def concat_keeps exec_keeps)



lemma plain_get_farm:
  assumes "plain_objs s = plain_objs t" "get_farm fid t = Some f"
  shows "\<exists>g. get_farm fid s = Some g \<and> plain_farm g = plain_farm f"
proof -
  have "kfind f_id fid (map plain_farm xs) = map_option plain_farm (kfind f_id fid xs)" for xs
    by (induction xs) (auto simp: plain_farm_def)
  moreover have "map plain_farm (farms x) = farms (plain_objs x)" for x
    by (simp add: plain_objs_def)
  ultimately have "map_option plain_farm (get_farm fid s) = map_option plain_farm (get_farm fid t)"
    using assms(1) by (metis get_farm_def)
  with assms(2) show ?thesis by auto
qed



end
