(* ===== verification/PolicyLinks.thy ===== *)
theory PolicyLinks
  imports Links
begin

text \<open>
  The links between farms and policies. A policy is found and taken out of the farms by its name, so the
  links are only right when names are unique and no farm has two links to a policy: \<open>pol_refs\<close>. Together
  with \<open>addr_refs\<close> and two notes that a proof may take along it makes \<open>links_ok\<close>, which every operation
  on objects and links keeps.
\<close>

section \<open>The invariant\<close>

definition farm_pols :: "oid set \<Rightarrow> oid \<Rightarrow> farm \<Rightarrow> bool" where
  "farm_pols pids lim f =
     (distinct (map fp_id (f_policies f)) \<and> distinct (map fp_policy (f_policies f)) \<and>
      f_policies_used f = int (length (f_policies f)) \<and>
      (\<forall>fp \<in> set (f_policies f). fp_id fp < lim \<and> fp_policy fp \<in> pids))"

definition pol_refs :: "objs \<Rightarrow> bool" where
  "pol_refs s =
     (distinct (map p_id (policies s)) \<and> distinct (map p_name (policies s)) \<and>
      (\<forall>p \<in> set (policies s). p_id p < next_oid s) \<and>
      (\<forall>f \<in> set (farms s). farm_pols (p_id ` set (policies s)) (next_oid s) f))"

text \<open>The notes: links that are not there (farm and policy) and policies that are (identity and name).\<close>

definition pol_sig :: "policy \<Rightarrow> oid \<times> string" where
  "pol_sig p = (p_id p, p_name p)"

definition noted :: "(oid \<times> oid) set \<Rightarrow> (oid \<times> string) set \<Rightarrow> objs \<Rightarrow> bool" where
  "noted K N s = ((\<forall>f \<in> set (farms s). \<forall>fp \<in> set (f_policies f). (f_id f, fp_policy fp) \<notin> K) \<and> N \<subseteq> pol_sig ` set (policies s))"

definition links_ok :: "(oid \<times> oid) set \<Rightarrow> (oid \<times> string) set \<Rightarrow> objs \<Rightarrow> bool" where
  "links_ok K N s = (addr_refs s \<and> pol_refs s \<and> noted K N s)"

lemma links_ok_less: "links_ok K N s \<Longrightarrow> links_ok {} {} s"
  by (simp add: links_ok_def noted_def)

lemma links_ok_start: "links_ok {} {} s = (addr_refs s \<and> pol_refs s)"
  by (simp add: links_ok_def noted_def)

text \<open>What it depends on.\<close>

definition fp_sig :: "farm \<Rightarrow> oid \<times> (oid \<times> oid) list \<times> int" where
  "fp_sig f = (f_id f, map (\<lambda>fp. (fp_id fp, fp_policy fp)) (f_policies f), f_policies_used f)"

definition links :: "farm \<Rightarrow> (oid \<times> (oid \<times> oid) list \<times> int) \<times> oid \<times> (oid \<times> oid) list \<times> int" where
  "links f = (farm_sig f, fp_sig f)"

lemmas links_defs = links_def farm_sig_def fp_sig_def

definition fp_rows :: "oid set \<Rightarrow> oid \<Rightarrow> oid \<times> (oid \<times> oid) list \<times> int \<Rightarrow> bool" where
  "fp_rows pids lim g =
     (distinct (map fst (fst (snd g))) \<and> distinct (map snd (fst (snd g))) \<and>
      snd (snd g) = int (length (fst (snd g))) \<and> (\<forall>x \<in> set (fst (snd g)). fst x < lim \<and> snd x \<in> pids))"

lemma fp_rows_mono: "fp_rows pids lim g \<Longrightarrow> lim \<le> lim' \<Longrightarrow> fp_rows pids lim' g"
  unfolding fp_rows_def by fastforce

lemma farm_pols_sig: "farm_pols pids lim f = fp_rows pids lim (fp_sig f)"
  by (simp add: farm_pols_def fp_rows_def fp_sig_def comp_def)

lemma pol_refs_sig:
  "pol_refs s =
     (distinct (map fst (map pol_sig (policies s))) \<and> distinct (map snd (map pol_sig (policies s))) \<and>
      (\<forall>p \<in> set (map pol_sig (policies s)). fst p < next_oid s) \<and>
      (\<forall>g \<in> set (map fp_sig (farms s)). fp_rows (set (map fst (map pol_sig (policies s)))) (next_oid s) g))"
proof -
  have "map p_id xs = map fst (map pol_sig xs)" "map p_name xs = map snd (map pol_sig xs)" for xs
    by (simp_all add: pol_sig_def)
  note k = this
  show ?thesis
    unfolding pol_refs_def k farm_pols_sig set_map [symmetric, of p_id] by (simp add: pol_sig_def)
qed

lemma noted_sig:
  "noted K N s = ((\<forall>g \<in> set (map fp_sig (farms s)). \<forall>l \<in> set (fst (snd g)). (fst g, snd l) \<notin> K) \<and> N \<subseteq> set (map pol_sig (policies s)))"
  by (simp add: noted_def fp_sig_def)

lemma pol_refs_mono:
  assumes "pol_refs s" "noted K N s" "map fp_sig (farms t) = map fp_sig (farms s)"
    "map pol_sig (policies t) = map pol_sig (policies s)" "next_oid s \<le> next_oid t"
  shows "pol_refs t \<and> noted K N t"
proof
  show "pol_refs t"
    using assms(1) fp_rows_mono [OF _ assms(5)] order_less_le_trans [OF _ assms(5)]
    unfolding pol_refs_sig assms(3,4) by blast
  show "noted K N t" using assms(2) unfolding noted_sig assms(3,4) .
qed

lemma links_ok_mono:
  assumes "links_ok K N s" "map links (farms t) = map links (farms s)"
    "map addr_sig (addresses t) = map addr_sig (addresses s)"
    "map pol_sig (policies t) = map pol_sig (policies s)" "next_oid s \<le> next_oid t"
  shows "links_ok K N t"
proof -
  have "map farm_sig fs = map fst (map links fs)" "map fp_sig fs = map snd (map links fs)" for fs
    by (simp_all add: links_def)
  then have k: "map farm_sig (farms t) = map farm_sig (farms s)" "map fp_sig (farms t) = map fp_sig (farms s)"
    by (simp_all only: assms(2))
  have s: "addr_refs s" "pol_refs s" "noted K N s" using assms(1) by (simp_all add: links_ok_def)
  show ?thesis
    unfolding links_ok_def
    using addr_refs_mono [OF s(1) k(1) assms(3,5)] pol_refs_mono [OF s(2,3) k(2) assms(4,5)] by blast
qed

lemma links_ok_cong:
  assumes "map links (farms t) = map links (farms s)" "map addr_sig (addresses t) = map addr_sig (addresses s)"
    "map pol_sig (policies t) = map pol_sig (policies s)" "next_oid t = next_oid s"
  shows "links_ok K N t = links_ok K N s"
  using links_ok_mono [of K N s t] links_ok_mono [of K N t s] assms by auto

section \<open>Operations on addresses and their links\<close>

text \<open>They write to farms and addresses, and nothing the policies need.\<close>

definition pol_ok :: "(oid \<times> oid) set \<Rightarrow> (oid \<times> string) set \<Rightarrow> objs \<Rightarrow> bool" where
  "pol_ok K N s = (pol_refs s \<and> noted K N s)"

lemma links_ok_split: "links_ok K N s = (addr_refs s \<and> pol_ok K N s)"
  by (simp add: links_ok_def pol_ok_def)

lemma pol_ok_cong:
  "map fp_sig (farms t) = map fp_sig (farms s) \<Longrightarrow> map pol_sig (policies t) = map pol_sig (policies s) \<Longrightarrow>
   next_oid t = next_oid s \<Longrightarrow> pol_ok K N t = pol_ok K N s"
  unfolding pol_ok_def pol_refs_sig noted_sig by simp

lemma pol_ok_upd [simp]:
  "(\<And>f. fp_sig (g f) = fp_sig f) \<Longrightarrow> pol_ok K N (upd_farm fid g s) = pol_ok K N s"
  "pol_ok K N (upd_address aid h s) = pol_ok K N s"
  "(\<And>p. pol_sig (k p) = pol_sig p) \<Longrightarrow> pol_ok K N (upd_policy pid k s) = pol_ok K N s"
  by (rule pol_ok_cong; simp add: upd_farm_def upd_policy_def map_kupd_frame)+

lemma fp_sig_simps [simp]:
  "fp_sig (f\<lparr>f_addresses := x\<rparr>) = fp_sig f" "fp_sig (f\<lparr>f_action := a\<rparr>) = fp_sig f"
  "fp_sig (f\<lparr>f_policies_action := a\<rparr>) = fp_sig f"
  "fp_sig (farm_link_address fa f) = fp_sig f" "fp_sig (farm_unlink_address faid f) = fp_sig f"
  by (simp_all add: fp_sig_def farm_link_address_def farm_unlink_address_def Let_def)

lemma pol_ok_address_delete [simp]: "pol_ok K N (address_delete aid s) = pol_ok K N s"
  by (rule pol_ok_cong) (simp_all add: address_delete_def obj_set_total_addresses_def Let_def)

lemma pol_ok_next: "pol_ok K N s \<Longrightarrow> next_oid s \<le> n \<Longrightarrow> pol_ok K N (s\<lparr>next_oid := n\<rparr>)"
  using pol_refs_mono [of s K N "s\<lparr>next_oid := n\<rparr>"] by (simp add: pol_ok_def)

lemma pol_ok_link: "pol_ok K N s \<Longrightarrow> pol_ok K N (snd (farmaddress_create fid aid s))"
  by (simp add: farmaddress_create_def Let_def pol_ok_next)

lemma pol_ok_unlink [simp]: "pol_ok K N (farmaddress_delete fid faid s) = pol_ok K N s"
  by (simp add: farmaddress_delete_def address_release_def Let_def split: option.split)

lemma pol_ok_fa_action [simp]: "pol_ok K N (snd (farmaddress_set_action fid faid action s)) = pol_ok K N s"
  by (simp add: farmaddress_set_action_def Let_def split: option.split)

lemma fold_same: "(\<And>x s. P (g x s) = P s) \<Longrightarrow> P (fold g xs s) = P s"
  by (induction xs arbitrary: s) auto

lemma pol_ok_fa_actions [simp]:
  "pol_ok K N (farmaddress_s_set_action fid action s) = pol_ok K N s"
  "pol_ok K N (farmaddress_s_delete fid s) = pol_ok K N s"
  by (simp_all add: farmaddress_s_set_action_def farmaddress_s_delete_def fold_same [where P = "pol_ok K N"] split: option.split)

lemma pol_ok_lookups [simp]:
  "pol_ok K N (snd (farmaddress_s_lookup_address_action fid name action s)) = pol_ok K N s"
  "pol_ok K N (snd (farm_s_lookup_address_action name action s)) = pol_ok K N s"
proof -
  show one: "pol_ok K N (snd (farmaddress_s_lookup_address_action fid name action s)) = pol_ok K N s" for fid s
    by (simp add: farmaddress_s_lookup_address_action_def case_prod_unfold Let_def split: option.split)
  show "pol_ok K N (snd (farm_s_lookup_address_action name action s)) = pol_ok K N s"
    using fold_same [where P = "\<lambda>r. pol_ok K N (snd r)" and g = "lookup_step name action" and s = "(False, s)"] one
    by (simp add: farm_s_lookup_address_action_def lookup_step_def Let_def)
qed

lemma pol_ok_address_action [simp]: "pol_ok K N (snd (address_set_action aid action s)) = pol_ok K N s"
  by (simp add: address_set_action_def case_prod_unfold Let_def split: option.split)

lemma links_ok_fa:
  "links_ok K N s \<Longrightarrow> links_ok K N (farmaddress_delete fid faid s)"
  "links_ok K N s \<Longrightarrow> links_ok K N (snd (farmaddress_set_action fid faid action s))"
  "links_ok K N s \<Longrightarrow> links_ok K N (farmaddress_s_set_action fid action s)"
  "links_ok K N s \<Longrightarrow> links_ok K N (farmaddress_s_delete fid s)"
  "links_ok K N s \<Longrightarrow> links_ok K N (snd (address_set_action aid action s))"
  "links_ok K N s \<Longrightarrow> links_ok K N (snd (farm_s_lookup_address_action name action s))"
  using addr_refs_delete addr_refs_set_action addr_refs_s_set_action addr_refs_s_delete addr_refs_address_set_action
    addr_refs_farms_lookup
  by (simp_all add: links_ok_split)

lemma links_ok_fa_create:
  "links_ok K N s \<Longrightarrow> get_farm fid s = Some f \<Longrightarrow> get_address aid s = Some a \<Longrightarrow> links_ok K N (snd (farmaddress_create fid aid s))"
  using addr_refs_create pol_ok_link by (simp add: links_ok_split)

section \<open>Policies\<close>

lemma links_ok_lookup:
  assumes "links_ok K N s"
  shows "policy_lookup_by_name name s = Some p \<Longrightarrow> get_policy (p_id p) s = Some p \<and> p_name p = name"
    and "get_policy pid s = Some p \<Longrightarrow> p \<in> set (policies s) \<and> p_id p = pid"
    and "f \<in> set (farms s) \<Longrightarrow> get_farm (f_id f) s = Some f"
proof -
  have d: "distinct (map p_id (policies s))" "distinct (map f_id (farms s))"
    using assms by (simp_all add: links_ok_def pol_refs_def addr_refs_def)
  show "policy_lookup_by_name name s = Some p \<Longrightarrow> get_policy (p_id p) s = Some p \<and> p_name p = name"
    using kfind_distinct [OF d(1)] by (auto simp: policy_lookup_by_name_def get_policy_def find_Some_iff)
  show "get_policy pid s = Some p \<Longrightarrow> p \<in> set (policies s) \<and> p_id p = pid"
    by (auto simp: get_policy_def dest: kfind_Some)
  show "f \<in> set (farms s) \<Longrightarrow> get_farm (f_id f) s = Some f"
    using kfind_distinct [OF d(2)] by (simp add: get_farm_def)
qed

lemma links_ok_policy_create:
  assumes "links_ok K N s" "policy_lookup_by_name name s = None"
  shows "links_ok K N (snd (policy_create name s))"
proof -
  let ?t = "s\<lparr>next_oid := Suc (next_oid s), policies := policies s @ [new_policy (next_oid s) name]\<rparr>"
  have new: "p_id (new_policy i t) = i" "p_name (new_policy i t) = t" for i t by (simp_all add: new_policy_def)
  have p: "pol_refs s" "noted K N s" "addr_refs s" using assms(1) by (simp_all add: links_ok_def)
  have "addr_refs ?t" by (rule addr_refs_mono [OF p(3)]) simp_all
  moreover have "name \<notin> p_name ` set (policies s)" using assms(2) by (auto simp: policy_lookup_by_name_def find_None_iff)
  then have "pol_refs ?t" using p(1) by (fastforce simp: pol_refs_def farm_pols_def new less_Suc_eq)
  moreover have "noted K N ?t" using p(2) by (auto simp: noted_def)
  ultimately have "links_ok K N ?t" by (simp add: links_ok_def)
  then show ?thesis
    by (auto simp: policy_create_def obj_set_total_policies_def Let_def elim!: links_ok_mono)
qed

text \<open>A policy without links to it can go.\<close>

lemma links_ok_policy_delete:
  assumes "links_ok K N s" "\<And>f fp. f \<in> set (farms s) \<Longrightarrow> fp \<in> set (f_policies f) \<Longrightarrow> fp_policy fp \<noteq> pid"
  shows "links_ok K {} (policy_delete pid s)"
proof -
  let ?t = "s\<lparr>policies := kdel p_id pid (policies s)\<rparr>"
  have p: "pol_refs s" "noted K N s" "addr_refs s" using assms(1) by (simp_all add: links_ok_def)
  have "addr_refs ?t" by (rule addr_refs_mono [OF p(3)]) simp_all
  moreover have "distinct (map p_name (kdel p_id pid (policies s)))"
    using p(1) by (auto simp: pol_refs_def kdel_def intro: distinct_map_filter)
  then have "pol_refs ?t"
    using p(1) assms(2) distinct_keys_kdel [of p_id "policies s" pid]
    by (fastforce simp: pol_refs_def farm_pols_def set_kdel)
  moreover have "noted K {} ?t" using p(2) by (simp add: noted_def)
  ultimately have "links_ok K {} ?t" by (simp add: links_ok_def)
  then show ?thesis
    by (auto simp: policy_delete_def obj_set_total_policies_def Let_def elim!: links_ok_mono)
qed

section \<open>Links between farms and policies\<close>

text \<open>One farm changes its links; what is noted about it may change too.\<close>

lemma pol_ok_farm:
  assumes "links_ok K N s" "get_farm fid s = Some f" "f_id (g f) = fid"
    and g: "farm_pols (p_id ` set (policies s)) (next_oid s) (g f)" "\<forall>fp \<in> set (f_policies (g f)). (fid, fp_policy fp) \<notin> L"
    and L: "L \<subseteq> K \<union> {fid} \<times> UNIV"
  shows "pol_ok L N (upd_farm fid g s)"
proof -
  have p: "pol_refs s" "noted K N s" "distinct (map f_id (farms s))"
    using assms(1) by (simp_all add: links_ok_def addr_refs_def)
  have farm: "farm_pols (p_id ` set (policies s)) (next_oid s) h \<and> (\<forall>fp \<in> set (f_policies h). (f_id h, fp_policy fp) \<notin> L)"
    if "h \<in> set (kupd f_id fid g (farms s))" for h
  proof -
    from that obtain x where x: "x \<in> set (farms s)" "h = (if f_id x = fid then g x else x)" by (auto simp: set_kupd)
    show ?thesis
    proof (cases "f_id x = fid")
      case True
      then have "x = f" using kfind_distinct [OF p(3) x(1)] assms(2) by (simp add: get_farm_def)
      with True x(2) g assms(3) show ?thesis by simp
    next
      case False
      with x p(1,2) L show ?thesis by (fastforce simp: pol_refs_def noted_def)
    qed
  qed
  then show ?thesis
    using p(1,2) by (simp add: pol_ok_def pol_refs_def noted_def upd_farm_def)
qed

lemma get_farm_next [simp]: "get_farm fid (s\<lparr>next_oid := n\<rparr>) = get_farm fid s" "get_farm fid (upd_policy pid k s) = get_farm fid s"
  by (simp_all add: get_farm_def upd_policy_def)

lemma links_ok_next: "links_ok K N s \<Longrightarrow> links_ok K N (s\<lparr>next_oid := Suc (next_oid s)\<rparr>)"
  by (erule links_ok_mono) simp_all

lemma links_ok_upd_policy: "(\<And>p. pol_sig (k p) = pol_sig p) \<Longrightarrow> links_ok K N (upd_policy pid k s) = links_ok K N s"
  by (simp add: links_ok_split)

lemma pol_sig_simps [simp]: "pol_sig (p\<lparr>p_used := i\<rparr>) = pol_sig p" "pol_sig (p\<lparr>p_action := a\<rparr>) = pol_sig p"
  "pol_sig (if P then p\<lparr>p_used := i\<rparr> else p) = pol_sig p"
  by (simp_all add: pol_sig_def)

lemma links_ok_fp_create:
  assumes "links_ok K N s" "get_farm fid s = Some f" "get_policy pid s = Some p"
    and "pid \<notin> fp_policy ` set (f_policies f)" "(fid, pid) \<notin> K"
  shows "links_ok K N (snd (farmpolicy_create fid pid s))"
proof -
  let ?s1 = "upd_policy pid (\<lambda>p. p\<lparr>p_used := p_used p + 1\<rparr>) (s\<lparr>next_oid := Suc (next_oid s)\<rparr>)"
  let ?G = "\<lambda>f. f\<lparr>f_policies_action := (if f_policies_used f > 0 \<and> f_action f = ACTION_RELOAD then ACTION_RELOAD else ACTION_START),
      f_policies_used := f_policies_used f + 1,
      f_policies := f_policies f @ [\<lparr>fp_id = next_oid s, fp_policy = pid, fp_action = ACTION_START\<rparr>]\<rparr>"
  have s1: "links_ok K N ?s1" using links_ok_next [OF assms(1)] by (simp add: links_ok_upd_policy)
  have f: "f \<in> set (farms s)" "f_id f = fid" using assms(2) by (auto simp: get_farm_def dest: kfind_Some)
  have old: "farm_pols (p_id ` set (policies s)) (next_oid s) f" "\<forall>fp \<in> set (f_policies f). (fid, fp_policy fp) \<notin> K"
    using assms(1) f by (auto simp: links_ok_def pol_refs_def noted_def)
  have pid: "pid \<in> p_id ` set (policies s)" using links_ok_lookup(2) [OF assms(1,3)] by auto
  have pids: "p_id ` set (policies ?s1) = p_id ` set (policies s)"
    by (simp add: upd_policy_def image_kupd)
  have "farm_pols (p_id ` set (policies ?s1)) (next_oid ?s1) (?G f)"
    using old(1) pid assms(4) unfolding pids by (auto simp: farm_pols_def)
  then have "pol_ok K N (upd_farm fid ?G ?s1)"
    using old(2) assms(2,5) f(2) by (intro pol_ok_farm [OF s1, of fid f]) auto
  moreover have "addr_refs (upd_farm fid ?G ?s1)"
    using s1 by (subst addr_refs_upd(1)) (simp_all add: farm_sig_def links_ok_def)
  ultimately show ?thesis by (simp add: farmpolicy_create_def Let_def links_ok_split)
qed

text \<open>A link that is taken away can be noted as gone.\<close>

lemma links_ok_fp_delete:
  assumes "links_ok K N s"
  shows "links_ok K N (farmpolicy_delete fid fpid s)"
    and "get_farm fid s = Some f \<Longrightarrow> kfind fp_id fpid (f_policies f) = Some fp \<Longrightarrow>
         links_ok (insert (fid, fp_policy fp) K) N (farmpolicy_delete fid fpid s)"
proof -
  let ?G = "\<lambda>f. let f1 = f\<lparr>f_policies := kdel fp_id fpid (f_policies f)\<rparr>
     in if f_policies_used f1 > 0 then f1\<lparr>f_policies_used := f_policies_used f1 - 1\<rparr> else f1"
  show del: "links_ok (insert (fid, fp_policy fp) K) N (farmpolicy_delete fid fpid s)"
    if get: "get_farm fid s = Some f" "kfind fp_id fpid (f_policies f) = Some fp" for f fp
  proof -
    have f: "f \<in> set (farms s)" "f_id f = fid" using get(1) by (auto simp: get_farm_def dest: kfind_Some)
    have fp: "fp \<in> set (f_policies f)" "fp_id fp = fpid" using kfind_Some [OF get(2)] by auto
    have old: "farm_pols (p_id ` set (policies s)) (next_oid s) f" "\<forall>fp \<in> set (f_policies f). (fid, fp_policy fp) \<notin> K"
      using assms f by (auto simp: links_ok_def pol_refs_def noted_def)
    have d: "distinct (map fp_id (f_policies f))" "distinct (map fp_policy (f_policies f))"
      using old(1) by (simp_all add: farm_pols_def)
    have len: "Suc (length (kdel fp_id fpid (f_policies f))) = length (f_policies f)"
      using length_kdel [OF d(1)] fp by blast
    obtain g where g: "g = ?G f" by blast
    have G: "f_policies g = kdel fp_id fpid (f_policies f)" "f_policies_used g = f_policies_used f - 1" "f_id g = fid"
      using old(1) len f(2) by (auto simp: g farm_pols_def Let_def)
    have "distinct (map fp_policy (kdel fp_id fpid (f_policies f)))"
      using d(2) by (simp add: kdel_def distinct_map_filter)
    then have "farm_pols (p_id ` set (policies s)) (next_oid s) g"
      using old(1) len distinct_keys_kdel [OF d(1)] by (simp add: farm_pols_def G set_kdel)
    moreover have "fp_policy x \<noteq> fp_policy fp" if x: "x \<in> set (f_policies g)" for x
      using x fp inj_onD [OF d(2) [unfolded distinct_map, THEN conjunct2]] unfolding G set_kdel by auto
    then have "\<forall>x \<in> set (f_policies g). (fid, fp_policy x) \<notin> insert (fid, fp_policy fp) K"
      using old(2) unfolding G set_kdel by auto
    ultimately have "pol_ok (insert (fid, fp_policy fp) K) N (upd_farm fid ?G s)"
      using G(3) unfolding g by (intro pol_ok_farm [OF assms get(1)]) auto
    moreover have "addr_refs (upd_farm fid ?G s)"
      using assms by (subst addr_refs_upd(1)) (simp_all add: farm_sig_def links_ok_def Let_def)
    ultimately have "links_ok (insert (fid, fp_policy fp) K) N (upd_farm fid ?G s)" by (simp add: links_ok_split)
    then show ?thesis using get by (simp add: farmpolicy_delete_def policy_release_def links_ok_upd_policy)
  qed
  show "links_ok K N (farmpolicy_delete fid fpid s)"
  proof (cases "Option.bind (get_farm fid s) (\<lambda>f. kfind fp_id fpid (f_policies f))")
    case None
    with assms show ?thesis by (simp add: farmpolicy_delete_def)
  next
    case (Some fp)
    then have "links_ok (insert (fid, fp_policy fp) K) N (farmpolicy_delete fid fpid s)"
      using del by (auto simp: bind_eq_Some_conv)
    then show ?thesis by (auto simp: links_ok_def noted_def)
  qed
qed

text \<open>The name of a policy finds the link to it.\<close>

lemma fp_lookup:
  assumes "links_ok K N s" "get_farm fid s = Some f" "(pid, name) \<in> N"
  shows "farmpolicy_lookup_by_name f name s = Some fp \<Longrightarrow> kfind fp_id (fp_id fp) (f_policies f) = Some fp \<and> fp_policy fp = pid"
    and "farmpolicy_lookup_by_name f name s = None \<Longrightarrow> links_ok (insert (fid, pid) K) N s"
proof -
  have r: "pol_refs s" "noted K N s" "distinct (map f_id (farms s))" using assms(1) by (simp_all add: links_ok_def addr_refs_def)
  obtain p where p: "p \<in> set (policies s)" "p_id p = pid" "p_name p = name"
    using r(2) assms(3) by (auto simp: noted_def pol_sig_def)
  have d: "distinct (map p_id (policies s))" "distinct (map p_name (policies s))" using r(1) by (simp_all add: pol_refs_def)
  have get: "get_policy pid s = Some p" using kfind_distinct [OF d(1) p(1)] p(2) by (simp add: get_policy_def)
  have f: "f \<in> set (farms s)" "f_id f = fid" using assms(2) by (auto simp: get_farm_def dest: kfind_Some)
  have only: "q = p" if "q \<in> set (policies s)" "p_name q = name" for q
    using that p d(2) by (metis distinct_map inj_onD)
  show "kfind fp_id (fp_id fp) (f_policies f) = Some fp \<and> fp_policy fp = pid" if found: "farmpolicy_lookup_by_name f name s = Some fp"
  proof -
    obtain q where q: "fp \<in> set (f_policies f)" "get_policy (fp_policy fp) s = Some q" "p_name q = name"
      using found by (auto simp: farmpolicy_lookup_by_name_def find_Some_iff split: option.splits)
    have "fp_policy fp = pid" using links_ok_lookup(2) [OF assms(1) q(2)] only q(3) p(2) by auto
    moreover have "distinct (map fp_id (f_policies f))" using r(1) f by (simp add: pol_refs_def farm_pols_def)
    ultimately show ?thesis using kfind_distinct q(1) by auto
  qed
  show "links_ok (insert (fid, pid) K) N s" if "farmpolicy_lookup_by_name f name s = None"
  proof -
    have "fp_policy fp \<noteq> pid" if "fp \<in> set (f_policies f)" for fp
      using that \<open>farmpolicy_lookup_by_name f name s = None\<close> get p(3)
      by (auto simp: farmpolicy_lookup_by_name_def find_None_iff)
    moreover have "g = f" if "g \<in> set (farms s)" "f_id g = fid" for g
      using kfind_distinct [OF r(3) that(1)] that(2) assms(2) by (simp add: get_farm_def)
    ultimately show ?thesis using assms(1) by (auto simp: links_ok_def noted_def)
  qed
qed

end
