(* ===== verification/Store.thy ===== *)
theory Store
  imports Rulerize NftSim PolicyLinks
begin

text \<open>
  The store as a whole: the links between farms, addresses and policies stay right (\<open>links_ok\<close>) through
  everything the daemon does. \<open>Links\<close> and \<open>PolicyLinks\<close> show it of the operations on the links; here it
  is carried through the life cycle and the translation to rules. Up to the operations on policies the
  notes of \<open>links_ok\<close> are kept too, since deleting a policy needs them.
\<close>

section \<open>What the invariant reads\<close>

lemma refs_init: "links_ok {} {} objects_init"
  by (simp add: links_ok_start addr_refs_def pol_refs_def objects_init_def)

lemma refs_plain: "links_ok K N (plain_objs s) = links_ok K N s"
proof -
  have "links (plain_farm f) = links f" "addr_sig (plain_address a) = addr_sig a" "pol_sig (plain_policy p) = pol_sig p" for f a p
    by (simp_all add: links_defs addr_sig_def pol_sig_def plain_farm_def plain_address_def plain_policy_def comp_def)
  then show ?thesis by (intro links_ok_cong) (simp_all add: plain_objs_def)
qed

lemma refs_fields [simp]:
  "links_ok K N (s\<lparr>cur_farm := a\<rparr>) = links_ok K N s" "links_ok K N (s\<lparr>cur_address := a\<rparr>) = links_ok K N s"
  "links_ok K N (s\<lparr>cur_farmaddress := a\<rparr>) = links_ok K N s" "links_ok K N (s\<lparr>cur_farmpolicy := a\<rparr>) = links_ok K N s"
  "links_ok K N (s\<lparr>cur_addresspolicy := a\<rparr>) = links_ok K N s" "links_ok K N (s\<lparr>cur_backend := a\<rparr>) = links_ok K N s"
  "links_ok K N (s\<lparr>cur_session := a\<rparr>) = links_ok K N s" "links_ok K N (s\<lparr>cur_policy := a\<rparr>) = links_ok K N s"
  "links_ok K N (s\<lparr>cur_element := a\<rparr>) = links_ok K N s" "links_ok K N (s\<lparr>config_outbuf := t\<rparr>) = links_ok K N s"
  "links_ok K N (s\<lparr>event_enabled := e\<rparr>) = links_ok K N s" "links_ok K N (s\<lparr>dsr_counter := i\<rparr>) = links_ok K N s"
  "links_ok K N (s\<lparr>total_farms := i\<rparr>) = links_ok K N s" "links_ok K N (s\<lparr>total_addresses := i\<rparr>) = links_ok K N s"
  "links_ok K N (s\<lparr>total_policies := i\<rparr>) = links_ok K N s"
  by (rule links_ok_cong; simp)+

lemma refs_texts [simp]:
  "links_ok K N (put_output t s) = links_ok K N s" "links_ok K N (obj_set_total_farms i s) = links_ok K N s"
  "links_ok K N (obj_set_total_addresses i s) = links_ok K N s" "links_ok K N (obj_set_total_policies i s) = links_ok K N s"
  "links_ok K N (obj_set_dsr_counter i s) = links_ok K N s" "links_ok K N (obj_config_init s) = links_ok K N s"
  "links_ok K N (farm_manage_eventd s) = links_ok K N s"
  by (simp_all add: put_output_def obj_set_total_farms_def obj_set_total_addresses_def obj_set_total_policies_def
      obj_set_dsr_counter_def obj_config_init_def farm_manage_eventd_def farm_s_update_dsr_counter_def Let_def)

section \<open>Changes of one object\<close>

text \<open>What keeps the invariant, and the functions on farms and addresses that leave the links alone.\<close>

named_theorems kept
named_theorems sig_simps

lemma links_ok_distinct:
  assumes "links_ok K N s"
  shows "distinct (map f_id (farms s))" "distinct (map a_id (addresses s))" "distinct (map p_id (policies s))"
  using assms by (simp_all add: links_ok_def addr_refs_def pol_refs_def)

lemma refs_upd_farm [kept]:
  assumes "links_ok K N s" "\<And>f. get_farm fid s = Some f \<Longrightarrow> links (g f) = links f"
  shows "links_ok K N (upd_farm fid g s)"
proof (rule links_ok_mono [OF assms(1)])
  have "links (if f_id f = fid then g f else f) = links f" if "f \<in> set (farms s)" for f
    using that assms(2) kfind_distinct [OF links_ok_distinct(1) [OF assms(1)]] by (auto simp: get_farm_def)
  then show "map links (farms (upd_farm fid g s)) = map links (farms s)"
    by (simp add: upd_farm_def kupd_def)
qed simp_all

lemma refs_upd_address [kept]:
  assumes "links_ok K N s" "\<And>a. get_address aid s = Some a \<Longrightarrow> addr_sig (g a) = addr_sig a"
  shows "links_ok K N (upd_address aid g s)"
proof (rule links_ok_mono [OF assms(1)])
  have "addr_sig (if a_id a = aid then g a else a) = addr_sig a" if "a \<in> set (addresses s)" for a
    using that assms(2) kfind_distinct [OF links_ok_distinct(2) [OF assms(1)]] by (auto simp: get_address_def)
  then show "map addr_sig (addresses (upd_address aid g s)) = map addr_sig (addresses s)"
    by (simp add: upd_address_def kupd_def)
qed simp_all

lemma refs_upd_policy [kept]: "links_ok K N s \<Longrightarrow> (\<And>p. pol_sig (k p) = pol_sig p) \<Longrightarrow> links_ok K N (upd_policy pid k s)"
  by (simp add: links_ok_upd_policy)

lemmas refs_next [kept] = links_ok_next

lemma sig_fields [sig_simps]:
  "links (f\<lparr>f_action := a\<rparr>) = links f" "links (f\<lparr>f_state := st\<rparr>) = links f"
  "links (f\<lparr>f_priority := i\<rparr>) = links f" "links (f\<lparr>f_policies_action := a\<rparr>) = links f"
  "links (f\<lparr>f_backends := bs\<rparr>) = links f" "links (f\<lparr>f_bcks_have_if := b\<rparr>) = links f"
  "links (f\<lparr>f_ofidx := i\<rparr>) = links f" "links (f\<lparr>f_oface := t\<rparr>) = links f" "links (f\<lparr>f_oethaddr := t\<rparr>) = links f"
  "links (f\<lparr>f_persistence := x\<rparr>) = links f" "links (f\<lparr>f_reload_action := x\<rparr>) = links f"
  "links (f\<lparr>f_total_timed_sessions := i\<rparr>) = links f"
  by (simp_all add: links_defs)

lemma sig_pool [sig_simps]:
  "links (upd_bck bid g f) = links f" "links (backend_s_update_counters f) = links f"
  "links (backend_s_delete f) = links f" "links (backend_delete_node bid f) = links f"
  "links (backend_s_set_ports f) = links f" "links (backend_s_set_srcaddr f) = links f"
  "links (backend_create fs bid name f) = links f"
  by (simp_all add: links_defs upd_bck_def backend_s_update_counters_eq backend_s_delete_def backend_delete_node_def
      backend_s_set_ports_def backend_s_set_srcaddr_def backend_create_def)

lemma sig_backend_setters [sig_simps]:
  "links (backend_set_weight bid i f) = links f" "links (backend_set_port bid t f) = links f"
  "links (backend_set_srcaddr bid t f) = links f"
  by (simp_all add: backend_set_weight_def backend_set_port_def backend_set_srcaddr_def Let_def sig_pool split: option.split)
     (simp_all add: links_defs upd_bck_def)

lemma sig_but_sessions: "but_sessions f = but_sessions g \<Longrightarrow> links f = links g"
proof -
  have "links f = links (but_sessions f)" for f by (simp add: links_defs but_sessions_def)
  then show "but_sessions f = but_sessions g \<Longrightarrow> links f = links g" by metis
qed

lemma sig_sessions [sig_simps]:
  "links (upd_sessions type g n f) = links f"
  "links (snd (session_set_action type action se f)) = links f"
  "links (snd (session_loop type pick action rf)) = links (snd rf)"
  "links (session_s_delete type f) = links f"
  "links (snd (session_s_set_action b action f)) = links f"
  "session_create env sid type client bck expiration f = Some h \<Longrightarrow> links h = links f"
  by (auto intro!: sig_but_sessions simp: session_s_set_action_def session_create_def Let_def split: if_splits)

lemma sig_netinfo [sig_simps]:
  "links (snd (farm_set_oface_info env f)) = links f"
  "links (snd (backend_set_ifinfo env bid f)) = links f"
  "links (snd (backend_set_ipaddr_from_ether env s bid f)) = links f"
  unfolding farm_set_oface_info_def backend_set_ifinfo_def backend_set_ipaddr_from_ether_def Let_def
  by (simp_all add: sig_fields sig_pool split: option.split prod.split)

lemma sig_links [sig_simps]:
  "links (f\<lparr>f_addresses := map (\<lambda>fa. if P fa then fa else fa\<lparr>fa_action := x\<rparr>) (f_addresses f)\<rparr>) = links f"
  "links (f\<lparr>f_addresses := map (\<lambda>fa. fa\<lparr>fa_action := x\<rparr>) (f_addresses f)\<rparr>) = links f"
  "links (f\<lparr>f_addresses := kupd fa_id faid (\<lambda>fa. fa\<lparr>fa_action := x\<rparr>) (f_addresses f)\<rparr>) = links f"
  "links (f\<lparr>f_policies := kupd fp_id fpid (\<lambda>fp. fp\<lparr>fp_action := x\<rparr>) (f_policies f)\<rparr>) = links f"
  by (auto simp: links_defs map_kupd_frame)

lemma sig_policy [sig_simps]:
  "pol_sig (p\<lparr>p_type := t\<rparr>) = pol_sig p" "pol_sig (p\<lparr>p_route := r\<rparr>) = pol_sig p" "pol_sig (p\<lparr>p_family := fam\<rparr>) = pol_sig p"
  "pol_sig (p\<lparr>p_timeout := i\<rparr>) = pol_sig p" "pol_sig (p\<lparr>p_total_elem := i\<rparr>) = pol_sig p" "pol_sig (p\<lparr>p_used := i\<rparr>) = pol_sig p"
  "pol_sig (p\<lparr>p_logprefix := x\<rparr>) = pol_sig p" "pol_sig (p\<lparr>p_action := a\<rparr>) = pol_sig p" "pol_sig (p\<lparr>p_elements := es\<rparr>) = pol_sig p"
  by (simp_all add: pol_sig_def)


lemma refs_fold [kept]: "links_ok K N s \<Longrightarrow> (\<And>x s. links_ok K N s \<Longrightarrow> links_ok K N (g x s)) \<Longrightarrow> links_ok K N (fold g xs s)"
  by (rule fold_inv)

lemmas refs_links [kept] = links_ok_fa links_ok_fp_delete(1)

section \<open>Creation and deletion\<close>

lemma refs_add_farm:
  assumes "addr_refs s" "f_id f = next_oid s" "f_addresses f = []" "f_addresses_used f = 0"
  shows "addr_refs (s\<lparr>next_oid := Suc (next_oid s), farms := farms s @ [f]\<rparr>)"
proof -
  have "\<forall>g \<in> set (farms s). f_id g \<noteq> next_oid s" using assms(1) by (fastforce simp: addr_refs_def)
  then have "distinct (map f_id (farms s @ [f]))" using assms(1,2) by (auto simp: addr_refs_def)
  moreover have "farm_refs (a_id ` set (addresses s)) (Suc (next_oid s)) g" if "g \<in> set (farms s @ [f])" for g
    using that assms farm_refs_mono [of "a_id ` set (addresses s)" "next_oid s" g "Suc (next_oid s)"]
    by (auto simp: addr_refs_def farm_refs_def)
  moreover have "addr_links (farms s @ [f]) a = addr_links (farms s) a" for a
    using assms(3) by (simp add: addr_links_def fa_links_def)
  ultimately show ?thesis
    using assms(1,2) unfolding addr_refs_def by (simp add: less_Suc_eq)
qed

lemma refs_farm_create [kept]:
  assumes "links_ok K N s"
  shows "links_ok K N (snd (farm_create name s))"
proof -
  let ?f = "new_farm (next_oid s) name"
  let ?t = "s\<lparr>next_oid := Suc (next_oid s), farms := farms s @ [?f]\<rparr>"
  have new: "f_id ?f = next_oid s" "f_addresses ?f = []" "f_addresses_used ?f = 0" "f_policies ?f = []" "f_policies_used ?f = 0"
    by (simp_all add: new_farm_def)
  have "addr_refs ?t" using assms new by (intro refs_add_farm) (simp_all add: links_ok_def)
  moreover have "pol_refs ?t" "noted K N ?t"
    using assms new by (auto simp: links_ok_def pol_refs_def farm_pols_def noted_def less_Suc_eq)
  ultimately show ?thesis by (simp add: farm_create_def Let_def links_ok_def [of K N ?t])
qed

lemma refs_add_address:
  assumes "addr_refs s" "a_id a = next_oid s" "a_used a = 0"
  shows "addr_refs (s\<lparr>next_oid := Suc (next_oid s), addresses := addresses s @ [a]\<rparr>)"
proof -
  let ?n = "next_oid s" and ?as = "addresses s @ [a]"
  have "\<forall>b \<in> set (addresses s). a_id b \<noteq> ?n" using assms(1) by (fastforce simp: addr_refs_def)
  then have "distinct (map a_id ?as)" using assms(1,2) by (auto simp: addr_refs_def)
  moreover have "farm_refs (a_id ` set ?as) (Suc ?n) f" if "f \<in> set (farms s)" for f
  proof (rule farm_refs_mono)
    show old: "farm_refs (a_id ` set (addresses s)) ?n f" using that assms(1) by (simp add: addr_refs_def)
    show "\<forall>fa \<in> set (f_addresses f). fa_address fa \<in> a_id ` set ?as" using old by (simp add: farm_refs_def)
  qed simp
  moreover have "addr_links (farms s) ?n = 0"
  proof -
    have "fa_links ?n f = 0" if "f \<in> set (farms s)" for f
    proof -
      have "\<forall>fa \<in> set (f_addresses f). fa_address fa \<in> a_id ` set (addresses s)"
        using that assms(1) by (simp add: addr_refs_def farm_refs_def)
      with \<open>\<forall>b \<in> set (addresses s). a_id b \<noteq> ?n\<close> show ?thesis by (fastforce simp: fa_links_def filter_empty_conv)
    qed
    then show ?thesis by (simp add: addr_links_def)
  qed
  ultimately show ?thesis
    using assms unfolding addr_refs_def by (simp add: less_Suc_eq)
qed

lemma refs_address_create [kept]:
  assumes "links_ok K N s"
  shows "links_ok K N (snd (address_create name s))"
proof -
  let ?a = "new_address (next_oid s) name"
  let ?t = "s\<lparr>next_oid := Suc (next_oid s), addresses := addresses s @ [?a]\<rparr>"
  have "addr_refs ?t" using assms by (intro refs_add_address) (simp_all add: links_ok_def new_address_def)
  moreover have "pol_ok K N ?t"
    using pol_ok_next [of K N s "Suc (next_oid s)"] assms
    by (subst pol_ok_cong [of _ "s\<lparr>next_oid := Suc (next_oid s)\<rparr>"]) (simp_all add: links_ok_split)
  ultimately show ?thesis by (simp add: address_create_def Let_def links_ok_split [of K N ?t])
qed

lemma created_objects:
  "get_address (fst (address_create name s)) (snd (address_create name s)) \<noteq> None"
  "get_farm fid (snd (address_create name s)) = get_farm fid s"
  "get_farm fid (s\<lparr>cur_address := x\<rparr>) = get_farm fid s" "get_address aid (s\<lparr>cur_address := x\<rparr>) = get_address aid s"
proof -
  show "get_address (fst (address_create name s)) (snd (address_create name s)) \<noteq> None"
    by (simp add: address_create_def Let_def get_address_def obj_set_total_addresses_def kfind_append new_address_def split: option.split)
qed (simp_all add: address_create_def Let_def get_farm_def get_address_def obj_set_total_addresses_def)

lemma refs_link [kept]:
  assumes "links_ok K N s" "get_farm fid s = Some f" "get_address aid s \<noteq> None"
  shows "links_ok K N (snd (farmaddress_create fid aid s))"
  using assms links_ok_fa_create by auto

text \<open>Policies of farms and addresses.\<close>

lemma refs_farmpolicy_actions [kept]:
  "links_ok K N s \<Longrightarrow> links_ok K N (snd (farmpolicy_set_action fid fpid action s))"
  "links_ok K N s \<Longrightarrow> links_ok K N (farmpolicy_s_delete fid s)"
  by (auto simp: farmpolicy_set_action_def farmpolicy_s_delete_def Let_def sig_simps intro!: kept split: option.split)

lemma refs_farmpolicies [kept]: "links_ok K N s \<Longrightarrow> links_ok K N (farmpolicy_s_set_action fid action s)"
  by (auto simp: farmpolicy_s_set_action_def Let_def sig_simps intro!: kept split: option.split)

lemma sig_address [sig_simps]:
  "addr_sig (a\<lparr>a_policies_action := x\<rparr>) = addr_sig a" "addr_sig (a\<lparr>a_policies_used := i\<rparr>) = addr_sig a"
  "addr_sig (a\<lparr>a_policies := ps\<rparr>) = addr_sig a" "addr_sig (a\<lparr>a_action := x\<rparr>) = addr_sig a"
  "addr_sig (a\<lparr>a_name := t\<rparr>) = addr_sig a"
  by (simp_all add: addr_sig_def)

lemma refs_addresspolicy [kept]:
  "links_ok K N s \<Longrightarrow> links_ok K N (snd (addresspolicy_create aid pid s))"
  "links_ok K N s \<Longrightarrow> links_ok K N (addresspolicy_delete aid apid s)"
  by (auto simp: addresspolicy_create_def addresspolicy_delete_def policy_release_def Let_def sig_simps intro!: kept split: option.split)

lemma refs_addresspolicy_action [kept]: "links_ok K N s \<Longrightarrow> links_ok K N (snd (addresspolicy_set_action aid apid action s))"
  by (auto simp: addresspolicy_set_action_def Let_def sig_simps intro!: kept split: option.split)

lemma refs_address_lookup_policy [kept]:
  "links_ok K N s \<Longrightarrow> links_ok K N (addresspolicy_s_lookup_policy_action aid name action s)"
  by (auto simp: addresspolicy_s_lookup_policy_action_def Let_def case_prod_unfold intro!: kept split: option.split)

lemma refs_addresses [kept]:
  "links_ok K N s \<Longrightarrow> links_ok K N (address_s_lookup_policy_action name action s)"
  "links_ok K N s \<Longrightarrow> links_ok K N (address_s_set_action action s)"
  by (auto simp: address_s_lookup_policy_action_def address_s_set_action_def intro!: kept)

lemma refs_timed [kept]:
  "links_ok K N s \<Longrightarrow> links_ok K N (get_timed_address env fid fa s)"
  "links_ok K N s \<Longrightarrow> links_ok K N (session_get_timed env fid s)"
  "links_ok K N s \<Longrightarrow> links_ok K N (session_backend_action env fid bid action s)"
proof -
  show one: "links_ok K N (get_timed_address env fid fa s)" if "links_ok K N s" for fa s
    using that by (auto simp: get_timed_address_def case_prod_unfold get_farm_def sig_simps intro!: kept split: option.split)
  show all: "links_ok K N (session_get_timed env fid s)" if "links_ok K N s" for s
    using that by (auto simp: session_get_timed_def sig_simps intro!: kept one split: option.split)
  show "links_ok K N (session_backend_action env fid bid action s)" if "links_ok K N s"
    using that by (auto simp: session_backend_action_def Let_def sig_simps intro!: kept all split: option.split)
qed

text \<open>A farm goes with its links.\<close>

lemma farmaddress_delete_farm:
  "get_farm g (farmaddress_delete fid faid s) =
     (if g = fid then map_option (\<lambda>f. if kfind fa_id faid (f_addresses f) = None then f else farm_unlink_address faid f) (get_farm g s)
      else get_farm g s)"
  by (auto simp: farmaddress_delete_def address_release_def upd_farm_def upd_address_def get_farm_def kfind_kupd
      address_delete_def obj_set_total_addresses_def Let_def split: option.splits bind_splits)

lemma links_deleted:
  "get_farm fid s = Some f \<Longrightarrow>
   \<exists>g. get_farm fid (fold (\<lambda>fa. farmaddress_delete fid (fa_id fa)) fas s) = Some g \<and>
       f_addresses g = filter (\<lambda>fa. fa_id fa \<notin> fa_id ` set fas) (f_addresses f)"
proof (induction fas arbitrary: s f)
  case Nil
  then show ?case by simp
next
  case (Cons fa fas)
  have "\<exists>h. get_farm fid (farmaddress_delete fid (fa_id fa) s) = Some h \<and> f_addresses h = kdel fa_id (fa_id fa) (f_addresses f)"
    using Cons.prems kfind_None_iff [of fa_id "fa_id fa" "f_addresses f"]
    by (auto simp: farmaddress_delete_farm kdel_absent)
  with Cons.IH show ?case by (fastforce simp: kdel_def conj_commute)
qed

lemma refs_farm_delete [kept]:
  assumes "links_ok K N s"
  shows "links_ok K N (farm_delete fid s)"
proof -
  let ?s2 = "farmpolicy_s_delete fid (upd_farm fid backend_s_delete s)"
  let ?s3 = "farmaddress_s_delete fid ?s2"
  have r2: "links_ok K N ?s2" using assms by (intro kept) (simp_all add: sig_simps)
  then have r3: "links_ok K N ?s3" by (rule kept)
  have links: "f_addresses f = []" if f: "f \<in> set (farms ?s3)" "f_id f = fid" for f
  proof (cases "get_farm fid ?s2")
    case None
    with f r3 kfind_distinct [of f_id "farms ?s3" f] show ?thesis
      by (simp add: farmaddress_s_delete_def get_farm_def links_ok_def addr_refs_def)
  next
    case (Some g)
    with links_deleted [OF Some, of "f_addresses g"] f r3 kfind_distinct [of f_id "farms ?s3" f] show ?thesis
      by (auto simp: farmaddress_s_delete_def get_farm_def links_ok_def addr_refs_def)
  qed
  have "addr_links (kdel f_id fid fs) a = addr_links fs a" if "\<forall>f \<in> set fs. f_id f = fid \<longrightarrow> f_addresses f = []" for fs a
    using that by (induction fs) (auto simp: addr_links_def fa_links_def)
  then have "links_ok K N (?s3\<lparr>farms := kdel f_id fid (farms ?s3)\<rparr>)"
    using r3 links distinct_keys_kdel [of f_id "farms ?s3" fid]
    by (auto simp: links_ok_def addr_refs_def pol_refs_def noted_def set_kdel)
  then show ?thesis by (simp add: farm_delete_def Let_def)
qed


section \<open>Operations that may fail\<close>

text \<open>
  \<open>pred_option\<close> says of an operation that whatever it returns keeps the invariant. The state is the last
  part of every result; a bind hands it on.
\<close>

lemma pred_bind:
  assumes "pred_option P m" "\<And>x. P x \<Longrightarrow> pred_option Q (f x)"
  shows "pred_option Q (Option.bind m f)"
  using assms by (cases m) simp_all

lemma pred_map:
  assumes "pred_option P m" "\<And>x. P x \<Longrightarrow> Q (f x)"
  shows "pred_option Q (map_option f m)"
  using assms by (cases m) simp_all

lemma pred_foldo: "P s \<Longrightarrow> (\<And>x s. P s \<Longrightarrow> pred_option P (g x s)) \<Longrightarrow> pred_option P (foldo g xs s)"
proof (induction xs arbitrary: s)
  case (Cons x xs)
  show ?case unfolding foldo.simps by (rule pred_bind [OF Cons.prems(2) [OF Cons.prems(1)] Cons.IH]) (use Cons.prems in auto)
qed simp

text \<open>The four kinds of state, each by itself and behind what an operation returns.\<close>

abbreviation all_links :: "objs \<Rightarrow> bool" where "all_links \<equiv> links_ok {} {}"
abbreviation refs_w :: "nftw \<Rightarrow> bool" where "refs_w w \<equiv> all_links (w_objs w)"

lemmas links_bind =
  pred_bind [where P = "links_ok K N" and Q = "links_ok K N" for K N]
  pred_map [where P = "links_ok K N" and Q = "links_ok K N" for K N]
  pred_bind [where P = "links_ok K N" and Q = "\<lambda>r. links_ok K N (snd r)" for K N]
  pred_map [where P = "links_ok K N" and Q = "\<lambda>r. links_ok K N (snd r)" for K N]
  pred_bind [where P = "\<lambda>r. links_ok K N (snd r)" and Q = "links_ok K N" for K N]
  pred_map [where P = "\<lambda>r. links_ok K N (snd r)" and Q = "links_ok K N" for K N]
  pred_bind [where P = "\<lambda>r. links_ok K N (snd r)" and Q = "\<lambda>r. links_ok K N (snd r)" for K N]
  pred_map [where P = "\<lambda>r. links_ok K N (snd r)" and Q = "\<lambda>r. links_ok K N (snd r)" for K N]

lemmas refs_bind =
  pred_bind [where P = all_links] pred_map [where P = all_links]
  pred_bind [where P = "\<lambda>r. all_links (snd r)"] pred_map [where P = "\<lambda>r. all_links (snd r)"]
  pred_bind [where P = refs_w] pred_map [where P = refs_w]
  pred_bind [where P = "\<lambda>r. refs_w (snd r)"] pred_map [where P = "\<lambda>r. refs_w (snd r)"]
  pred_bind [where P = "\<lambda>r. refs_w (snd (snd r))"] pred_map [where P = "\<lambda>r. refs_w (snd (snd r))"]
  pred_bind [where P = "\<lambda>r. refs_w (snd (snd (snd r)))"] pred_map [where P = "\<lambda>r. refs_w (snd (snd (snd r)))"]

lemmas refs_foldo [kept] = pred_foldo [where P = "links_ok K N" for K N] pred_foldo [where P = refs_w] pred_foldo [where P = "\<lambda>r. refs_w (snd r)"]
  pred_foldo [where P = "\<lambda>r. links_ok K N (snd r)" for K N]

section \<open>Life cycle\<close>

lemma refs_validate [kept]:
  "links_ok K N s \<Longrightarrow> links_ok K N (snd (farmaddress_s_validate_iface fid s))"
  "links_ok K N s \<Longrightarrow> links_ok K N (snd (farm_validate fid s))"
  "links_ok K N s \<Longrightarrow> links_ok K N (snd (farm_is_available fid s))"
proof -
  show one: "links_ok K N (snd (farmaddress_s_validate_iface fid s))" if "links_ok K N s" for s
    using that by (auto simp: farmaddress_s_validate_iface_def sig_simps intro!: kept split: option.split)
  show two: "links_ok K N (snd (farm_validate fid s))" if "links_ok K N s" for s
    using that by (auto simp: farm_validate_def Let_def case_prod_unfold intro!: one split: option.split)
  show "links_ok K N (snd (farm_is_available fid s))" if "links_ok K N s"
    using that by (auto simp: farm_is_available_def intro!: two split: option.split)
qed

lemma farm_bck_farm: "get_farm_bck fid bid s = Some (f, b) \<Longrightarrow> get_farm fid s = Some f"
  by (auto simp: get_farm_bck_def bind_eq_Some_conv)

text \<open>The functions that call \<open>backend_set_state\<close> keep the invariant when it does.\<close>

lemma refs_calls:
  assumes call: "\<And>bid v s. links_ok K N s \<Longrightarrow> pred_option (links_ok K N) (call bid v s)"
  shows refs_gen_priority: "links_ok K N s \<Longrightarrow> pred_option (\<lambda>r. links_ok K N (snd r)) (gen_priority_call call fid s)"
    and refs_s_netinfo: "links_ok K N s \<Longrightarrow> pred_option (links_ok K N) (s_set_netinfo_call call env fid s)"
    and refs_s_validate: "links_ok K N s \<Longrightarrow> pred_option (links_ok K N) (validate_call call fid s)"
  by (auto simp: gen_priority_call_def s_set_netinfo_call_def validate_call_def Let_def case_prod_unfold sig_simps
      dest!: farm_bck_farm intro!: kept links_bind call split: option.split)

text \<open>Branches of a function, for the ones that have too many to be split all at once.\<close>

lemma branches:
  "(c \<Longrightarrow> pred_option P x) \<Longrightarrow> (\<not> c \<Longrightarrow> pred_option P y) \<Longrightarrow> pred_option P (if c then x else y)"
  "(v = None \<Longrightarrow> pred_option P x) \<Longrightarrow> (\<And>z. v = Some z \<Longrightarrow> pred_option P (g z)) \<Longrightarrow> pred_option P (case v of None \<Rightarrow> x | Some z \<Rightarrow> g z)"
  "Q t \<Longrightarrow> pred_option (\<lambda>r. Q (snd r)) (Some (b, t))" "Q t \<Longrightarrow> pred_option Q (Some t)"
  "links_ok K N s \<Longrightarrow> links_ok K N t \<Longrightarrow> links_ok K N (if c then s else t)"
  by (simp_all split: option.split)

lemma refs_actions:
  assumes call: "\<And>bid v s. links_ok K N s \<Longrightarrow> pred_option (links_ok K N) (call bid v s)"
  shows refs_set_netinfo: "links_ok K N s \<Longrightarrow> pred_option (links_ok K N) (set_netinfo_call call env fid s)"
    and refs_set_action: "links_ok K N s \<Longrightarrow> pred_option (\<lambda>r. links_ok K N (snd r)) (set_action_call call env fid action s)"
proof -
  show net: "pred_option (links_ok K N) (set_netinfo_call call env fid s)" if "links_ok K N s" for s
    using that by (auto simp: set_netinfo_call_def Let_def case_prod_unfold sig_simps
        intro!: kept links_bind refs_s_netinfo call split: option.split)
  show "pred_option (\<lambda>r. links_ok K N (snd r)) (set_action_call call env fid action s)" if "links_ok K N s"
    unfolding set_action_call_def Let_def case_prod_unfold
    by (intro branches links_bind kept refs_gen_priority [OF call] net refs_s_validate [OF call] that; (assumption | simp add: sig_simps))
qed

lemma refs_set_state_step:
  assumes call: "\<And>bid v s. links_ok K N s \<Longrightarrow> pred_option (links_ok K N) (call bid v s)" and "links_ok K N s"
  shows "pred_option (links_ok K N) (set_state_step call env fid bid v s)"
  using assms(2) by (auto simp: set_state_step_def Let_def case_prod_unfold sig_simps
      intro!: kept links_bind refs_gen_priority refs_set_action call split: option.split)

lemma refs_set_state [kept]: "links_ok K N s \<Longrightarrow> pred_option (links_ok K N) (backend_set_state n env fid bid v s)"
  by (induction n arbitrary: bid v s) (simp_all add: refs_set_state_step)

lemma refs_life_cycle [kept]:
  "links_ok K N s \<Longrightarrow> pred_option (\<lambda>r. links_ok K N (snd r)) (backend_s_gen_priority n env fid s)"
  "links_ok K N s \<Longrightarrow> pred_option (\<lambda>r. links_ok K N (snd r)) (farm_set_action n env fid action s)"
  "links_ok K N s \<Longrightarrow> pred_option (links_ok K N) (farm_set_netinfo n env fid s)"
  "links_ok K N s \<Longrightarrow> pred_option (links_ok K N) (backend_s_set_netinfo n env fid s)"
  "links_ok K N s \<Longrightarrow> pred_option (links_ok K N) (backend_s_validate n env fid s)"
  unfolding backend_s_gen_priority_def farm_set_action_def farm_set_netinfo_def backend_s_set_netinfo_def backend_s_validate_def
  by (intro refs_calls refs_actions kept; assumption)+

section \<open>Policies, elements, states of farms\<close>

lemma refs_farm_act [kept]: "links_ok K N s \<Longrightarrow> pred_option (links_ok K N) (farm_act n env fid action s)"
  by (auto simp: farm_act_def intro!: kept links_bind)

lemma refs_lookup_policy [kept]:
  "links_ok K N s \<Longrightarrow> pred_option (links_ok K N) (farmpolicy_s_lookup_policy_action n env name action fid s)"
  by (auto simp: farmpolicy_s_lookup_policy_action_def Let_def case_prod_unfold intro!: kept links_bind split: option.split)

text \<open>
  A policy is taken out of one farm after the other. A farm that is done has no link to it any more, and
  gets none while the others follow.
\<close>

lemma farm_without_policy:
  assumes "links_ok K N s" "(pid, name) \<in> N"
  shows "pred_option (links_ok (insert (fid, pid) K) N) (farmpolicy_s_lookup_policy_action n env name ACTION_DELETE fid s)"
proof (cases "get_farm fid s")
  case None
  then have "f_id f \<noteq> fid" if "f \<in> set (farms s)" for f using that by (auto simp: get_farm_def kfind_None_iff)
  then have "links_ok (insert (fid, pid) K) N s" using assms(1) by (auto simp: links_ok_def noted_def)
  with None show ?thesis by (simp add: farmpolicy_s_lookup_policy_action_def)
next
  case (Some f)
  show ?thesis
  proof (cases "farmpolicy_lookup_by_name f name s")
    case None
    with fp_lookup(2) [OF assms(1) Some assms(2)] Some show ?thesis by (simp add: farmpolicy_s_lookup_policy_action_def)
  next
    case found: (Some fp)
    have gone: "links_ok (insert (fid, pid) K) N (farmpolicy_delete fid (fp_id fp) s)"
      using links_ok_fp_delete(2) [OF assms(1) Some] fp_lookup(1) [OF assms(1) Some assms(2) found] by metis
    have "pred_option (links_ok (insert (fid, pid) K) N) (map_option (farmaddress_s_set_action fid ACTION_RELOAD)
        (farm_act n env fid ACTION_RELOAD (farmaddress_s_set_action fid ACTION_RELOAD (farmpolicy_delete fid (fp_id fp) s))))"
      by (rule pred_map [where P = "links_ok (insert (fid, pid) K) N"]) (intro refs_farm_act links_ok_fa(3) gone, rule links_ok_fa(3))
    with Some found show ?thesis by (simp add: farmpolicy_s_lookup_policy_action_def farmpolicy_set_action_def)
  qed
qed

lemma farms_without_policy:
  assumes "links_ok K N s" "(pid, name) \<in> N"
  shows "pred_option (links_ok (K \<union> set fids \<times> {pid}) N) (foldo (farmpolicy_s_lookup_policy_action n env name ACTION_DELETE) fids s)"
  using assms(1)
proof (induction fids arbitrary: K s)
  case (Cons fid fids)
  have "insert (fid, pid) K \<union> set fids \<times> {pid} = K \<union> set (fid # fids) \<times> {pid}" by auto
  with Cons.IH show ?case
    unfolding foldo.simps
    by (intro pred_bind [OF farm_without_policy [OF Cons.prems assms(2), of fid n env]]) (metis (no_types, lifting))
qed simp

lemma refs_policy_gone:
  assumes "all_links s" "get_policy pid s = Some p" "farm_s_lookup_policy_action n env (p_name p) ACTION_DELETE s = Some t"
  shows "all_links (policy_delete pid t)"
proof -
  let ?K = "{l. fst l \<notin> f_id ` set (farms s)}" and ?N = "{(pid, p_name p)}"
  have p: "p \<in> set (policies s)" "p_id p = pid" using links_ok_lookup(2) [OF assms(1,2)] by auto
  have "links_ok ?K ?N s" using assms(1) p by (auto simp: links_ok_def noted_def pol_sig_def)
  from farms_without_policy [OF this, of pid "p_name p" "map f_id (farms s)" n env] assms(3)
  have t: "links_ok (?K \<union> f_id ` set (farms s) \<times> {pid}) ?N t" by (simp add: farm_s_lookup_policy_action_def)
  have "fp_policy fp \<noteq> pid" if "f \<in> set (farms t)" "fp \<in> set (f_policies f)" for f fp
    using t that by (fastforce simp: links_ok_def noted_def)
  then show ?thesis using links_ok_less [OF links_ok_policy_delete [OF t]] by blast
qed

lemma refs_policy_action [kept]:
  assumes "all_links s"
  shows "pred_option (\<lambda>r. all_links (snd r)) (policy_set_action n env pid action s)"
proof (cases "get_policy pid s")
  case None
  with assms show ?thesis by (simp add: policy_set_action_def)
next
  case (Some p)
  show ?thesis
  proof (cases "action = ACTION_DELETE")
    case True
    with assms Some refs_policy_gone [OF assms Some, of n env] show ?thesis
      by (cases "farm_s_lookup_policy_action n env (p_name p) ACTION_DELETE s") (simp_all add: policy_set_action_def)
  next
    case False
    with assms Some show ?thesis
      by (auto simp: policy_set_action_def farm_s_lookup_policy_action_def sig_simps intro!: kept refs_bind)
  qed
qed

text \<open>The addresses are not asked: one that uses the policy keeps a link to what is gone.\<close>

lemma address_policy_dangles:
  defines "s1 \<equiv> snd (policy_create ''bl'' (snd (address_create ''vip'' objects_init)))"
  defines "s2 \<equiv> snd (addresspolicy_create 0 1 s1)"
  shows "map (\<lambda>a. map ap_policy (a_policies a)) (addresses s2) = [[1]] \<and> map p_id (policies s2) = [1]"
    "\<exists>t. policy_set_action n env 1 ACTION_DELETE s2 = Some (True, t) \<and>
       map (\<lambda>a. map ap_policy (a_policies a)) (addresses t) = [[1]] \<and> policies t = []"
  by (simp_all add: s1_def s2_def policy_create_def address_create_def addresspolicy_create_def objects_init_def
      new_address_def new_policy_def upd_address_def upd_policy_def obj_set_total_addresses_def obj_set_total_policies_def
      policy_set_action_def farm_s_lookup_policy_action_def get_policy_def policy_delete_def Let_def)

lemma refs_policies [kept]:
  "all_links s \<Longrightarrow> pred_option all_links (policy_act n env pid action s)"
  "all_links s \<Longrightarrow> pred_option all_links (policy_s_set_action n env action s)"
  by (auto simp: policy_act_def policy_s_set_action_def intro!: kept refs_bind)

lemma refs_element [kept]:
  "all_links s \<Longrightarrow> all_links (snd (element_create pid data time pkts bytes s))"
  "all_links s \<Longrightarrow> pred_option all_links (element_delete n env pid eid s)"
  by (auto simp: element_create_def element_delete_def element_delete_node_def Let_def sig_simps intro!: kept refs_bind)

lemma refs_element_action [kept]:
  "all_links s \<Longrightarrow> pred_option (\<lambda>r. all_links (snd r)) (element_set_action n env pid eid action s)"
  by (auto simp: element_set_action_def sig_simps intro!: kept refs_bind)

lemma refs_elements [kept]:
  "all_links s \<Longrightarrow> pred_option all_links (element_s_set_action n env pid action s)"
  "all_links s \<Longrightarrow> pred_option all_links (element_s_delete n env pid s)"
  by (auto simp: element_s_set_action_def element_s_delete_def sig_simps intro!: kept refs_bind)

lemma refs_get_elements [kept]: "all_links s \<Longrightarrow> pred_option all_links (element_get_list env pid s)"
  by (auto simp: element_get_list_def case_prod_unfold map_option_case sig_simps intro!: kept split: option.split)

lemma refs_farm_state [kept]:
  "all_links s \<Longrightarrow> pred_option all_links (farm_set_state n env fid new_value s)"
  by (auto simp: farm_set_state_def Let_def sig_simps intro!: kept refs_bind split: option.split)

lemma refs_farms [kept]:
  "all_links s \<Longrightarrow> pred_option all_links (farm_s_set_action n env action s)"
  "all_links s \<Longrightarrow> pred_option all_links (farm_s_set_reload_start n env s)"
  "all_links s \<Longrightarrow> pred_option all_links (farm_revalidate n env fid s)"
  "all_links s \<Longrightarrow> all_links (snd (farm_ready fid s))"
  by (auto simp: farm_s_set_action_def farm_s_set_reload_start_def farm_revalidate_def farm_ready_def Let_def case_prod_unfold
      intro!: kept refs_bind split: option.split)

section \<open>Translation\<close>

text \<open>
  A command that fails is recovered from; the invariant has to survive that, and the recovery of the
  program is shown below to let it. The environment is taken as it is during one translation.
\<close>

definition recovery_ok :: "nftenv \<Rightarrow> bool" where
  "recovery_ok env = (\<forall>w. refs_w w \<longrightarrow> refs_w (recovery env w))"

definition refs_kept :: "nftenv \<Rightarrow> nftw \<Rightarrow> nftw \<Rightarrow> bool" where
  "refs_kept env v w = (v = w \<and> (recovery_ok env \<longrightarrow> refs_w w))"

lemma refs_exec: "recovery_ok env \<Longrightarrow> refs_w w \<Longrightarrow> refs_w (exec_cmd env c w)"
  by (simp add: exec_cmd_def recovery_ok_def Let_def)

lemma refs_concat: "recovery_ok env \<Longrightarrow> refs_w w \<Longrightarrow> refs_w (concat_exec_cmd env t w)"
  by (simp add: concat_exec_cmd_def exec_cmd_unbuffered_def u_buf_concat_def refs_exec Let_def)

interpretation refs: nft_entry env "refs_kept env" "refs_kept env" for env
proof unfold_locales
  fix v w :: nftw and fam act assume "refs_kept env v w"
  then show "refs_kept env (nft_table_handler env fam act v) (nft_table_handler env fam act w)"
    by (cases act) (auto simp: refs_kept_def nft_table_handler_def Let_def refs_concat)
next
  fix v w :: nftw and h assume "refs_kept env v w" "\<And>s. plain_objs (h s) = plain_objs s"
  then show "refs_kept env (upd_objs h v) (upd_objs h w)"
    using refs_plain by (metis (no_types, lifting) nftw.select_convs(1) nftw.surjective nftw.update_convs(1) refs_kept_def upd_objs_def)
qed (auto simp: refs_kept_def upd_base_def upd_objs_def set_service_counter_def u_buf_concat_def Let_def refs_concat refs_exec)

lemma refs_translation [kept]:
  assumes "recovery_ok env" "refs_w w"
  shows "refs_w (nft_rulerize_farms env fid w)" "refs_w (nft_rulerize_address env aid w)"
    "refs_w (nft_rulerize_policies env pid w)" "refs_w (nft_reset env w)"
proof -
  have "refs_w (nft_do env c w)" for c
    using refs.nft_do_Q [of env w w c] assms by (simp add: refs_kept_def)
  from this [of "Rulerize_farm fid"] this [of "Rulerize_address aid"] this [of "Rulerize_policy pid"] this [of Reset]
  show "refs_w (nft_rulerize_farms env fid w)" "refs_w (nft_rulerize_address env aid w)"
    "refs_w (nft_rulerize_policies env pid w)" "refs_w (nft_reset env w)"
    by simp_all
qed

lemma refs_upd_objs [simp]: "refs_w (upd_objs g w) = all_links (g (w_objs w))"
  by (simp add: upd_objs_def)

lemma refs_on_objs [simp]:
  "pred_option refs_w (on_objs g w) = pred_option all_links (g (w_objs w))"
  "pred_option (\<lambda>r. refs_w (snd r)) (ask_objs h w) = pred_option (\<lambda>r. all_links (snd r)) (h (w_objs w))"
  by (simp_all add: on_objs_def ask_objs_def option.pred_map comp_def case_prod_unfold)

lemma refs_foldw [kept]: "refs_w w \<Longrightarrow> (\<And>x w. refs_w w \<Longrightarrow> refs_w (g x w)) \<Longrightarrow> refs_w (fold g xs w)"
  by (induction xs arbitrary: w) auto

lemma refs_rulerize [kept]:
  assumes "recovery_ok env"
  shows "refs_w w \<Longrightarrow> pred_option refs_w (farm_rulerize n env fid w)"
    "refs_w w \<Longrightarrow> refs_w (address_rulerize env aid w)"
    "refs_w w \<Longrightarrow> pred_option refs_w (policy_rulerize n env pid w)"
  using assms
  by (auto simp: farm_rulerize_def address_rulerize_def policy_rulerize_def Let_def case_prod_unfold sig_simps
      intro!: kept refs_bind split: option.split)

lemma refs_obj_rulerize [kept]:
  "recovery_ok env \<Longrightarrow> refs_w w \<Longrightarrow> pred_option refs_w (obj_rulerize n env mode w)"
  by (auto simp: obj_rulerize_def farm_s_rulerize_def address_s_rulerize_def policy_s_rulerize_def Let_def
      intro!: kept refs_bind)

lemma refs_obj_recovery [kept]: "refs_w w \<Longrightarrow> pred_option refs_w (obj_recovery n env w)"
  by (auto simp: obj_recovery_def recovery_ok_def Let_def intro!: kept refs_bind)

section \<open>Backends\<close>

lemma refs_start_stop [kept]:
  "all_links s \<Longrightarrow> pred_option (\<lambda>r. all_links (snd r)) (backend_start_stop n env fid bid action s)"
  by (auto simp: backend_start_stop_def Let_def sig_simps intro!: kept refs_bind split: option.split)

lemma refs_backend_delete [kept]:
  "recovery_ok env \<Longrightarrow> refs_w w \<Longrightarrow> pred_option refs_w (backend_delete n env fid bid w)"
  by (auto simp: backend_delete_def session_backend_act_def Let_def case_prod_unfold sig_simps intro!: kept refs_bind split: option.split)

lemma refs_backend_action [kept]:
  "recovery_ok env \<Longrightarrow> refs_w w \<Longrightarrow> pred_option (\<lambda>r. refs_w (snd r)) (backend_set_action n env fid bid action w)"
  by (auto simp: backend_set_action_def intro!: kept refs_bind)

lemma refs_backends [kept]:
  "recovery_ok env \<Longrightarrow> refs_w w \<Longrightarrow> pred_option refs_w (backend_s_set_action n env fid action w)"
  by (auto simp: backend_s_set_action_def intro!: kept refs_bind)

lemma refs_set_ether_step [kept]:
  "recovery_ok env \<Longrightarrow> refs_w (snd r) \<Longrightarrow> pred_option (\<lambda>r. refs_w (snd r)) (set_ether_step n env fid ip ether bid r)"
  by (auto simp: set_ether_step_def session_backend_act_def only_if_def Let_def case_prod_unfold sig_simps
      intro!: kept refs_bind split: option.split)

lemma refs_set_ether [kept]:
  "recovery_ok env \<Longrightarrow> refs_w w \<Longrightarrow> pred_option refs_w (farm_s_set_backend_ether_by_oifidx n env i ip ether w)"
  by (auto simp: farm_s_set_backend_ether_by_oifidx_def farm_set_backend_ether_def backend_s_set_ether_by_ipaddr_def
      Let_def case_prod_unfold sig_simps intro!: kept refs_bind)

end
