(* ===== verification/Utils.thy ===== *)
theory Utils
  imports Prelude
begin

text \<open>
  The helpers under utils: the growing text buffer of u_sbuffer.c at the level of its memory block, the
  string copy of u_string.c, the comparison of socket addresses of u_network.c and the status lines of
  u_http.c. The translation to nft commands (theory Nft) works on the text of a buffer; the locale below
  and its interpretation say that the block behaves as that text.
\<close>

section \<open>Memory blocks\<close>

abbreviation NUL :: char where "NUL \<equiv> CHR 0x00"

abbreviation U_DEF_BUFFER_SIZE :: nat where "U_DEF_BUFFER_SIZE \<equiv> 4096"
abbreviation EXTRA_SIZE :: nat where "EXTRA_SIZE \<equiv> 1024"

text \<open>
  \<open>data\<close> is the block \<open>malloc\<close> returned, with its bytes, or \<open>None\<close> for NULL. Sizes are below the range
  of \<open>int\<close> here; a buffer that large holds no command.
\<close>

record u_buffer =
  u_size :: nat
  u_next :: nat
  u_data :: "string option"

text \<open>A text and its terminator written into a block; \<open>None\<close> when it does not fit.\<close>

definition write_str :: "string \<Rightarrow> nat \<Rightarrow> string \<Rightarrow> string option" where
  "write_str block pos t =
     (if pos + length t < length block
      then Some (take pos block @ t @ [NUL] @ drop (pos + length t + 1) block) else None)"

text \<open>The C string a block starts with; \<open>None\<close> when it has no terminator.\<close>

definition c_string :: "string \<Rightarrow> string option" where
  "c_string block = (if NUL \<in> set block then Some (takeWhile (\<lambda>c. c \<noteq> NUL) block) else None)"

section \<open>The buffer\<close>

definition u_buf_get_size :: "u_buffer \<Rightarrow> nat" where "u_buf_get_size buf = u_size buf"

definition u_buf_get_next :: "u_buffer \<Rightarrow> nat" where "u_buf_get_next buf = u_next buf"

definition u_buf_get_data :: "u_buffer \<Rightarrow> string option" where "u_buf_get_data buf = u_data buf"

text \<open>
  \<open>grow\<close> is \<open>realloc\<close>: the bytes behind the old ones, or \<open>None\<close> when there is no memory. The result is
  the return code together with the buffer.
\<close>

definition u_buf_resize :: "(nat \<Rightarrow> string option) \<Rightarrow> nat \<Rightarrow> u_buffer \<Rightarrow> bool \<times> u_buffer" where
  "u_buf_resize grow n_times buf =
     (if n_times = 0 then (False, buf)
      else
        let newsize = u_size buf + n_times * EXTRA_SIZE + 1
        in case u_data buf of
             None \<Rightarrow> (True, buf)
           | Some d \<Rightarrow>
               (case grow (newsize - u_size buf) of
                  None \<Rightarrow> (True, buf)
                | Some extra \<Rightarrow> (False, buf\<lparr>u_data := Some (d @ extra), u_size := newsize\<rparr>)))"

definition u_buf_create :: u_buffer where
  "u_buf_create = \<lparr>u_size = U_DEF_BUFFER_SIZE, u_next = 0, u_data = Some (replicate U_DEF_BUFFER_SIZE NUL)\<rparr>"

definition u_buf_isempty :: "u_buffer \<Rightarrow> bool" where
  "u_buf_isempty buf = (case u_data buf of None \<Rightarrow> False | Some d \<Rightarrow> hd d = NUL)"

definition u_buf_clean :: "u_buffer \<Rightarrow> u_buffer" where
  "u_buf_clean buf = \<lparr>u_size = 0, u_next = 0, u_data = None\<rparr>"

definition u_buf_reset :: "u_buffer \<Rightarrow> u_buffer" where
  "u_buf_reset buf = buf\<lparr>u_data := map_option (\<lambda>d. d[0 := NUL]) (u_data buf), u_next := 0\<rparr>"

text \<open>The text \<open>t\<close> is what the format prints; \<open>None\<close> would be a write outside the block.\<close>

definition u_buf_concat_va :: "(nat \<Rightarrow> string option) \<Rightarrow> string \<Rightarrow> u_buffer \<Rightarrow> u_buffer option" where
  "u_buf_concat_va grow t buf =
     (let len = length t;
          n_times = (if u_next buf + len \<ge> u_size buf then (u_next buf + len - u_size buf) div EXTRA_SIZE + 1 else 0);
          (failed, buf1) = u_buf_resize grow n_times buf
      in if failed then Some buf1
         else case u_data buf1 of
                None \<Rightarrow> None
              | Some d \<Rightarrow> map_option (\<lambda>d'. buf1\<lparr>u_data := Some d', u_next := u_next buf1 + len\<rparr>) (write_str d (u_next buf1) t))"

section \<open>The buffer as a text\<close>

text \<open>
  A buffer holds a text when the text is in front of the write position, no character of it ends it early
  and the terminator is behind it, all inside the block.
\<close>

definition holds :: "u_buffer \<Rightarrow> string \<Rightarrow> bool" where
  "holds buf t =
     (case u_data buf of
        None \<Rightarrow> False
      | Some d \<Rightarrow> length d = u_size buf \<and> u_next buf < u_size buf \<and> take (u_next buf) d = t \<and>
                  d ! u_next buf = NUL \<and> NUL \<notin> set t)"

text \<open>What a client of a text buffer relies on.\<close>

locale text_buffer =
  fixes create :: 'b
    and append :: "string \<Rightarrow> 'b \<Rightarrow> 'b option"
    and reset :: "'b \<Rightarrow> 'b"
    and contents :: "'b \<Rightarrow> string \<Rightarrow> bool"
    and ok :: "string \<Rightarrow> bool"
  assumes create_contents: "contents create []"
    and append_contents: "contents b s \<Longrightarrow> ok t \<Longrightarrow> \<exists>b'. append t b = Some b' \<and> contents b' (s @ t)"
    and reset_contents: "contents b s \<Longrightarrow> contents (reset b) []"
begin

lemma append_all:
  "contents b s \<Longrightarrow> list_all ok ts \<Longrightarrow> \<exists>b'. foldo append ts b = Some b' \<and> contents b' (s @ concat ts)"
proof (induction ts arbitrary: b s)
  case (Cons t ts)
  then obtain b1 where "append t b = Some b1" "contents b1 (s @ t)" using append_contents by force
  with Cons show ?case by fastforce
qed simp

end

lemma holds_take: "holds buf t \<Longrightarrow> length t = u_next buf"
  by (auto simp: holds_def split: option.splits)

lemma takeWhile_before:
  "n < length d \<Longrightarrow> d ! n = z \<Longrightarrow> z \<notin> set (take n d) \<Longrightarrow> takeWhile (\<lambda>c. c \<noteq> z) d = take n d"
  by (auto intro!: takeWhile_eq_take_P_nth simp: in_set_conv_nth)

lemma holds_c_string: "holds buf t \<Longrightarrow> Option.bind (u_data buf) c_string = Some t"
  by (auto simp: holds_def c_string_def takeWhile_before split: option.splits) (metis nth_mem)

lemma resize_holds:
  assumes "holds buf t" "\<And>n. \<exists>extra. grow n = Some extra \<and> length extra = n"
  shows "\<exists>buf'. u_buf_resize grow n_times buf = (False, buf') \<and> holds buf' t \<and> u_next buf' = u_next buf \<and>
                (if n_times = 0 then buf' = buf else u_size buf' = u_size buf + n_times * EXTRA_SIZE + 1)"
proof (cases "n_times = 0")
  case False
  obtain extra where "grow (n_times * EXTRA_SIZE + 1) = Some extra" "length extra = n_times * EXTRA_SIZE + 1" using assms(2) by blast
  with assms(1) False show ?thesis
    by (auto simp: u_buf_resize_def holds_def nth_append split: option.splits)
qed (use assms(1) in \<open>simp add: u_buf_resize_def\<close>)

lemma write_holds:
  assumes "holds buf s" "NUL \<notin> set t" "u_next buf + length t < u_size buf"
  shows "\<exists>d d'. u_data buf = Some d \<and> write_str d (u_next buf) t = Some d' \<and>
                holds (buf\<lparr>u_data := Some d', u_next := u_next buf + length t\<rparr>) (s @ t)"
proof -
  obtain d where d: "u_data buf = Some d" "length d = u_size buf" "take (u_next buf) d = s" "NUL \<notin> set s" "u_next buf < u_size buf"
    using assms(1) by (auto simp: holds_def split: option.splits)
  let ?d = "s @ t @ [NUL] @ drop (u_next buf + length t + 1) d"
  have s: "length s = u_next buf" using d by auto
  have "write_str d (u_next buf) t = Some ?d" using assms(3) d by (simp add: write_str_def)
  moreover have "length ?d = u_size buf" "take (u_next buf + length t) ?d = s @ t" "?d ! (u_next buf + length t) = NUL"
    using assms(3) d(2) by (simp_all add: s nth_append)
  ultimately show ?thesis
    using d assms(2,3) by (intro exI [of _ d] exI [of _ ?d]) (simp add: holds_def)
qed

lemma concat_holds:
  assumes h: "holds buf s" and t: "NUL \<notin> set t" and mem: "\<And>n. \<exists>extra. grow n = Some extra \<and> length extra = n"
  shows "\<exists>buf'. u_buf_concat_va grow t buf = Some buf' \<and> holds buf' (s @ t)"
proof -
  define n_times where
    "n_times = (if u_next buf + length t \<ge> u_size buf then (u_next buf + length t - u_size buf) div EXTRA_SIZE + 1 else 0)"
  obtain buf1 where r: "u_buf_resize grow n_times buf = (False, buf1)" and h1: "holds buf1 s" "u_next buf1 = u_next buf"
    and sz: "if n_times = 0 then buf1 = buf else u_size buf1 = u_size buf + n_times * EXTRA_SIZE + 1"
    using resize_holds [OF h mem, of n_times] by auto
  have "u_next buf1 + length t < u_size buf1"
    using sz h1 unfolding n_times_def by (auto split: if_splits)
  then obtain d d' where "u_data buf1 = Some d" "write_str d (u_next buf1) t = Some d'"
    "holds (buf1\<lparr>u_data := Some d', u_next := u_next buf1 + length t\<rparr>) (s @ t)"
    using write_holds [OF h1(1) t] by blast
  with r show ?thesis unfolding u_buf_concat_va_def n_times_def by (auto simp: Let_def)
qed

lemma create_holds: "holds u_buf_create []"
  by (simp add: u_buf_create_def holds_def)

lemma reset_holds: "holds buf s \<Longrightarrow> holds (u_buf_reset buf) []"
  by (auto simp: holds_def u_buf_reset_def split: option.splits)

text \<open>A \<open>realloc\<close> that always has memory, and the buffer on it.\<close>

definition plenty :: "nat \<Rightarrow> string option" where
  "plenty n = Some (replicate n NUL)"

interpretation buf: text_buffer u_buf_create "u_buf_concat_va plenty" u_buf_reset holds "\<lambda>t. NUL \<notin> set t"
  by unfold_locales (auto intro!: create_holds concat_holds reset_holds simp: plenty_def)



section \<open>Copying a string\<close>

text \<open>
  \<open>u_str_snprintf\<close> copies \<open>n\<close> bytes whatever they are and ends them; \<open>None\<close> when the source is shorter.
\<close>

definition u_str_snprintf :: "nat \<Rightarrow> string \<Rightarrow> string option" where
  "u_str_snprintf n strsrc =
     (if n \<le> length strsrc + 1 then c_string (take n (strsrc @ [NUL]) @ [NUL]) else None)"

definition obj_set_attribute_string :: "string \<Rightarrow> string option" where
  "obj_set_attribute_string src = u_str_snprintf (length src) src"

lemma obj_set_attribute_string_copies: "NUL \<notin> set src \<Longrightarrow> obj_set_attribute_string src = Some src"
  by (auto simp: obj_set_attribute_string_def u_str_snprintf_def c_string_def takeWhile_tail)

section \<open>Socket addresses\<close>

datatype sockaddr =
    AF_UNIX string
  | AF_INET "32 word" "16 word"
  | AF_INET6 "8 word list" "16 word" "32 word" "32 word"
  | AF_OTHER nat

text \<open>\<open>memcmp\<close>: the sign of the first difference.\<close>

fun memcmp :: "8 word list \<Rightarrow> 8 word list \<Rightarrow> int" where
  "memcmp (x # xs) (y # ys) = (if x = y then memcmp xs ys else if x < y then -1 else 1)"
| "memcmp _ _ = 0"

fun u_soc_equal_sockaddr :: "sockaddr \<Rightarrow> sockaddr \<Rightarrow> bool \<Rightarrow> int" where
  "u_soc_equal_sockaddr (AF_UNIX p) (AF_UNIX q) _ = 1"
| "u_soc_equal_sockaddr (AF_INET a p) (AF_INET b q) compare_port =
     (if a \<noteq> b then 0 else if compare_port \<and> p \<noteq> q then 0 else 1)"
| "u_soc_equal_sockaddr (AF_INET6 a p fl sc) (AF_INET6 b q fl' sc') compare_port =
     (let r = memcmp a b
      in if r \<noteq> 0 then r else if compare_port \<and> p \<noteq> q then 0 else if fl \<noteq> fl' then 0 else if sc \<noteq> sc' then 0 else 1)"
| "u_soc_equal_sockaddr _ _ _ = 0"

text \<open>Two different IPv6 addresses, and any two UNIX paths, compare as equal (the result is not 0).\<close>

lemma memcmp_0_iff: "length a = length b \<Longrightarrow> memcmp a b = 0 \<longleftrightarrow> a = b"
  by (induction a b rule: memcmp.induct) auto

lemma different_sockaddr_equal:
  "length a = length b \<Longrightarrow> a \<noteq> b \<Longrightarrow> u_soc_equal_sockaddr (AF_INET6 a p fl sc) (AF_INET6 b q fl' sc') port \<noteq> 0"
  "u_soc_equal_sockaddr (AF_UNIX x) (AF_UNIX y) port \<noteq> 0"
  by (simp_all add: memcmp_0_iff)

text \<open>
  The resolver is a parameter: from a host, a service and hints to the code of \<open>getaddrinfo\<close> and the chain.
  The pointers of the result to the next entry and to the canonical name lead into the chain, which is
  freed, so a caller can not use them; they are left out.
\<close>

record addrinfo =
  ai_family :: nat
  ai_socktype :: nat
  ai_addr :: "sockaddr option"

record ai_hints =
  hints_family :: nat
  hints_socktype :: nat
  hints_flags :: nat

abbreviation AF_UNSPEC :: nat where "AF_UNSPEC \<equiv> 0"
abbreviation SOCK_STREAM :: nat where "SOCK_STREAM \<equiv> 1"
abbreviation AI_CANONNAME :: nat where "AI_CANONNAME \<equiv> 2"
abbreviation EAI_NONAME :: int where "EAI_NONAME \<equiv> -2"
abbreviation EAI_MEMORY :: int where "EAI_MEMORY \<equiv> -10"

type_synonym resolver = "string \<Rightarrow> string \<Rightarrow> ai_hints \<Rightarrow> int \<times> addrinfo list"

definition port_string :: "int \<Rightarrow> string" where
  "port_string port = (if port > 0 then print_d port else [])"

definition stream_hints :: "nat \<Rightarrow> ai_hints" where
  "stream_hints family = \<lparr>hints_family = family, hints_socktype = SOCK_STREAM, hints_flags = AI_CANONNAME\<rparr>"

text \<open>The code and what is left in \<open>res\<close>; \<open>allocated\<close> is whether \<open>malloc\<close> has room for the address.\<close>

definition u_net_get_host :: "resolver \<Rightarrow> bool \<Rightarrow> string \<Rightarrow> addrinfo \<Rightarrow> nat \<Rightarrow> int \<Rightarrow> int \<times> addrinfo" where
  "u_net_get_host getaddrinfo allocated name res family port =
     (let (ret_val, chain) = getaddrinfo name (port_string port) (stream_hints family)
      in if ret_val \<noteq> 0 then (ret_val, res)
         else case find (\<lambda>ap. ai_socktype ap = SOCK_STREAM) chain of
                None \<Rightarrow> (EAI_NONAME, res)
              | Some ap \<Rightarrow> if \<not> allocated then (EAI_MEMORY, ap\<lparr>ai_addr := None\<rparr>) else (0, ap))"

definition u_net_get_address :: "resolver \<Rightarrow> string \<Rightarrow> int \<Rightarrow> addrinfo list option" where
  "u_net_get_address getaddrinfo address port =
     (let (sfd, chain) = getaddrinfo address (port_string port) (stream_hints AF_UNSPEC)
      in if sfd \<noteq> 0 then None else Some chain)"

lemma u_net_get_host_stream:
  assumes "u_net_get_host getaddrinfo allocated name res family port = (0, res')"
  shows "ai_socktype res' = SOCK_STREAM \<and>
    res' \<in> set (snd (getaddrinfo name (port_string port) (stream_hints family)))"
  using assms by (auto simp: u_net_get_host_def case_prod_unfold Let_def find_Some_iff split: if_splits option.splits)

section \<open>Status lines\<close>

datatype ws_responses = WS_HTTP_500 | WS_HTTP_505 | WS_HTTP_400 | WS_HTTP_401 | WS_HTTP_404 | WS_HTTP_405
  | WS_HTTP_409 | WS_HTTP_301 | WS_HTTP_302 | WS_HTTP_307 | WS_HTTP_200 | WS_HTTP_201 | WS_HTTP_204 | WS_HTTP_MAX

abbreviation HTTP_LINE_END :: string where "HTTP_LINE_END \<equiv> [CHR 0x0D, CHR 0x0A]"

text \<open>The table has no line for \<open>WS_HTTP_MAX\<close>.\<close>

fun ws_str_responses :: "ws_responses \<Rightarrow> string option" where
  "ws_str_responses WS_HTTP_500 = Some (''HTTP/1.1 500 Internal Server Error'' @ HTTP_LINE_END)"
| "ws_str_responses WS_HTTP_505 = Some (''HTTP/1.1 505 HTTP Version Not Supported'' @ HTTP_LINE_END)"
| "ws_str_responses WS_HTTP_400 = Some (''HTTP/1.1 400 Bad Request'' @ HTTP_LINE_END)"
| "ws_str_responses WS_HTTP_401 = Some (''HTTP/1.1 401 Unauthorized'' @ HTTP_LINE_END)"
| "ws_str_responses WS_HTTP_404 = Some (''HTTP/1.1 404 Not Found'' @ HTTP_LINE_END)"
| "ws_str_responses WS_HTTP_405 = Some (''HTTP/1.1 405 Method Not Allowed'' @ HTTP_LINE_END)"
| "ws_str_responses WS_HTTP_409 = Some (''HTTP/1.1 409 Conflict'' @ HTTP_LINE_END)"
| "ws_str_responses WS_HTTP_301 = Some (''HTTP/1.1 301 Moved Permanently'' @ HTTP_LINE_END)"
| "ws_str_responses WS_HTTP_302 = Some (''HTTP/1.1 302 Found'' @ HTTP_LINE_END)"
| "ws_str_responses WS_HTTP_307 = Some (''HTTP/1.1 307 Temporary Redirect'' @ HTTP_LINE_END)"
| "ws_str_responses WS_HTTP_200 = Some (''HTTP/1.1 200 OK'' @ HTTP_LINE_END)"
| "ws_str_responses WS_HTTP_201 = Some (''HTTP/1.1 201 Created'' @ HTTP_LINE_END)"
| "ws_str_responses WS_HTTP_204 = Some (''HTTP/1.1 204 No Content'' @ HTTP_LINE_END)"
| "ws_str_responses WS_HTTP_MAX = None"

definition http_to_ws :: "int \<Rightarrow> ws_responses" where
  "http_to_ws code =
     (if code = 500 then WS_HTTP_500 else if code = 505 then WS_HTTP_505 else if code = 400 then WS_HTTP_400
      else if code = 401 then WS_HTTP_401 else if code = 404 then WS_HTTP_404 else if code = 405 then WS_HTTP_405
      else if code = 409 then WS_HTTP_409 else if code = 301 then WS_HTTP_301 else if code = 302 then WS_HTTP_302
      else if code = 307 then WS_HTTP_307 else if code = 200 then WS_HTTP_200 else if code = 201 then WS_HTTP_201
      else if code = 204 then WS_HTTP_204 else WS_HTTP_MAX)"

end
