(* ===== verification/Server.thy ===== *)
theory Server
  imports ConfigDump Utils
begin

unbundle bit_operations_syntax

text \<open>
  The control interface (server.c) and the start of the daemon (main.c): authentication and parsing of
  a request, the handlers of its methods and the answer. The socket is the list of pieces \<open>recv\<close> will
  deliver, the answer the list of texts that are sent. What a handler does is \<open>None\<close> where the fuel of
  the life cycle runs out or the C code leaves a buffer or follows a dangling pointer.
\<close>

section \<open>Status and authentication\<close>

definition parse_to_http_status :: "int \<Rightarrow> ws_responses" where
  "parse_to_http_status code =
     (if code = parser_code PARSER_OK \<or> code = parser_code PARSER_IDEM_VALUE then WS_HTTP_200
      else if code = parser_code PARSER_STRUCT_FAILED \<or> code = parser_code PARSER_VALID_FAILED then WS_HTTP_400
      else if code = parser_code PARSER_OBJ_UNKNOWN then WS_HTTP_404
      else WS_HTTP_500)"

text \<open>
  \<open>str_iseq\<close> looks at every character of the first string, at the terminator of the second one when it
  is shorter, and gathers the differences.
\<close>

definition c_char :: "char \<Rightarrow> flags" where
  "c_char c = scast (of_char c :: 8 word)"

definition first_char :: "string \<Rightarrow> char" where
  "first_char s = (case s of [] \<Rightarrow> NUL | c # _ \<Rightarrow> c)"

fun iseq_loop :: "string \<Rightarrow> string \<Rightarrow> flags \<Rightarrow> flags" where
  "iseq_loop [] s2 m = m OR (c_char NUL XOR c_char (first_char s2))"
| "iseq_loop (c # s1) s2 m = iseq_loop s1 (tl s2) (m OR (c_char c XOR c_char (first_char s2)))"

definition str_iseq :: "cptr \<Rightarrow> cptr \<Rightarrow> bool" where
  "str_iseq s1 s2 = (case (s1, s2) of (Some a, Some b) \<Rightarrow> iseq_loop a b 0 = 0 | _ \<Rightarrow> False)"

definition auth_key :: "cptr \<Rightarrow> string \<Rightarrow> bool" where
  "auth_key server_key recvkey = str_iseq server_key (Some recvkey)"

section \<open>Requests\<close>

datatype ws_methods = WS_GET_ACTION | WS_POST_ACTION | WS_PUT_ACTION | WS_DELETE_ACTION | WS_PATCH_ACTION

record http_state =
  h_method :: ws_methods
  h_uri :: string
  h_body :: string

text \<open>\<open>sscanf\<close> with \<open>%i\<close>: decimal, octal after a 0, hexadecimal after 0x.\<close>

definition octal_val :: "string \<Rightarrow> nat" where
  "octal_val s = fold (\<lambda>c n. 8 * n + digit_val c) (takeWhile (\<lambda>c. is_digit c \<and> digit_val c < 8) s) 0"

definition scan_i :: "string \<Rightarrow> int option" where
  "scan_i s =
     (let t = dropWhile is_space s;
          neg = (t \<noteq> [] \<and> hd t = CHR ''-'');
          u = (if t \<noteq> [] \<and> (hd t = CHR ''-'' \<or> hd t = CHR ''+'') then tl t else t);
          signed = (\<lambda>n. Some (int_of_long (long_clamp (if neg then - int n else int n))))
      in if u = [] \<or> \<not> is_digit (hd u) then None
         else if starts_with ''0x'' u \<or> starts_with ''0X'' u then signed (scan_hex 0 (drop 2 u))
         else if hd u = CHR ''0'' then signed (octal_val u)
         else signed (fst (scan_digits 0 u)))"

definition recv_key :: "string \<Rightarrow> string" where
  "recv_key p = take 199 (takeWhile (\<lambda>c. c \<noteq> CHR 0x0D \<and> c \<noteq> CHR 0x0A) (dropWhile is_space (drop 4 p)))"

text \<open>The first two words of the request.\<close>

definition request_words :: "string \<Rightarrow> string \<times> string" where
  "request_words data =
     (let method = take 199 (takeWhile (\<lambda>c. c \<noteq> CHR '' '') data);
          rest = dropWhile is_space (drop (length method) data)
      in if method = [] then ([], []) else (method, take 199 (takeWhile (\<lambda>c. c \<noteq> CHR '' '') rest)))"

definition method_of :: "string \<Rightarrow> ws_methods option" where
  "method_of t =
     (if t = ''GET'' then Some WS_GET_ACTION
      else if t = ''POST'' then Some WS_POST_ACTION
      else if t = ''PUT'' then Some WS_PUT_ACTION
      else if t = ''DELETE'' then Some WS_DELETE_ACTION
      else if t = ''PATCH'' then Some WS_PATCH_ACTION
      else None)"

fun recv :: "nat \<Rightarrow> string list \<Rightarrow> string \<times> string list" where
  "recv n [] = ([], [])"
| "recv n (t # ts) = (take n t, if length t > n then drop n t # ts else ts)"

text \<open>The rest of the body, at most 1024 bytes at a time, until it is complete or the peer stops.\<close>

function receive :: "int \<Rightarrow> string \<Rightarrow> string list \<Rightarrow> string" where
  "receive contlength body socket =
     (if contlength \<le> int (length body) then body
      else
        let bytes_left = min EXTRA_SIZE (nat (contlength - int (length body)));
            (t, socket1) = recv bytes_left socket
        in if t = [] then body else receive contlength (body @ t) socket1)"
  by pat_completeness auto
termination
  by (relation "measure (\<lambda>(contlength, body, _). nat (contlength - int (length body)))") auto

declare receive.simps [simp del]

text \<open>The result is the status of the refusal, or the request; in front of it what was sent meanwhile.\<close>

definition get_request :: "cptr \<Rightarrow> string \<Rightarrow> string list \<Rightarrow> string list \<times> (ws_responses + http_state)" where
  "get_request server_key data socket =
     (case strstr data ''Key: '' of
        None \<Rightarrow> ([], Inl WS_HTTP_401)
      | Some p \<Rightarrow>
          if \<not> auth_key server_key (recv_key p) then ([], Inl WS_HTTP_401)
          else
            let (method, uri) = request_words data
            in case method_of method of
                 None \<Rightarrow> ([], Inl (parse_to_http_status (parser_code PARSER_STRUCT_FAILED)))
               | Some WS_GET_ACTION \<Rightarrow> ([], Inr \<lparr>h_method = WS_GET_ACTION, h_uri = uri, h_body = []\<rparr>)
               | Some meth \<Rightarrow>
                   (case strstr data (HTTP_LINE_END @ HTTP_LINE_END) of
                      None \<Rightarrow> ([], Inl (parse_to_http_status (parser_code PARSER_STRUCT_FAILED)))
                    | Some b \<Rightarrow>
                        let contlength = (case strstr data ''Content-Length: '' of
                              None \<Rightarrow> 0 | Some q \<Rightarrow> (case scan_i (drop 15 q) of None \<Rightarrow> 0 | Some i \<Rightarrow> i))
                        in (if strstr data ''Expect: 100-continue'' \<noteq> None
                            then [''HTTP/1.1 100 Continue'' @ HTTP_LINE_END @ HTTP_LINE_END] else [],
                            Inr \<lparr>h_method = meth, h_uri = uri, h_body = receive contlength (drop 4 b) socket\<rparr>)))"

text \<open>
  The parts of the URI: \<open>sscanf\<close> with one \<open>/%199[^/]\<close> for each, the last one up to the end of the line.
  An empty part ends the scan and leaves the rest empty.
\<close>

fun scan_levels :: "nat \<Rightarrow> string \<Rightarrow> string list" where
  "scan_levels 0 s = []"
| "scan_levels (Suc k) s =
     (let t = takeWhile (\<lambda>c. c \<noteq> (if k = 0 then CHR 0x0A else CHR ''/'')) (tl s)
      in if s = [] \<or> hd s \<noteq> CHR ''/'' \<or> t = [] then replicate (Suc k) []
         else t # scan_levels k (drop (length t) (tl s)))"

section \<open>Answers\<close>

abbreviation SRV_MAX_BUF :: nat where "SRV_MAX_BUF \<equiv> 1024"
abbreviation SRV_MAX_IDENT :: nat where "SRV_MAX_IDENT \<equiv> 200"

text \<open>The status, the body of the answer and the state afterwards.\<close>

type_synonym served = "(ws_responses \<times> string \<times> cstate) option"

definition config_delete_output :: "objs \<Rightarrow> objs" where
  [simp]: "config_delete_output s = s\<lparr>config_outbuf := []\<rparr>"

text \<open>
  The end of the handlers: the message and what the parser had to say, printed into the 1024 bytes of
  \<open>body_response\<close> without a bound; \<open>None\<close> when they do not fit.
\<close>

definition respond :: "int \<Rightarrow> string \<Rightarrow> cstate \<Rightarrow> served" where
  "respond ret message cw =
     (let body = config_print_response (message @ config_outbuf (w_objs (snd cw)))
      in if length body < SRV_MAX_BUF
         then Some (parse_to_http_status ret, body, map_prod id (upd_objs config_delete_output) cw)
         else None)"

definition server_load_config :: "nat \<Rightarrow> nftenv \<Rightarrow> jansson \<Rightarrow> string \<Rightarrow> string \<Rightarrow> action \<Rightarrow> cstate \<Rightarrow> (int \<times> string \<times> cstate) option" where
  "server_load_config n env js body_request response action cw =
     map_option (\<lambda>(ret, cw1).
         (ret, (if ret = parser_code PARSER_OK then response
                else if ret = parser_code PARSER_STRUCT_FAILED then ''the structure is invalid''
                else if ret = parser_code PARSER_OBJ_UNKNOWN then ''the object to modify is unknown''
                else ''error parsing buffer''), cw1))
       (config_buffer n env js body_request action cw)"

section \<open>GET\<close>

definition get_document :: "nat \<Rightarrow> nftenv \<Rightarrow> jansson \<Rightarrow> string list \<Rightarrow> nftw \<Rightarrow> answer" where
  "get_document n env js levels w =
     (let firstlevel = levels ! 0; secondlevel = levels ! 1; thirdlevel = levels ! 2;
          failed = Some (parser_code PARSER_STRUCT_FAILED, Untouched, w)
      in if firstlevel = ''farms''
         then (if thirdlevel = ''sessions'' then config_print_farm_sessions (net env) js secondlevel w
               else if thirdlevel = [] then config_print_farms js secondlevel w else failed)
         else if firstlevel = ''policies'' then config_print_policies n (net env) js secondlevel w
         else if firstlevel = ''addresses'' then config_print_addresses js secondlevel w
         else failed)"

text \<open>When \<open>json_dumps\<close> has failed, the error message is written to the NULL it left behind.\<close>

definition send_get_response :: "nat \<Rightarrow> nftenv \<Rightarrow> jansson \<Rightarrow> http_state \<Rightarrow> cstate \<Rightarrow> served" where
  "send_get_response n env js st cw =
     (let levels = scan_levels 4 (h_uri st)
      in do { (ret, body, w1) \<leftarrow> get_document n env js levels (snd cw);
              case body of
                Dump t \<Rightarrow> Some (parse_to_http_status ret, t, fst cw, w1)
              | NoDump \<Rightarrow> None
              | Untouched \<Rightarrow> respond ret ''invalid request'' (fst cw, w1) })"

section \<open>DELETE\<close>

text \<open>
  One definition per branch, the result the code and the message. \<open>obj_rulerize\<close> reports no error, so
  the branches for one are not reached.
\<close>

type_synonym branch = "nftw \<Rightarrow> (int \<times> string \<times> nftw) option"

definition simple_delete :: "(nftw \<Rightarrow> (int \<times> nftw) option) \<Rightarrow> string \<Rightarrow> branch" where
  "simple_delete g err w = map_option (\<lambda>(ret, w1). (ret, if ret \<noteq> 0 then err else ''success'', w1)) (g w)"

definition quietly :: "(nftw \<Rightarrow> (int \<times> nftw) option) \<Rightarrow> nftw \<Rightarrow> nftw option" where
  "quietly g w = map_option snd (g w)"

definition delete_farmaddress :: "nat \<Rightarrow> nftenv \<Rightarrow> string \<Rightarrow> string \<Rightarrow> branch" where
  "delete_farmaddress n env fname faname w =
     do { w1 \<leftarrow> quietly (config_set_farm_action n (net env) fname ''reload'') w;
          (ret, w2) \<leftarrow> config_set_farmaddress_action fname faname ''stop'' w1;
          if ret \<noteq> 0 then Some (ret, ''error deleting farm address'', w2)
          else do { w3 \<leftarrow> obj_rulerize n env OBJ_START w2;
                    w4 \<leftarrow> quietly (config_set_farmaddress_action fname faname ''delete'') w3;
                    Some (ret, ''success'', w4) } }"

definition delete_fpolicy :: "nat \<Rightarrow> nftenv \<Rightarrow> string \<Rightarrow> string \<Rightarrow> branch" where
  "delete_fpolicy n env fname fpname w =
     do { w1 \<leftarrow> quietly (config_set_farm_action n (net env) fname ''reload'') w;
          (ret, w2) \<leftarrow> config_set_fpolicy_action fname fpname ''stop'' w1;
          if ret \<noteq> 0 then Some (ret, ''error deleting farm policy'', w2)
          else do { w3 \<leftarrow> obj_rulerize n env OBJ_START w2;
                    w4 \<leftarrow> quietly (config_set_farm_action n (net env) fname ''reload'') w3;
                    w5 \<leftarrow> quietly (config_set_fpolicy_action fname fpname ''delete'') w4;
                    Some (ret, ''success'', w5) } }"

text \<open>A subnet comes as two parts of the URI.\<close>

definition subnet :: "string \<Rightarrow> string \<Rightarrow> string" where
  "subnet fourthlevel fifthlevel =
     (if fifthlevel \<noteq> [] \<and> length fourthlevel + length fifthlevel + 1 < SRV_MAX_IDENT
      then fourthlevel @ ''/'' @ fifthlevel else fourthlevel)"

definition delete_elements :: "nat \<Rightarrow> nftenv \<Rightarrow> string \<Rightarrow> string \<Rightarrow> branch" where
  "delete_elements n env pname edata w =
     (let e = net env;
          failed = (\<lambda>ret w. map_option (\<lambda>w1. (ret, ''error deleting policy element'', w1)) (quietly (config_delete_elements n e pname) w));
          finish = (\<lambda>ret w. do { w1 \<leftarrow> obj_rulerize n env OBJ_START w;
                                w2 \<leftarrow> quietly (config_delete_elements n e pname) w1;
                                Some (ret, ''success'', w2) })
      in do { (ret, w1) \<leftarrow> config_get_elements e pname w;
              if ret \<noteq> 0 then Some (ret, ''could not get the policy elements'', w1)
              else do { (ret, w2) \<leftarrow> config_set_element_action n e pname edata ''stop'' w1;
                        if ret \<noteq> 0 then failed ret w2
                        else if edata \<noteq> []
                        then do { w3 \<leftarrow> quietly (config_set_policy_action n e pname ''reload'') w2;
                                  (ret, w4) \<leftarrow> config_set_element_action n e pname edata ''stop'' w3;
                                  if ret \<noteq> 0 then failed ret w4 else finish ret w4 }
                        else do { w3 \<leftarrow> quietly (config_set_policy_action n e pname ''flush'') w2;
                                  w4 \<leftarrow> quietly (config_set_element_action n e pname edata ''none'') w3;
                                  finish ret w4 } } })"

definition delete_farm :: "nat \<Rightarrow> nftenv \<Rightarrow> string \<Rightarrow> branch" where
  "delete_farm n env fname w =
     do { (ret, w1) \<leftarrow> config_set_farm_action n (net env) fname ''stop'' w;
          if ret \<noteq> 0 then Some (ret, ''error deleting farm'', w1)
          else do { w2 \<leftarrow> obj_rulerize n env OBJ_START w1;
                    w3 \<leftarrow> quietly (config_set_farm_action n (net env) fname ''delete'') w2;
                    Some (ret, ''success'', w3) } }"

definition delete_policy :: "nat \<Rightarrow> nftenv \<Rightarrow> string \<Rightarrow> branch" where
  "delete_policy n env pname w =
     do { (ret, w1) \<leftarrow> config_set_policy_action n (net env) pname ''stop'' w;
          if ret \<noteq> 0 then Some (ret, ''error stopping policy'', w1)
          else do { w2 \<leftarrow> obj_rulerize n env OBJ_START_INV w1;
                    simple_delete (config_set_policy_action n (net env) pname ''delete'') ''error deleting policy'' w2 } }"

definition delete_address :: "nat \<Rightarrow> nftenv \<Rightarrow> string \<Rightarrow> branch" where
  "delete_address n env aname w =
     do { (ret, w1) \<leftarrow> config_set_address_action aname ''stop'' w;
          if ret \<noteq> 0 then Some (ret, ''error stopping address'', w1)
          else do { w2 \<leftarrow> obj_rulerize n env OBJ_START_INV w1;
                    simple_delete (config_set_address_action aname ''delete'') ''error deleting address'' w2 } }"

definition delete_named :: "nat \<Rightarrow> nftenv \<Rightarrow> string list \<Rightarrow> branch" where
  "delete_named n env levels w =
     (let firstlevel = levels ! 0; secondlevel = levels ! 1; thirdlevel = levels ! 2; fourthlevel = levels ! 3; fifthlevel = levels ! 4
      in if firstlevel = ''farms'' \<and> thirdlevel = ''backends'' \<and> fifthlevel = ''sessions''
         then simple_delete (config_set_session_backend_action n env secondlevel fourthlevel ''delete'')
                ''error deleting sessions from backend'' w
         else if firstlevel = ''farms'' \<and> thirdlevel = ''backends''
         then simple_delete (config_set_backend_action n env secondlevel fourthlevel ''delete'') ''error deleting backend'' w
         else if firstlevel = ''farms'' \<and> thirdlevel = ''sessions''
         then simple_delete (config_set_session_action n env secondlevel fourthlevel ''stop'') ''error deleting session'' w
         else if firstlevel = ''farms'' \<and> thirdlevel = ''addresses'' then delete_farmaddress n env secondlevel fourthlevel w
         else if firstlevel = ''farms'' \<and> thirdlevel = ''policies'' then delete_fpolicy n env secondlevel fourthlevel w
         else if firstlevel = ''policies'' \<and> thirdlevel = ''elements''
         then delete_elements n env secondlevel (subnet fourthlevel fifthlevel) w
         else if firstlevel = ''farms'' \<and> thirdlevel = [] then delete_farm n env secondlevel w
         else if firstlevel = ''policies'' \<and> thirdlevel = [] then delete_policy n env secondlevel w
         else if firstlevel = ''addresses'' \<and> thirdlevel = [] then delete_address n env secondlevel w
         else Some (parser_code PARSER_STRUCT_FAILED, ''invalid request'', w))"

definition send_delete_response :: "nat \<Rightarrow> nftenv \<Rightarrow> jansson \<Rightarrow> http_state \<Rightarrow> cstate \<Rightarrow> served" where
  "send_delete_response n env js st cw =
     (let levels = scan_levels 5 (h_uri st)
      in if levels ! 0 \<noteq> ''farms'' \<and> levels ! 0 \<noteq> ''policies'' \<and> levels ! 0 \<noteq> ''addresses''
         then respond (parser_code PARSER_OBJ_UNKNOWN) ''invalid request'' cw
         else if h_body st = []
         then do { (ret, message, w1) \<leftarrow> delete_named n env levels (snd cw); respond ret message (fst cw, w1) }
         else do { (ret, message, cw1) \<leftarrow> server_load_config n env js (h_body st) ''success'' ACTION_STOP cw;
                   if ret \<noteq> parser_code PARSER_OK then respond ret message cw1
                   else do { w2 \<leftarrow> obj_rulerize n env OBJ_START (snd cw1); respond ret message (fst cw1, w2) } })"

section \<open>POST, PUT and PATCH\<close>

definition send_post_response :: "nat \<Rightarrow> nftenv \<Rightarrow> jansson \<Rightarrow> http_state \<Rightarrow> cstate \<Rightarrow> served" where
  "send_post_response n env js st cw =
     (let firstlevel = scan_levels 1 (h_uri st) ! 0
      in if firstlevel \<noteq> ''farms'' \<and> firstlevel \<noteq> ''policies'' \<and> firstlevel \<noteq> ''addresses''
         then respond (parser_code PARSER_OBJ_UNKNOWN) ''invalid request'' cw
         else do { (ret, message, cw1) \<leftarrow> server_load_config n env js (h_body st) [] ACTION_START cw;
                   if ret \<noteq> parser_code PARSER_OK then respond ret message cw1
                   else do { w2 \<leftarrow> obj_rulerize n env OBJ_START (snd cw1); respond ret ''success'' (fst cw1, w2) } })"

text \<open>Replacing the policies of a farm: the old ones are stopped and removed before the body is read.\<close>

definition patch_farm_policies :: "nat \<Rightarrow> nftenv \<Rightarrow> jansson \<Rightarrow> string \<Rightarrow> string \<Rightarrow> cstate \<Rightarrow> served" where
  "patch_farm_policies n env js fname body cw =
     do { w1 \<leftarrow> quietly (config_set_farm_action n (net env) fname ''reload'') (snd cw);
          w2 \<leftarrow> quietly (config_set_fpolicy_action fname [] ''stop'') w1;
          w3 \<leftarrow> obj_rulerize n env OBJ_START w2;
          w4 \<leftarrow> quietly (config_set_fpolicy_action fname [] ''delete'') w3;
          w5 \<leftarrow> quietly (config_set_fpolicy_action fname [] ''none'') w4;
          (ret, message, cw6) \<leftarrow> server_load_config n env js body [] ACTION_START (fst cw, w5);
          if ret \<noteq> parser_code PARSER_OK then respond ret message cw6
          else do { w7 \<leftarrow> obj_rulerize n env OBJ_START (snd cw6); respond ret ''success'' (fst cw6, w7) } }"

definition patch_policy :: "nat \<Rightarrow> nftenv \<Rightarrow> jansson \<Rightarrow> string \<Rightarrow> string \<Rightarrow> cstate \<Rightarrow> served" where
  "patch_policy n env js pname body cw =
     do { (ret, message, cw1) \<leftarrow> server_load_config n env js body [] ACTION_START cw;
          if ret \<noteq> parser_code PARSER_OK then respond ret message cw1
          else do { w2 \<leftarrow> quietly (config_set_policy_action n (net env) pname ''flush'') (snd cw1);
                    w3 \<leftarrow> obj_rulerize n env OBJ_START w2;
                    respond ret ''success'' (fst cw1, w3) } }"

definition send_patch_response :: "nat \<Rightarrow> nftenv \<Rightarrow> jansson \<Rightarrow> http_state \<Rightarrow> cstate \<Rightarrow> served" where
  "send_patch_response n env js st cw =
     (let levels = scan_levels 3 (h_uri st); firstlevel = levels ! 0; secondlevel = levels ! 1; thirdlevel = levels ! 2;
          unknown = respond (parser_code PARSER_OBJ_UNKNOWN)
      in if firstlevel = ''farms''
         then (if thirdlevel \<noteq> ''policies'' then unknown ''invalid request'' cw
               else do { (ret, w1) \<leftarrow> config_check_farm secondlevel (snd cw);
                         if ret \<noteq> parser_code PARSER_OK then unknown ''the object to modify is unknown'' (fst cw, w1)
                         else patch_farm_policies n env js secondlevel (h_body st) (fst cw, w1) })
         else if firstlevel = ''policies''
         then do { (ret, w1) \<leftarrow> config_check_policy secondlevel (snd cw);
                   if ret \<noteq> parser_code PARSER_OK then unknown ''the object to modify is unknown'' (fst cw, w1)
                   else patch_policy n env js secondlevel (h_body st) (fst cw, w1) }
         else unknown ''invalid request'' cw)"

section \<open>The connection\<close>

definition send_response :: "nat \<Rightarrow> nftenv \<Rightarrow> jansson \<Rightarrow> http_state \<Rightarrow> cstate \<Rightarrow> served" where
  "send_response n env js st cw =
     (case h_method st of
        WS_GET_ACTION \<Rightarrow> send_get_response n env js st cw
      | WS_POST_ACTION \<Rightarrow> send_post_response n env js st cw
      | WS_PUT_ACTION \<Rightarrow> send_post_response n env js st cw
      | WS_DELETE_ACTION \<Rightarrow> send_delete_response n env js st cw
      | WS_PATCH_ACTION \<Rightarrow> send_patch_response n env js st cw)"

definition nftlb_http_send_response :: "ws_responses \<Rightarrow> nat \<Rightarrow> string" where
  "nftlb_http_send_response status len =
     (case ws_str_responses status of None \<Rightarrow> [] | Some t \<Rightarrow> t) @ ''Content-Length: '' @ print_u len @
     HTTP_LINE_END @ HTTP_LINE_END"

text \<open>
  One connection: the first piece is read into the buffer of 4096 bytes, the answer is sent and the
  connection closed. Nothing is sent to a peer that closes without a request.
\<close>

definition nftlb_read_cb :: "nat \<Rightarrow> nftenv \<Rightarrow> jansson \<Rightarrow> cptr \<Rightarrow> string list \<Rightarrow> cstate \<Rightarrow> (string list \<times> cstate) option" where
  "nftlb_read_cb n env js server_key socket cw =
     (let (data, socket1) = recv (U_DEF_BUFFER_SIZE - 1) socket
      in if data = [] then Some ([], cw)
         else case get_request server_key data socket1 of
                (sent, Inl status) \<Rightarrow> Some (sent @ [nftlb_http_send_response status 0], cw)
              | (sent, Inr st) \<Rightarrow>
                  map_option (\<lambda>(status, body, cw1). (sent @ [nftlb_http_send_response status (length body), body], cw1))
                    (send_response n env js st cw))"

section \<open>Starting\<close>

text \<open>The pair \<open>c\<close> before the first value is read: a static variable, all zero.\<close>

definition c0 :: config_pair where
  "c0 = \<lparr>c_level = Some LEVEL_INIT, c_key = Some KEY_FARMS, c_str_value = None, c_int_value = CInt 0,
         c_int_value2 = 0, c_action = ACTION_START\<rparr>"

text \<open>
  \<open>main_process\<close> up to the start of the server: the file is \<open>None\<close> without \<open>-c\<close>, \<open>Some None\<close> when it can not
  be opened. The result is whether the daemon goes on.
\<close>

definition main_process :: "nat \<Rightarrow> nftenv \<Rightarrow> jansson \<Rightarrow> string option option \<Rightarrow> nftw \<Rightarrow> (bool \<times> cstate) option" where
  "main_process n env js config w =
     (let w0 = w\<lparr>w_objs := objects_init\<rparr>; (tables, w1) = nft_check_tables env w0;
          w2 = (if tables then nft_reset env w1 else w1)
      in do { (ret, cw) \<leftarrow> (case config of None \<Rightarrow> Some (0, c0, w2) | Some file \<Rightarrow> config_file n env js file (c0, w2));
              if ret \<noteq> 0 then Some (False, cw)
              else do { w3 \<leftarrow> obj_rulerize n env OBJ_START (snd cw); Some (True, fst cw, w3) } })"

section \<open>What a client can rely on\<close>

lemma unat_of_char: "unat (of_char c :: 8 word) = of_char c"
  using unat_of_nat [of "of_char c :: nat", where 'a = 8] by (simp add: of_nat_of_char)

lemma scast_inj: "(scast (x :: 8 word) :: flags) = scast y \<longleftrightarrow> x = y"
proof
  assume "(scast x :: flags) = scast y"
  then have "sint (scast x :: flags) = sint (scast y :: flags)" by simp
  then show "x = y" by (auto simp: sint_up_scast is_up intro: signed_word_eqI)
qed simp

lemma c_char_inj [simp]: "c_char c = c_char d \<longleftrightarrow> c = d"
  unfolding c_char_def scast_inj by (metis unat_of_char of_char_eq_iff)

lemma flags_xor_0 [simp]: "(a :: flags) XOR b = 0 \<longleftrightarrow> a = b"
proof
  assume "a XOR b = 0"
  then have "(a XOR b) XOR b = b" by simp
  then show "a = b" by (simp add: xor.assoc)
qed simp

lemma iseq_loop_0:
  "NUL \<notin> set a \<Longrightarrow> NUL \<notin> set b \<Longrightarrow> iseq_loop a b m = 0 \<longleftrightarrow> m = 0 \<and> a = b"
proof (induction a b m rule: iseq_loop.induct)
  case (1 s2 m)
  then show ?case by (cases s2) (auto simp: first_char_def or_eq_0_iff)
next
  case (2 c s1 s2 m)
  then show ?case by (cases s2) (auto simp: first_char_def or_eq_0_iff)
qed

text \<open>
  The constant-time comparison of keys is equality of strings: two C strings are accepted exactly
  when they are the same, and nothing is accepted when one of them is NULL.
\<close>

lemma str_iseq_is_equality:
  assumes "\<forall>a \<in> set_option s1. NUL \<notin> set a" "\<forall>b \<in> set_option s2. NUL \<notin> set b"
  shows "str_iseq s1 s2 \<longleftrightarrow> s1 \<noteq> None \<and> s1 = s2"
  using assms by (cases s1; cases s2) (auto simp: str_iseq_def iseq_loop_0)

lemma recv_key_subset: "strstr data needle = Some p \<Longrightarrow> set (recv_key p) \<subseteq> set data"
  unfolding recv_key_def
  by (drule strstr_Some) (auto dest!: in_set_takeD set_takeWhileD set_dropWhileD in_set_dropD)

text \<open>Refusing a request.\<close>

lemma request_refused:
  assumes data: "fst (recv (U_DEF_BUFFER_SIZE - 1) socket) = data" "data \<noteq> []" "NUL \<notin> set data"
    and key: "\<forall>k \<in> set_option server_key. NUL \<notin> set k"
    and wrong: "\<forall>p. strstr data ''Key: '' = Some p \<longrightarrow> server_key \<noteq> Some (recv_key p)"
  shows "nftlb_read_cb n env js server_key socket cw = Some ([nftlb_http_send_response WS_HTTP_401 0], cw)"
proof -
  obtain rest where r: "recv (U_DEF_BUFFER_SIZE - 1) socket = (data, rest)" using data(1) by (metis prod.collapse)
  have "get_request server_key data rest = ([], Inl WS_HTTP_401)"
  proof (cases "strstr data ''Key: ''")
    case (Some p)
    have "NUL \<notin> set (recv_key p)" using recv_key_subset [OF Some] data(3) by blast
    then have "\<not> auth_key server_key (recv_key p)"
      using wrong key Some by (cases server_key) (auto simp: auth_key_def str_iseq_def iseq_loop_0)
    with Some show ?thesis by (simp add: get_request_def)
  qed (simp add: get_request_def)
  with r data(2) show ?thesis by (simp add: nftlb_read_cb_def)
qed

text \<open>
  (C6) Nothing is served without the key. When the first piece of a request does not carry the server's
  key after \<open>Key: \<close>, or the server has none, the answer is a bare 401 and the program state is the same.
\<close>

theorem request_needs_key:
  assumes data: "fst (recv (U_DEF_BUFFER_SIZE - 1) socket) = data" "data \<noteq> []" "NUL \<notin> set data"
    and key: "\<forall>k \<in> set_option server_key. NUL \<notin> set k"
    and wrong: "\<forall>p. strstr data ''Key: '' = Some p \<longrightarrow> server_key \<noteq> Some (recv_key p)"
  shows "nftlb_read_cb n env js server_key socket cw = Some ([nftlb_http_send_response WS_HTTP_401 0], cw)"
  by (rule request_refused [OF assms])

lemma guess_key:
  "strstr ''GET /farms HTTP/1.1 Key: guess'' ''Key: '' = Some ''Key: guess''" "recv_key ''Key: guess'' = ''guess''"
  "fst (recv (U_DEF_BUFFER_SIZE - 1) [''GET /farms HTTP/1.1 Key: guess'']) = ''GET /farms HTTP/1.1 Key: guess''"
  by (code_simp, code_simp, simp)

theorem request_needs_key_witness:
  "nftlb_read_cb 5 idle_env no_jansson (Some ''secret'') [''GET /farms HTTP/1.1 Key: guess''] (c0, one_farm) =
     Some ([nftlb_http_send_response WS_HTTP_401 0], (c0, one_farm))"
proof (rule request_needs_key [OF guess_key(3)])
  show "\<forall>p. strstr ''GET /farms HTTP/1.1 Key: guess'' ''Key: '' = Some p \<longrightarrow> Some ''secret'' \<noteq> Some (recv_key p)"
    unfolding guess_key(1) option.inject using guess_key(2) by auto
qed simp_all

lemma length_config_print_response: "length (config_print_response t) = length t + 16"
  by (simp add: config_print_response_def)

lemma post_farms_level: "scan_levels 1 ''/farms'' = [''farms'']"
  by code_simp

text \<open>
  (C28) An unknown key is refused and named in the answer, but the answer is printed into 1024 bytes
  without a bound: a document whose key is unknown and has 972 characters or more writes behind them.
\<close>

theorem long_key_overflows:
  assumes doc: "json_load js (h_body st) = Some (JObject [(key, v)])" "config_key key = None"
    and post: "h_uri st = ''/farms''" and fresh: "config_outbuf (w_objs w) = []"
  shows "send_post_response n env js st (c, w) = None \<longleftrightarrow> 972 \<le> length key"
proof -
  let ?msg = "''. Unknown key '' @ quoted key"
  let ?w = "upd_objs (put_output ?msg) w"
  have "server_load_config n env js (h_body st) [] ACTION_START (c, w) =
      Some (-1, ''error parsing buffer'', c\<lparr>c_level := Some LEVEL_INIT\<rparr>, ?w)"
    using doc by (simp add: server_load_config_def config_buffer_def)
  then have "send_post_response n env js st (c, w) =
      respond (-1) ''error parsing buffer'' (c\<lparr>c_level := Some LEVEL_INIT\<rparr>, ?w)"
    by (simp add: send_post_response_def post post_farms_level)
  moreover have "length (config_outbuf (w_objs ?w)) = min 1024 (16 + length key)"
    using fresh by (simp add: upd_objs_def put_output_def length_config_set_output quoted_def)
  ultimately show ?thesis by (auto simp: respond_def Let_def length_config_print_response)
qed

text \<open>A parser that takes every text for an object with the text as its only key.\<close>

definition key_jansson :: jansson where
  "key_jansson = no_jansson\<lparr>json_load := \<lambda>t. Some (JObject [(t, JString [])])\<rparr>"

lemma long_key_unknown: "config_key (replicate 1000 CHR ''x'') = None"
proof -
  have "\<forall>k \<in> set config_keys. length (fst k) < 1000" by code_simp
  then show ?thesis by (fastforce simp: config_key_def map_of_eq_None_iff)
qed

theorem long_key_overflows_witness:
  "send_post_response 5 idle_env key_jansson
     \<lparr>h_method = WS_POST_ACTION, h_uri = ''/farms'', h_body = replicate 1000 CHR ''x''\<rparr> (c0, one_farm) = None"
  by (subst long_key_overflows [where key = "replicate 1000 CHR ''x''" and v = "JString []"])
    (simp_all add: key_jansson_def long_key_unknown one_farm_def no_services_def objects_init_def)

text \<open>What a GET request leaves of the state.\<close>

lemma print_doc_state: "print_doc js failure doc w = Some (ret, body, w1) \<Longrightarrow> w1 = w"
  by (auto simp: print_doc_def split: option.splits)

lemma get_document_state:
  assumes "get_document n env js levels w = Some (ret, body, w1)" "levels ! 0 \<noteq> ''policies''" "levels ! 2 \<noteq> ''sessions''"
  shows "w1 = w"
  using assms
  by (auto simp: get_document_def Let_def config_print_farms_def config_print_addresses_def bind_eq_Some_conv
      dest: print_doc_state split: if_splits)

text \<open>
  (C10) A GET request for farms or addresses, or for nothing the server knows, changes nothing: the objects,
  the rules in the kernel and the current objects of the parser are as before; only pending messages for
  the client are gone when they were part of the answer.
\<close>

theorem get_is_safe:
  assumes "h_method st = WS_GET_ACTION" "scan_levels 4 (h_uri st) ! 0 \<noteq> ''policies''" "scan_levels 4 (h_uri st) ! 2 \<noteq> ''sessions''"
    and "send_response n env js st cw = Some (status, body, cw1)"
  shows "cw1 = cw \<or> cw1 = map_prod id (upd_objs config_delete_output) cw"
proof -
  obtain ret doc w1 where d: "get_document n env js (scan_levels 4 (h_uri st)) (snd cw) = Some (ret, doc, w1)"
    using assms(1,4) by (auto simp: send_response_def send_get_response_def Let_def bind_eq_Some_conv)
  then have "w1 = snd cw" using get_document_state assms(2,3) by blast
  with d assms(1,4) show ?thesis
    by (cases doc) (auto simp: send_response_def send_get_response_def respond_def Let_def split: if_splits)
qed

theorem get_is_safe_witness:
  "\<exists>status body cw1. send_response 5 idle_env key_jansson \<lparr>h_method = WS_GET_ACTION, h_uri = ''/addresses'', h_body = []\<rparr> (c0, one_farm) =
     Some (status, body, cw1) \<and> (cw1 = (c0, one_farm) \<or> cw1 = map_prod id (upd_objs config_delete_output) (c0, one_farm))"
proof -
  let ?st = "\<lparr>h_method = WS_GET_ACTION, h_uri = ''/addresses'', h_body = []\<rparr>"
  have levels: "scan_levels 4 ''/addresses'' = [''addresses'', [], [], []]" by code_simp
  obtain status body cw1 where r: "send_response 5 idle_env key_jansson ?st (c0, one_farm) = Some (status, body, cw1)"
    by (simp add: send_response_def send_get_response_def get_document_def levels config_print_addresses_def dump_addresses_def
        print_doc_def key_jansson_def no_jansson_def one_farm_def no_services_def objects_init_def)
  show ?thesis using get_is_safe [OF _ _ _ r] r by (auto simp: levels)
qed

end
