(* ===== verification/Network.thy ===== *)
theory Network
  imports Checksum Rulerize
begin

unbundle bit_operations_syntax

text \<open>
  The conversation with the kernel (network.c): the echo requests that make the kernel resolve a
  neighbour, the netlink requests for neighbours and routes with their callbacks, the lookup of an
  interface by address, and the events about neighbours that reach the farms. The record \<open>netenv\<close> of
  theory Pool has the answers of these functions; here is how they come about. What libmnl, the resolver
  and the sockets do is a parameter: \<open>mnl_attr_parse\<close>, \<open>mnl_cb_run\<close>, the texts of addresses and the
  results of the system calls.
\<close>

section \<open>Constants and data\<close>

abbreviation MNL_CB_ERROR :: int where "MNL_CB_ERROR \<equiv> -1"
abbreviation MNL_CB_STOP :: int where "MNL_CB_STOP \<equiv> 0"
abbreviation MNL_CB_OK :: int where "MNL_CB_OK \<equiv> 1"

abbreviation RTM_NEWNEIGH :: nat where "RTM_NEWNEIGH \<equiv> 28"
abbreviation NDA_DST :: nat where "NDA_DST \<equiv> 1"
abbreviation NDA_LLADDR :: nat where "NDA_LLADDR \<equiv> 2"
abbreviation RTA_OIF :: nat where "RTA_OIF \<equiv> 4"

text \<open>\<open>NUD_REACHABLE\<close>, \<open>NUD_STALE\<close> and \<open>NUD_PERMANENT\<close>.\<close>

definition neigh_usable :: "16 word \<Rightarrow> bool" where
  "neigh_usable state = (state AND 0x02 \<noteq> 0 \<or> state AND 0x80 \<noteq> 0 \<or> state AND 0x04 \<noteq> 0)"

definition AF4 :: nat where "AF4 = 2"
definition AF6 :: nat where "AF6 = 10"

definition GET_INET_LEN :: "nat \<Rightarrow> nat" where "GET_INET_LEN af = (if af = AF6 then 16 else 4)"
definition GET_INET_STRLEN :: "nat \<Rightarrow> nat" where "GET_INET_STRLEN af = (if af = AF6 then 46 else 16)"
definition GET_AF_INET :: "family \<Rightarrow> nat" where
  "GET_AF_INET family = (if family = VALUE_FAMILY_IPV6 then AF6 else AF4)"

definition net_get_addr_family :: "string \<Rightarrow> nat" where
  "net_get_addr_family vip = (if strstr vip '':'' \<noteq> None then AF6 else AF4)"

text \<open>The loop over the bytes of two addresses; both have at least \<open>len\<close> bytes.\<close>

fun cmp_ip_loop :: "byte list \<Rightarrow> byte list \<Rightarrow> nat \<Rightarrow> nat \<Rightarrow> int" where
  "cmp_ip_loop ip1 ip2 i 0 = 0"
| "cmp_ip_loop ip1 ip2 i (Suc left) =
     (if ip1 ! i \<noteq> ip2 ! i then -1 else cmp_ip_loop ip1 ip2 (Suc i) left)"

definition net_cmp_ip :: "byte list \<Rightarrow> byte list \<Rightarrow> nat \<Rightarrow> int" where
  "net_cmp_ip ip1 ip2 len = cmp_ip_loop ip1 ip2 0 len"

record ntl_data =
  nd_family :: nat
  nd_src_ipaddr :: "byte list"
  nd_src_ethaddr :: "byte list"
  nd_dst_ipaddr :: "byte list"
  nd_dst_ethaddr :: "byte list"
  nd_oifidx :: int

text \<open>A netlink attribute with the verdict of \<open>mnl_attr_validate\<close> and its value as a number.\<close>

record nlattr =
  nla_type :: nat
  nla_valid :: bool
  nla_payload :: "byte list"
  nla_u32 :: "32 word"

record nlmsg =
  nlmsg_type :: nat
  ndm_family :: nat
  ndm_ifindex :: int
  ndm_state :: "16 word"
  nlmsg_attrs :: "nlattr list"

type_synonym attr_table = "nat \<Rightarrow> nlattr option"

record netlib =
  big_endian :: bool
  NDA_MAX :: nat
  RTA_MAX :: nat
  mnl_attr_parse :: "nlmsg \<Rightarrow> (nlattr \<Rightarrow> attr_table \<Rightarrow> int \<times> attr_table) \<Rightarrow> attr_table \<Rightarrow> attr_table"
  inet_pton :: "nat \<Rightarrow> string \<Rightarrow> byte list option"
  inet_ntop :: "nat \<Rightarrow> byte list \<Rightarrow> nat \<Rightarrow> string option"

section \<open>Echo requests\<close>

definition htons :: "bool \<Rightarrow> 16 word \<Rightarrow> 16 word" where
  "htons big w = load16 big (ucast (drop_bit 8 w)) (ucast w)"

text \<open>The IPv6 frame: link layer, IP header, ICMPv6 header and the word \<open>Hola\<close>.\<close>

definition ping6_ip :: "ntl_data \<Rightarrow> ip6_hdr" where
  "ping6_ip d = \<lparr>ip6_src = nd_src_ipaddr d, ip6_dst = nd_dst_ipaddr d, ip6_nxt = 58\<rparr>"

definition ping6_icmp :: "bool \<Rightarrow> icmp6_hdr" where
  "ping6_icmp big = \<lparr>icmp6_type = 128, icmp6_code = 0, icmp6_id = htons big 1000, icmp6_seq = htons big 0\<rparr>"

definition ping6_data :: "byte list" where
  "ping6_data = map (\<lambda>c. of_nat (of_char c)) ''Hola''"

definition ping6_frame :: "bool \<Rightarrow> ntl_data \<Rightarrow> byte list" where
  "ping6_frame big d =
     (let icmp = ping6_icmp big;
          cksum = icmp6_checksum big (ping6_ip d) icmp ping6_data
      in replicate 6 0xff @ nd_src_ethaddr d @ [0x86, 0xdd] @
         [0x60, 0, 0, 0] @ store16 big (htons big 12) @ [58, 255] @ nd_src_ipaddr d @ nd_dst_ipaddr d @
         [icmp6_type icmp, icmp6_code icmp] @ store16 big cksum @ store16 big (icmp6_id icmp) @ store16 big (icmp6_seq icmp) @
         ping6_data)"

text \<open>The IPv4 packet: 64 bytes cleared, type and identifier set.\<close>

definition ping4_packet :: "bool \<Rightarrow> byte list" where
  "ping4_packet big = [8, 0, 0, 0] @ store16 big 1 @ store16 big 1 @ replicate 56 0"

text \<open>
  The descriptor \<open>socket\<close> returns and whether \<open>sendto\<close> sends anything; the result and the frames sent.
\<close>

definition send_ping :: "bool \<Rightarrow> int \<Rightarrow> bool \<Rightarrow> ntl_data \<Rightarrow> int \<times> byte list list" where
  "send_ping big sock sent d =
     (let frame = (if nd_family d = AF6 then ping6_frame big d else ping4_packet big)
      in if sock < 0 then (-1, [])
         else if \<not> sent then (-1, []) else (0, [frame]))"

section \<open>Callbacks\<close>

definition data_attr_neigh_cb :: "netlib \<Rightarrow> nlattr \<Rightarrow> attr_table \<Rightarrow> int \<times> attr_table" where
  "data_attr_neigh_cb lib attr tb =
     (let type = nla_type attr
      in if type > NDA_MAX lib then (MNL_CB_OK, tb)
         else if type = NDA_DST \<or> type = NDA_LLADDR
         then if \<not> nla_valid attr then (MNL_CB_ERROR, tb) else (MNL_CB_OK, tb(type \<mapsto> attr))
         else (MNL_CB_ERROR, tb))"

definition data_getdst_neigh_cb :: "netlib \<Rightarrow> nlmsg \<Rightarrow> ntl_data \<Rightarrow> int \<times> ntl_data" where
  "data_getdst_neigh_cb lib nlh d =
     (let tb = mnl_attr_parse lib nlh (data_attr_neigh_cb lib) Map.empty
      in case tb NDA_DST of
           None \<Rightarrow> (MNL_CB_OK, d)
         | Some dst \<Rightarrow>
             if net_cmp_ip (nla_payload dst) (nd_dst_ipaddr d) (GET_INET_LEN (nd_family d)) = 0 \<and>
                neigh_usable (ndm_state nlh)
             then case mnl_attr_parse lib nlh (data_attr_neigh_cb lib) tb NDA_LLADDR of
                    None \<Rightarrow> (MNL_CB_STOP, d)
                  | Some ether \<Rightarrow> (MNL_CB_STOP, d\<lparr>nd_dst_ethaddr := take 6 (nla_payload ether)\<rparr>)
             else (MNL_CB_OK, d))"

definition data_route_attr_cb :: "netlib \<Rightarrow> nlattr \<Rightarrow> attr_table \<Rightarrow> int \<times> attr_table" where
  "data_route_attr_cb lib attr tb =
     (if nla_type attr > RTA_MAX lib then (MNL_CB_OK, tb) else (MNL_CB_OK, tb(nla_type attr \<mapsto> attr)))"

definition data_getdst_route_cb :: "netlib \<Rightarrow> nlmsg \<Rightarrow> ntl_data \<Rightarrow> int \<times> ntl_data" where
  "data_getdst_route_cb lib nlh d =
     (case mnl_attr_parse lib nlh (data_route_attr_cb lib) Map.empty RTA_OIF of
        Some oif \<Rightarrow> (MNL_CB_STOP, d\<lparr>nd_oifidx := sint (nla_u32 oif)\<rparr>)
      | None \<Rightarrow> (MNL_CB_STOP, d))"

section \<open>Requests\<close>

text \<open>
  What the calls on a netlink socket return, and the replies \<open>recvfrom\<close> delivers: the number it returns
  and the buffer. When no reply is left the call blocks and the request does not return (\<open>None\<close>).
  \<open>run\<close> is \<open>mnl_cb_run\<close> for the callback of the request.
\<close>

record 'b netlink =
  mnl_open :: bool
  mnl_bind :: bool
  mnl_send :: bool
  mnl_recv :: "(int \<times> 'b) list"

fun recv_loop :: "('b \<Rightarrow> 'd \<Rightarrow> int \<times> 'd) \<Rightarrow> (int \<times> 'b) list \<Rightarrow> int \<Rightarrow> 'd \<Rightarrow> (int \<times> 'd) option" where
  "recv_loop run [] out d = None"
| "recv_loop run ((ret, buf) # replies) out d =
     (if ret \<le> 0 then Some (out, d)
      else let (ret, d1) = run buf d
           in if ret \<le> MNL_CB_STOP then Some (out, d1) else recv_loop run replies (-1) d1)"

definition ntl_request :: "('b \<Rightarrow> ntl_data \<Rightarrow> int \<times> ntl_data) \<Rightarrow> 'b netlink \<Rightarrow> ntl_data \<Rightarrow> (int \<times> ntl_data) option" where
  "ntl_request run sock d =
     (if \<not> mnl_open sock \<or> \<not> mnl_bind sock \<or> \<not> mnl_send sock then Some (-1, d)
      else recv_loop run (mnl_recv sock) 0 d)"

text \<open>An address of the resolver in a cleared \<open>struct in6_addr\<close>.\<close>

definition in6_addr :: "byte list \<Rightarrow> byte list" where
  "in6_addr bs = take 16 (bs @ replicate 16 0)"

definition clear_ntl_data :: "nat \<Rightarrow> ntl_data" where
  "clear_ntl_data af =
     \<lparr>nd_family = af, nd_src_ipaddr = [], nd_src_ethaddr = replicate 6 0, nd_dst_ipaddr = replicate 16 0,
      nd_dst_ethaddr = replicate 6 0, nd_oifidx = 0\<rparr>"

text \<open>
  The result, the address left in \<open>dst_ethaddr\<close> and the echo requests sent. \<open>mnl_cb_run\<close> takes the
  callback; \<open>ping\<close> is what the raw socket does.
\<close>

definition net_get_neigh_ether_sys ::
  "netlib \<Rightarrow> ((nlmsg \<Rightarrow> ntl_data \<Rightarrow> int \<times> ntl_data) \<Rightarrow> 'b \<Rightarrow> ntl_data \<Rightarrow> int \<times> ntl_data) \<Rightarrow> 'b netlink \<Rightarrow> int \<times> bool \<Rightarrow>
   byte list \<Rightarrow> byte list \<Rightarrow> family \<Rightarrow> string \<Rightarrow> string \<Rightarrow> int \<Rightarrow> (int \<times> byte list \<times> byte list list) option" where
  "net_get_neigh_ether_sys lib mnl_cb_run sock ping dst_ethaddr src_ethaddr family src_ipaddr dst_ipaddr outdev =
     (let af = GET_AF_INET family
      in case inet_pton lib af dst_ipaddr of
           None \<Rightarrow> Some (-1, dst_ethaddr, [])
         | Some dst \<Rightarrow>
             let data = (clear_ntl_data af)\<lparr>nd_dst_ipaddr := in6_addr dst, nd_oifidx := outdev\<rparr>
             in (case ntl_request (mnl_cb_run (data_getdst_neigh_cb lib)) sock data of
                  None \<Rightarrow> None
                | Some (ret, d) \<Rightarrow>
                    if ret = 0 then Some (0, nd_dst_ethaddr d, [])
                    else (case inet_pton lib af src_ipaddr of
                           None \<Rightarrow> Some (-1, dst_ethaddr, [])
                         | Some src \<Rightarrow>
                             let d1 = d\<lparr>nd_src_ipaddr := in6_addr src, nd_src_ethaddr := take 6 src_ethaddr\<rparr>
                             in Some (-1, nd_dst_ethaddr d1, snd (send_ping (big_endian lib) (fst ping) (snd ping) d1)))))"

definition net_get_local_ifidx_per_remote_host_sys ::
  "netlib \<Rightarrow> ((nlmsg \<Rightarrow> ntl_data \<Rightarrow> int \<times> ntl_data) \<Rightarrow> 'b \<Rightarrow> ntl_data \<Rightarrow> int \<times> ntl_data) \<Rightarrow> 'b netlink \<Rightarrow>
   string \<Rightarrow> int \<Rightarrow> (int \<times> int) option" where
  "net_get_local_ifidx_per_remote_host_sys lib mnl_cb_run sock dst_ipaddr outdev =
     (let ipv = net_get_addr_family dst_ipaddr
      in case inet_pton lib ipv dst_ipaddr of
           None \<Rightarrow> Some (-1, outdev)
         | Some dst \<Rightarrow>
             (case ntl_request (mnl_cb_run (data_getdst_route_cb lib)) sock (clear_ntl_data ipv) of
                None \<Rightarrow> None
              | Some (ret, d) \<Rightarrow> if ret \<noteq> 0 then Some (-1, outdev) else Some (0, nd_oifidx d)))"

section \<open>Interfaces\<close>

text \<open>
  \<open>strcpy\<close> into the 16 bytes of \<open>ifr_name\<close>: \<open>None\<close> for a longer name. The descriptor of the socket and
  the answer of \<open>ioctl\<close> are given; the result and the bytes left in \<open>ether\<close>.
\<close>

definition net_get_local_ifinfo_sys ::
  "int \<Rightarrow> (string \<Rightarrow> byte list option) \<Rightarrow> byte list \<Rightarrow> string \<Rightarrow> (int \<times> byte list) option" where
  "net_get_local_ifinfo_sys sd hwaddr ether indev =
     (if sd \<le> 0 then Some (-1, ether)
      else if length indev \<ge> 16 then None
      else case hwaddr indev of None \<Rightarrow> Some (-1, ether) | Some hw \<Rightarrow> Some (0, take 6 hw))"

text \<open>
  The list of \<open>getifaddrs\<close>: names and addresses, if any. The text of the address is read again for
  every candidate; when it is not an address, what is compared is not initialised (\<open>None\<close>).
\<close>

fun ifaddr_loop :: "netlib \<Rightarrow> nat \<Rightarrow> string \<Rightarrow> (string \<times> (nat \<times> byte list) option) list \<Rightarrow> string \<Rightarrow> (bool \<times> string) option" where
  "ifaddr_loop lib ipv strvip [] outdev = Some (False, outdev)"
| "ifaddr_loop lib ipv strvip ((name, None) # ifs) outdev = ifaddr_loop lib ipv strvip ifs outdev"
| "ifaddr_loop lib ipv strvip ((name, Some (af, bytes)) # ifs) outdev =
     (if af \<noteq> ipv then ifaddr_loop lib ipv strvip ifs outdev
      else case inet_pton lib ipv strvip of
             None \<Rightarrow> None
           | Some addr \<Rightarrow>
               if net_cmp_ip addr bytes (GET_INET_LEN ipv) = 0 then Some (True, name)
               else ifaddr_loop lib ipv strvip ifs outdev)"

definition net_get_local_ifname_per_vip_sys ::
  "netlib \<Rightarrow> (string \<times> (nat \<times> byte list) option) list option \<Rightarrow> string option \<Rightarrow> string \<Rightarrow> (int \<times> string) option" where
  "net_get_local_ifname_per_vip_sys lib ifaddrs strvip outdev =
     (if strvip = None \<or> strvip = Some [] then Some (-1, outdev)
      else case ifaddrs of
             None \<Rightarrow> Some (-1, outdev)
           | Some ifs \<Rightarrow>
               (case ifaddr_loop lib (net_get_addr_family (the strvip)) (the strvip) ifs outdev of
                  None \<Rightarrow> None
                | Some (found, name) \<Rightarrow> Some (if found then 0 else 1, name)))"

section \<open>Neighbour events\<close>

definition hex2 :: "byte \<Rightarrow> string" where
  "hex2 b = [digit_char (unat b div 16), digit_char (unat b mod 16)]"

definition ether_text :: "byte list \<Rightarrow> string" where
  "ether_text bs = concat (map hex2 (take 1 bs)) @ concat (map (\<lambda>b. '':'' @ hex2 b) (drop 1 bs))"

text \<open>The fuel is the one of \<open>farm_s_set_backend_ether_by_oifidx\<close>.\<close>

definition data_getev_cb :: "netlib \<Rightarrow> nat \<Rightarrow> nftenv \<Rightarrow> nlmsg \<Rightarrow> nftw option \<Rightarrow> int \<times> nftw option" where
  "data_getev_cb lib n env nlh w =
     (if nlmsg_type nlh \<noteq> RTM_NEWNEIGH then (MNL_CB_STOP, w)
      else let tb = mnl_attr_parse lib nlh (data_attr_neigh_cb lib) Map.empty;
               str_ipaddr = (case tb NDA_DST of
                               None \<Rightarrow> []
                             | Some dst \<Rightarrow> cstr (inet_ntop lib (ndm_family nlh) (nla_payload dst) (GET_INET_STRLEN (ndm_family nlh))))
           in (MNL_CB_STOP,
               case tb NDA_LLADDR of
                 None \<Rightarrow> w
               | Some ether \<Rightarrow>
                   if neigh_usable (ndm_state nlh)
                   then Option.bind w (farm_s_set_backend_ether_by_oifidx n env (ndm_ifindex nlh) str_ipaddr
                                         (ether_text (take 6 (nla_payload ether))))
                   else w))"

definition ntlk_cb ::
  "netlib \<Rightarrow> ((nlmsg \<Rightarrow> nftw option \<Rightarrow> int \<times> nftw option) \<Rightarrow> 'b \<Rightarrow> nftw option \<Rightarrow> int \<times> nftw option) \<Rightarrow>
   nat \<Rightarrow> nftenv \<Rightarrow> (int \<times> 'b) list \<Rightarrow> nftw \<Rightarrow> nftw option" where
  "ntlk_cb lib mnl_cb_run n env replies w =
     Option.bind (recv_loop (mnl_cb_run (data_getev_cb lib n env)) replies 0 (Some w)) snd"

definition net_eventd_init :: "bool \<Rightarrow> bool \<Rightarrow> bool \<Rightarrow> int \<times> bool" where
  "net_eventd_init opened bound net_event_enabled =
     (if \<not> opened \<or> \<not> bound then (-1, net_event_enabled) else (0, True))"

definition net_eventd_stop :: "bool \<Rightarrow> int \<times> bool" where
  "net_eventd_stop net_event_enabled = (0, False)"

section \<open>Frames\<close>

lemma length_store16 [simp]: "length (store16 big w) = 2"
  by (simp add: store16_def)

lemma length_ping6_data [simp]: "length ping6_data = 4"
  by (simp add: ping6_data_def)

lemma htons_stored:
  "store16 big (htons big 12) = [0, 12]" "store16 big (htons big 1000) = [3, 232]" "store16 big (htons big 0) = [0, 0]"
  by (cases big; simp add: htons_def load16_def store16_def)+

text \<open>The ICMPv6 message of the frame.\<close>

definition ping6_message :: "bool \<Rightarrow> ntl_data \<Rightarrow> byte list" where
  "ping6_message big d =
     [128, 0] @ store16 big (icmp6_checksum big (ping6_ip d) (ping6_icmp big) ping6_data) @ [3, 232, 0, 0] @ ping6_data"

lemma ping6_frame_shape:
  "ping6_frame big d =
     replicate 6 0xff @ nd_src_ethaddr d @ [0x86, 0xdd, 0x60, 0, 0, 0, 0, 12, 58, 255] @
     nd_src_ipaddr d @ nd_dst_ipaddr d @ ping6_message big d"
  by (simp add: ping6_frame_def ping6_message_def ping6_icmp_def Let_def htons_stored)

lemma length_ping6_message [simp]: "length (ping6_message big d) = 12"
  by (simp add: ping6_message_def)

text \<open>The receiver adds up the same half words as the sender, in another order.\<close>

lemma ping6_message_verifies:
  assumes "length (nd_src_ipaddr d) = 16" "length (nd_dst_ipaddr d) = 16"
  shows "checksum big (nd_src_ipaddr d @ nd_dst_ipaddr d @ [0, 0, 0, 12, 0, 0, 0, 58] @ ping6_message big d) = 0"
proof -
  let ?ip = "ping6_ip d" and ?icmp = "ping6_icmp big"
  let ?c = "icmp6_checksum big ?ip ?icmp ping6_data"
  let ?sent = "pseudo_head big ?ip ?icmp (length ping6_data) @ store16 big ?c @ padded ping6_data"
  let ?read = "nd_src_ipaddr d @ nd_dst_ipaddr d @ [0, 0, 0, 12, 0, 0, 0, 58] @ ping6_message big d"
  have "checksum big ?sent = 0"
    using icmp6_sums [of ?ip ping6_data big ?icmp] assms by (simp add: ping6_ip_def)
  moreover have "half_sum big ?sent = half_sum big ?read"
    using assms
    by (simp add: pseudo_head_def ping6_ip_def ping6_icmp_def ping6_message_def half_sum_append padded_def htons_stored)
  moreover have "length ?sent < 65536" "length ?read < 65536"
    using assms by (simp_all add: pseudo_head_def ping6_ip_def padded_def)
  ultimately show ?thesis by (simp add: checksum_zero)
qed

text \<open>
  (C27) The echo request for an IPv6 neighbour is well formed: a broadcast frame of 66 bytes whose payload
  length is the length of the ICMPv6 message, and the receiver's check over the pseudo header and the
  message as sent succeeds, for both byte orders of the host.
\<close>

theorem echo_frame_valid:
  assumes "length (nd_src_ethaddr d) = 6" "length (nd_src_ipaddr d) = 16" "length (nd_dst_ipaddr d) = 16"
    "frame = ping6_frame big d"
  shows "length frame = 66 \<and> take 6 frame = replicate 6 0xff \<and> drop 6 (take 12 frame) = nd_src_ethaddr d \<and>
    drop 18 (take 20 frame) = [0, of_nat (length (drop 54 frame))] \<and>
    drop 22 (take 54 frame) = nd_src_ipaddr d @ nd_dst_ipaddr d \<and>
    checksum big (drop 22 (take 54 frame) @ [0, 0, 0, 12, 0, 0, 0, 58] @ drop 54 frame) = 0"
  using assms ping6_message_verifies [of d big] by (simp add: ping6_frame_shape)

definition some_neighbour :: ntl_data where
  "some_neighbour = (clear_ntl_data AF6)\<lparr>nd_src_ipaddr := replicate 16 1, nd_dst_ipaddr := replicate 16 2\<rparr>"

theorem echo_frame_valid_witness:
  "length (ping6_frame True some_neighbour) = 66 \<and>
   checksum True (drop 22 (take 54 (ping6_frame True some_neighbour)) @ [0, 0, 0, 12, 0, 0, 0, 58] @
                  drop 54 (ping6_frame True some_neighbour)) = 0"
proof -
  have "length (nd_src_ethaddr some_neighbour) = 6" "length (nd_src_ipaddr some_neighbour) = 16"
    "length (nd_dst_ipaddr some_neighbour) = 16"
    by (simp_all add: some_neighbour_def clear_ntl_data_def)
  from echo_frame_valid [OF this refl, of True] show ?thesis by blast
qed

text \<open>The echo request for an IPv4 neighbour carries no checksum: no receiver accepts it.\<close>

lemma half_sum_zeros: "list_all (\<lambda>b. b = 0) bs \<Longrightarrow> half_sum big bs = 0"
  by (induction big bs rule: half_sum.induct) (simp_all add: load16_def)

lemma echo4_not_valid: "checksum big (ping4_packet big) \<noteq> 0"
proof -
  have "half_sum big (replicate 56 0) = 0" by (rule half_sum_zeros) (simp add: list_all_iff)
  moreover have "unat (load16 big 8 0) \<le> 2048" "unat (load16 big 0 0) = 0" by (simp_all add: load16_def)
  ultimately have "half_sum big (ping4_packet big) \<le> 2050" "half_sum big (ping4_packet big) \<noteq> 0"
    by (simp_all add: ping4_packet_def half_sum_append)
  then show ?thesis by (simp add: checksum_zero ping4_packet_def)
qed

section \<open>Replies\<close>

text \<open>
  What libmnl documents of \<open>mnl_cb_run\<close>: the callback is run for the messages of the buffer in order
  until it returns \<open>MNL_CB_STOP\<close> or an error; and of \<open>mnl_attr_parse\<close>: the same for attributes.
\<close>

fun deliver :: "('m \<Rightarrow> 'd \<Rightarrow> int \<times> 'd) \<Rightarrow> 'm list \<Rightarrow> 'd \<Rightarrow> int \<times> 'd" where
  "deliver cb [] d = (MNL_CB_OK, d)"
| "deliver cb (m # ms) d = (let (ret, d1) = cb m d in if ret \<le> MNL_CB_STOP then (ret, d1) else deliver cb ms d1)"

lemma cmp_ip_loop_eq:
  "i + left \<le> length ip1 \<Longrightarrow> i + left \<le> length ip2 \<Longrightarrow>
   (cmp_ip_loop ip1 ip2 i left = 0) = (take left (drop i ip1) = take left (drop i ip2))"
proof (induction left arbitrary: i)
  case (Suc left)
  then show ?case
    using Suc.IH [of "Suc i"] by (simp add: Cons_nth_drop_Suc [symmetric])
qed simp

lemma net_cmp_ip_eq: "len \<le> length ip1 \<Longrightarrow> len \<le> length ip2 \<Longrightarrow> (net_cmp_ip ip1 ip2 len = 0) = (take len ip1 = take len ip2)"
  using cmp_ip_loop_eq [of 0 len ip1 ip2] by (simp add: net_cmp_ip_def)

text \<open>The attributes of a message, and whether it is about a usable neighbour with the address.\<close>

definition neigh_attrs :: "netlib \<Rightarrow> nlmsg \<Rightarrow> attr_table" where
  "neigh_attrs lib nlh = mnl_attr_parse lib nlh (data_attr_neigh_cb lib) Map.empty"

definition about_neighbour :: "netlib \<Rightarrow> nat \<Rightarrow> byte list \<Rightarrow> nlmsg \<Rightarrow> bool" where
  "about_neighbour lib af addr nlh =
     (neigh_usable (ndm_state nlh) \<and>
      (\<exists>dst. neigh_attrs lib nlh NDA_DST = Some dst \<and> net_cmp_ip (nla_payload dst) addr (GET_INET_LEN af) = 0))"

definition neigh_ether :: "netlib \<Rightarrow> nlmsg \<Rightarrow> byte list \<Rightarrow> byte list" where
  "neigh_ether lib nlh old =
     (case mnl_attr_parse lib nlh (data_attr_neigh_cb lib) (neigh_attrs lib nlh) NDA_LLADDR of
        None \<Rightarrow> old | Some ether \<Rightarrow> take 6 (nla_payload ether))"

lemma getdst_neigh_cases:
  "data_getdst_neigh_cb lib nlh d =
     (if about_neighbour lib (nd_family d) (nd_dst_ipaddr d) nlh
      then (MNL_CB_STOP, d\<lparr>nd_dst_ethaddr := neigh_ether lib nlh (nd_dst_ethaddr d)\<rparr>) else (MNL_CB_OK, d))"
  by (auto simp: data_getdst_neigh_cb_def about_neighbour_def neigh_ether_def neigh_attrs_def Let_def split: option.split)

lemma deliver_neigh:
  "deliver (data_getdst_neigh_cb lib) ms d =
     (case find (about_neighbour lib (nd_family d) (nd_dst_ipaddr d)) ms of
        None \<Rightarrow> (MNL_CB_OK, d)
      | Some m \<Rightarrow> (MNL_CB_STOP, d\<lparr>nd_dst_ethaddr := neigh_ether lib m (nd_dst_ethaddr d)\<rparr>))"
  by (induction ms) (simp_all add: getdst_neigh_cases)

text \<open>Once a part of the reply was read to its end, the result is an error whatever follows.\<close>

lemma recv_loop_failed: "recv_loop run replies (-1) d = Some (ret, e) \<Longrightarrow> ret = -1"
  by (induction replies arbitrary: d) (auto simp: Let_def split: if_splits prod.splits)


text \<open>A kernel that knows two neighbours, in one reply or in two.\<close>

definition small_lib :: netlib where
  "small_lib = \<lparr>big_endian = False, NDA_MAX = 15, RTA_MAX = 30,
     mnl_attr_parse = \<lambda>m cb tb. snd (deliver cb (nlmsg_attrs m) tb),
     inet_pton = \<lambda>af s. if s = ''10.0.0.1'' then Some [10, 0, 0, 1] else if s = ''10.0.0.2'' then Some [10, 0, 0, 2] else None,
     inet_ntop = \<lambda>af bs n. if bs = [10, 0, 0, 2] \<and> n \<ge> 9 then Some ''10.0.0.2'' else None\<rparr>"

definition neigh_msg :: "byte list \<Rightarrow> byte list \<Rightarrow> nlmsg" where
  "neigh_msg ip ether = \<lparr>nlmsg_type = RTM_NEWNEIGH, ndm_family = AF4, ndm_ifindex = 3, ndm_state = 2,
     nlmsg_attrs = [\<lparr>nla_type = NDA_DST, nla_valid = True, nla_payload = ip, nla_u32 = 0\<rparr>,
                    \<lparr>nla_type = NDA_LLADDR, nla_valid = True, nla_payload = ether, nla_u32 = 0\<rparr>]\<rparr>"

definition two_neighbours :: "nlmsg list" where
  "two_neighbours = [neigh_msg [10, 0, 0, 1] (replicate 6 1), neigh_msg [10, 0, 0, 2] (replicate 6 2)]"

definition replying :: "nlmsg list list \<Rightarrow> nlmsg list netlink" where
  "replying parts = \<lparr>mnl_open = True, mnl_bind = True, mnl_send = True, mnl_recv = map (Pair 1) parts\<rparr>"

lemma small_attrs:
  "neigh_attrs small_lib (neigh_msg ip ether) =
     [NDA_DST \<mapsto> \<lparr>nla_type = NDA_DST, nla_valid = True, nla_payload = ip, nla_u32 = 0\<rparr>,
      NDA_LLADDR \<mapsto> \<lparr>nla_type = NDA_LLADDR, nla_valid = True, nla_payload = ether, nla_u32 = 0\<rparr>]"
  by (simp add: neigh_attrs_def small_lib_def neigh_msg_def data_attr_neigh_cb_def)

lemma small_about:
  "about_neighbour small_lib AF4 (in6_addr [10, 0, 0, j]) (neigh_msg [10, 0, 0, k] ether) = (k = j)"
proof -
  have "(net_cmp_ip [10, 0, 0, k] (in6_addr [10, 0, 0, j]) 4 = 0) = (k = j)"
    by (simp add: net_cmp_ip_eq in6_addr_def)
  moreover have "neigh_usable (ndm_state (neigh_msg ip ether))" for ip
    by (simp add: neigh_msg_def neigh_usable_def)
  moreover have "GET_INET_LEN AF4 = 4" by (simp add: GET_INET_LEN_def AF4_def AF6_def)
  ultimately show ?thesis by (simp add: about_neighbour_def small_attrs)
qed


section \<open>Events\<close>

text \<open>
  An event about a usable neighbour reaches the farms with the texts of its addresses. Only the first
  message of the first datagram does: what follows it is dropped.
\<close>

lemma neighbour_event:
  assumes "\<And>cb buf d. mnl_cb_run cb buf d = deliver cb (messages buf) d"
    and "k > 0" "messages buf = m # ms" "nlmsg_type m = RTM_NEWNEIGH" "neigh_usable (ndm_state m)"
    and "neigh_attrs lib m NDA_DST = Some dst" "neigh_attrs lib m NDA_LLADDR = Some ether"
    and "inet_ntop lib (ndm_family m) (nla_payload dst) (GET_INET_STRLEN (ndm_family m)) = Some ip"
  shows "ntlk_cb lib mnl_cb_run n env ((k, buf) # replies) w =
    farm_s_set_backend_ether_by_oifidx n env (ndm_ifindex m) ip (ether_text (take 6 (nla_payload ether))) w"
proof -
  have "data_getev_cb lib n env m (Some w) =
      (MNL_CB_STOP, farm_s_set_backend_ether_by_oifidx n env (ndm_ifindex m) ip (ether_text (take 6 (nla_payload ether))) w)"
    using assms(4-8) by (simp add: data_getev_cb_def neigh_attrs_def [symmetric] cstr_def)
  then show ?thesis using assms(1-3) by (simp add: ntlk_cb_def)
qed

end
