(* ===== verification/Daemon.thy ===== *)
theory Daemon
  imports Server Network
begin

text \<open>
  The daemon around the handlers: the settings of the server and the command line (server.c, main.c) and
  the event loop as a transition system. A client is a block of memory with a descriptor, a watcher for
  input and a timer; libev calls back for the watchers that are active. The step relation below has a
  step for every callback the daemon registers, and the invariant says that a callback always finds its
  client.
\<close>

section \<open>Settings of the server\<close>

record nftlb_server =
  ns_key :: cptr
  ns_ipv6 :: bool
  ns_host :: cptr
  ns_port :: cptr

definition nftserver :: nftlb_server where
  "nftserver = \<lparr>ns_key = None, ns_ipv6 = False, ns_host = None, ns_port = None\<rparr>"

definition server_set_host :: "string \<Rightarrow> nftlb_server \<Rightarrow> nftlb_server" where
  "server_set_host host srv = srv\<lparr>ns_host := Some host\<rparr>"

definition server_set_port :: "string \<Rightarrow> nftlb_server \<Rightarrow> nftlb_server" where
  "server_set_port port srv = srv\<lparr>ns_port := Some port\<rparr>"

definition server_set_ipv6 :: "nftlb_server \<Rightarrow> nftlb_server" where
  "server_set_ipv6 srv = srv\<lparr>ns_ipv6 := True\<rparr>"

definition SRV_KEY_LENGTH :: nat where "SRV_KEY_LENGTH = 16"

text \<open>Without a key the server makes one up; \<open>rnd\<close> are the numbers of \<open>rand\<close>.\<close>

definition server_set_key :: "(nat \<Rightarrow> nat) \<Rightarrow> cptr \<Rightarrow> nftlb_server \<Rightarrow> nftlb_server" where
  "server_set_key rnd key srv =
     (case key of
        None \<Rightarrow> srv\<lparr>ns_key := Some (map (\<lambda>i. char_of (rnd i mod 94 + 33)) [0..<SRV_KEY_LENGTH])\<rparr>
      | Some k \<Rightarrow> srv\<lparr>ns_key := Some (take 199 k)\<rparr>)"

definition server_address :: "nftlb_server \<Rightarrow> string \<times> string" where
  "server_address srv =
     (case ns_host srv of Some host \<Rightarrow> host | None \<Rightarrow> if ns_ipv6 srv then ''::1'' else ''127.0.0.1'',
      case ns_port srv of Some port \<Rightarrow> port | None \<Rightarrow> ''5555'')"

text \<open>
  Opening the listening socket: what \<open>getaddrinfo\<close> says of the address, the descriptor of the socket
  (negative on failure), and whether it can be bound and listened on.
\<close>

definition server_init ::
  "(nat \<Rightarrow> nat) \<Rightarrow> (string \<times> string \<Rightarrow> bool) \<Rightarrow> int \<Rightarrow> bool \<Rightarrow> bool \<Rightarrow> nftlb_server \<Rightarrow> int \<times> nftlb_server" where
  "server_init rnd getaddrinfo sd bound listening srv =
     (let srv1 = (if ns_key srv = None then server_set_key rnd None srv else srv)
      in (if getaddrinfo (server_address srv1) \<and> sd \<ge> 0 \<and> bound \<and> listening then 0 else -1, srv1))"

section \<open>Command line\<close>

record settings =
  run_server :: bool
  run_background :: bool
  loglevel :: int
  logoutput :: int
  config_path :: cptr
  set_server :: nftlb_server
  set_serialize :: bool
  set_mark :: flags

definition EXIT_SUCCESS :: int where "EXIT_SUCCESS = 0"
definition EXIT_FAILURE :: int where "EXIT_FAILURE = 1"

text \<open>
  One option: its character and its argument. The result is the exit status, or the settings to go on
  with. The argument of \<open>-k\<close> is overwritten with blanks, which does not change the settings.
\<close>

definition take_option :: "char \<times> string \<Rightarrow> settings \<Rightarrow> int + settings" where
  "take_option opt s =
     (let (c, optarg) = opt
      in if c = CHR ''h'' then Inl EXIT_SUCCESS
         else if c = CHR ''l'' then Inr (s\<lparr>loglevel := atoi optarg\<rparr>)
         else if c = CHR ''L'' then Inr (s\<lparr>logoutput := atoi optarg\<rparr>)
         else if c = CHR ''c'' then Inr (s\<lparr>config_path := Some optarg\<rparr>)
         else if c = CHR ''k'' then Inr (s\<lparr>set_server := server_set_key (\<lambda>_. 0) (Some optarg) (set_server s)\<rparr>)
         else if c = CHR ''e'' then Inr (s\<lparr>run_server := False\<rparr>)
         else if c = CHR ''d'' then Inr (s\<lparr>run_background := True\<rparr>)
         else if c = CHR ''6'' then Inr (s\<lparr>set_server := server_set_ipv6 (set_server s)\<rparr>)
         else if c = CHR ''H'' then Inr (s\<lparr>set_server := server_set_host optarg (set_server s)\<rparr>)
         else if c = CHR ''P'' then Inr (s\<lparr>set_server := server_set_port optarg (set_server s)\<rparr>)
         else if c = CHR ''S'' then Inr (s\<lparr>set_serialize := True\<rparr>)
         else if c = CHR ''m'' then Inr (s\<lparr>set_mark := word_of_int (strtol16 optarg)\<rparr>)
         else Inl EXIT_FAILURE)"

fun take_options :: "(char \<times> string) list \<Rightarrow> settings \<Rightarrow> int + settings" where
  "take_options [] s = Inr s"
| "take_options (opt # opts) s = (case take_option opt s of Inl status \<Rightarrow> Inl status | Inr s1 \<Rightarrow> take_options opts s1)"

definition default_settings :: settings where
  "default_settings = \<lparr>run_server = True, run_background = False, loglevel = 5, logoutput = 0, config_path = None,
     set_server = nftserver, set_serialize = False, set_mark = 0x80000000\<rparr>"

text \<open>
  \<open>main\<close>: the options \<open>getopt_long\<close> finds, whether the signal handlers can be set, the variable
  \<open>NFTLB_SERVER_KEY\<close> and what \<open>fork\<close> returns. The result is the exit status of this process and the
  settings \<open>main_process\<close> runs with in it, if it does; what \<open>main_process\<close> returns is not looked at.
\<close>

definition main :: "(char \<times> string) list \<Rightarrow> bool \<Rightarrow> cptr \<Rightarrow> int \<Rightarrow> int \<times> settings option" where
  "main opts signals key_var pid =
     (case take_options opts default_settings of
        Inl status \<Rightarrow> (status, None)
      | Inr s \<Rightarrow>
          if \<not> signals then (EXIT_FAILURE, None)
          else
            let s1 = (case key_var of
                        Some k \<Rightarrow> if length k > 0 then s\<lparr>set_server := server_set_key (\<lambda>_. 0) (Some k) (set_server s)\<rparr> else s
                      | None \<Rightarrow> s)
            in if run_background s1
               then if pid = -1 then (EXIT_FAILURE, None)
                    else if pid = 0 then (EXIT_SUCCESS, Some s1) else (EXIT_SUCCESS, None)
               else (EXIT_SUCCESS, Some s1))"

section \<open>Clients\<close>

text \<open>
  The memory of the clients (their descriptors), the active watchers and timers of libev, the open
  descriptors of the process and the state of the program. Reaching for a client that is not allocated
  is undefined (\<open>None\<close>).
\<close>

record daemon =
  d_clients :: "oid \<rightharpoonup> int"
  d_io :: "oid set"
  d_timers :: "oid set"
  d_fds :: "int set"
  d_state :: cstate

definition nftlb_client_release :: "oid \<Rightarrow> daemon \<Rightarrow> daemon option" where
  "nftlb_client_release cli s =
     (case d_clients s cli of
        None \<Rightarrow> None
      | Some fd \<Rightarrow>
          Some (s\<lparr>d_io := d_io s - {cli}, d_fds := d_fds s - {fd}, d_clients := (d_clients s)(cli := None)\<rparr>))"

text \<open>The descriptor \<open>accept\<close> returns, the block \<open>malloc\<close> returns.\<close>

definition accept_cb :: "bool \<Rightarrow> int option \<Rightarrow> oid option \<Rightarrow> daemon \<Rightarrow> daemon" where
  "accept_cb ev_error accepted memory s =
     (if ev_error then s
      else case accepted of
             None \<Rightarrow> s
           | Some sd \<Rightarrow>
               let s1 = s\<lparr>d_fds := insert sd (d_fds s)\<rparr>
               in case memory of
                    None \<Rightarrow> s1
                  | Some cli \<Rightarrow> s1\<lparr>d_clients := (d_clients s1)(cli \<mapsto> sd), d_io := insert cli (d_io s1),
                                  d_timers := insert cli (d_timers s1)\<rparr>)"

text \<open>
  The whole of \<open>nftlb_read_cb\<close>: the conversation (\<open>Server.nftlb_read_cb\<close>), then the timer is stopped and
  the client released. After an invalid event or a failed \<open>recv\<close> (\<open>socket\<close> is \<open>None\<close>) the client stays.
\<close>

definition client_read_cb ::
  "nat \<Rightarrow> nftenv \<Rightarrow> jansson \<Rightarrow> cptr \<Rightarrow> bool \<Rightarrow> string list option \<Rightarrow> oid \<Rightarrow> daemon \<Rightarrow> (string list \<times> daemon) option" where
  "client_read_cb n env js key ev_error socket cli s =
     (if ev_error then Some ([], s)
      else if cli \<notin> dom (d_clients s) then None
      else case socket of
             None \<Rightarrow> Some ([], s)
           | Some pieces \<Rightarrow>
               Option.bind (nftlb_read_cb n env js key pieces (d_state s)) (\<lambda>(sent, cw).
                 map_option (Pair sent)
                   (nftlb_client_release cli (s\<lparr>d_state := cw, d_timers := d_timers s - {cli}\<rparr>))))"

definition nftlb_timer_cb :: "oid \<Rightarrow> daemon \<Rightarrow> daemon option" where
  "nftlb_timer_cb cli s = nftlb_client_release cli s"

text \<open>
  The loop: a connection is accepted with a descriptor and a block that are free, an active watcher
  reports input (a text without NUL), a timer expires (libev stops it before it calls back), the kernel
  reports neighbours.
  \<open>run\<close> is \<open>mnl_cb_run\<close>.
\<close>

inductive daemon_step ::
  "nat \<Rightarrow> nftenv \<Rightarrow> jansson \<Rightarrow> netlib \<Rightarrow> ((nlmsg \<Rightarrow> nftw option \<Rightarrow> int \<times> nftw option) \<Rightarrow> 'b \<Rightarrow> nftw option \<Rightarrow> int \<times> nftw option) \<Rightarrow>
   cptr \<Rightarrow> daemon \<Rightarrow> daemon \<Rightarrow> bool"
  for n env js lib run key where
  connected: "sd \<notin> d_fds s \<Longrightarrow> cli \<notin> dom (d_clients s) \<Longrightarrow>
    daemon_step n env js lib run key s (accept_cb False (Some sd) (Some cli) s)"
| not_connected: "daemon_step n env js lib run key s (accept_cb ev_error None memory s)"
| input: "cli \<in> d_io s \<Longrightarrow> pred_option (list_all (\<lambda>t. NUL \<notin> set t)) socket \<Longrightarrow>
    client_read_cb n env js key ev_error socket cli s = Some (sent, t) \<Longrightarrow>
    daemon_step n env js lib run key s t"
| expired: "cli \<in> d_timers s \<Longrightarrow> nftlb_timer_cb cli (s\<lparr>d_timers := d_timers s - {cli}\<rparr>) = Some t \<Longrightarrow>
    daemon_step n env js lib run key s t"
| neighbours: "ntlk_cb lib run n env replies (snd (d_state s)) = Some w \<Longrightarrow>
    daemon_step n env js lib run key s (s\<lparr>d_state := (fst (d_state s), w)\<rparr>)"

inductive_cases daemon_stepE: "daemon_step n env js lib run key s t"

text \<open>The daemon with its descriptors before the first connection.\<close>

definition no_clients :: "int set \<Rightarrow> cstate \<Rightarrow> daemon" where
  "no_clients fds cw = \<lparr>d_clients = Map.empty, d_io = {}, d_timers = {}, d_fds = fds, d_state = cw\<rparr>"

inductive reachable ::
  "nat \<Rightarrow> nftenv \<Rightarrow> jansson \<Rightarrow> netlib \<Rightarrow> ((nlmsg \<Rightarrow> nftw option \<Rightarrow> int \<times> nftw option) \<Rightarrow> 'b \<Rightarrow> nftw option \<Rightarrow> int \<times> nftw option) \<Rightarrow>
   cptr \<Rightarrow> int set \<Rightarrow> daemon \<Rightarrow> bool"
  for n env js lib run key fds where
  start: "reachable n env js lib run key fds (no_clients fds cw)"
| step: "reachable n env js lib run key fds s \<Longrightarrow> daemon_step n env js lib run key s t \<Longrightarrow>
    reachable n env js lib run key fds t"

section \<open>Keys\<close>

text \<open>A key that can be sent in a header line.\<close>

definition sendable :: "string \<Rightarrow> bool" where
  "sendable k = (k \<noteq> [] \<and> \<not> is_space (hd k) \<and> list_all (\<lambda>c. c \<noteq> NUL \<and> c \<noteq> CHR 0x0D \<and> c \<noteq> CHR 0x0A) k)"

lemma recv_sendable:
  assumes "sendable k"
  shows "recv_key (''Key: '' @ k @ CHR 0x0D # post) = take 199 k"
proof -
  obtain c cs where k: "k = c # cs" "\<not> is_space c" using assms by (cases k) (auto simp: sendable_def)
  have "takeWhile (\<lambda>c. c \<noteq> CHR 0x0D \<and> c \<noteq> CHR 0x0A) (k @ CHR 0x0D # post) = k"
    using assms by (subst takeWhile_append2) (auto simp: sendable_def list_all_iff)
  moreover have "dropWhile is_space (CHR '' '' # k @ CHR 0x0D # post) = k @ CHR 0x0D # post"
    using k by (simp add: is_space_def)
  ultimately show ?thesis by (simp add: recv_key_def)
qed

lemma auth_same: "NUL \<notin> set k \<Longrightarrow> auth_key (Some k) k"
  by (simp add: auth_key_def str_iseq_def iseq_loop_0)

lemma generated_key:
  assumes "ns_key (server_set_key rnd None srv) = Some k"
  shows "length k = 16 \<and> list_all (\<lambda>c. 33 \<le> (of_char c :: nat) \<and> (of_char c :: nat) < 127) k"
proof -
  have "(of_char (char_of (rnd i mod 94 + 33) :: char) :: nat) = rnd i mod 94 + 33" for i
    by (simp add: of_char_of)
  moreover have "rnd i mod 94 < 94" for i by simp
  ultimately show ?thesis
    using assms by (auto simp: server_set_key_def SRV_KEY_LENGTH_def list_all_iff simp del: upt_conv_Cons)
qed

lemma printable_sendable:
  "k \<noteq> [] \<Longrightarrow> list_all (\<lambda>c. 33 \<le> (of_char c :: nat) \<and> (of_char c :: nat) < 127) k \<Longrightarrow> sendable k"
  by (cases k) (auto simp: sendable_def is_space_def list_all_iff)



section \<open>Lifetimes\<close>

definition clients_ok :: "int set \<Rightarrow> daemon \<Rightarrow> bool" where
  "clients_ok fds s =
     (d_io s = dom (d_clients s) \<and> d_timers s = dom (d_clients s) \<and> inj_on (d_clients s) (dom (d_clients s)) \<and>
      d_fds s = fds \<union> ran (d_clients s) \<and> fds \<inter> ran (d_clients s) = {})"

lemma released:
  assumes "clients_ok fds s" "d_clients s cli = Some fd"
  shows "nftlb_client_release cli (s\<lparr>d_state := cw, d_timers := d_timers s - {cli}\<rparr>) =
      Some (s\<lparr>d_state := cw, d_timers := d_timers s - {cli}, d_io := d_io s - {cli}, d_fds := d_fds s - {fd},
              d_clients := (d_clients s)(cli := None)\<rparr>) \<and>
    clients_ok fds (s\<lparr>d_state := cw, d_timers := d_timers s - {cli}, d_io := d_io s - {cli}, d_fds := d_fds s - {fd},
              d_clients := (d_clients s)(cli := None)\<rparr>)"
proof -
  have other: "d_clients s c \<noteq> Some fd" if "c \<noteq> cli" for c
    using assms that by (auto simp: clients_ok_def inj_on_def dom_def)
  have r: "ran ((d_clients s)(cli := None)) = ran (d_clients s) - {fd}"
  proof (intro set_eqI iffI)
    fix x assume "x \<in> ran (d_clients s) - {fd}"
    then obtain c where "d_clients s c = Some x" "x \<noteq> fd" by (auto simp: ran_def)
    moreover from this have "c \<noteq> cli" using assms(2) by auto
    ultimately show "x \<in> ran ((d_clients s)(cli := None))" by (intro ranI [of _ c]) simp
  qed (use other in \<open>auto simp: ran_def split: if_splits\<close>)
  have "fd \<notin> fds" using assms by (auto simp: clients_ok_def ran_def)
  then show ?thesis
    using assms by (auto simp: nftlb_client_release_def clients_ok_def r inj_on_def dom_def)
qed

lemma accepted:
  assumes "clients_ok fds s" "sd \<notin> d_fds s" "cli \<notin> dom (d_clients s)"
  shows "clients_ok fds (accept_cb False (Some sd) (Some cli) s)"
proof -
  have "d_clients s cli = None" using assms(3) by auto
  then have "ran ((d_clients s)(cli \<mapsto> sd)) = insert sd (ran (d_clients s))" by simp
  then show ?thesis
    using assms by (auto simp: accept_cb_def clients_ok_def inj_on_def ran_def dom_def)
qed

lemma clients_ok_state [simp]: "clients_ok fds (s\<lparr>d_state := cw\<rparr>) = clients_ok fds s"
  by (simp add: clients_ok_def)

lemma step_keeps_clients:
  assumes "daemon_step n env js lib run key s t" "clients_ok fds s"
  shows "clients_ok fds t"
  using assms(1)
proof (rule daemon_stepE)
  fix sd cli
  assume "t = accept_cb False (Some sd) (Some cli) s" "sd \<notin> d_fds s" "cli \<notin> dom (d_clients s)"
  then show ?thesis using accepted [OF assms(2)] by simp
next
  fix ev_error memory
  assume "t = accept_cb ev_error None memory s"
  then show ?thesis using assms(2) by (simp add: accept_cb_def)
next
  fix cli ev_error socket sent
  assume io: "cli \<in> d_io s" and cb: "client_read_cb n env js key ev_error socket cli s = Some (sent, t)"
  from io assms(2) obtain fd where fd: "d_clients s cli = Some fd" by (auto simp: clients_ok_def)
  show ?thesis
    using cb fd assms(2) released [OF assms(2) fd]
    by (auto simp: client_read_cb_def bind_eq_Some_conv split: if_splits option.splits)
next
  fix cli
  assume tm: "cli \<in> d_timers s" and cb: "nftlb_timer_cb cli (s\<lparr>d_timers := d_timers s - {cli}\<rparr>) = Some t"
  from tm assms(2) obtain fd where fd: "d_clients s cli = Some fd" by (auto simp: clients_ok_def)
  show ?thesis using cb released [OF assms(2) fd, of "d_state s"] by (simp add: nftlb_timer_cb_def)
next
  fix replies w
  assume "t = s\<lparr>d_state := (fst (d_state s), w)\<rparr>"
  then show ?thesis using assms(2) by simp
qed

lemma reachable_clients: "reachable n env js lib run key fds s \<Longrightarrow> clients_ok fds s"
proof (induction rule: reachable.induct)
  case (start cw)
  show ?case by (simp add: clients_ok_def no_clients_def)
qed (rule step_keeps_clients)


definition one_client :: daemon where
  "one_client = accept_cb False (Some 7) (Some 1) (no_clients {3} (c0, bad_farm))"

lemma one_client_reachable: "reachable 5 idle_env key_jansson small_lib deliver (Some ''k'') {3} one_client"
  unfolding one_client_def by (rule step [OF start connected]) (simp_all add: no_clients_def)


text \<open>
  (C26) No client stays for ever: in every reachable state each client can be timed out, which frees it,
  closes its descriptor and changes nothing else.
\<close>

theorem clients_time_out:
  assumes "reachable n env js lib run key fds s" "d_clients s cli = Some fd"
  shows "\<exists>t. daemon_step n env js lib run key s t \<and> cli \<notin> dom (d_clients t) \<and> cli \<notin> d_io t \<and> fd \<notin> d_fds t \<and>
    d_state t = d_state s \<and> d_clients t = (d_clients s)(cli := None)"
proof -
  have ok: "clients_ok fds s" by (rule reachable_clients [OF assms(1)])
  then have "cli \<in> d_timers s" using assms(2) by (auto simp: clients_ok_def)
  moreover have "nftlb_timer_cb cli (s\<lparr>d_timers := d_timers s - {cli}\<rparr>) =
      Some (s\<lparr>d_timers := d_timers s - {cli}, d_io := d_io s - {cli}, d_fds := d_fds s - {fd},
              d_clients := (d_clients s)(cli := None)\<rparr>)"
    using released [OF ok assms(2), of "d_state s"] by (simp add: nftlb_timer_cb_def)
  ultimately have "daemon_step n env js lib run key s (s\<lparr>d_timers := d_timers s - {cli}, d_io := d_io s - {cli},
      d_fds := d_fds s - {fd}, d_clients := (d_clients s)(cli := None)\<rparr>)"
    by (rule expired)
  then show ?thesis by (intro exI) (rule conjI, assumption, simp)
qed

theorem clients_time_out_witness:
  "\<exists>t. daemon_step 5 idle_env key_jansson small_lib deliver (Some ''k'') one_client t \<and> d_clients t = Map.empty"
proof -
  have "d_clients one_client = [1 \<mapsto> 7]" by (simp add: one_client_def accept_cb_def no_clients_def)
  with clients_time_out [OF one_client_reachable, of 1 7] show ?thesis by auto
qed


text \<open>A pending message is gone after it was sent as part of an answer.\<close>

definition noted :: daemon where
  "noted = one_client\<lparr>d_state := (c0, bad_farm\<lparr>w_objs := (w_objs bad_farm)\<lparr>config_outbuf := ''x''\<rparr>\<rparr>)\<rparr>"

lemma served_released:
  "d_clients s cli = Some fd \<Longrightarrow> nftlb_read_cb n env js key pieces (d_state s) = Some (sent, cw) \<Longrightarrow>
   \<exists>t. client_read_cb n env js key False (Some pieces) cli s = Some (sent, t) \<and> d_state t = cw \<and>
     cli \<notin> dom (d_clients t) \<and> cli \<notin> d_timers t"
  by (auto simp: client_read_cb_def nftlb_client_release_def)

lemma noted_request:
  defines "data \<equiv> ''GET /x HTTP/1.1 Key: k''"
  shows "\<exists>sent cw. nftlb_read_cb 5 idle_env key_jansson (Some ''k'') [data] (d_state noted) = Some (sent, cw) \<and>
    config_outbuf (w_objs (snd cw)) = []"
proof -
  have r: "recv (U_DEF_BUFFER_SIZE - 1) [data] = (data, [])" by (simp add: data_def)
  have "get_request (Some ''k'') data [] = ([], Inr \<lparr>h_method = WS_GET_ACTION, h_uri = ''/x'', h_body = []\<rparr>)"
    unfolding data_def by code_simp
  moreover have "scan_levels 4 ''/x'' = [''x'', [], [], []]" by code_simp
  ultimately show ?thesis
    using r by (simp add: nftlb_read_cb_def data_def send_response_def send_get_response_def get_document_def respond_def
        noted_def bad_farm_def no_services_def objects_init_def config_print_response_def upd_objs_def)
qed


text \<open>When no memory is left for a client, its descriptor stays open for ever.\<close>

lemma no_memory_leaks: "sd \<notin> d_fds s \<Longrightarrow> d_fds (accept_cb False (Some sd) None s) = insert sd (d_fds s)"
  by (simp add: accept_cb_def)

text \<open>The exit status does not tell whether the configuration was accepted.\<close>

lemma status_of_foreground:
  "take_options opts default_settings = Inr s \<Longrightarrow> \<not> run_background s \<Longrightarrow> fst (main opts True None pid) = EXIT_SUCCESS"
  by (simp add: main_def)

end
