(* ===== verification/Reachable.thy ===== *)
theory Reachable
  imports Store Daemon
begin

text \<open>
  The invariant of the links (\<open>links_ok\<close> of PolicyLinks) through the attributes, the configuration documents, the
  actions by name, the requests and the events: it holds in every state the daemon can reach.
\<close>

section \<open>Addresses\<close>

lemma sig_address_fields [sig_simps]:
  "addr_sig (a\<lparr>a_iface := t\<rparr>) = addr_sig a" "addr_sig (a\<lparr>a_ifidx := i\<rparr>) = addr_sig a"
  "addr_sig (a\<lparr>a_iethaddr := t\<rparr>) = addr_sig a" "addr_sig (a\<lparr>a_fqdn := x\<rparr>) = addr_sig a"
  "addr_sig (a\<lparr>a_ipaddr := x\<rparr>) = addr_sig a" "addr_sig (a\<lparr>a_family := fam\<rparr>) = addr_sig a"
  "addr_sig (a\<lparr>a_protocol := pr\<rparr>) = addr_sig a" "addr_sig (a\<lparr>a_verdict := v\<rparr>) = addr_sig a"
  "addr_sig (a\<lparr>a_logprefix := x\<rparr>) = addr_sig a"
  by (simp_all add: addr_sig_def)

lemma sig_iface_info [sig_simps]: "addr_sig (address_set_iface_info env a) = addr_sig a"
  by (simp add: address_set_iface_info_def Let_def sig_simps split: option.split)

lemma refs_oface_info [kept]: "all_links s \<Longrightarrow> all_links (farm_s_set_oface_info aid s)"
  by (auto simp: farm_s_set_oface_info_def links_defs elim!: links_ok_mono split: option.split)

lemma refs_address_netinfo [kept]: "all_links s \<Longrightarrow> all_links (address_set_netinfo env aid s)"
  by (auto simp: address_set_netinfo_def sig_simps intro!: kept)

lemma sig_set_ports:
  assumes "address_set_ports a t = Some b"
  shows "addr_sig b = addr_sig a"
proof -
  have "addr_sig b = addr_sig a" if "address_get_array_ports a = Some b" for a
    using array_ports_loop_frame [OF that [unfolded address_get_array_ports_def], of addr_sig] by (simp add: addr_sig_def)
  from this [OF assms [unfolded address_set_ports_def Let_def]] show ?thesis by (simp add: addr_sig_def)
qed

lemma cur_address_get: "cur_address_obj s = Some a \<Longrightarrow> get_address (a_id a) s = Some a"
  by (auto simp: cur_address_obj_def bind_eq_Some_conv get_address_def dest: kfind_Some)

lemma cur_farm_get: "cur_farm_obj s = Some f \<Longrightarrow> get_farm (f_id f) s = Some f"
  by (auto simp: cur_farm_obj_def bind_eq_Some_conv get_farm_def dest: kfind_Some)

lemma refs_address_attribute [kept]:
  assumes "all_links s"
  shows "pred_option (\<lambda>r. all_links (snd r)) (address_set_attribute env c s)"
proof -
  have ports: "all_links (upd_address (a_id a) (\<lambda>_. b) s)" if "address_set_ports a t = Some b" "cur_address_obj s = Some a" for a b t
    using that assms cur_address_get sig_set_ports by (auto intro!: kept)
  show ?thesis
    using assms ports
    by (auto simp: address_set_attribute_def address_set_protocol_def address_set_verdict_def Let_def case_prod_unfold
        map_option_case sig_simps dest!: cur_address_get intro!: kept split: option.split)
qed

section \<open>Farms\<close>

lemma refs_default_address [kept]:
  assumes "all_links s"
  shows "pred_option all_links (farmaddress_create_default s)"
proof (cases "cur_farm_obj s")
  case None
  with assms show ?thesis by (simp add: farmaddress_create_default_def)
next
  case (Some f)
  have link: "all_links (snd (farmaddress_create (f_id f) (fst (address_create t s))
      ((snd (address_create t s))\<lparr>cur_address := Some (fst (address_create t s))\<rparr>)))" for t
    using assms created_objects(1) [of t s] cur_farm_get [OF Some]
    by (intro refs_link [where f = f]) (simp_all add: kept created_objects)
  with assms Some show ?thesis
    by (auto simp: farmaddress_create_default_def case_prod_unfold Let_def split: option.split)
qed

lemma refs_rename_default [kept]: "all_links s \<Longrightarrow> pred_option all_links (farmaddress_rename_default c s)"
  by (auto simp: farmaddress_rename_default_def map_option_case sig_simps intro!: kept split: option.split)

lemma lookup_get_address: "address_lookup_by_name t s = Some a \<Longrightarrow> all_links s \<Longrightarrow> get_address (a_id a) s = Some a"
  using kfind_distinct [of a_id "addresses s" a]
  by (auto simp: address_lookup_by_name_def find_Some_iff get_address_def links_ok_def addr_refs_def)

lemma refs_farmaddress_attribute [kept]:
  assumes "all_links s"
  shows "pred_option (\<lambda>r. all_links (snd r)) (farmaddress_set_attribute env c s)"
proof (cases "cur_farm_obj s")
  case None
  with assms show ?thesis by (simp add: farmaddress_set_attribute_def)
next
  case (Some f)
  define r where "r = (case address_lookup_by_name (c_str c) s of
    Some a \<Rightarrow> (a_id a, s) | None \<Rightarrow> address_create (c_str c) s)"
  have r: "all_links (snd r)" "get_address (fst r) (snd r) \<noteq> None" "get_farm (f_id f) (snd r) = Some f"
    using assms created_objects(1) [of "c_str c" s] cur_farm_get [OF Some]
    by (auto simp: r_def kept created_objects(2-) dest: lookup_get_address split: option.split)
  have "all_links (snd (farmaddress_create (f_id f) (fst r) ((snd r)\<lparr>cur_address := x\<rparr>)))" for x
    using r by (intro refs_link [where f = f]) (simp_all add: created_objects)
  with assms Some r(1) show ?thesis
    unfolding farmaddress_set_attribute_def r_def [symmetric]
    by (auto simp: case_prod_unfold Let_def intro!: kept split: option.split)
qed

lemma refs_farmaddress_actionable [kept]:
  "all_links s \<Longrightarrow> pred_option (\<lambda>r. all_links (snd r)) (farmaddress_pre_actionable n env s)"
  "all_links s \<Longrightarrow> pred_option all_links (farmaddress_pos_actionable n env s)"
  by (auto simp: farmaddress_pre_actionable_def farmaddress_pos_actionable_def intro!: kept refs_bind split: option.split)

lemma sig_farm_setters [sig_simps]:
  "links (farm_set_mark env v f) = links f" "links (farm_set_sched sc f) = links f"
  "links (farm_set_persistence v f) = links f" "links (farm_set_limitsttl i f) = links f"
  "links (rld_flag off stop start f) = links f" "links (farm_set_newrtlimit i u f) = links f"
  "links (farm_set_rstrtlimit i u f) = links f" "links (farm_set_estconnlimit i f) = links f"
  "links (farm_set_tcpstrict sw f) = links f" "links (farm_set_queue i f) = links f"
  "links (farm_set_priority i f) = links f"
  unfolding farm_set_mark_def farm_set_sched_def farm_set_persistence_def farm_set_limitsttl_def rld_flag_def
    farm_set_newrtlimit_def farm_set_rstrtlimit_def farm_set_estconnlimit_def farm_set_tcpstrict_def farm_set_queue_def
    farm_set_priority_def
  by (simp_all add: sig_simps) (simp_all add: links_defs)

lemma sig_farm_string: "farm_set_string c = Some g \<Longrightarrow> links (g f) = links f"
  by (auto simp: farm_set_string_def Let_def links_defs split: if_splits)

lemma sig_farm_int: "farm_set_int env c = Some g \<Longrightarrow> links (g f) = links f"
  by (auto simp: farm_set_int_def Let_def sig_simps split: if_splits) (simp_all add: links_defs)

lemma refs_farm_setters [kept]:
  "all_links s \<Longrightarrow> pred_option all_links (farm_set_mode n env fid m s)"
  "all_links s \<Longrightarrow> all_links (snd (farm_set_verdict fid v s))"
  "all_links s \<Longrightarrow> all_links (snd (farm_set_helper fid h s))"
  by (auto simp: farm_set_mode_def farm_set_verdict_def farm_set_helper_def links_defs intro!: kept refs_bind split: option.split)

lemma get_address_id: "get_address aid s = Some a \<Longrightarrow> a_id a = aid"
  by (auto simp: get_address_def dest: kfind_Some)

lemma refs_farm_address_attribute [kept]:
  assumes "all_links s"
  shows "pred_option (\<lambda>r. all_links (snd r)) (farm_set_address_attribute env c fid s)"
  unfolding farm_set_address_attribute_def
  using assms
  by (auto simp: address_set_protocol_def Let_def map_option_case bind_eq_Some_conv sig_simps get_address_id
      intro!: kept refs_bind split: option.split) (rule sig_set_ports)

lemma refs_farm_special [kept]:
  "all_links s \<Longrightarrow> pred_option (\<lambda>r. all_links (snd r)) (farm_set_special n env c f s)"
  unfolding farm_set_special_def Let_def case_prod_unfold
  by (auto simp: sig_simps intro!: kept refs_bind split: option.split) (auto simp: links_defs)

lemma refs_farm_attribute [kept]:
  "all_links s \<Longrightarrow> pred_option (\<lambda>r. all_links (snd r)) (farm_set_attribute n env c s)"
  unfolding farm_set_attribute_def Let_def case_prod_unfold
  by (auto dest: sig_farm_string sig_farm_int intro!: kept split: option.split)

lemma refs_farm_actionable [kept]:
  "recovery_ok env \<Longrightarrow> refs_w w \<Longrightarrow> pred_option refs_w (farm_pre_actionable n env c w)"
  "all_links s \<Longrightarrow> pred_option all_links (farm_pos_actionable n e c s)"
  by (auto simp: farm_pre_actionable_def farm_pos_actionable_def case_prod_unfold intro!: kept refs_bind split: option.split)

section \<open>Backends, sessions, policies\<close>

lemma refs_backend_setters [kept]:
  "all_links s \<Longrightarrow> pred_option all_links (backend_set_priority n env fid bid i s)"
  "all_links s \<Longrightarrow> pred_option all_links (backend_set_ipaddr n env fid bid t s)"
  by (auto simp: backend_set_priority_def backend_set_ipaddr_def Let_def case_prod_unfold sig_simps
      dest!: farm_bck_farm intro!: kept refs_bind split: option.split)

lemma sig_backend_plain: "backend_set_plain c bid = Some g \<Longrightarrow> links (g f) = links f"
  by (auto simp: backend_set_plain_def Let_def sig_simps split: if_splits option.split)

lemma refs_backend_attribute [kept]:
  assumes "recovery_ok env" "refs_w w"
  shows "pred_option (\<lambda>r. refs_w (snd r)) (backend_set_attribute n env c w)"
  using assms unfolding backend_set_attribute_def Let_def case_prod_unfold
  by (auto simp: sig_simps dest: sig_backend_plain intro!: kept refs_bind split: option.split)

lemma refs_reload_farm [kept]:
  "recovery_ok env \<Longrightarrow> refs_w w \<Longrightarrow> pred_option refs_w (reload_farm n env fid w)"
  by (auto simp: reload_farm_def intro!: kept refs_bind)

lemma refs_bck_actionable [kept]:
  assumes "recovery_ok env" "refs_w w"
  shows "pred_option (\<lambda>r. refs_w (snd r)) (bck_pre_actionable n env c w)" "pred_option refs_w (bck_pos_actionable n env a w)"
  using assms unfolding bck_pre_actionable_def bck_pos_actionable_def Let_def case_prod_unfold
  by (auto intro!: kept refs_bind split: option.split)

lemma cur_session_farm: "cur_session_obj s = Some (f, se) \<Longrightarrow> get_farm (f_id f) s = Some f"
  by (auto simp: cur_session_obj_def bind_eq_Some_conv dest: cur_farm_get)

lemma sig_session_act:
  "links (snd (session_set_action ty a se (upd_sessions ty2 g i f))) = links f"
  by (simp add: sig_simps)

lemma refs_session_act [kept]:
  "all_links s \<Longrightarrow> get_farm (f_id f) s = Some g \<Longrightarrow> links f = links g \<Longrightarrow> all_links (snd (session_act a f se s))"
  by (auto simp: session_act_def case_prod_unfold Let_def sig_simps intro!: kept)

lemma f_id_upd_sessions [simp]: "f_id (upd_sessions ty g i f) = f_id f"
  by (simp add: upd_sessions_def split: session_type.split)

lemma refs_session_attribute [kept]:
  assumes "all_links s"
  shows "pred_option (\<lambda>r. all_links (snd r)) (session_set_attribute n env c s)"
proof -
  have new: "all_links ((upd_farm (f_id f) (\<lambda>_. g) s)\<lparr>next_oid := Suc (next_oid s)\<rparr>)"
    if "cur_farm_obj s = Some f" "session_create env i ty cl b e f = Some g" for f g i ty cl b e
  proof -
    have "all_links (upd_farm (f_id f) (\<lambda>_. g) s)"
      using that assms cur_farm_get sig_sessions(6) by (fastforce intro!: kept)
    then show ?thesis by (rule links_ok_mono) simp_all
  qed
  show ?thesis
    using assms unfolding session_set_attribute_def Let_def case_prod_unfold
    by (auto simp: sig_simps dest: cur_session_farm intro!: new kept refs_bind split: option.split)
qed

lemma refs_session_actionable [kept]:
  assumes "recovery_ok env" "refs_w w"
  shows "pred_option refs_w (session_actionable n env a c w)"
  using assms unfolding session_actionable_def Let_def case_prod_unfold
  by (auto dest: cur_session_farm intro!: kept refs_bind split: option.split)

lemma refs_farmpolicy_attribute [kept]:
  assumes "all_links s"
  shows "all_links (snd (farmpolicy_set_attribute c s))"
proof -
  have "all_links (snd (farmpolicy_create (f_id f) (p_id p) s))"
    if cur: "cur_farm_obj s = Some f" and pol: "policy_lookup_by_name t s = Some p" and no: "farmpolicy_lookup_by_name f t s = None" for f p t
  proof (rule links_ok_fp_create [OF assms cur_farm_get [OF cur]])
    show p: "get_policy (p_id p) s = Some p" using links_ok_lookup(1) [OF assms pol] by simp
    show "p_id p \<notin> fp_policy ` set (f_policies f)"
      using no p links_ok_lookup(1) [OF assms pol] by (force simp: farmpolicy_lookup_by_name_def find_None_iff)
  qed simp
  with assms show ?thesis
    by (auto simp: farmpolicy_set_attribute_def case_prod_unfold Let_def split: option.split)
qed

lemma refs_addresspolicy_attribute [kept]: "all_links s \<Longrightarrow> all_links (snd (addresspolicy_set_attribute c s))"
  by (auto simp: addresspolicy_set_attribute_def case_prod_unfold Let_def intro!: kept split: option.split)

lemma refs_policy_pos [kept]:
  "all_links s \<Longrightarrow> all_links (addresspolicy_pos_actionable s)"
  "all_links s \<Longrightarrow> pred_option all_links (farmpolicy_pos_actionable n e s)"
  by (auto simp: addresspolicy_pos_actionable_def farmpolicy_pos_actionable_def intro!: kept refs_bind split: option.split)

lemma refs_policy_actionable [kept]:
  "recovery_ok env \<Longrightarrow> refs_w w \<Longrightarrow> pred_option refs_w (farmpolicy_pre_actionable n env w)"
  "recovery_ok env \<Longrightarrow> refs_w w \<Longrightarrow> refs_w (addresspolicy_pre_actionable env w)"
  by (auto simp: farmpolicy_pre_actionable_def addresspolicy_pre_actionable_def intro!: kept refs_bind split: option.split)

lemma sig_policy_setters [sig_simps]:
  "pol_sig (policy_set_type ty p) = pol_sig p" "pol_sig (policy_set_family fam p) = pol_sig p"
  by (simp_all add: policy_set_type_def policy_set_family_def sig_simps)

lemma refs_policy_attribute [kept]:
  assumes "all_links s"
  shows "pred_option (\<lambda>r. all_links (snd r)) (policy_set_attribute n env c s)"
  using assms links_ok_policy_create [OF assms]
  unfolding policy_set_attribute_def Let_def case_prod_unfold
  by (auto simp: sig_simps intro!: kept refs_bind split: option.split)

lemma refs_policy_handlers [kept]:
  assumes "all_links s"
  shows "pred_option all_links (policy_pre_actionable n env c s)" "pred_option all_links (policy_pos_actionable n env c s)"
    "pred_option (\<lambda>r. all_links (snd r)) (element_set_attribute n env c s)"
    "pred_option all_links (element_pos_actionable n env c act s)"
  using assms
  unfolding policy_pre_actionable_def policy_pos_actionable_def element_set_attribute_def
    element_pos_actionable_def Let_def case_prod_unfold
  by (auto simp: sig_simps intro!: kept refs_bind split: option.split)

section \<open>Values and documents\<close>

lemma refs_around:
  assumes "refs_w w" "\<And>w. refs_w w \<Longrightarrow> pred_option refs_w (pre w)" "\<And>w. refs_w w \<Longrightarrow> pred_option (\<lambda>r. refs_w (snd r)) (at w)"
    "\<And>w. refs_w w \<Longrightarrow> pred_option refs_w (post w)"
  shows "pred_option (\<lambda>r. refs_w (snd r)) (around actionable pre at post w)"
  using assms by (auto simp: around_def case_prod_unfold intro!: refs_bind)

lemma refs_ask [kept]:
  "recovery_ok env \<Longrightarrow> refs_w w \<Longrightarrow> pred_option (\<lambda>r. refs_w (snd r)) (ask_farm_attribute n env c b w)"
  "recovery_ok env \<Longrightarrow> refs_w w \<Longrightarrow> pred_option (\<lambda>r. refs_w (snd r)) (ask_backend_attribute n env c b w)"
  by (auto simp: ask_farm_attribute_def ask_backend_attribute_def Let_def case_prod_unfold intro!: kept refs_bind)

lemma refs_set_attribute [kept]:
  assumes "recovery_ok env" "refs_w w"
  shows "pred_option (\<lambda>r. refs_w (snd r)) (obj_set_attribute n env c b act w)"
  using assms unfolding obj_set_attribute_def Let_def case_prod_unfold session_pre_actionable_def session_pos_actionable_def
  by (auto intro!: kept refs_bind refs_around split: option.split level.split)

lemma refs_json_string [kept]:
  "recovery_ok env \<Longrightarrow> refs_w (snd cw) \<Longrightarrow> pred_option (\<lambda>r. refs_w (snd (snd r))) (config_json_string n env src act t cw)"
  by (auto simp: config_json_string_def Let_def case_prod_unfold intro!: kept refs_bind)

lemma refs_json:
  assumes "recovery_ok env"
  shows "refs_w (snd cw) \<Longrightarrow> pred_option (\<lambda>r. refs_w (snd (snd r))) (config_json n env src act level key j cw)"
    and "refs_w (snd cw) \<Longrightarrow> pred_option (\<lambda>r. refs_w (snd (snd r))) (json_members n env src act level ret kvs cw)"
    and "refs_w (snd cw) \<Longrightarrow> pred_option (\<lambda>r. refs_w (snd (snd r))) (json_items n env src act level ret js cw)"
  using assms
proof (induction n env src act level key j cw and n env src act level ret kvs cw and n env src act level ret js cw
      rule: config_json_json_members_json_items.induct)
  case (6 n env source act level ret name v kvs c w)
  show ?case
  proof (cases "config_key name")
    case (Some k)
    note IH = "6.IH" [OF Some refl]
    show ?thesis
    proof (cases "jump_config_value level k")
      case True
      with IH(1) Some "6.prems" show ?thesis by (simp add: Let_def)
    next
      case False
      note here = IH(2) [OF False]
      show ?thesis
      proof (cases "config_json n env source act level (Some k) v (c\<lparr>c_level := Some level, c_key := Some k\<rparr>, w)")
        case (Some r)
        with here "6.prems" have "refs_w (snd (snd r))" by simp
        with Some IH(3) [OF False Some, of "fst r" "snd r"] \<open>config_key name = Some k\<close> False "6.prems" show ?thesis
          by (auto simp: Let_def split: prod.split)
      qed (simp add: False Let_def \<open>config_key name = Some k\<close>)
    qed
  qed (use "6.prems" in simp)
next
  case (8 n env source act level ret j js cw)
  show ?case
  proof (cases "config_json n env source act level None j cw")
    case (Some r)
    then show ?thesis
      using "8.IH"(1) "8.IH"(2) [OF _ Some, of "fst r" "snd r"] "8.prems" by (auto split: prod.split)
  qed (use "8.prems" in simp)
qed (simp_all add: refs_json_string)

lemma refs_config [kept]:
  "recovery_ok env \<Longrightarrow> refs_w (snd cw) \<Longrightarrow> pred_option (\<lambda>r. refs_w (snd (snd r))) (config_buffer n env js buf act cw)"
  "recovery_ok env \<Longrightarrow> refs_w (snd cw) \<Longrightarrow> pred_option (\<lambda>r. refs_w (snd (snd r))) (config_file n env js file cw)"
  by (auto simp: config_buffer_def config_file_def intro!: refs_json split: option.split)

section \<open>Actions by name\<close>

lemma refs_reply [simp]:
  "pred_option (\<lambda>r. refs_w (snd r)) (reply p w) = refs_w w" "pred_option (\<lambda>r. refs_w (snd r)) (complain msg p w) = refs_w w"
  "pred_option (\<lambda>r. refs_w (snd r)) (done_ok m) = pred_option refs_w m"
  by (simp_all add: reply_def complain_def done_ok_def option.pred_map comp_def)

lemma refs_with [kept]:
  "refs_w w \<Longrightarrow> (\<And>f. pred_option (\<lambda>r. refs_w (snd r)) (g f w)) \<Longrightarrow> pred_option (\<lambda>r. refs_w (snd r)) (with_farm name g w)"
  "refs_w w \<Longrightarrow> (\<And>p. pred_option (\<lambda>r. refs_w (snd r)) (h p w)) \<Longrightarrow> pred_option (\<lambda>r. refs_w (snd r)) (with_policy name h w)"
  by (auto simp: with_farm_def with_policy_def split: option.split)

lemma refs_drop_timed [kept]: "refs_w w \<Longrightarrow> refs_w (drop_timed fid w)"
  by (auto simp: drop_timed_def sig_simps intro!: kept)

lemma refs_session_acts [kept]:
  "refs_w w \<Longrightarrow> refs_w (snd (session_id_act ty fid sid a w))" "refs_w w \<Longrightarrow> refs_w (snd (sessions_act fid a w))"
  by (auto simp: session_id_act_def sessions_act_def case_prod_unfold Let_def sig_simps bind_eq_Some_conv intro!: kept split: option.split)

lemma refs_farm_names [kept]:
  "refs_w w \<Longrightarrow> pred_option (\<lambda>r. refs_w (snd r)) (config_set_farm_action n e name t w)"
  "refs_w w \<Longrightarrow> pred_option (\<lambda>r. refs_w (snd r)) (config_check_farm name w)"
  "refs_w w \<Longrightarrow> pred_option (\<lambda>r. refs_w (snd r)) (config_check_policy name w)"
  "refs_w w \<Longrightarrow> pred_option (\<lambda>r. refs_w (snd r)) (config_set_fpolicy_action name name2 t w)"
  "refs_w w \<Longrightarrow> pred_option (\<lambda>r. refs_w (snd r)) (config_set_farmaddress_action name name2 t w)"
  "refs_w w \<Longrightarrow> pred_option (\<lambda>r. refs_w (snd r)) (config_set_policy_action n e name t w)"
  "refs_w w \<Longrightarrow> pred_option (\<lambda>r. refs_w (snd r)) (config_set_element_action n e name name2 t w)"
  "refs_w w \<Longrightarrow> pred_option (\<lambda>r. refs_w (snd r)) (config_set_address_action name t w)"
  by (auto simp: config_set_farm_action_def config_check_farm_def config_check_policy_def config_set_fpolicy_action_def
      config_set_farmaddress_action_def config_set_policy_action_def config_set_element_action_def
      config_set_address_action_def intro!: kept refs_bind split: option.split)

lemma refs_element_names [kept]:
  "refs_w w \<Longrightarrow> pred_option (\<lambda>r. refs_w (snd r)) (config_get_elements e name w)"
  "refs_w w \<Longrightarrow> pred_option (\<lambda>r. refs_w (snd r)) (config_delete_elements n e name w)"
  by (auto simp: config_get_elements_def config_delete_elements_def intro!: kept refs_bind)

lemma refs_backend_names [kept]:
  assumes "recovery_ok env" "refs_w w"
  shows "pred_option (\<lambda>r. refs_w (snd r)) (config_set_session_backend_action n env name name2 t w)"
    "pred_option (\<lambda>r. refs_w (snd r)) (config_set_backend_action n env name name2 t w)"
  using assms unfolding config_set_session_backend_action_def config_set_backend_action_def Let_def session_backend_act_def
  by (auto simp: comp_def intro!: kept refs_bind split: option.split)

lemma refs_apply_sessions [kept]:
  "recovery_ok env \<Longrightarrow> refs_w (snd rw) \<Longrightarrow> pred_option refs_w (apply_sessions n env name rw)"
  by (auto simp: apply_sessions_def case_prod_unfold intro!: kept refs_bind)

lemma refs_session_names [kept]:
  "recovery_ok env \<Longrightarrow> refs_w w \<Longrightarrow> pred_option (\<lambda>r. refs_w (snd r)) (config_set_session_action n env name name2 t w)"
  unfolding config_set_session_action_def Let_def
  by (auto intro!: kept refs_bind split: option.split)

section \<open>Requests\<close>

lemma refs_print_doc [kept]: "refs_w w \<Longrightarrow> pred_option (\<lambda>r. refs_w (snd (snd r))) (print_doc js i doc w)"
  by (auto simp: print_doc_def split: option.split)

text \<open>Documents are made on the way; they hold no state.\<close>

lemma pred_bind_value:
  fixes m :: "'m option"
  shows "(\<And>x. pred_option Q (f x)) \<Longrightarrow> pred_option Q (Option.bind m f)"
  by (cases m) simp_all

lemmas bind_document = pred_bind_value [where 'm = json] pred_bind_value [where 'm = "json list"]
  pred_bind_value [where 'm = "(string \<times> json) list"]

lemma refs_dump_policy [kept]:
  "all_links (snd r) \<Longrightarrow> pred_option (\<lambda>r. all_links (snd r)) (dump_policy n e js name pid r)"
  by (auto simp: dump_policy_def add_dump_elements_def case_prod_unfold
      intro!: bind_document kept refs_bind split: option.split)

lemma refs_get_document [kept]:
  assumes "refs_w w"
  shows "pred_option (\<lambda>r. refs_w (snd (snd r))) (get_document n env js levels w)"
proof -
  have pol: "pred_option (\<lambda>r. all_links (snd r)) (dump_policies n e js name (w_objs w))" for e name
    using assms by (auto simp: dump_policies_def case_prod_unfold intro!: kept refs_bind)
  have ses: "pred_option (\<lambda>r. all_links (snd r)) (dump_sessions e js fid (w_objs w))" for e fid
    using assms unfolding dump_sessions_def Let_def by (auto simp: sig_simps intro!: bind_document kept)
  show ?thesis
    using assms pol ses
    by (auto simp: get_document_def Let_def config_print_farms_def config_print_farm_sessions_def config_print_policies_def
        config_print_addresses_def case_prod_unfold intro!: bind_document kept refs_bind split: option.split)
qed

lemma refs_respond [kept]:
  "refs_w (snd cw) \<Longrightarrow> pred_option (\<lambda>r. refs_w (snd (snd (snd r)))) (respond ret t cw)"
  by (simp add: respond_def Let_def)

lemma refs_get [kept]:
  "refs_w (snd cw) \<Longrightarrow> pred_option (\<lambda>r. refs_w (snd (snd (snd r)))) (send_get_response n env js st cw)"
  by (auto simp: send_get_response_def Let_def case_prod_unfold intro!: kept refs_bind split: dumped.split)

lemma refs_load_config [kept]:
  "recovery_ok env \<Longrightarrow> refs_w (snd cw) \<Longrightarrow> pred_option (\<lambda>r. refs_w (snd (snd (snd r)))) (server_load_config n env js b t act cw)"
  by (auto simp: server_load_config_def case_prod_unfold intro!: kept refs_bind)

lemma refs_quietly [kept]: "pred_option (\<lambda>r. refs_w (snd r)) (g w) \<Longrightarrow> pred_option refs_w (quietly g w)"
  by (auto simp: quietly_def intro!: refs_bind)

lemma refs_simple_delete [kept]:
  "pred_option (\<lambda>r. refs_w (snd r)) (g w) \<Longrightarrow> pred_option (\<lambda>r. refs_w (snd (snd r))) (simple_delete g t w)"
  by (auto simp: simple_delete_def case_prod_unfold intro!: refs_bind)

lemma refs_delete_branches [kept]:
  assumes "recovery_ok env" "refs_w w"
  shows "pred_option (\<lambda>r. refs_w (snd (snd r))) (delete_farmaddress n env t1 t2 w)"
    "pred_option (\<lambda>r. refs_w (snd (snd r))) (delete_fpolicy n env t1 t2 w)"
    "pred_option (\<lambda>r. refs_w (snd (snd r))) (delete_farm n env t1 w)"
    "pred_option (\<lambda>r. refs_w (snd (snd r))) (delete_policy n env t1 w)"
    "pred_option (\<lambda>r. refs_w (snd (snd r))) (delete_address n env t1 w)"
  using assms
  unfolding delete_farmaddress_def delete_fpolicy_def delete_farm_def delete_policy_def delete_address_def case_prod_unfold
  by (auto intro!: kept refs_bind)

lemma refs_delete_elements [kept]:
  "recovery_ok env \<Longrightarrow> refs_w w \<Longrightarrow> pred_option (\<lambda>r. refs_w (snd (snd r))) (delete_elements n env t1 t2 w)"
  unfolding delete_elements_def Let_def case_prod_unfold by (auto intro!: kept refs_bind)

lemma refs_delete_named [kept]:
  "recovery_ok env \<Longrightarrow> refs_w w \<Longrightarrow> pred_option (\<lambda>r. refs_w (snd (snd r))) (delete_named n env levels w)"
  unfolding delete_named_def Let_def by (auto intro!: kept)

lemma refs_requests [kept]:
  assumes "recovery_ok env" "refs_w (snd cw)"
  shows "pred_option (\<lambda>r. refs_w (snd (snd (snd r)))) (send_delete_response n env js st cw)"
    "pred_option (\<lambda>r. refs_w (snd (snd (snd r)))) (send_post_response n env js st cw)"
    "pred_option (\<lambda>r. refs_w (snd (snd (snd r)))) (send_patch_response n env js st cw)"
  using assms
  unfolding send_delete_response_def send_post_response_def send_patch_response_def patch_farm_policies_def
    patch_policy_def Let_def case_prod_unfold
  by (auto intro!: kept refs_bind)

lemma refs_read_cb [kept]:
  "recovery_ok env \<Longrightarrow> refs_w (snd cw) \<Longrightarrow> pred_option (\<lambda>r. refs_w (snd (snd r))) (nftlb_read_cb n env js key socket cw)"
  by (auto simp: nftlb_read_cb_def send_response_def Let_def case_prod_unfold
      intro!: kept refs_bind split: ws_methods.split sum.split)

section \<open>The daemon\<close>

text \<open>
  The surroundings with the recovery of the program in them. Like every function of the life cycle it has
  fuel; a recovery that runs out of it is taken to do nothing.
\<close>

definition with_recovery :: "nat \<Rightarrow> nftenv \<Rightarrow> nftenv" where
  "with_recovery n env = env\<lparr>recovery := \<lambda>w. case obj_recovery n env w of None \<Rightarrow> w | Some w1 \<Rightarrow> w1\<rparr>"

lemma recovery_ok_with: "recovery_ok (with_recovery n env)"
proof -
  have "refs_w w \<Longrightarrow> pred_option refs_w (obj_recovery n env w)" for w by (rule kept)
  then show ?thesis
    unfolding recovery_ok_def with_recovery_def by (fastforce split: option.split dest: option.pred_inject(2) [THEN iffD1])
qed

lemma refs_check_tables: "refs_w w \<Longrightarrow> refs_w (snd (nft_check_tables env w))"
  by (simp add: nft_check_tables_def only_if_def upd_base_def Let_def)

lemma refs_main_process:
  "recovery_ok env \<Longrightarrow> pred_option (\<lambda>r. refs_w (snd (snd r))) (main_process n env js config w)"
  using refs_check_tables [of "w\<lparr>w_objs := objects_init\<rparr>" env] refs_init
  by (auto simp: main_process_def Let_def case_prod_unfold intro!: kept refs_bind split: option.split)

lemma refs_deliver:
  assumes "\<And>m d. P d \<Longrightarrow> P (snd (cb m d))" "P d"
  shows "P (snd (deliver cb ms d))"
  using assms(2) by (induction ms arbitrary: d) (auto simp: Let_def case_prod_unfold assms(1))

lemma refs_recv_loop:
  assumes "\<And>buf d. P d \<Longrightarrow> P (snd (run buf d))" "P d"
  shows "pred_option (\<lambda>r. P (snd r)) (recv_loop run replies out d)"
  using assms(2)
proof (induction replies arbitrary: out d)
  case (Cons r replies)
  then show ?case using assms(1) [OF Cons.prems, of "snd r"] by (cases r) (simp add: Let_def case_prod_unfold)
qed simp

lemma refs_neighbours:
  assumes run: "\<And>cb buf d. run cb buf d = deliver cb (messages buf) d" and "recovery_ok env" "refs_w w"
  shows "pred_option refs_w (ntlk_cb lib run n env replies w)"
proof -
  have ev: "pred_option refs_w d \<Longrightarrow> pred_option refs_w (snd (data_getev_cb lib n env m d))" for m d
    using assms(2) by (auto simp: data_getev_cb_def Let_def intro!: kept refs_bind split: option.split)
  have "pred_option refs_w d \<Longrightarrow> pred_option refs_w (snd (run (data_getev_cb lib n env) buf d))" for buf d
    unfolding run by (rule refs_deliver [of "pred_option refs_w"]) (simp_all add: ev)
  then have "pred_option (\<lambda>r. pred_option refs_w (snd r)) (recv_loop (run (data_getev_cb lib n env)) replies 0 (Some w))"
    using assms(3) by (intro refs_recv_loop) simp_all
  then show ?thesis by (auto simp: ntlk_cb_def intro: pred_bind)
qed

lemma refs_step:
  assumes step: "daemon_step n env js lib run key s t" and run: "\<And>cb buf d. run cb buf d = deliver cb (messages buf) d"
    and "recovery_ok env" "refs_w (snd (d_state s))"
  shows "refs_w (snd (d_state t))"
  using step
proof (rule daemon_stepE)
  fix cli ev_error socket sent
  assume cb: "client_read_cb n env js key ev_error socket cli s = Some (sent, t)"
  have "pred_option (\<lambda>r. refs_w (snd (snd r))) (nftlb_read_cb n env js key pieces (d_state s))" for pieces
    using assms(3,4) by (rule kept)
  then have "refs_w w" if "nftlb_read_cb n env js key pieces (d_state s) = Some (sent, c, w)" for pieces sent c w
    using that by (metis option.pred_inject(2) snd_conv)
  then show ?thesis
    using cb assms(4)
    by (auto simp: client_read_cb_def nftlb_client_release_def bind_eq_Some_conv split: if_splits option.splits)
next
  fix cli assume "nftlb_timer_cb cli (s\<lparr>d_timers := d_timers s - {cli}\<rparr>) = Some t"
  then show ?thesis using assms(4) by (auto simp: nftlb_timer_cb_def nftlb_client_release_def split: option.splits)
next
  fix replies w assume "t = s\<lparr>d_state := (fst (d_state s), w)\<rparr>" "ntlk_cb lib run n env replies (snd (d_state s)) = Some w"
  with refs_neighbours [where run = run and messages = messages, OF run assms(3,4), where lib = lib and n = n and replies = replies] show ?thesis by simp
qed (use assms(4) in \<open>auto simp: accept_cb_def Let_def split: option.split\<close>)



definition start_jansson :: jansson where
  "start_jansson = no_jansson\<lparr>json_load := \<lambda>_. Some (JObject
     [(''policies'', JArray [JObject [(''name'', JString ''bl''), (''type'', JString ''deny'')]]),
      (''farms'', JArray [JObject [(''name'', JString ''lb''), (''mode'', JString ''dsr''), (''virtual-addr'', JString ''10.0.0.1''),
         (''policies'', JArray [JObject [(''name'', JString ''bl'')]])]])])\<rparr>"

definition failing_env :: nftenv where
  "failing_env = idle_env\<lparr>nft_run_cmd := \<lambda>_ _. True\<rparr>"

lemma configured_start:
  "case main_process 5 (with_recovery 5 failing_env) start_jansson (Some (Some [])) no_services of
     None \<Rightarrow> False | Some (going, c, w) \<Rightarrow> going \<and> map (\<lambda>f. (length (f_addresses f), length (f_policies f))) (farms (w_objs w)) = [(1, 1)]"
  by code_simp


end
