(* ===== verification/ListHead.thy ===== *)
theory ListHead
  imports Prelude
begin

text \<open>
  The intrusive lists every object of nftlb is kept in (list.h). Elsewhere in the development a list of
  objects is an Isabelle list; here it is what the code has, a ring of nodes with a \<open>next\<close> and a
  \<open>prev\<close> pointer in memory. \<open>is_list\<close> is the abstraction between the two, every operation is shown to
  implement its counterpart on lists and to leave the other lists alone, and the loops are shown to be
  folds, also when the body deletes the entry it visits (\<open>list_for_each_entry_safe\<close>). The hash lists
  \<open>hlist_*\<close> of the same file are in theory HashList.
\<close>

section \<open>Memory\<close>

type_synonym ptr = "64 word"

record list_head =
  nxt :: "ptr \<Rightarrow> ptr"
  prv :: "ptr \<Rightarrow> ptr"

definition LIST_POISON1 :: ptr where "LIST_POISON1 = 0x12345678"
definition LIST_POISON2 :: ptr where "LIST_POISON2 = 0x87654321"

definition set_next :: "ptr \<Rightarrow> ptr \<Rightarrow> list_head \<Rightarrow> list_head" where
  "set_next p q h = h\<lparr>nxt := (nxt h)(p := q)\<rparr>"

definition set_prev :: "ptr \<Rightarrow> ptr \<Rightarrow> list_head \<Rightarrow> list_head" where
  "set_prev p q h = h\<lparr>prv := (prv h)(p := q)\<rparr>"

text \<open>\<open>container_of\<close>: the node is at an offset inside its entry.\<close>

definition list_entry :: "ptr \<Rightarrow> ptr \<Rightarrow> ptr" where
  "list_entry p offset = p - offset"

section \<open>Operations\<close>

definition init_list_head :: "ptr \<Rightarrow> list_head \<Rightarrow> list_head" where
  "init_list_head l h = set_prev l l (set_next l l h)"

definition list_add_between :: "ptr \<Rightarrow> ptr \<Rightarrow> ptr \<Rightarrow> list_head \<Rightarrow> list_head" where
  "list_add_between new prev next h =
     set_next prev new (set_prev new prev (set_next new next (set_prev next new h)))"

definition list_add :: "ptr \<Rightarrow> ptr \<Rightarrow> list_head \<Rightarrow> list_head" where
  "list_add new head h = list_add_between new head (nxt h head) h"

definition list_add_tail :: "ptr \<Rightarrow> ptr \<Rightarrow> list_head \<Rightarrow> list_head" where
  "list_add_tail new head h = list_add_between new (prv h head) head h"

definition list_unlink :: "ptr \<Rightarrow> ptr \<Rightarrow> list_head \<Rightarrow> list_head" where
  "list_unlink prev next h = set_next prev next (set_prev next prev h)"

definition list_del :: "ptr \<Rightarrow> list_head \<Rightarrow> list_head" where
  "list_del entry h =
     set_prev entry LIST_POISON2 (set_next entry LIST_POISON1 (list_unlink (prv h entry) (nxt h entry) h))"

definition list_replace :: "ptr \<Rightarrow> ptr \<Rightarrow> list_head \<Rightarrow> list_head" where
  "list_replace old new h =
     (let h1 = set_next new (nxt h old) h;
          h2 = set_prev (nxt h1 new) new h1;
          h3 = set_prev new (prv h2 old) h2
      in set_next (prv h3 new) new h3)"

definition list_replace_init :: "ptr \<Rightarrow> ptr \<Rightarrow> list_head \<Rightarrow> list_head" where
  "list_replace_init old new h = init_list_head old (list_replace old new h)"

definition list_del_init :: "ptr \<Rightarrow> list_head \<Rightarrow> list_head" where
  "list_del_init entry h = init_list_head entry (list_unlink (prv h entry) (nxt h entry) h)"

definition list_move :: "ptr \<Rightarrow> ptr \<Rightarrow> list_head \<Rightarrow> list_head" where
  "list_move l head h = list_add l head (list_unlink (prv h l) (nxt h l) h)"

definition list_move_tail :: "ptr \<Rightarrow> ptr \<Rightarrow> list_head \<Rightarrow> list_head" where
  "list_move_tail l head h = list_add_tail l head (list_unlink (prv h l) (nxt h l) h)"

definition list_is_last :: "ptr \<Rightarrow> ptr \<Rightarrow> list_head \<Rightarrow> bool" where
  "list_is_last l head h = (nxt h l = head)"

definition list_empty :: "ptr \<Rightarrow> list_head \<Rightarrow> bool" where
  "list_empty head h = (nxt h head = head)"

definition list_empty_careful :: "ptr \<Rightarrow> list_head \<Rightarrow> bool" where
  "list_empty_careful head h = (let next = nxt h head in next = head \<and> next = prv h head)"

definition list_is_singular :: "ptr \<Rightarrow> list_head \<Rightarrow> bool" where
  "list_is_singular head h = (\<not> list_empty head h \<and> nxt h head = prv h head)"

definition list_cut_between :: "ptr \<Rightarrow> ptr \<Rightarrow> ptr \<Rightarrow> list_head \<Rightarrow> list_head" where
  "list_cut_between l head entry h =
     (let new_first = nxt h entry;
          h1 = set_next l (nxt h head) h;
          h2 = set_prev (nxt h1 l) l h1;
          h3 = set_prev l entry h2;
          h4 = set_next entry l h3;
          h5 = set_next head new_first h4
      in set_prev new_first head h5)"

definition list_cut_position :: "ptr \<Rightarrow> ptr \<Rightarrow> ptr \<Rightarrow> list_head \<Rightarrow> list_head" where
  "list_cut_position l head entry h =
     (if list_empty head h then h
      else if list_is_singular head h \<and> nxt h head \<noteq> entry \<and> head \<noteq> entry then h
      else if entry = head then init_list_head l h
      else list_cut_between l head entry h)"

definition list_splice_between :: "ptr \<Rightarrow> ptr \<Rightarrow> ptr \<Rightarrow> list_head \<Rightarrow> list_head" where
  "list_splice_between l prev next h =
     (let first = nxt h l; last_node = prv h l;
          h1 = set_prev first prev h;
          h2 = set_next prev first h1;
          h3 = set_next last_node next h2
      in set_prev next last_node h3)"

definition list_splice :: "ptr \<Rightarrow> ptr \<Rightarrow> list_head \<Rightarrow> list_head" where
  "list_splice l head h = (if \<not> list_empty l h then list_splice_between l head (nxt h head) h else h)"

definition list_splice_tail :: "ptr \<Rightarrow> ptr \<Rightarrow> list_head \<Rightarrow> list_head" where
  "list_splice_tail l head h = (if \<not> list_empty l h then list_splice_between l (prv h head) head h else h)"

definition list_splice_init :: "ptr \<Rightarrow> ptr \<Rightarrow> list_head \<Rightarrow> list_head" where
  "list_splice_init l head h =
     (if \<not> list_empty l h then init_list_head l (list_splice_between l head (nxt h head) h) else h)"

definition list_splice_tail_init :: "ptr \<Rightarrow> ptr \<Rightarrow> list_head \<Rightarrow> list_head" where
  "list_splice_tail_init l head h =
     (if \<not> list_empty l h then init_list_head l (list_splice_between l (prv h head) head h) else h)"

section \<open>Loops\<close>

text \<open>
  The body of a loop gets the entry and works on the memory and a state of its own. A loop that leaves
  the ring may never come back to the head: not returning is \<open>None\<close>. \<open>step\<close> is \<open>nxt\<close>, or \<open>prv\<close> for the
  loops that run backwards. The first loop reads the successor after the body, the second before it.
\<close>

partial_function (option) for_each_from ::
  "(list_head \<Rightarrow> ptr \<Rightarrow> ptr) \<Rightarrow> ptr \<Rightarrow> (ptr \<Rightarrow> list_head \<times> 's \<Rightarrow> list_head \<times> 's) \<Rightarrow> ptr \<Rightarrow> ptr \<Rightarrow>
   list_head \<times> 's \<Rightarrow> (list_head \<times> 's) option" where
  "for_each_from step offset body head pos st =
     (if pos + offset = head then Some st
      else let st1 = body pos st
           in for_each_from step offset body head (list_entry (step (fst st1) (pos + offset)) offset) st1)"

partial_function (option) for_each_safe_from ::
  "(list_head \<Rightarrow> ptr \<Rightarrow> ptr) \<Rightarrow> ptr \<Rightarrow> (ptr \<Rightarrow> list_head \<times> 's \<Rightarrow> list_head \<times> 's) \<Rightarrow> ptr \<Rightarrow> ptr \<Rightarrow> ptr \<Rightarrow>
   list_head \<times> 's \<Rightarrow> (list_head \<times> 's) option" where
  "for_each_safe_from step offset body head pos n st =
     (if pos + offset = head then Some st
      else let st1 = body pos st
           in for_each_safe_from step offset body head n (list_entry (step (fst st1) (n + offset)) offset) st1)"

definition list_first_entry :: "ptr \<Rightarrow> ptr \<Rightarrow> list_head \<Rightarrow> ptr" where
  "list_first_entry p offset h = list_entry (nxt h p) offset"

definition list_for_each_entry ::
  "ptr \<Rightarrow> (ptr \<Rightarrow> list_head \<times> 's \<Rightarrow> list_head \<times> 's) \<Rightarrow> ptr \<Rightarrow> list_head \<times> 's \<Rightarrow> (list_head \<times> 's) option" where
  "list_for_each_entry offset body head st =
     for_each_from nxt offset body head (list_entry (nxt (fst st) head) offset) st"

definition list_for_each_entry_reverse ::
  "ptr \<Rightarrow> (ptr \<Rightarrow> list_head \<times> 's \<Rightarrow> list_head \<times> 's) \<Rightarrow> ptr \<Rightarrow> list_head \<times> 's \<Rightarrow> (list_head \<times> 's) option" where
  "list_for_each_entry_reverse offset body head st =
     for_each_from prv offset body head (list_entry (prv (fst st) head) offset) st"

definition list_for_each_entry_continue ::
  "ptr \<Rightarrow> (ptr \<Rightarrow> list_head \<times> 's \<Rightarrow> list_head \<times> 's) \<Rightarrow> ptr \<Rightarrow> ptr \<Rightarrow> list_head \<times> 's \<Rightarrow> (list_head \<times> 's) option" where
  "list_for_each_entry_continue offset body head pos st =
     for_each_from nxt offset body head (list_entry (nxt (fst st) (pos + offset)) offset) st"

definition list_for_each_entry_safe ::
  "ptr \<Rightarrow> (ptr \<Rightarrow> list_head \<times> 's \<Rightarrow> list_head \<times> 's) \<Rightarrow> ptr \<Rightarrow> list_head \<times> 's \<Rightarrow> (list_head \<times> 's) option" where
  "list_for_each_entry_safe offset body head st =
     (let pos = list_entry (nxt (fst st) head) offset
      in for_each_safe_from nxt offset body head pos (list_entry (nxt (fst st) (pos + offset)) offset) st)"

definition list_for_each_entry_safe_reverse ::
  "ptr \<Rightarrow> (ptr \<Rightarrow> list_head \<times> 's \<Rightarrow> list_head \<times> 's) \<Rightarrow> ptr \<Rightarrow> list_head \<times> 's \<Rightarrow> (list_head \<times> 's) option" where
  "list_for_each_entry_safe_reverse offset body head st =
     (let pos = list_entry (prv (fst st) head) offset
      in for_each_safe_from prv offset body head pos (list_entry (prv (fst st) (pos + offset)) offset) st)"

text \<open>The variants that start from a given entry; \<open>list_prepare_entry\<close> gives the head for NULL.\<close>

definition list_prepare_entry :: "ptr \<Rightarrow> ptr \<Rightarrow> ptr \<Rightarrow> ptr" where
  "list_prepare_entry offset pos head = (if pos \<noteq> 0 then pos else list_entry head offset)"

definition list_for_each_entry_continue_reverse ::
  "ptr \<Rightarrow> (ptr \<Rightarrow> list_head \<times> 's \<Rightarrow> list_head \<times> 's) \<Rightarrow> ptr \<Rightarrow> ptr \<Rightarrow> list_head \<times> 's \<Rightarrow> (list_head \<times> 's) option" where
  "list_for_each_entry_continue_reverse offset body head pos st =
     for_each_from prv offset body head (list_entry (prv (fst st) (pos + offset)) offset) st"

definition list_for_each_entry_from ::
  "ptr \<Rightarrow> (ptr \<Rightarrow> list_head \<times> 's \<Rightarrow> list_head \<times> 's) \<Rightarrow> ptr \<Rightarrow> ptr \<Rightarrow> list_head \<times> 's \<Rightarrow> (list_head \<times> 's) option" where
  "list_for_each_entry_from offset body head pos st = for_each_from nxt offset body head pos st"

definition list_for_each_entry_safe_from ::
  "ptr \<Rightarrow> (ptr \<Rightarrow> list_head \<times> 's \<Rightarrow> list_head \<times> 's) \<Rightarrow> ptr \<Rightarrow> ptr \<Rightarrow> list_head \<times> 's \<Rightarrow> (list_head \<times> 's) option" where
  "list_for_each_entry_safe_from offset body head pos st =
     for_each_safe_from nxt offset body head pos (list_entry (nxt (fst st) (pos + offset)) offset) st"

definition list_for_each_entry_safe_continue ::
  "ptr \<Rightarrow> (ptr \<Rightarrow> list_head \<times> 's \<Rightarrow> list_head \<times> 's) \<Rightarrow> ptr \<Rightarrow> ptr \<Rightarrow> list_head \<times> 's \<Rightarrow> (list_head \<times> 's) option" where
  "list_for_each_entry_safe_continue offset body head pos st =
     list_for_each_entry_safe_from offset body head (list_entry (nxt (fst st) (pos + offset)) offset) st"

section \<open>Rings\<close>

text \<open>
  Neighbours in a list point to each other; a list with its head is a ring of distinct nodes. A ring can
  be opened at any of its nodes, which puts the place an operation works at to the front.
\<close>

fun linked :: "list_head \<Rightarrow> ptr list \<Rightarrow> bool" where
  "linked h (x # y # zs) = (nxt h x = y \<and> prv h y = x \<and> linked h (y # zs))"
| "linked h zs = True"

definition ring :: "list_head \<Rightarrow> ptr \<Rightarrow> ptr list \<Rightarrow> bool" where
  "ring h p zs = (distinct (p # zs) \<and> linked h (p # zs @ [p]))"

abbreviation is_list :: "list_head \<Rightarrow> ptr \<Rightarrow> ptr list \<Rightarrow> bool" where
  "is_list \<equiv> ring"

lemma next_prev_simps [simp]:
  "nxt (set_next p q h) = (nxt h)(p := q)" "prv (set_next p q h) = prv h"
  "nxt (set_prev p q h) = nxt h" "prv (set_prev p q h) = (prv h)(p := q)"
  by (simp_all add: set_next_def set_prev_def)

lemma linked_append: "linked h (xs @ y # ys) = (linked h (xs @ [y]) \<and> linked h (y # ys))"
proof (induction xs)
  case (Cons x xs)
  then show ?case by (cases xs) auto
qed simp

lemma linked_cong:
  "(\<And>x. x \<in> set (butlast zs) \<Longrightarrow> nxt g x = nxt h x) \<Longrightarrow> (\<And>x. x \<in> set (tl zs) \<Longrightarrow> prv g x = prv h x) \<Longrightarrow>
   linked g zs = linked h zs"
  by (induction h zs rule: linked.induct) (auto split: if_splits)

lemma linked_frame:
  "p \<notin> set (butlast zs) \<Longrightarrow> linked (set_next p q h) zs = linked h zs"
  "p \<notin> set (tl zs) \<Longrightarrow> linked (set_prev p q h) zs = linked h zs"
  by (auto intro!: linked_cong)

lemma ring_frame: "(\<And>x. x \<in> set (p # zs) \<Longrightarrow> nxt g x = nxt h x \<and> prv g x = prv h x) \<Longrightarrow> ring g p zs = ring h p zs"
  unfolding ring_def by (subst linked_cong [of _ g h]) auto

lemma ring_rotate: "ring h x (xs @ y # ys) = ring h y (ys @ x # xs)"
  using linked_append [of h "x # xs" y "ys @ [x]"] linked_append [of h "y # ys" x "xs @ [y]"]
  by (auto simp: ring_def)

text \<open>The place behind the last node before the end, or behind the head.\<close>

lemma ring_at_end: "ring h p (zs @ [e]) = ring h e (p # zs)"
  using ring_rotate [of h p zs e "[]"] by simp

lemma ring_next: "ring h p zs \<Longrightarrow> nxt h p = hd (zs @ [p])"
  by (cases zs) (auto simp: ring_def)

lemma ring_prev: "ring h p zs \<Longrightarrow> prv h p = last (p # zs)"
proof (cases zs rule: rev_cases)
  case (snoc ys e)
  assume "ring h p zs"
  then show ?thesis by (simp add: snoc ring_at_end) (simp add: ring_def)
qed (simp add: ring_def)

lemma ring_insert:
  assumes "ring h p zs" "new \<notin> set (p # zs)"
  shows "ring (list_add_between new p (hd (zs @ [p])) h) p (new # zs)"
  using assms by (cases zs) (auto simp: ring_def list_add_between_def linked_frame)

lemma ring_remove:
  assumes "ring h p (e # zs)"
  shows "ring (list_unlink p (hd (zs @ [p])) h) p zs" "prv h e = p" "nxt h e = hd (zs @ [p])"
  using assms by (cases zs; auto simp: ring_def list_unlink_def linked_frame)+

text \<open>A ring opened at a node that leaves it: the ring of the others.\<close>

lemma ring_drop:
  assumes "ring h e (a # zs)"
  shows "ring (list_unlink (prv h e) (nxt h e) h) a zs"
proof (cases zs rule: rev_cases)
  case Nil
  then show ?thesis using assms ring_remove [of h a e "[]"] ring_rotate [of h e "[]" a "[]"] by simp
next
  case (snoc ws p)
  then have "ring h p (e # a # ws)" using assms ring_at_end [of h e "a # ws" p] by simp
  from ring_remove [OF this] show ?thesis
    using ring_at_end [of _ a ws p] snoc by simp
qed

lemma ring_unlink:
  assumes "ring h head (xs @ e # ys)"
  shows "ring (list_unlink (prv h e) (nxt h e) h) head (xs @ ys)"
proof (cases ys)
  case Nil
  then show ?thesis using assms ring_drop [of h e head xs] by (simp add: ring_at_end)
next
  case (Cons a zs)
  then have "ring h e (a # zs @ head # xs)" using assms ring_rotate [of h head xs e ys] by simp
  from ring_drop [OF this] show ?thesis
    using ring_rotate [of _ a zs head xs] Cons by simp
qed

lemma ring_node:
  assumes "ring h head (xs @ e # ys)"
  shows "nxt h e = hd (ys @ [head])" "prv h e = last (head # xs)"
  using assms ring_rotate [of h head xs e ys] ring_next [of h e "ys @ head # xs"] ring_prev [of h e "ys @ head # xs"]
  by (cases ys; auto)+

section \<open>Every operation implements its counterpart on lists\<close>

lemma init_ring [simp]: "ring (init_list_head head h) head []"
  by (simp add: ring_def init_list_head_def)

lemma list_add_ring: "ring h head xs \<Longrightarrow> new \<notin> set (head # xs) \<Longrightarrow> ring (list_add new head h) head (new # xs)"
  by (simp add: list_add_def ring_next ring_insert)

lemma list_add_tail_ring:
  assumes "ring h head xs" "new \<notin> set (head # xs)"
  shows "ring (list_add_tail new head h) head (xs @ [new])"
proof (cases xs rule: rev_cases)
  case Nil
  then show ?thesis using assms ring_insert [of h head "[]" new] by (simp add: list_add_tail_def ring_prev)
next
  case (snoc ys p)
  then have "ring h p (head # ys)" "prv h head = p"
    using assms(1) by (simp_all add: ring_at_end [symmetric] ring_prev)
  then show ?thesis
    using ring_insert [of h p "head # ys" new] assms(2) snoc
      ring_rotate [of "list_add_tail new head h" p "[new]" head ys] by (auto simp: list_add_tail_def)
qed

lemma list_del_ring:
  assumes "ring h head (xs @ e # ys)"
  shows "ring (list_del e h) head (xs @ ys)"
proof -
  have "e \<notin> set (head # xs @ ys)" using assms by (auto simp: ring_def)
  then show ?thesis
    using ring_unlink [OF assms] by (subst ring_frame [of _ _ _ "list_unlink (prv h e) (nxt h e) h"]) (auto simp: list_del_def)
qed

lemma list_del_init_ring:
  assumes "ring h head (xs @ e # ys)"
  shows "ring (list_del_init e h) head (xs @ ys)"
proof -
  have "e \<notin> set (head # xs @ ys)" using assms by (auto simp: ring_def)
  then show ?thesis
    using ring_unlink [OF assms]
    by (subst ring_frame [of _ _ _ "list_unlink (prv h e) (nxt h e) h"]) (auto simp: list_del_init_def init_list_head_def)
qed

lemma list_move_ring:
  assumes "ring h head (xs @ e # ys)"
  shows "ring (list_move e head h) head (e # xs @ ys)" "ring (list_move_tail e head h) head (xs @ ys @ [e])"
proof -
  have "e \<notin> set (head # xs @ ys)" using assms by (auto simp: ring_def)
  then show "ring (list_move e head h) head (e # xs @ ys)" "ring (list_move_tail e head h) head (xs @ ys @ [e])"
    using list_add_ring [OF ring_unlink [OF assms]] list_add_tail_ring [OF ring_unlink [OF assms]]
    by (simp_all add: list_move_def list_move_tail_def)
qed

lemma list_replace_ring:
  assumes "ring h old zs" "new \<notin> set (old # zs)"
  shows "ring (list_replace old new h) new zs"
proof (cases zs rule: rev_cases)
  case Nil
  then show ?thesis using assms by (simp add: ring_def list_replace_def Let_def)
next
  case (snoc ys z)
  have n: "nxt h old = hd zs" "prv h old = z"
    using ring_next [OF assms(1)] ring_prev [OF assms(1)] snoc by (cases ys; simp)+
  have "old # zs @ [old] = (old # ys) @ z # [old]" using snoc by simp
  then have "linked h (old # ys @ [z])"
    using assms(1) linked_append [of h "old # ys" z "[old]"] by (simp add: ring_def)
  then have "linked (list_replace old new h) (new # ys @ [z])"
    using assms snoc n by (cases ys) (auto simp: list_replace_def Let_def linked_frame ring_def)
  moreover have "linked (list_replace old new h) [z, new]"
    using assms snoc n by (cases ys) (auto simp: list_replace_def Let_def ring_def)
  ultimately show ?thesis
    using assms snoc linked_append [of _ "new # ys" z "[new]"] by (simp add: ring_def)
qed

lemma list_empty_ring: "ring h head xs \<Longrightarrow> list_empty head h = (xs = [])"
  using ring_next [of h head xs] by (cases xs) (auto simp: list_empty_def ring_def)

lemma list_empty_careful_ring: "ring h head xs \<Longrightarrow> list_empty_careful head h = (xs = [])"
  using list_empty_ring [of h head xs] ring_prev [of h head xs] by (auto simp: list_empty_careful_def list_empty_def)

lemma list_is_singular_ring:
  assumes "ring h head xs"
  shows "list_is_singular head h = (length xs = 1)"
proof (cases xs)
  case (Cons a ys)
  then have "list_is_singular head h = (a = last (a # ys))"
    using assms list_empty_ring [OF assms] ring_next [OF assms] ring_prev [OF assms] by (simp add: list_is_singular_def)
  then show ?thesis using assms Cons by (cases ys rule: rev_cases) (auto simp: ring_def)
qed (use list_empty_ring [OF assms] in \<open>simp add: list_is_singular_def\<close>)

lemma list_is_last_ring: "ring h head (xs @ e # ys) \<Longrightarrow> list_is_last e head h = (ys = [])"
  using ring_node(1) [of h head xs e ys] by (cases ys) (auto simp: list_is_last_def ring_def)

text \<open>Splicing: the nodes of the second ring between two neighbours of the first.\<close>

lemma ring_splice:
  assumes "ring h p zs" "ring h l ws" "set (p # zs) \<inter> set (l # ws) = {}" "ws \<noteq> []"
  shows "ring (list_splice_between l p (hd (zs @ [p])) h) p (ws @ zs)"
proof -
  obtain a ws' where a: "ws = a # ws'" using assms(4) by (cases ws) auto
  obtain us z where z: "ws = us @ [z]" using assms(4) by (cases ws rule: rev_cases) auto
  let ?g = "list_splice_between l p (hd (zs @ [p])) h"
  have n: "nxt h l = hd ws" "prv h l = z"
    using ring_next [OF assms(2)] ring_prev [OF assms(2)] a by (simp, simp add: z)
  have "linked h (l # us @ [z])"
    using assms(2) linked_append [of h "l # us" z "[l]"] z by (simp add: ring_def)
  then have "linked ?g (p # us @ [z])"
    using assms n z by (cases us; cases zs) (auto simp: list_splice_between_def Let_def linked_frame ring_def)
  moreover have "linked ?g (z # zs @ [p])"
    using assms n z by (cases us; cases zs) (auto simp: list_splice_between_def Let_def linked_frame ring_def)
  ultimately show ?thesis
    using assms z linked_append [of ?g "p # us" z "zs @ [p]"] by (auto simp: ring_def)
qed

lemma list_splice_ring:
  assumes "ring h head xs" "ring h l ws" "set (head # xs) \<inter> set (l # ws) = {}"
  shows "ring (list_splice l head h) head (ws @ xs)"
  using assms ring_splice [OF assms] ring_next [OF assms(1)] list_empty_ring [OF assms(2)]
  by (cases "ws = []") (simp_all add: list_splice_def)

lemma list_splice_tail_ring:
  assumes "ring h head xs" "ring h l ws" "set (head # xs) \<inter> set (l # ws) = {}"
  shows "ring (list_splice_tail l head h) head (xs @ ws)"
proof (cases "ws = []")
  case False
  note ws = this
  show ?thesis
  proof (cases xs rule: rev_cases)
    case Nil
    then show ?thesis
      using assms ring_splice [OF assms ws] ring_prev [OF assms(1)] list_empty_ring [OF assms(2)] ws
      by (simp add: list_splice_tail_def)
  next
    case (snoc ys p)
    then have r: "ring h p (head # ys)" "prv h head = p"
      using assms(1) by (simp_all add: ring_at_end [symmetric] ring_prev)
    show ?thesis
      using ring_splice [OF r(1) assms(2) _ ws] assms snoc r(2) ws list_empty_ring [OF assms(2)]
        ring_rotate [of "list_splice_tail l head h" p ws head ys]
      by (auto simp: list_splice_tail_def)
  qed
qed (use assms list_empty_ring [OF assms(2)] in \<open>simp add: list_splice_tail_def\<close>)

lemma init_other: "l \<notin> set (p # zs) \<Longrightarrow> ring (init_list_head l h) p zs = ring h p zs"
  by (rule ring_frame) (auto simp: init_list_head_def)

lemma list_replace_init_ring:
  assumes "ring h old zs" "new \<notin> set (old # zs)"
  shows "ring (list_replace_init old new h) new zs \<and> ring (list_replace_init old new h) old []"
proof -
  have "old \<notin> set (new # zs)" using assms by (auto simp: ring_def)
  then show ?thesis using list_replace_ring [OF assms] by (simp add: list_replace_init_def init_other)
qed

lemma list_splice_init_ring:
  assumes "ring h head xs" "ring h l ws" "set (head # xs) \<inter> set (l # ws) = {}"
  shows "ring (list_splice_init l head h) head (ws @ xs) \<and> ring (list_splice_init l head h) l []"
  using assms list_splice_ring [OF assms] list_empty_ring [OF assms(2)]
  by (cases "ws = []") (auto simp: list_splice_init_def list_splice_def init_other ring_def [of h l])

lemma list_splice_tail_init_ring:
  assumes "ring h head xs" "ring h l ws" "set (head # xs) \<inter> set (l # ws) = {}"
  shows "ring (list_splice_tail_init l head h) head (xs @ ws) \<and> ring (list_splice_tail_init l head h) l []"
  using assms list_splice_tail_ring [OF assms] list_empty_ring [OF assms(2)]
  by (cases "ws = []") (auto simp: list_splice_tail_init_def list_splice_tail_def init_other ring_def [of h l])

text \<open>Cutting: the nodes up to an entry move to a head of their own.\<close>

lemma ring_cut:
  assumes "ring h head (xs @ e # ys)" "l \<notin> set (head # xs @ e # ys)"
  shows "ring (list_cut_between l head e h) l (xs @ [e]) \<and> ring (list_cut_between l head e h) head ys"
proof -
  let ?g = "list_cut_between l head e h"
  have n: "nxt h e = hd (ys @ [head])" "nxt h head = hd (xs @ [e])"
    using ring_node(1) [OF assms(1)] ring_next [OF assms(1)] by (simp_all add: hd_append)
  have "linked h (head # xs @ [e])" "linked h (e # ys @ [head])"
    using assms(1) linked_append [of h "head # xs" e "ys @ [head]"] by (simp_all add: ring_def)
  then have "linked ?g (l # xs @ [e])" "linked ?g [e, l]" "linked ?g (head # ys @ [head])"
    using assms n by (cases xs; cases ys; auto simp: list_cut_between_def Let_def linked_frame ring_def)+
  then show ?thesis
    using assms linked_append [of ?g "l # xs" e "[l]"] by (auto simp: ring_def)
qed

lemma list_cut_position_ring:
  assumes "ring h head (xs @ e # ys)" "l \<notin> set (head # xs @ e # ys)"
  shows "ring (list_cut_position l head e h) l (xs @ [e]) \<and> ring (list_cut_position l head e h) head ys"
proof -
  have "nxt h head = hd (xs @ [e])" using ring_next [OF assms(1)] by (cases xs) auto
  then have "list_cut_position l head e h = list_cut_between l head e h"
    using assms list_empty_ring [OF assms(1)] list_is_singular_ring [OF assms(1)]
    by (cases xs) (auto simp: list_cut_position_def ring_def)
  then show ?thesis using ring_cut [OF assms] by simp
qed

section \<open>Other lists\<close>

text \<open>An operation writes only to the nodes of the lists it is given.\<close>

lemma ring_neighbours:
  assumes "ring h p zs" "x \<in> set (p # zs)"
  shows "nxt h x \<in> set (p # zs) \<and> prv h x \<in> set (p # zs)"
proof (cases "x = p")
  case True
  have "hd (zs @ [p]) \<in> set (zs @ [p])" "last (p # zs) \<in> set (p # zs)" by (rule hd_in_set last_in_set, simp)+
  then show ?thesis using ring_next [OF assms(1)] ring_prev [OF assms(1)] True by auto
next
  case False
  then obtain us vs where z: "zs = us @ x # vs" using assms(2) by (auto dest: split_list)
  have "hd (vs @ [p]) \<in> set (vs @ [p])" "last (p # us) \<in> set (p # us)" by (rule hd_in_set last_in_set, simp)+
  then show ?thesis using ring_node [of h p us x vs] assms(1) z by auto
qed

lemma list_add_other:
  assumes "ring h head xs" "x \<notin> set (new # head # xs)"
  shows "nxt (list_add new head h) x = nxt h x \<and> prv (list_add new head h) x = prv h x"
  using ring_neighbours [OF assms(1), of head] assms(2) by (auto simp: list_add_def list_add_between_def)

lemma list_add_tail_other:
  assumes "ring h head xs" "x \<notin> set (new # head # xs)"
  shows "nxt (list_add_tail new head h) x = nxt h x \<and> prv (list_add_tail new head h) x = prv h x"
  using ring_neighbours [OF assms(1), of head] assms(2) by (auto simp: list_add_tail_def list_add_between_def)

lemma list_del_other:
  assumes "ring h head xs" "e \<in> set xs" "x \<notin> set (head # xs)"
  shows "nxt (list_del e h) x = nxt h x \<and> prv (list_del e h) x = prv h x"
  using ring_neighbours [OF assms(1), of e] assms(2,3) by (auto simp: list_del_def list_unlink_def)

section \<open>The lists as an interface\<close>

text \<open>
  What the objects of nftlb need of their lists: heads that own disjoint sets of nodes, a node appended
  to one list, a node taken out of the list it is in.
\<close>

locale list_memory =
  fixes holds :: "'h \<Rightarrow> 'p \<Rightarrow> 'p list \<Rightarrow> bool"
    and init :: "'p \<Rightarrow> 'h \<Rightarrow> 'h"
    and append_to :: "'p \<Rightarrow> 'p \<Rightarrow> 'h \<Rightarrow> 'h"
    and remove_node :: "'p \<Rightarrow> 'h \<Rightarrow> 'h"
  assumes holds_distinct: "holds h l xs \<Longrightarrow> distinct (l # xs)"
    and init_holds: "holds (init l h) l []"
    and append_holds: "holds h l xs \<Longrightarrow> n \<notin> set (l # xs) \<Longrightarrow> holds (append_to n l h) l (xs @ [n])"
    and append_other:
      "holds h l xs \<Longrightarrow> holds h k ys \<Longrightarrow> set (n # l # xs) \<inter> set (k # ys) = {} \<Longrightarrow> holds (append_to n l h) k ys"
    and remove_holds: "holds h l (xs @ n # ys) \<Longrightarrow> holds (remove_node n h) l (xs @ ys)"
    and remove_other:
      "holds h l (xs @ n # ys) \<Longrightarrow> holds h k zs \<Longrightarrow> set (l # xs @ n # ys) \<inter> set (k # zs) = {} \<Longrightarrow>
       holds (remove_node n h) k zs"
begin

lemma append_all:
  assumes "holds h l xs" "distinct (l # xs @ ns)"
  shows "holds (fold (\<lambda>n. append_to n l) ns h) l (xs @ ns)"
  using assms
proof (induction ns arbitrary: h xs)
  case (Cons n ns)
  then have "holds (append_to n l h) l (xs @ [n])" by (intro append_holds) auto
  from Cons.IH [OF this] Cons.prems(2) show ?case by simp
qed simp

lemma remove_all: "holds h l ns \<Longrightarrow> holds (fold remove_node ns h) l []"
proof (induction ns arbitrary: h)
  case (Cons n ns)
  then show ?case using remove_holds [of h l "[]" n ns] by simp
qed simp

lemma hand_over:
  assumes "holds h l (xs @ n # ys)" "holds h k zs" "set (l # xs @ n # ys) \<inter> set (k # zs) = {}"
  shows "holds (append_to n k (remove_node n h)) l (xs @ ys) \<and> holds (append_to n k (remove_node n h)) k (zs @ [n])"
proof -
  have a: "holds (remove_node n h) l (xs @ ys)" "holds (remove_node n h) k zs"
    using remove_holds [OF assms(1)] remove_other [OF assms] by simp_all
  have "n \<notin> set (l # xs @ ys)" using holds_distinct [OF assms(1)] by auto
  then have "set (n # k # zs) \<inter> set (l # xs @ ys) = {}" using assms(3) by auto
  then show ?thesis
    using append_other [OF a(2) a(1)] append_holds [OF a(2), of n] assms(3) by auto
qed

end

interpretation rings: list_memory ring init_list_head list_add_tail list_del
proof
  fix h l k n xs ys zs
  show "ring h l xs \<Longrightarrow> distinct (l # xs)" by (simp add: ring_def)
  show "ring (init_list_head l h) l []" by simp
  show "ring h l xs \<Longrightarrow> n \<notin> set (l # xs) \<Longrightarrow> ring (list_add_tail n l h) l (xs @ [n])" by (rule list_add_tail_ring)
  show "ring h l (xs @ n # ys) \<Longrightarrow> ring (list_del n h) l (xs @ ys)" by (rule list_del_ring)
  show "ring (list_add_tail n l h) k ys" if l: "ring h l xs" "ring h k ys" "set (n # l # xs) \<inter> set (k # ys) = {}"
  proof -
    have "nxt (list_add_tail n l h) x = nxt h x \<and> prv (list_add_tail n l h) x = prv h x" if "x \<in> set (k # ys)" for x
      using that l(3) by (intro list_add_tail_other [OF l(1)]) blast
    then show ?thesis using l(2) by (subst ring_frame)
  qed
  show "ring (list_del n h) k zs" if l: "ring h l (xs @ n # ys)" "ring h k zs" "set (l # xs @ n # ys) \<inter> set (k # zs) = {}"
  proof -
    have "nxt (list_del n h) x = nxt h x \<and> prv (list_del n h) x = prv h x" if "x \<in> set (k # zs)" for x
      using that l(3) by (intro list_del_other [OF l(1)]) (simp, blast)
    then show ?thesis using l(2) by (subst ring_frame)
  qed
qed

section \<open>Loops over rings\<close>

lemma entry_node [simp]: "list_entry p offset + offset = p"
  by (simp add: list_entry_def)

abbreviation entries :: "ptr \<Rightarrow> ptr list \<Rightarrow> ptr list" where
  "entries offset \<equiv> map (\<lambda>p. list_entry p offset)"

lemma for_each_forward:
  assumes "\<And>q st. ring (fst st) head xs \<Longrightarrow> ring (fst (body q st)) head xs"
  shows "ring (fst st) head xs \<Longrightarrow> xs = ds @ us \<Longrightarrow>
    for_each_from nxt offset body head (list_entry (hd (us @ [head])) offset) st = Some (fold body (entries offset us) st)"
proof (induction us arbitrary: ds st)
  case (Cons u us)
  have r: "ring (fst (body (list_entry u offset) st)) head (ds @ u # us)"
    using assms [OF Cons.prems(1)] Cons.prems(2) by simp
  from r have "u \<noteq> head" by (auto simp: ring_def)
  moreover from r have "nxt (fst (body (list_entry u offset) st)) u = hd (us @ [head])" by (rule ring_node)
  ultimately show ?case
    using Cons.IH [of "body (list_entry u offset) st" "ds @ [u]"] r Cons.prems(2)
    by (simp add: for_each_from.simps [of nxt offset body head "list_entry u offset"] Let_def)
qed (simp add: for_each_from.simps)

lemma for_each_backward:
  assumes "\<And>q st. ring (fst st) head xs \<Longrightarrow> ring (fst (body q st)) head xs"
  shows "ring (fst st) head xs \<Longrightarrow> xs = us @ ds \<Longrightarrow>
    for_each_from prv offset body head (list_entry (last (head # us)) offset) st =
      Some (fold body (entries offset (rev us)) st)"
proof (induction us arbitrary: ds st rule: rev_induct)
  case (snoc u us)
  have r: "ring (fst (body (list_entry u offset) st)) head (us @ u # ds)"
    using assms [OF snoc.prems(1)] snoc.prems(2) by simp
  from r have "u \<noteq> head" by (auto simp: ring_def)
  moreover from r have "prv (fst (body (list_entry u offset) st)) u = last (head # us)" by (rule ring_node)
  ultimately show ?case
    using snoc.IH [of "body (list_entry u offset) st" "u # ds"] r snoc.prems(2)
    by (simp add: for_each_from.simps [of prv offset body head "list_entry u offset"] Let_def)
qed (simp add: for_each_from.simps)

text \<open>A body that may take the entry it visits out of the list, and nothing else.\<close>

lemma for_each_safe:
  assumes "\<And>ds q us st. ring (fst st) head (ds @ q # us) \<Longrightarrow>
    ring (fst (body (list_entry q offset) st)) head (ds @ filter kept [q] @ us)"
  shows "ring (fst st) head (ds @ us) \<Longrightarrow> (us \<noteq> [] \<Longrightarrow> n = list_entry (hd (tl us @ [head])) offset) \<Longrightarrow>
    for_each_safe_from nxt offset body head (list_entry (hd (us @ [head])) offset) n st =
      Some (fold body (entries offset us) st) \<and>
    ring (fst (fold body (entries offset us) st)) head (ds @ filter kept us)"
proof (induction us arbitrary: ds n st)
  case (Cons u us)
  let ?st = "body (list_entry u offset) st"
  have r: "ring (fst ?st) head ((ds @ filter kept [u]) @ us)" using assms [OF Cons.prems(1)] by simp
  let ?n = "list_entry (hd (us @ [head])) offset"
  have "us \<noteq> [] \<Longrightarrow> list_entry (nxt (fst ?st) (?n + offset)) offset = list_entry (hd (tl us @ [head])) offset"
    using ring_node(1) [of "fst ?st" head "ds @ filter kept [u]" "hd us" "tl us"] r by (cases us) auto
  note IH = Cons.IH [OF r this]
  have "u \<noteq> head" using Cons.prems(1) by (auto simp: ring_def)
  then have "for_each_safe_from nxt offset body head (list_entry u offset) ?n st =
      for_each_safe_from nxt offset body head ?n (list_entry (nxt (fst ?st) (?n + offset)) offset) ?st"
    by (subst for_each_safe_from.simps) (simp add: Let_def)
  moreover have "n = ?n" using Cons.prems(2) by simp
  ultimately show ?case using IH by (cases "kept u") simp_all
qed (simp add: for_each_safe_from.simps)

text \<open>
  The plain loop must not be used to delete: it would go on at the poison left in the deleted node.
\<close>

lemma plain_loop_poisoned:
  assumes "ring h head (q # us)"
  shows "list_for_each_entry offset (\<lambda>p (h, s). (list_del (p + offset) h, s)) head (h, s) =
    for_each_from nxt offset (\<lambda>p (h, s). (list_del (p + offset) h, s)) head (list_entry LIST_POISON1 offset)
      (list_del q h, s)"
proof -
  have "q \<noteq> head" "nxt h head = q" using assms ring_next [OF assms] by (auto simp: ring_def)
  then show ?thesis
    by (simp add: list_for_each_entry_def for_each_from.simps [of nxt offset _ head "list_entry q offset"] list_del_def)
qed

section \<open>Properties\<close>

text \<open>Three nodes 200, 300 and 400 in the list of head 100; the list of head 500 is empty.\<close>

definition three_nodes :: list_head where
  "three_nodes =
     fold (\<lambda>n. list_add_tail n 100) [200, 300, 400]
       (init_list_head 500 (init_list_head 100 \<lparr>nxt = \<lambda>_. 0, prv = \<lambda>_. 0\<rparr>))"

lemma three_nodes_ring: "ring three_nodes 100 [200, 300, 400]" "ring three_nodes 500 []"
  by (simp_all add: three_nodes_def init_list_head_def list_add_tail_def list_add_between_def ring_def)

text \<open>
  (C15) The pointer operations on a list do to the ring of nodes what their names say: a new node comes
  first or last, a deleted node leaves its place, a moved one changes it, a replaced one hands it to the
  new node; the rest of the list keeps its order.
\<close>

theorem list_operations_refine:
  assumes "is_list h head (xs @ e # ys)" "new \<notin> set (head # xs @ e # ys)"
  shows "is_list (list_add new head h) head (new # xs @ e # ys) \<and>
    is_list (list_add_tail new head h) head (xs @ e # ys @ [new]) \<and>
    is_list (list_del e h) head (xs @ ys) \<and> is_list (list_del_init e h) head (xs @ ys) \<and>
    is_list (list_move e head h) head (e # xs @ ys) \<and> is_list (list_move_tail e head h) head (xs @ ys @ [e]) \<and>
    is_list (list_replace e new h) head (xs @ new # ys)"
proof -
  have "is_list h e (ys @ head # xs)" using assms(1) ring_rotate by blast
  then have "is_list (list_replace e new h) new (ys @ head # xs)" using assms(2) by (intro list_replace_ring) auto
  then have "is_list (list_replace e new h) head (xs @ new # ys)" using ring_rotate by blast
  then show ?thesis
    using list_add_ring [OF assms] list_add_tail_ring [OF assms] list_del_ring [OF assms(1)]
      list_del_init_ring [OF assms(1)] list_move_ring [OF assms(1)] by simp
qed

theorem list_operations_refine_witness:
  "is_list (list_replace 300 600 three_nodes) 100 [200, 600, 400] \<and>
   is_list (list_move 300 100 three_nodes) 100 [300, 200, 400]"
  using list_operations_refine [of three_nodes 100 "[200]" 300 "[400]" 600] three_nodes_ring by simp

text \<open>
  (C16) \<open>list_for_each_entry_safe\<close> ends and visits every entry of the list once, in order, also when the
  body deletes entries it is called for; the list that is left has the other entries in their order.
\<close>

theorem safe_loop_deletes:
  assumes "is_list (fst st) head xs"
    and "\<And>ds q us st. is_list (fst st) head (ds @ q # us) \<Longrightarrow>
      is_list (fst (body (list_entry q offset) st)) head (ds @ filter kept [q] @ us)"
  shows "list_for_each_entry_safe offset body head st = Some (fold body (entries offset xs) st) \<and>
    is_list (fst (fold body (entries offset xs) st)) head (filter kept xs)"
proof -
  have "xs \<noteq> [] \<Longrightarrow> nxt (fst st) (hd (xs @ [head])) = hd (tl xs @ [head])"
    using ring_node(1) [of "fst st" head "[]" "hd xs" "tl xs"] assms(1) by (cases xs) auto
  then have "xs \<noteq> [] \<Longrightarrow>
    list_entry (nxt (fst st) (list_entry (hd (xs @ [head])) offset + offset)) offset = list_entry (hd (tl xs @ [head])) offset"
    by simp
  from for_each_safe [where ds = "[]" and us = xs and kept = kept, OF assms(2) _ this] assms(1) show ?thesis
    by (simp add: list_for_each_entry_safe_def Let_def ring_next)
qed

theorem safe_loop_deletes_witness:
  "is_list (fst (the (list_for_each_entry_safe 16
     (\<lambda>p (h, seen). (if p + 16 = 300 then list_del 300 h else h, seen @ [p])) 100 (three_nodes, [])))) 100 [200, 400]"
proof -
  let ?body = "\<lambda>p (h, seen). (if p + 16 = 300 then list_del 300 h else h, seen @ [p :: ptr])"
  have "is_list (fst (?body (list_entry q 16) st)) 100 (ds @ filter (\<lambda>q. q \<noteq> 300) [q] @ us)"
    if "is_list (fst st) 100 (ds @ q # us)" for ds q us st
    using that list_del_ring [of "fst st" 100 ds q us] by (cases st) auto
  from safe_loop_deletes [of "(three_nodes, [])" 100 "[200, 300, 400]" ?body 16 "\<lambda>q. q \<noteq> 300", OF _ this]
  show ?thesis using three_nodes_ring by simp
qed

text \<open>
  The plain loops end and are folds over the entries of the list, forwards or backwards, as long as
  the body keeps the list; \<open>list_for_each_entry_continue\<close> visits the entries after the one it is given.
\<close>

lemma loops_are_folds:
  assumes "is_list (fst st) head (xs @ p # ys)"
    and "\<And>q st. is_list (fst st) head (xs @ p # ys) \<Longrightarrow> is_list (fst (body q st)) head (xs @ p # ys)"
  shows "list_for_each_entry offset body head st = Some (fold body (entries offset (xs @ p # ys)) st) \<and>
    list_for_each_entry_reverse offset body head st = Some (fold body (entries offset (rev (xs @ p # ys))) st) \<and>
    list_for_each_entry_continue offset body head (list_entry p offset) st = Some (fold body (entries offset ys) st)"
proof -
  note fwd = for_each_forward [of head "xs @ p # ys" body, OF assms(2) assms(1)]
  note bwd = for_each_backward [of head "xs @ p # ys" body, OF assms(2) assms(1)]
  have "list_for_each_entry offset body head st = Some (fold body (entries offset (xs @ p # ys)) st)"
    unfolding list_for_each_entry_def ring_next [OF assms(1)] by (rule fwd [of "[]"]) simp_all
  moreover have "list_for_each_entry_continue offset body head (list_entry p offset) st = Some (fold body (entries offset ys) st)"
    unfolding list_for_each_entry_continue_def entry_node ring_node(1) [OF assms(1)] by (rule fwd [of "xs @ [p]"]) simp_all
  moreover have "list_for_each_entry_reverse offset body head st = Some (fold body (entries offset (rev (xs @ p # ys))) st)"
    unfolding list_for_each_entry_reverse_def ring_prev [OF assms(1)] by (rule bwd [of _ "[]"]) simp_all
  ultimately show ?thesis by blast
qed

end
