(* ===== verification/HashList.thy ===== *)
theory HashList
  imports ListHead
begin

text \<open>
  The second kind of list of list.h: \<open>hlist\<close>, with one pointer in the head and nodes that point to the
  successor and to the cell the node hangs in. A head and a node both start with such a cell, so the
  address of \<open>first\<close> is that of the head and the address of \<open>next\<close> is that of the node. \<open>is_hlist\<close> is
  the abstraction to lists; every operation implements its counterpart, writes only to its own lists, and
  the loops are folds. nftlb itself keeps nothing in such lists.
\<close>

section \<open>Memory\<close>

text \<open>\<open>cell p\<close> is \<open>first\<close> of the head or \<open>next\<close> of the node at \<open>p\<close>, and \<open>pprev p\<close> the other word of the node.\<close>

record hlist_node =
  cell :: "ptr \<Rightarrow> ptr"
  pprev :: "ptr \<Rightarrow> ptr"

definition set_cell :: "ptr \<Rightarrow> ptr \<Rightarrow> hlist_node \<Rightarrow> hlist_node" where
  "set_cell p q h = h\<lparr>cell := (cell h)(p := q)\<rparr>"

definition set_pprev :: "ptr \<Rightarrow> ptr \<Rightarrow> hlist_node \<Rightarrow> hlist_node" where
  "set_pprev p q h = h\<lparr>pprev := (pprev h)(p := q)\<rparr>"

section \<open>Operations\<close>

definition init_hlist_head :: "ptr \<Rightarrow> hlist_node \<Rightarrow> hlist_node" where
  "init_hlist_head l h = set_cell l 0 h"

definition init_hlist_node :: "ptr \<Rightarrow> hlist_node \<Rightarrow> hlist_node" where
  "init_hlist_node n h = set_pprev n 0 (set_cell n 0 h)"

definition hlist_unhashed :: "ptr \<Rightarrow> hlist_node \<Rightarrow> bool" where
  "hlist_unhashed n h = (pprev h n = 0)"

definition hlist_empty :: "ptr \<Rightarrow> hlist_node \<Rightarrow> bool" where
  "hlist_empty l h = (cell h l = 0)"

definition hlist_unlink :: "ptr \<Rightarrow> hlist_node \<Rightarrow> hlist_node" where
  "hlist_unlink n h =
     (let next = cell h n; pp = pprev h n; h1 = set_cell pp next h
      in if next \<noteq> 0 then set_pprev next pp h1 else h1)"

definition hlist_del :: "ptr \<Rightarrow> hlist_node \<Rightarrow> hlist_node" where
  "hlist_del n h = set_pprev n LIST_POISON2 (set_cell n LIST_POISON1 (hlist_unlink n h))"

definition hlist_del_init :: "ptr \<Rightarrow> hlist_node \<Rightarrow> hlist_node" where
  "hlist_del_init n h = (if \<not> hlist_unhashed n h then init_hlist_node n (hlist_unlink n h) else h)"

definition hlist_add_head :: "ptr \<Rightarrow> ptr \<Rightarrow> hlist_node \<Rightarrow> hlist_node" where
  "hlist_add_head n l h =
     (let first = cell h l;
          h1 = set_cell n first h;
          h2 = (if first \<noteq> 0 then set_pprev first n h1 else h1)
      in set_pprev n l (set_cell l n h2))"

definition hlist_add_before :: "ptr \<Rightarrow> ptr \<Rightarrow> hlist_node \<Rightarrow> hlist_node" where
  "hlist_add_before n next h =
     (let h1 = set_pprev n (pprev h next) h;
          h2 = set_cell n next h1;
          h3 = set_pprev next n h2
      in set_cell (pprev h3 n) n h3)"

text \<open>It is \<open>next\<close> that is added, behind \<open>n\<close>.\<close>

definition hlist_add_after :: "ptr \<Rightarrow> ptr \<Rightarrow> hlist_node \<Rightarrow> hlist_node" where
  "hlist_add_after n next h =
     (let h1 = set_cell next (cell h n) h;
          h2 = set_cell n next h1;
          h3 = set_pprev next n h2
      in if cell h3 next \<noteq> 0 then set_pprev (cell h3 next) next h3 else h3)"

section \<open>Loops\<close>

text \<open>
  A loop ends at NULL. The body is given the entry, whose node is at \<open>offset\<close>, and works on the memory and a
  state of its own; the first loop reads the successor after the body, the second before it.
\<close>

partial_function (option) hfor_from ::
  "ptr \<Rightarrow> (ptr \<Rightarrow> hlist_node \<times> 's \<Rightarrow> hlist_node \<times> 's) \<Rightarrow> ptr \<Rightarrow> hlist_node \<times> 's \<Rightarrow> (hlist_node \<times> 's) option" where
  "hfor_from offset body pos st =
     (if pos = 0 then Some st
      else let st1 = body (list_entry pos offset) st in hfor_from offset body (cell (fst st1) pos) st1)"

partial_function (option) hfor_safe_from ::
  "ptr \<Rightarrow> (ptr \<Rightarrow> hlist_node \<times> 's \<Rightarrow> hlist_node \<times> 's) \<Rightarrow> ptr \<Rightarrow> hlist_node \<times> 's \<Rightarrow> (hlist_node \<times> 's) option" where
  "hfor_safe_from offset body pos st =
     (if pos = 0 then Some st
      else let n = cell (fst st) pos in hfor_safe_from offset body n (body (list_entry pos offset) st))"

definition hlist_for_each ::
  "(ptr \<Rightarrow> hlist_node \<times> 's \<Rightarrow> hlist_node \<times> 's) \<Rightarrow> ptr \<Rightarrow> hlist_node \<times> 's \<Rightarrow> (hlist_node \<times> 's) option" where
  "hlist_for_each body l st = hfor_from 0 body (cell (fst st) l) st"

definition hlist_for_each_safe ::
  "(ptr \<Rightarrow> hlist_node \<times> 's \<Rightarrow> hlist_node \<times> 's) \<Rightarrow> ptr \<Rightarrow> hlist_node \<times> 's \<Rightarrow> (hlist_node \<times> 's) option" where
  "hlist_for_each_safe body l st = hfor_safe_from 0 body (cell (fst st) l) st"

definition hlist_for_each_entry ::
  "ptr \<Rightarrow> (ptr \<Rightarrow> hlist_node \<times> 's \<Rightarrow> hlist_node \<times> 's) \<Rightarrow> ptr \<Rightarrow> hlist_node \<times> 's \<Rightarrow> (hlist_node \<times> 's) option" where
  "hlist_for_each_entry offset body l st = hfor_from offset body (cell (fst st) l) st"

definition hlist_for_each_entry_continue ::
  "ptr \<Rightarrow> (ptr \<Rightarrow> hlist_node \<times> 's \<Rightarrow> hlist_node \<times> 's) \<Rightarrow> ptr \<Rightarrow> hlist_node \<times> 's \<Rightarrow> (hlist_node \<times> 's) option" where
  "hlist_for_each_entry_continue offset body pos st = hfor_from offset body (cell (fst st) pos) st"

definition hlist_for_each_entry_from ::
  "ptr \<Rightarrow> (ptr \<Rightarrow> hlist_node \<times> 's \<Rightarrow> hlist_node \<times> 's) \<Rightarrow> ptr \<Rightarrow> hlist_node \<times> 's \<Rightarrow> (hlist_node \<times> 's) option" where
  "hlist_for_each_entry_from offset body pos st = hfor_from offset body pos st"

definition hlist_for_each_entry_safe ::
  "ptr \<Rightarrow> (ptr \<Rightarrow> hlist_node \<times> 's \<Rightarrow> hlist_node \<times> 's) \<Rightarrow> ptr \<Rightarrow> hlist_node \<times> 's \<Rightarrow> (hlist_node \<times> 's) option" where
  "hlist_for_each_entry_safe offset body l st = hfor_safe_from offset body (cell (fst st) l) st"

section \<open>Chains\<close>

text \<open>The nodes that hang in the cell at \<open>p\<close>, each pointing back to the cell it hangs in.\<close>

fun chain :: "hlist_node \<Rightarrow> ptr \<Rightarrow> ptr list \<Rightarrow> bool" where
  "chain h p [] = (cell h p = 0)"
| "chain h p (x # xs) = (cell h p = x \<and> pprev h x = p \<and> chain h x xs)"

definition is_hlist :: "hlist_node \<Rightarrow> ptr \<Rightarrow> ptr list \<Rightarrow> bool" where
  "is_hlist h l xs = (distinct (l # xs) \<and> 0 \<notin> set (l # xs) \<and> chain h l xs)"

lemma cell_pprev_simps [simp]:
  "cell (set_cell p q h) = (cell h)(p := q)" "pprev (set_cell p q h) = pprev h"
  "cell (set_pprev p q h) = cell h" "pprev (set_pprev p q h) = (pprev h)(p := q)"
  by (simp_all add: set_cell_def set_pprev_def)

lemma chain_cong:
  "(\<And>x. x \<in> set (p # xs) \<Longrightarrow> cell g x = cell h x) \<Longrightarrow> (\<And>x. x \<in> set xs \<Longrightarrow> pprev g x = pprev h x) \<Longrightarrow> chain g p xs = chain h p xs"
  by (induction xs arbitrary: p) auto

lemma chain_frame:
  "q \<notin> set (p # xs) \<Longrightarrow> chain (set_cell q v h) p xs = chain h p xs"
  "q \<notin> set xs \<Longrightarrow> chain (set_pprev q v h) p xs = chain h p xs"
  by (auto intro!: chain_cong)

lemma hlist_frame: "(\<And>x. x \<in> set (l # xs) \<Longrightarrow> cell g x = cell h x \<and> pprev g x = pprev h x) \<Longrightarrow> is_hlist g l xs = is_hlist h l xs"
  unfolding is_hlist_def by (subst chain_cong [of l xs g h]) auto

text \<open>The cell a node hangs in, and the part of the chain in front of it.\<close>

fun front :: "hlist_node \<Rightarrow> ptr \<Rightarrow> ptr list \<Rightarrow> bool" where
  "front h p [] = True"
| "front h p (x # xs) = (cell h p = x \<and> pprev h x = p \<and> front h x xs)"

lemma chain_append: "chain h p (xs @ ys) = (front h p xs \<and> chain h (last (p # xs)) ys)"
  by (induction xs arbitrary: p) auto

lemma front_cong:
  "(\<And>x. x \<in> set (butlast (p # xs)) \<Longrightarrow> cell g x = cell h x) \<Longrightarrow> (\<And>x. x \<in> set xs \<Longrightarrow> pprev g x = pprev h x) \<Longrightarrow> front g p xs = front h p xs"
  by (induction xs arbitrary: p) auto

lemma front_frame:
  "distinct (p # xs) \<Longrightarrow> q = last (p # xs) \<Longrightarrow> front (set_cell q v h) p xs = front h p xs"
  "q \<notin> set (p # xs) \<Longrightarrow> front (set_cell q v h) p xs = front h p xs"
  "q \<notin> set xs \<Longrightarrow> front (set_pprev q v h) p xs = front h p xs"
proof -
  show "front (set_cell q v h) p xs = front h p xs" if d: "distinct (p # xs)" "q = last (p # xs)"
  proof (rule front_cong)
    have "last (p # xs) \<notin> set (butlast (p # xs))"
      using d(1) by (metis append_butlast_last_id distinct_butlast list.distinct(1) not_distinct_conv_prefix)
    then show "x \<in> set (butlast (p # xs)) \<Longrightarrow> cell (set_cell q v h) x = cell h x" for x using d(2) by auto
  qed simp
  show "q \<notin> set (p # xs) \<Longrightarrow> front (set_cell q v h) p xs = front h p xs"
    by (rule front_cong) (auto dest: in_set_butlastD split: if_splits)
  show "q \<notin> set xs \<Longrightarrow> front (set_pprev q v h) p xs = front h p xs"
    by (rule front_cong) auto
qed

lemma hlist_append:
  "is_hlist h l (xs @ ys) =
     (distinct (l # xs @ ys) \<and> 0 \<notin> set (l # xs @ ys) \<and> front h l xs \<and> chain h (last (l # xs)) ys)"
  by (simp add: is_hlist_def chain_append)

text \<open>The node in front is not among those behind.\<close>

lemma last_front: "distinct (l # xs @ ys) \<Longrightarrow> last (l # xs) \<notin> set ys"
  by (cases xs rule: rev_cases) auto

section \<open>Every operation implements its counterpart on lists\<close>

lemma init_hlist_head_empty: "l \<noteq> 0 \<Longrightarrow> is_hlist (init_hlist_head l h) l []"
  by (simp add: is_hlist_def init_hlist_head_def)

lemma hlist_empty_iff: "is_hlist h l xs \<Longrightarrow> hlist_empty l h = (xs = [])"
  by (cases xs) (auto simp: is_hlist_def hlist_empty_def)

lemma hashed_nodes: "is_hlist h l xs \<Longrightarrow> x \<in> set xs \<Longrightarrow> \<not> hlist_unhashed x h"
proof -
  have "chain h p xs \<Longrightarrow> 0 \<notin> set (p # xs) \<Longrightarrow> x \<in> set xs \<Longrightarrow> pprev h x \<noteq> 0" for p
    by (induction xs arbitrary: p) auto
  then show "is_hlist h l xs \<Longrightarrow> x \<in> set xs \<Longrightarrow> \<not> hlist_unhashed x h" by (auto simp: is_hlist_def hlist_unhashed_def)
qed

text \<open>A node put into the cell behind \<open>xs\<close>.\<close>

lemma add_behind:
  assumes "is_hlist h l (xs @ ys)" "n \<notin> set (l # xs @ ys)" "n \<noteq> 0"
  shows "is_hlist (hlist_add_head n (last (l # xs)) h) l (xs @ n # ys)"
proof -
  define c where "c = last (l # xs)"
  define g where "g = hlist_add_head n c h"
  have h: "distinct (l # xs @ ys)" "0 \<notin> set (l # xs @ ys)" "front h l xs" "chain h c ys"
    using assms(1) unfolding hlist_append c_def by blast+
  have d: "distinct (l # xs)" using h(1) by simp
  have c: "c \<in> set (l # xs)" "c \<notin> set ys" unfolding c_def by (rule last_in_set, simp) (rule last_front [OF h(1)])
  have ne: "n \<noteq> c" using c(1) assms(2) by auto
  have "front g l xs \<and> cell g c = n \<and> pprev g n = c \<and> chain g n ys"
  proof (cases ys)
    case Nil
    then have "cell h c = 0" using h(4) by simp
    then have g_eq: "g = set_pprev n c (set_cell c n (set_cell n 0 h))" by (simp add: g_def hlist_add_head_def Let_def)
    have "front g l xs"
      unfolding g_eq using front_frame(1) [OF d c_def] front_frame(2,3) [of n] h(3) assms(2) by simp
    then show ?thesis using ne Nil by (simp add: g_eq)
  next
    case (Cons y zs)
    have y: "cell h c = y" "pprev h y = c" "chain h y zs" using h(4) Cons by simp_all
    have "y \<noteq> 0" "y \<notin> set (l # xs)" "y \<noteq> n" "y \<notin> set zs" using h(1,2) assms(2) Cons by auto
    note y0 = this
    have g_eq: "g = set_pprev n c (set_cell c n (set_pprev y n (set_cell n y h)))"
      using y(1) y0(1) by (simp add: g_def hlist_add_head_def Let_def)
    have "front g l xs"
      unfolding g_eq using front_frame(1) [OF d c_def] front_frame(2,3) [of n] front_frame(3) [of y] h(3) assms(2) y0(2) by simp
    moreover have "chain g y zs"
      unfolding g_eq using chain_frame y(3) y0 c(2) assms(2) Cons by simp
    moreover have "c \<noteq> y" using c(2) Cons by simp
    ultimately show ?thesis using ne y0 Cons by (simp add: g_eq)
  qed
  then have "front g l xs \<and> chain g c (n # ys)" by simp
  moreover have "distinct (l # xs @ n # ys)" "0 \<notin> set (l # xs @ n # ys)" using h(1,2) assms(2,3) by auto
  ultimately show ?thesis unfolding g_def c_def by (simp only: hlist_append simp_thms)
qed

lemma hlist_add_head_list: "is_hlist h l xs \<Longrightarrow> n \<notin> set (l # xs) \<Longrightarrow> n \<noteq> 0 \<Longrightarrow> is_hlist (hlist_add_head n l h) l (n # xs)"
  using add_behind [of h l "[]" xs n] by simp

lemma hlist_node_eq: "cell g = cell h \<Longrightarrow> pprev g = pprev h \<Longrightarrow> g = (h :: hlist_node)"
  by simp

lemma hlist_add_before_list:
  assumes "is_hlist h l (xs @ e # ys)" "n \<notin> set (l # xs @ e # ys)" "n \<noteq> 0"
  shows "is_hlist (hlist_add_before n e h) l (xs @ n # e # ys)"
proof -
  have d: "distinct (l # xs @ e # ys)" "cell h (last (l # xs)) = e" "pprev h e = last (l # xs)" "e \<noteq> 0"
    using assms(1) by (simp_all add: hlist_append)
  have "n \<noteq> e" "last (l # xs) \<noteq> n" using assms(2) last_in_set [of "l # xs"] by auto
  then have "hlist_add_before n e h = hlist_add_head n (last (l # xs)) h"
    using d by (intro hlist_node_eq) (auto simp: hlist_add_before_def hlist_add_head_def Let_def)
  then show ?thesis using add_behind [OF assms] by simp
qed

lemma hlist_add_after_list:
  assumes "is_hlist h l (xs @ e # ys)" "n \<notin> set (l # xs @ e # ys)" "n \<noteq> 0"
  shows "is_hlist (hlist_add_after e n h) l (xs @ e # n # ys)"
proof -
  have "chain h e ys" using assms(1) by (simp add: hlist_append)
  then have "cell h e \<noteq> n" using assms(2,3) by (cases ys) auto
  moreover have "n \<noteq> e" using assms(2) by auto
  ultimately have "hlist_add_after e n h = hlist_add_head n e h"
    by (intro hlist_node_eq) (auto simp: hlist_add_after_def hlist_add_head_def Let_def)
  then show ?thesis using add_behind [of h l "xs @ [e]" ys n] assms by simp
qed

lemma unlink_list:
  assumes "is_hlist h l (xs @ e # ys)"
  shows "is_hlist (hlist_unlink e h) l (xs @ ys)"
proof -
  let ?c = "last (l # xs)" and ?g = "hlist_unlink e h"
  have h: "distinct (l # xs @ e # ys)" "0 \<notin> set (l # xs @ e # ys)" "front h l xs" "chain h ?c (e # ys)"
    using assms unfolding hlist_append by blast+
  have d: "distinct (l # xs)" using h(1) by simp
  have c: "?c \<notin> set (e # ys)" by (rule last_front [OF h(1)])
  have "front ?g l xs \<and> chain ?g ?c ys"
  proof (cases ys)
    case Nil
    then show ?thesis using h front_frame(1) [OF d refl] by (simp add: hlist_unlink_def Let_def)
  next
    case (Cons y zs)
    have y: "cell h e = y" "pprev h e = ?c" "chain h y zs" "y \<noteq> 0" "y \<notin> set (l # xs)" "y \<notin> set zs"
      using h Cons by auto
    have g: "?g = set_pprev y ?c (set_cell ?c y h)" using y(1,2,4) by (simp add: hlist_unlink_def Let_def)
    have "front ?g l xs" unfolding g using front_frame(1) [OF d refl] front_frame(3) [of y] h(3) y(5) by simp
    moreover have "chain ?g y zs" unfolding g using chain_frame y(3,6) c Cons by simp
    ultimately show ?thesis using Cons by (simp add: g)
  qed
  moreover have "distinct (l # xs @ ys)" "0 \<notin> set (l # xs @ ys)" using h(1,2) by auto
  ultimately show ?thesis by (simp only: hlist_append simp_thms)
qed

lemma hlist_del_list:
  assumes "is_hlist h l (xs @ e # ys)"
  shows "is_hlist (hlist_del e h) l (xs @ ys)"
proof -
  have "e \<notin> set (l # xs @ ys)" using assms by (auto simp: is_hlist_def)
  then show ?thesis
    using unlink_list [OF assms] by (subst hlist_frame [of _ _ _ "hlist_unlink e h"]) (auto simp: hlist_del_def)
qed

lemma hlist_del_init_list:
  assumes "is_hlist h l (xs @ e # ys)"
  shows "is_hlist (hlist_del_init e h) l (xs @ ys)" "hlist_unhashed e (hlist_del_init e h)"
    "hlist_del_init e (hlist_del_init e h) = hlist_del_init e h"
proof -
  have "e \<notin> set (l # xs @ ys)" using assms by (auto simp: is_hlist_def)
  moreover have i: "hlist_del_init e h = init_hlist_node e (hlist_unlink e h)"
    using hashed_nodes [OF assms, of e] by (simp add: hlist_del_init_def)
  ultimately show "is_hlist (hlist_del_init e h) l (xs @ ys)"
    unfolding i using unlink_list [OF assms]
    by (subst hlist_frame [of _ _ _ "hlist_unlink e h"]) (auto simp: init_hlist_node_def)
  show u: "hlist_unhashed e (hlist_del_init e h)"
    unfolding i by (simp add: init_hlist_node_def hlist_unhashed_def)
  show "hlist_del_init e (hlist_del_init e h) = hlist_del_init e h"
    unfolding hlist_del_init_def [of e "hlist_del_init e h"] using u by simp
qed

section \<open>Other lists\<close>

text \<open>An operation writes only to the nodes of the lists it is given.\<close>

lemma add_head_other:
  assumes "is_hlist h l xs" "x \<notin> set (n # l # xs)"
  shows "cell (hlist_add_head n l h) x = cell h x \<and> pprev (hlist_add_head n l h) x = pprev h x"
  using assms by (cases xs) (auto simp: hlist_add_head_def Let_def is_hlist_def)

lemma del_other:
  assumes "is_hlist h l xs" "e \<in> set xs" "x \<notin> set (l # xs)"
  shows "cell (hlist_del e h) x = cell h x \<and> pprev (hlist_del e h) x = pprev h x"
proof -
  obtain us ys where xs: "xs = us @ e # ys" using assms(2) by (auto dest: split_list)
  have "pprev h e \<in> set (l # us)" "cell h e \<noteq> 0 \<Longrightarrow> cell h e \<in> set ys"
  proof -
    have c: "chain h (last (l # us)) (e # ys)" using assms(1) unfolding xs hlist_append by blast
    then have "pprev h e = last (l # us)" by simp
    then show "pprev h e \<in> set (l # us)" using last_in_set [of "l # us"] by simp
    show "cell h e \<noteq> 0 \<Longrightarrow> cell h e \<in> set ys" using c by (cases ys) auto
  qed
  then show ?thesis using assms(3) xs by (auto simp: hlist_del_def hlist_unlink_def Let_def)
qed

section \<open>Loops\<close>

text \<open>
  A loop runs along the nodes it finds: \<open>I\<close> is what holds of the nodes to come and the state. The cell of the
  node at hand is asked for after the body, or before it in the safe loops.
\<close>

lemma hfor_runs:
  assumes "I xs st" "0 \<notin> set xs"
    and "\<And>x xs st. I (x # xs) st \<Longrightarrow>
      cell (fst (body (list_entry x offset) st)) x = hd (xs @ [0]) \<and> I xs (body (list_entry x offset) st)"
  shows "hfor_from offset body (hd (xs @ [0])) st = Some (fold (\<lambda>x. body (list_entry x offset)) xs st) \<and>
    I [] (fold (\<lambda>x. body (list_entry x offset)) xs st)"
  using assms(1,2)
proof (induction xs arbitrary: st)
  case (Cons x xs)
  from assms(3) [OF Cons.prems(1)] Cons show ?case
    by (subst hfor_from.simps) (simp add: Let_def)
qed (simp add: hfor_from.simps)

lemma hfor_safe_runs:
  assumes "I xs st" "0 \<notin> set xs"
    and "\<And>x xs st. I (x # xs) st \<Longrightarrow> cell (fst st) x = hd (xs @ [0]) \<and> I xs (body (list_entry x offset) st)"
  shows "hfor_safe_from offset body (hd (xs @ [0])) st = Some (fold (\<lambda>x. body (list_entry x offset)) xs st) \<and>
    I [] (fold (\<lambda>x. body (list_entry x offset)) xs st)"
  using assms(1,2)
proof (induction xs arbitrary: st)
  case (Cons x xs)
  from assms(3) [OF Cons.prems(1)] Cons show ?case
    by (subst hfor_safe_from.simps) (simp add: Let_def)
qed (simp add: hfor_safe_from.simps)

lemma chain_first: "chain h p xs \<Longrightarrow> cell h p = hd (xs @ [0])"
  by (cases xs) auto

text \<open>A loop whose body leaves the memory alone is a fold over the entries.\<close>

lemma hlist_for_each_entry_fold:
  assumes "is_hlist (fst st) l xs" "\<And>x st. fst (body x st) = fst st"
  shows "hlist_for_each_entry offset body l st = Some (fold (\<lambda>x. body (list_entry x offset)) xs st)"
    and "hlist_for_each_entry_safe offset body l st = Some (fold (\<lambda>x. body (list_entry x offset)) xs st)"
proof -
  let ?I = "\<lambda>ys t. fst t = fst st \<and> (\<exists>p. chain (fst st) p ys)"
  have first: "cell (fst st) l = hd (xs @ [0])" "0 \<notin> set xs" "?I xs st"
    using assms(1) chain_first [of "fst st" l xs] by (auto simp: is_hlist_def)
  have after: "cell (fst (body (list_entry x offset) t)) x = hd (ys @ [0]) \<and> ?I ys (body (list_entry x offset) t)"
    if "?I (x # ys) t" for x ys t
    using that assms(2) chain_first [of "fst st" x ys] by auto
  have before: "cell (fst t) x = hd (ys @ [0]) \<and> ?I ys (body (list_entry x offset) t)" if "?I (x # ys) t" for x ys t
    using that assms(2) chain_first [of "fst st" x ys] by auto
  from hfor_runs [where I = ?I, OF first(3,2), of body offset] after
  show "hlist_for_each_entry offset body l st = Some (fold (\<lambda>x. body (list_entry x offset)) xs st)"
    unfolding hlist_for_each_entry_def first(1) by blast
  from hfor_safe_runs [where I = ?I, OF first(3,2), of body offset] before
  show "hlist_for_each_entry_safe offset body l st = Some (fold (\<lambda>x. body (list_entry x offset)) xs st)"
    unfolding hlist_for_each_entry_safe_def first(1) by blast
qed

text \<open>The safe loop may delete the entry it visits: it returns, has visited every entry, and the list is empty.\<close>

lemma hlist_safe_loop_deletes:
  fixes g :: "ptr \<Rightarrow> 's \<Rightarrow> 's"
  assumes "is_hlist h l xs"
  shows "\<exists>h'. hlist_for_each_entry_safe offset (\<lambda>p (h, s). (hlist_del (p + offset) h, g p s)) l (h, s) =
       Some (h', fold (\<lambda>x. g (list_entry x offset)) xs s) \<and> is_hlist h' l []"
proof -
  let ?body = "\<lambda>p (h, s). (hlist_del (p + offset) h, g p s)"
  let ?I = "\<lambda>ys t. is_hlist (fst t) l ys"
  have step: "cell (fst t) x = hd (ys @ [0]) \<and> ?I ys (?body (list_entry x offset) t)" if "?I (x # ys) t" for x ys and t :: "hlist_node \<times> 's"
  proof -
    have "cell (fst t) x = hd (ys @ [0])" using that chain_first by (auto simp: is_hlist_def)
    moreover have "is_hlist (hlist_del x (fst t)) l ys" using hlist_del_list [of "fst t" l "[]" x ys] that by simp
    ultimately show ?thesis by (simp add: case_prod_unfold list_entry_def)
  qed
  have first: "cell h l = hd (xs @ [0])" "0 \<notin> set xs" using assms chain_first by (auto simp: is_hlist_def)
  have res: "snd (fold (\<lambda>x. ?body (list_entry x offset)) ys t) = fold (\<lambda>x. g (list_entry x offset)) ys (snd t)" for ys and t :: "hlist_node \<times> 's"
    by (induction ys arbitrary: t) (simp_all add: case_prod_unfold)
  from hfor_safe_runs [of ?I xs "(h, s)" ?body offset] assms first(2) step
  have "hfor_safe_from offset ?body (hd (xs @ [0])) (h, s) = Some (fold (\<lambda>x. ?body (list_entry x offset)) xs (h, s))"
    "is_hlist (fst (fold (\<lambda>x. ?body (list_entry x offset)) xs (h, s))) l []" by (simp_all add: case_prod_unfold)
  then show ?thesis
    unfolding hlist_for_each_entry_safe_def fst_conv first(1)
    using res [of xs "(h, s)"] by (intro exI conjI) (simp_all add: prod_eq_iff)
qed

end
