(* ===== verification/Events.thy ===== *)
theory Events
  imports Network
begin

text \<open>
  The watchers of the event loop in memory (events.c) and the listener of neighbour events that comes and
  goes with the farms in an ingress mode (\<open>net_eventd_init\<close>, \<open>net_eventd_stop\<close> of network.c,
  \<open>farm_manage_eventd\<close> of farms.c). Elsewhere the listener is the flag \<open>event_enabled\<close>; here it is a
  block of memory and a socket, and the invariant says that the flag is only set while both are there.
\<close>

section \<open>Memory\<close>

text \<open>
  Blocks and sockets are numbered as they are handed out. \<open>net_ntlnk\<close> and \<open>srv_accept\<close> are the pointers of
  \<open>st_ev\<close>, \<open>io_handle_io\<close> and \<open>nl\<close> those of network.c; a pointer may outlive what it points to. An operation
  that follows such a pointer, or NULL, is \<open>None\<close>.
\<close>

record events_stct =
  loop_set :: bool
  srv_accept :: "oid option"
  net_ntlnk :: "oid option"
  io_handle_io :: "oid option"
  nl :: "oid option"
  net_event_enabled :: bool
  blocks :: "oid set"
  started :: "oid set"
  sockets :: "oid set"
  next_block :: oid

definition st_ev :: events_stct where
  "st_ev = \<lparr>loop_set = False, srv_accept = None, net_ntlnk = None, io_handle_io = None, nl = None,
     net_event_enabled = False, blocks = {}, started = {}, sockets = {}, next_block = 0\<rparr>"

definition malloc_watcher :: "bool \<Rightarrow> events_stct \<Rightarrow> oid option \<times> events_stct" where
  "malloc_watcher room m =
     (if room then (Some (next_block m), m\<lparr>blocks := insert (next_block m) (blocks m), next_block := Suc (next_block m)\<rparr>)
      else (None, m))"

definition free_block :: "oid \<Rightarrow> events_stct \<Rightarrow> events_stct option" where
  "free_block i m = (if i \<in> blocks m then Some (m\<lparr>blocks := blocks m - {i}\<rparr>) else None)"

section \<open>The event loop\<close>

definition loop_init :: "events_stct \<Rightarrow> int \<times> events_stct" where
  "loop_init m = (0, m\<lparr>loop_set := True\<rparr>)"

definition get_loop :: "events_stct \<Rightarrow> bool" where
  "get_loop m = loop_set m"

definition events_create_ntlnk :: "bool \<Rightarrow> events_stct \<Rightarrow> oid option \<times> events_stct" where
  "events_create_ntlnk room m = (let (p, m1) = malloc_watcher room m in (p, m1\<lparr>net_ntlnk := p\<rparr>))"

definition events_delete_ntlnk :: "events_stct \<Rightarrow> events_stct option" where
  "events_delete_ntlnk m = (case net_ntlnk m of None \<Rightarrow> Some m | Some i \<Rightarrow> free_block i m)"

definition events_get_ntlnk :: "events_stct \<Rightarrow> oid option" where
  "events_get_ntlnk m = net_ntlnk m"

definition events_create_srv :: "bool \<Rightarrow> events_stct \<Rightarrow> oid option \<times> events_stct" where
  "events_create_srv room m = (let (p, m1) = malloc_watcher room m in (p, m1\<lparr>srv_accept := p\<rparr>))"

definition events_delete_srv :: "events_stct \<Rightarrow> events_stct option" where
  "events_delete_srv m = (case srv_accept m of None \<Rightarrow> Some m | Some i \<Rightarrow> free_block i m)"

definition events_get_srv :: "events_stct \<Rightarrow> oid option" where
  "events_get_srv m = srv_accept m"

section \<open>The listener\<close>

text \<open>\<open>ev_io_init\<close> and \<open>ev_io_start\<close>, and \<open>ev_io_stop\<close>: they write to the watcher.\<close>

definition ev_io_start :: "oid option \<Rightarrow> events_stct \<Rightarrow> events_stct option" where
  "ev_io_start p m =
     (case p of
        None \<Rightarrow> None
      | Some i \<Rightarrow> if loop_set m \<and> i \<in> blocks m then Some (m\<lparr>started := insert i (started m)\<rparr>) else None)"

definition ev_io_stop :: "oid option \<Rightarrow> events_stct \<Rightarrow> events_stct option" where
  "ev_io_stop p m =
     (case p of
        None \<Rightarrow> None
      | Some i \<Rightarrow> if loop_set m \<and> i \<in> blocks m then Some (m\<lparr>started := started m - {i}\<rparr>) else None)"

text \<open>\<open>room\<close>, \<open>opened\<close> and \<open>bound\<close> say whether \<open>malloc\<close>, \<open>mnl_socket_open\<close> and \<open>mnl_socket_bind\<close> succeed.\<close>

definition net_eventd_init_mem :: "bool \<Rightarrow> bool \<Rightarrow> bool \<Rightarrow> events_stct \<Rightarrow> (int \<times> events_stct) option" where
  "net_eventd_init_mem room opened bound m =
     (let (io, m1) = events_create_ntlnk room m;
          m2 = m1\<lparr>io_handle_io := io\<rparr>;
          sock = next_block m2;
          m3 = (if opened then m2\<lparr>nl := Some sock, sockets := insert sock (sockets m2), next_block := Suc sock\<rparr>
                else m2\<lparr>nl := None\<rparr>)
      in if \<not> opened \<or> \<not> bound then Some (-1, m3)
         else map_option (\<lambda>m. (0, m\<lparr>net_event_enabled := True\<rparr>)) (ev_io_start io m3))"

definition net_eventd_stop_mem :: "events_stct \<Rightarrow> (int \<times> events_stct) option" where
  "net_eventd_stop_mem m =
     Option.bind (ev_io_stop (io_handle_io m) m) (\<lambda>m1.
       case nl m1 of
         None \<Rightarrow> None
       | Some sock \<Rightarrow>
           if sock \<notin> sockets m1 then None
           else let m2 = m1\<lparr>sockets := sockets m1 - {sock}\<rparr>
                in map_option (\<lambda>m. (0, m\<lparr>net_event_enabled := False\<rparr>))
                     (case io_handle_io m2 of None \<Rightarrow> Some m2 | Some i \<Rightarrow> free_block i m2))"

text \<open>\<open>farm_manage_eventd\<close> on the memory; \<open>dsr\<close> is the number of farms in an ingress mode it counts.\<close>

definition manage_eventd_mem :: "int \<Rightarrow> bool \<Rightarrow> bool \<Rightarrow> bool \<Rightarrow> events_stct \<Rightarrow> events_stct option" where
  "manage_eventd_mem dsr room opened bound m =
     Option.bind (if dsr \<noteq> 0 \<and> \<not> net_event_enabled m then map_option snd (net_eventd_init_mem room opened bound m) else Some m)
       (\<lambda>m1. if dsr = 0 \<and> net_event_enabled m1 then map_option snd (net_eventd_stop_mem m1) else Some m1)"

section \<open>The listener is there while the flag is set\<close>

definition listener_ok :: "events_stct \<Rightarrow> bool" where
  "listener_ok m =
     (loop_set m \<and> started m \<subseteq> blocks m \<and> (\<forall>i \<in> blocks m \<union> sockets m. i < next_block m) \<and>
      (if net_event_enabled m
       then \<exists>i sock. io_handle_io m = Some i \<and> i \<in> started m \<and> nl m = Some sock \<and> sock \<in> sockets m
       else io_handle_io m = None \<or> the (io_handle_io m) \<notin> started m))"

lemmas event_defs = net_eventd_init_mem_def net_eventd_stop_mem_def events_create_ntlnk_def malloc_watcher_def
  ev_io_start_def ev_io_stop_def free_block_def Let_def

lemma init_ok:
  assumes "listener_ok m" "\<not> net_event_enabled m"
  shows "\<exists>r m'. net_eventd_init_mem True opened bound m = Some (r, m') \<and> listener_ok m' \<and>
    net_event_enabled m' = (opened \<and> bound) \<and> r = (if opened \<and> bound then 0 else -1)"
  using assms by (cases "opened \<and> bound") (auto simp: event_defs listener_ok_def less_Suc_eq split: if_splits)

lemma stop_runs:
  assumes "listener_ok m" "net_event_enabled m"
  obtains i sock where "io_handle_io m = Some i" "nl m = Some sock" "i \<in> started m"
    "net_eventd_stop_mem m = Some (0, m\<lparr>started := started m - {i}, sockets := sockets m - {sock},
       blocks := blocks m - {i}, net_event_enabled := False\<rparr>)"
proof -
  obtain i sock where i: "io_handle_io m = Some i" "nl m = Some sock" "i \<in> started m" "sock \<in> sockets m" "i \<in> blocks m" "loop_set m"
    using assms by (auto simp: listener_ok_def)
  then show thesis by (intro that [OF i(1-3)]) (simp add: event_defs)
qed

lemma stop_ok:
  assumes "listener_ok m" "net_event_enabled m"
  shows "\<exists>m'. net_eventd_stop_mem m = Some (0, m') \<and> listener_ok m' \<and> \<not> net_event_enabled m'"
proof (rule stop_runs [OF assms])
  fix i sock
  assume i: "io_handle_io m = Some i" and stop: "net_eventd_stop_mem m = Some (0, m\<lparr>started := started m - {i},
    sockets := sockets m - {sock}, blocks := blocks m - {i}, net_event_enabled := False\<rparr>)"
  have "listener_ok (m\<lparr>started := started m - {i}, sockets := sockets m - {sock}, blocks := blocks m - {i}, net_event_enabled := False\<rparr>)"
    using assms(1) i by (auto simp: listener_ok_def)
  with stop show ?thesis by simp
qed

text \<open>The watcher of the listener is freed but the pointers to it are kept: it can not be stopped twice.\<close>

lemma stop_twice:
  assumes "listener_ok m" "net_event_enabled m" "net_eventd_stop_mem m = Some (r, m')"
  shows "net_eventd_stop_mem m' = None \<and> (events_get_ntlnk m = io_handle_io m \<longrightarrow> events_delete_ntlnk m' = None)"
  by (rule stop_runs [OF assms(1,2)])
     (use assms(3) in \<open>auto simp: event_defs events_get_ntlnk_def events_delete_ntlnk_def\<close>)

text \<open>A start that fails leaves its block behind, and the socket when it could not be bound.\<close>

lemma failed_start_leaks:
  assumes "listener_ok m" "\<not> net_event_enabled m" "finite (blocks m)" "net_eventd_init_mem True opened False m = Some (r, m')"
  shows "card (blocks m') = Suc (card (blocks m)) \<and> (opened \<longrightarrow> sockets m \<subset> sockets m')"
proof -
  have "\<forall>i \<in> blocks m \<union> sockets m. i < next_block m" using assms(1) by (simp add: listener_ok_def)
  then have "next_block m \<in> blocks m \<Longrightarrow> next_block m < next_block m"
    "Suc (next_block m) \<in> sockets m \<Longrightarrow> Suc (next_block m) < next_block m" by blast+
  then have "next_block m \<notin> blocks m" "Suc (next_block m) \<notin> sockets m" by auto
  then show ?thesis using assms(3,4) by (auto simp: event_defs split: if_splits)
qed

text \<open>
  (C9) The listener of neighbour events. Whatever the number of farms in an ingress mode and whether the
  socket can be had, managing the listener never follows a dangling pointer and keeps the invariant, by
  which the watcher and the socket exist while the flag is set; and when the socket can be had, the flag
  is the one the rest of the development works with.
\<close>

theorem listener_managed:
  assumes "listener_ok m" "net_event_enabled m = event_enabled s"
    and "dsr = dsr_counter (farm_s_update_dsr_counter s)"
  shows "\<exists>m'. manage_eventd_mem dsr True opened bound m = Some m' \<and> listener_ok m' \<and>
    (opened \<and> bound \<longrightarrow> net_event_enabled m' = event_enabled (farm_manage_eventd s))"
proof -
  have e: "event_enabled (farm_s_update_dsr_counter s) = event_enabled s"
    by (simp add: farm_s_update_dsr_counter_def obj_set_dsr_counter_def)
  consider (start) "dsr \<noteq> 0" "\<not> net_event_enabled m" | (stop) "dsr = 0" "net_event_enabled m"
    | (none) "(dsr \<noteq> 0) = net_event_enabled m" by blast
  then show ?thesis
  proof cases
    case start
    obtain r m' where "net_eventd_init_mem True opened bound m = Some (r, m')" "listener_ok m'" "net_event_enabled m' = (opened \<and> bound)"
      using init_ok [OF assms(1) start(2)] by blast
    then show ?thesis using start assms(2,3) e by (auto simp: manage_eventd_mem_def farm_manage_eventd_def Let_def)
  next
    case stop
    obtain m' where "net_eventd_stop_mem m = Some (0, m')" "listener_ok m'" "\<not> net_event_enabled m'"
      using stop_ok [OF assms(1) stop(2)] by blast
    then show ?thesis using stop assms(2,3) e by (auto simp: manage_eventd_mem_def farm_manage_eventd_def Let_def)
  next
    case none
    then show ?thesis using assms e by (auto simp: manage_eventd_mem_def farm_manage_eventd_def Let_def)
  qed
qed

text \<open>One farm in DSR mode: the listener starts.\<close>

theorem listener_managed_witness:
  "\<exists>m'. manage_eventd_mem 1 True True True (snd (loop_init st_ev)) = Some m' \<and> listener_ok m' \<and> net_event_enabled m'"
proof -
  let ?s = "objects_init\<lparr>farms := [new_farm 0 ''lb''\<lparr>f_mode := VALUE_MODE_DSR, f_state := VALUE_STATE_UP\<rparr>]\<rparr>"
  have 1: "listener_ok (snd (loop_init st_ev))" "net_event_enabled (snd (loop_init st_ev)) = event_enabled ?s"
    by (simp_all add: listener_ok_def loop_init_def st_ev_def objects_init_def)
  have 2: "1 = dsr_counter (farm_s_update_dsr_counter ?s)"
    by (simp add: farm_s_update_dsr_counter_def obj_set_dsr_counter_def farm_is_ingress_mode_def)
  have "event_enabled (farm_manage_eventd ?s)"
    by (simp add: farm_manage_eventd_def Let_def farm_s_update_dsr_counter_def obj_set_dsr_counter_def farm_is_ingress_mode_def objects_init_def)
  then show ?thesis using listener_managed [OF 1 2, of True True] by auto
qed

end
