(* ===== verification/LogPrint.thy ===== *)
theory LogPrint
  imports Store
begin

text \<open>
  What the daemon writes to its log: the state of u_log.c and the functions that print the objects at
  the level of debugging (\<open>*_print\<close> and \<open>*_s_print\<close> of farms.c, addresses.c, backends.c, policies.c,
  elements.c, sessions.c and the links). A printed object is its list of lines; \<open>None\<close> when a line would
  need a text that is NULL or an object that is gone.
\<close>

section \<open>The log\<close>

abbreviation LOG_ERR :: int where "LOG_ERR \<equiv> 3"
abbreviation LOG_NOTICE :: int where "LOG_NOTICE \<equiv> 5"
abbreviation LOG_DEBUG :: int where "LOG_DEBUG \<equiv> 7"
abbreviation LOG_PREFIX_BUFSIZE :: nat where "LOG_PREFIX_BUFSIZE \<equiv> 100"
abbreviation UTILS_LOG_OUTPUT_SYSLOG :: flags where "UTILS_LOG_OUTPUT_SYSLOG \<equiv> 1"
abbreviation UTILS_LOG_OUTPUT_STDOUT :: flags where "UTILS_LOG_OUTPUT_STDOUT \<equiv> 2"
abbreviation UTILS_LOG_OUTPUT_STDERR :: flags where "UTILS_LOG_OUTPUT_STDERR \<equiv> 4"

datatype log_sink = To_stdout | To_stderr | To_syslog

record ulog =
  u_log_prefix :: string
  u_log_level :: int
  u_log_output :: flags

definition ulog_init :: ulog where
  "ulog_init = \<lparr>u_log_prefix = [], u_log_level = LOG_NOTICE, u_log_output = UTILS_LOG_OUTPUT_SYSLOG\<rparr>"

text \<open>The lines one call writes, in order; \<open>text\<close> is the format with its arguments in place.\<close>

definition u_log_print :: "ulog \<Rightarrow> int \<Rightarrow> string \<Rightarrow> (log_sink \<times> string) list" where
  "u_log_print l loglevel text =
     (if loglevel > u_log_level l then []
      else (if flag (u_log_output l) UTILS_LOG_OUTPUT_STDOUT then [(To_stdout, text @ ''\<newline>'')] else []) @
           (if flag (u_log_output l) UTILS_LOG_OUTPUT_STDERR then [(To_stderr, text @ ''\<newline>'')] else []) @
           (if flag (u_log_output l) UTILS_LOG_OUTPUT_SYSLOG then [(To_syslog, text)] else []))"

definition u_log_set_level :: "int \<Rightarrow> ulog \<Rightarrow> ulog" where
  "u_log_set_level loglevel l = l\<lparr>u_log_level := loglevel\<rparr>"

text \<open>The codes of \<open>enum u_log_output\<close> are 0 for the log of the system up to 4; any other code is taken as 0.\<close>

definition u_log_set_output :: "int \<Rightarrow> ulog \<Rightarrow> ulog" where
  "u_log_set_output output l =
     l\<lparr>u_log_output :=
        (if output = 1 then UTILS_LOG_OUTPUT_STDOUT
         else if output = 2 then UTILS_LOG_OUTPUT_STDERR
         else if output = 3 then UTILS_LOG_OUTPUT_SYSLOG OR UTILS_LOG_OUTPUT_STDOUT
         else if output = 4 then UTILS_LOG_OUTPUT_SYSLOG OR UTILS_LOG_OUTPUT_STDERR
         else UTILS_LOG_OUTPUT_SYSLOG)\<rparr>"

definition u_log_set_prefix :: "string \<Rightarrow> ulog \<Rightarrow> (log_sink \<times> string) list \<times> ulog" where
  "u_log_set_prefix s l =
     (if length s \<ge> LOG_PREFIX_BUFSIZE
      then (u_log_print l LOG_ERR (''The farm name is greater than the prefix log: '' @ print_u (length s) @ '' >= '' @
                                   print_u LOG_PREFIX_BUFSIZE), l)
      else ([], l\<lparr>u_log_prefix := s\<rparr>))"

section \<open>Lines\<close>

text \<open>\<open>ind\<close> is what stands before the bracket.\<close>

definition log_text :: "string \<Rightarrow> string \<Rightarrow> cptr \<Rightarrow> string list option" where
  "log_text ind key v = map_option (\<lambda>t. [ind @ ''['' @ key @ ''] '' @ t]) v"

definition log_opt :: "string \<Rightarrow> string \<Rightarrow> cptr \<Rightarrow> string list option" where
  "log_opt ind key v = (if v = None then Some [] else log_text ind key v)"

definition log_d :: "string \<Rightarrow> string \<Rightarrow> int \<Rightarrow> string list option" where
  "log_d ind key i = log_text ind key (Some (print_d i))"

definition log_b :: "string \<Rightarrow> string \<Rightarrow> bool \<Rightarrow> string list option" where
  "log_b ind key b = log_d ind key (if b then 1 else 0)"

definition log_act :: "string \<Rightarrow> string \<Rightarrow> action \<Rightarrow> string list option" where
  "log_act ind key a = log_d ind key (int (action_code a))"

definition log_all :: "string list option list \<Rightarrow> string list option" where
  "log_all ls = map_option concat (those ls)"

definition log_if :: "bool \<Rightarrow> string list option \<Rightarrow> string list option" where
  "log_if c l = (if c then l else Some [])"

section \<open>Objects\<close>

definition backend_print :: "backend \<Rightarrow> string list option" where
  "backend_print b =
     log_all [Some [''    [backend] ''],
       log_text ''       '' ''name'' (Some (b_name b)),
       log_text ''       '' ''fqdn'' (Some (b_fqdn b)),
       log_opt ''       '' ''oface'' (b_oface b),
       log_d ''      *'' ''ofidx'' (b_ofidx b),
       log_opt ''       '' ''ip-addr'' (b_ipaddr b),
       log_opt ''       '' ''ether-addr'' (b_ethaddr b),
       log_text ''       '' ''port'' (Some (b_port b)),
       log_opt ''       '' ''source-addr'' (b_srcaddr b),
       log_text ''       '' ''mark'' (Some (''0x'' @ print_x (b_mark b))),
       log_d ''       '' ''est-connlimit'' (b_estconnlimit b),
       log_if (b_estconnlimit_logprefix b \<noteq> ''KNAME-FNAME-BNAME '')
         (log_text ''       '' ''est-connlimit-log-prefix'' (Some (b_estconnlimit_logprefix b))),
       log_d ''       '' ''weight'' (b_weight b),
       log_d ''       '' ''priority'' (b_priority b),
       log_text ''       '' ''state'' (obj_print_state (b_state b)),
       log_act ''      *'' ''action'' (b_action b)]"

definition backend_s_print :: "farm \<Rightarrow> string list option" where
  "backend_s_print f = log_all (map backend_print (f_backends f))"

definition element_s_print :: "policy \<Rightarrow> string list option" where
  "element_s_print p =
     log_all (map (\<lambda>e. log_all [Some [''    [element] ''],
       log_text ''       '' ''data'' (Some (e_data e)),
       log_if (p_timeout p \<noteq> 0 \<and> e_time e \<noteq> None \<and> e_time e \<noteq> Some []) (log_text ''       '' ''time'' (e_time e)),
       log_text ''       '' ''counter-packets'' (Some (e_counter_pkts e)),
       log_text ''       '' ''counter-bytes'' (Some (e_counter_bytes e)),
       log_act ''       *'' ''action'' (e_action e)]) (p_elements p))"

definition policy_print :: "policy \<Rightarrow> string list option" where
  "policy_print p =
     log_all [Some ['' [policy] ''],
       log_text ''    '' ''name'' (Some (p_name p)),
       log_text ''    '' ''type'' (obj_print_policy_type (p_type p)),
       log_text ''    '' ''route'' (obj_print_policy_route (p_route p)),
       log_text ''    '' ''family'' (obj_print_family (p_family p)),
       log_d ''    '' ''timeout'' (p_timeout p),
       log_text ''    '' ''log-prefix'' (Some (p_logprefix p)),
       log_d ''    *'' ''used'' (p_used p),
       log_d ''    *'' ''total_elem'' (p_total_elem p),
       log_act ''    *'' ''action'' (p_action p),
       log_if (p_total_elem p \<noteq> 0) (element_s_print p)]"

definition policies_s_print :: "objs \<Rightarrow> string list option" where
  "policies_s_print s = log_all (map policy_print (policies s))"

text \<open>The links follow their pointers.\<close>

definition policy_link_print :: "objs \<Rightarrow> oid \<Rightarrow> action \<Rightarrow> string list option" where
  "policy_link_print s pid act =
     log_all [Some [''    [policy] ''], log_text ''       '' ''name'' (map_option p_name (get_policy pid s)),
              log_act ''       *'' ''action'' act]"

definition farmpolicy_s_print :: "objs \<Rightarrow> farm \<Rightarrow> string list option" where
  "farmpolicy_s_print s f = log_all (map (\<lambda>fp. policy_link_print s (fp_policy fp) (fp_action fp)) (f_policies f))"

definition addresspolicy_s_print :: "objs \<Rightarrow> address \<Rightarrow> string list option" where
  "addresspolicy_s_print s a = log_all (map (\<lambda>ap. policy_link_print s (ap_policy ap) (ap_action ap)) (a_policies a))"

definition farmaddress_print :: "objs \<Rightarrow> farmaddress \<Rightarrow> string list option" where
  "farmaddress_print s fa =
     Option.bind (get_address (fa_address fa) s) (\<lambda>a.
       log_all [Some [''    [address] ''],
         log_text ''       '' ''name'' (Some (a_name a)),
         log_act ''      *'' ''action'' (fa_action fa),
         log_opt ''       '' ''iface'' (a_iface a),
         log_opt ''       '' ''iether-addr'' (a_iethaddr a),
         log_d ''      *'' ''ifidx'' (a_ifidx a),
         log_text ''       '' ''ip-addr'' (Some (a_ipaddr a)),
         log_text ''       '' ''ports'' (Some (a_ports a)),
         log_text ''       '' ''family'' (obj_print_family (a_family a)),
         log_text ''       '' ''protocol'' (obj_print_proto (a_protocol a)),
         log_act ''      *'' ''policies_action'' (a_policies_action a)])"

definition farmaddress_s_print :: "objs \<Rightarrow> farm \<Rightarrow> string list option" where
  "farmaddress_s_print s f = log_all (map (farmaddress_print s) (f_addresses f))"

definition address_print :: "objs \<Rightarrow> address \<Rightarrow> string list option" where
  "address_print s a =
     log_all [Some ['' [address] ''],
       log_text ''    '' ''name'' (Some (a_name a)),
       log_text ''    '' ''fqdn'' (Some (a_fqdn a)),
       log_opt ''    '' ''iface'' (a_iface a),
       log_opt ''    '' ''iether-addr'' (a_iethaddr a),
       log_d ''   *'' ''ifidx'' (a_ifidx a),
       log_text ''    '' ''ip-addr'' (Some (a_ipaddr a)),
       log_text ''    '' ''ports'' (Some (a_ports a)),
       log_text ''    '' ''family'' (obj_print_family (a_family a)),
       log_text ''    '' ''protocol'' (obj_print_proto (a_protocol a)),
       log_text ''    '' ''verdict'' (Some (obj_print_verdict (a_verdict a))),
       log_text ''    '' ''log-prefix'' (Some (a_logprefix a)),
       log_text ''    '' ''log-rtlimit'' (Some (obj_print_rtlimit (a_logrtlimit a) (a_logrtlimit_unit a))),
       log_d ''   *'' ''used'' (a_used a),
       log_act ''   *'' ''action'' (a_action a),
       log_act ''   *'' ''policies_action'' (a_policies_action a),
       log_text ''   *'' ''nft_chains'' (Some (print_x (a_nft_chains a))),
       log_if (a_policies_used a > 0) (addresspolicy_s_print s a)]"

definition address_s_print :: "objs \<Rightarrow> string list option" where
  "address_s_print s = log_all (map (address_print s) (addresses s))"

text \<open>The backend of a session is a pointer into the farm; that of a session without one prints as undefined.\<close>

definition session_backend_name :: "farm \<Rightarrow> session \<Rightarrow> cptr" where
  "session_backend_name f se =
     (case s_bck se of None \<Rightarrow> Some ''UNDEFINED'' | Some bid \<Rightarrow> map_option b_name (get_bck bid f))"

definition session_print :: "farm \<Rightarrow> bool \<Rightarrow> session \<Rightarrow> string list option" where
  "session_print f timed se =
     log_all [Some [''    [session] ''],
       log_text ''       '' ''client'' (Some (s_client se)),
       log_text ''       '' ''backend'' (session_backend_name f se),
       log_if timed (log_text ''       '' ''expiration'' (s_expiration se)),
       log_text ''       *'' ''state'' (obj_print_state (s_state se)),
       log_act ''       *'' ''action'' (s_action se)]"

definition session_s_print :: "farm \<Rightarrow> string list option" where
  "session_s_print f =
     log_all (map (session_print f False) (f_static_sessions f) @ map (session_print f True) (f_timed_sessions f))"

text \<open>The address a farm shows is its first one; \<open>a\<close> is \<open>None\<close> for a farm without addresses.\<close>

definition farm_address_print :: "address option \<Rightarrow> string list option" where
  "farm_address_print a =
     (case a of
        None \<Rightarrow> Some []
      | Some a \<Rightarrow>
          log_all [
            log_opt ''    '' ''iface'' (a_iface a),
            log_opt ''    '' ''iether-addr'' (a_iethaddr a),
            log_d ''   *'' ''ifidx'' (a_ifidx a),
            log_text ''    '' ''virtual-addr'' (Some (a_ipaddr a)),
            log_text ''    '' ''virtual-ports'' (Some (a_ports a)),
            log_text ''    '' ''family'' (obj_print_family (a_family a)),
            log_text ''    '' ''protocol'' (obj_print_proto (a_protocol a))])"

definition farm_service_print :: "farm \<Rightarrow> string list option" where
  "farm_service_print f =
     log_all [
       log_opt ''    '' ''source-addr'' (f_srcaddr f),
       log_text ''    '' ''mode'' (obj_print_mode (f_mode f)),
       log_if (f_mode f = VALUE_MODE_STLSDNAT) (log_d ''    '' ''responsettl'' (f_responsettl f)),
       log_text ''    '' ''scheduler'' (obj_print_sched (f_scheduler f)),
       log_text ''    '' ''sched-param'' (Some (obj_print_meta (f_schedparam f))),
       log_text ''    '' ''persistence'' (Some (obj_print_meta (f_persistence f))),
       log_d ''    '' ''persist-ttl'' (f_persistttl f),
       log_text ''    '' ''helper'' (obj_print_helper (f_helper f)),
       log_text ''    '' ''log'' (Some (obj_print_log (f_log f))),
       log_text ''    '' ''log-prefix'' (Some (f_logprefix f)),
       log_text ''    '' ''log-rtlimit'' (Some (obj_print_rtlimit (f_logrtlimit f) (f_logrtlimit_unit f))),
       log_text ''    '' ''mark'' (Some (''0x'' @ print_x (f_mark f))),
       log_text ''    '' ''state'' (obj_print_state (f_state f)),
       log_d ''    '' ''priority'' (f_priority f)]"

definition farm_limits_print :: "farm \<Rightarrow> string list option" where
  "farm_limits_print f =
     log_all [
       log_d ''    '' ''limits-ttl'' (f_limitsttl f),
       log_text ''    '' ''new-rtlimit'' (Some (obj_print_rtlimit (f_newrtlimit f) (f_newrtlimit_unit f))),
       log_d ''    '' ''new-rtlimit-burst'' (f_newrtlimitbst f),
       log_text ''    '' ''new-rtlimit-log-prefix'' (Some (f_newrtlimit_logprefix f)),
       log_text ''    '' ''rst-rtlimit'' (Some (obj_print_rtlimit (f_rstrtlimit f) (f_rstrtlimit_unit f))),
       log_d ''    '' ''rst-rtlimit-burst'' (f_rstrtlimitbst f),
       log_text ''    '' ''rst-rtlimit-log-prefix'' (Some (f_rstrtlimit_logprefix f)),
       log_d ''    '' ''est-connlimit'' (f_estconnlimit f),
       log_text ''    '' ''est-connlimit-log-prefix'' (Some (f_estconnlimit_logprefix f)),
       log_text ''    '' ''tcp-strict'' (obj_print_switch (f_tcpstrict f)),
       log_text ''    '' ''tcp-strict-log-prefix'' (Some (f_tcpstrict_logprefix f)),
       log_d ''    '' ''queue'' (f_queue f),
       log_text ''    '' ''verdict'' (Some (obj_print_verdict (f_verdict f))),
       log_text ''    '' ''flow-offload'' (obj_print_switch (f_flow_offload f)),
       log_text ''    '' ''intra-connect'' (obj_print_switch (f_intra_connect f))]"

definition farm_internals_print :: "farm \<Rightarrow> string list option" where
  "farm_internals_print f =
     log_all [
       log_d ''   *'' ''total_weight'' (f_total_weight f),
       log_d ''   *'' ''total_bcks'' (f_total_bcks f),
       log_d ''   *'' ''bcks_available'' (f_bcks_available f),
       log_d ''   *'' ''bcks_usable'' (f_bcks_usable f),
       log_b ''   *'' ''bcks_have_port'' (f_bcks_have_port f),
       log_b ''   *'' ''bcks_have_srcaddr'' (f_bcks_have_srcaddr f),
       log_b ''   *'' ''bcks_have_if'' (f_bcks_have_if f),
       log_act ''   *'' ''policies_action'' (f_policies_action f),
       log_d ''   *'' ''policies_used'' (f_policies_used f),
       log_d ''   *'' ''total_static_sessions'' (f_total_static_sessions f),
       log_d ''   *'' ''total_timed_sessions'' (f_total_timed_sessions f),
       log_text ''   *'' ''nft_chains'' (Some (print_x (f_nft_chains f))),
       log_d ''   *'' ''addresses_used'' (f_addresses_used f),
       log_text ''   *'' ''reload_action'' (Some (print_x (f_reload_action f))),
       log_act ''   *'' ''action'' (f_action f)]"

definition farm_print :: "objs \<Rightarrow> farm \<Rightarrow> string list option" where
  "farm_print s f =
     Option.bind (case farmaddress_get_first f of
                    None \<Rightarrow> Some None | Some fa \<Rightarrow> map_option Some (get_address (fa_address fa) s)) (\<lambda>a.
       log_all [Some ['' [farm] ''],
         log_text ''    '' ''name'' (Some (f_name f)),
         log_text ''    '' ''fqdn'' (Some (f_fqdn f)),
         log_opt ''    '' ''oface'' (f_oface f),
         log_opt ''    '' ''oether-addr'' (f_oethaddr f),
         log_d ''   *'' ''ofidx'' (f_ofidx f),
         farm_address_print a,
         farm_service_print f,
         farm_limits_print f,
         farm_internals_print f,
         log_if (f_addresses_used f > 0) (farmaddress_s_print s f),
         log_if (f_total_bcks f > 0) (backend_s_print f),
         log_if (f_policies_used f > 0) (farmpolicy_s_print s f),
         log_if (f_total_static_sessions f \<noteq> 0 \<or> f_total_timed_sessions f \<noteq> 0) (session_s_print f)])"

definition farm_s_print :: "objs \<Rightarrow> string list option" where
  "farm_s_print s = log_all (map (farm_print s) (farms s))"

text \<open>All of it, at the level of debugging.\<close>

definition obj_print :: "ulog \<Rightarrow> objs \<Rightarrow> (log_sink \<times> string) list option" where
  "obj_print l s = map_option (\<lambda>ls. concat (map (u_log_print l LOG_DEBUG) ls)) (log_all [farm_s_print s, policies_s_print s])"

section \<open>The state of the translation\<close>

text \<open>
  After the translation of a farm the counters of its chains and the flags of the base rules are logged; the
  positions of the chains are those of the enumeration of nft.c.
\<close>

definition get_chain_print_pos :: "int \<Rightarrow> string" where
  "get_chain_print_pos pos =
     (if pos = 0 then ''NFTLB_F_CHAIN_ING_FILTER''
      else if pos = 2 then ''NFTLB_F_CHAIN_PRE_FILTER''
      else if pos = 3 then ''NFTLB_F_CHAIN_PRE_DNAT''
      else if pos = 4 then ''NFTLB_F_CHAIN_FWD_FILTER''
      else if pos = 5 then ''NFTLB_F_CHAIN_POS_SNAT''
      else if pos = 1 then ''NFTLB_F_CHAIN_ING_DNAT''
      else if pos = 6 then ''NFTLB_F_CHAIN_OUT_FILTER''
      else if pos = 7 then ''NFTLB_F_CHAIN_OUT_DNAT''
      else ''UNKNOWN'')"

abbreviation NFTLB_F_CHAIN_MAX :: int where "NFTLB_F_CHAIN_MAX \<equiv> 8"

text \<open>An unsigned counter printed with \<open>%d\<close>.\<close>

definition log_cnt :: "string \<Rightarrow> string \<Rightarrow> flags \<Rightarrow> string" where
  "log_cnt func what v = func @ ''():    '' @ what @ '' = '' @ print_d (sint v)"

definition print_service_counters :: "nftw \<Rightarrow> string list" where
  "print_service_counters w =
     (let ln = log_cnt ''print_service_counters'' in
      concat (map (\<lambda>i.
        let c4 = w_cnt w i False; c6 = w_cnt w i True in
        [''print_service_counters(): ['' @ get_chain_print_pos i @ '']'',
         ln ''ipv4_counters.proto_ip_port_cnt'' (proto_ip_port_cnt c4),
         ln ''ipv4_counters.proto_port_cnt'' (proto_port_cnt c4),
         ln ''ipv4_counters.proto_ip_cnt'' (proto_ip_cnt c4),
         ln ''ipv4_counters.bckmark_cnt'' (bckmark_cnt c4),
         ln ''ipv6_counters.proto_ip_port_cnt'' (proto_ip_port_cnt c6),
         ln ''ipv6_counters.proto_port_cnt'' (proto_port_cnt c6),
         ln ''ipv6_counters.proto_ip_cnt'' (proto_ip_cnt c6),
         ln ''ipv6_counters.bckmark_cnt'' (bckmark_cnt c6)]) [0..NFTLB_F_CHAIN_MAX - 1]))"

definition print_nft_base_rules :: "nftw \<Rightarrow> string list" where
  "print_nft_base_rules w =
     (let ln = log_cnt ''print_nft_base_rules''; b = w_base w in
      [ln ''table ip'' (tables b AND NFTLB_TABLE_IP_ACTIVE), ln ''table ip6'' (tables b AND NFTLB_TABLE_IP6_ACTIVE),
       ln ''table netdev'' (tables b AND NFTLB_TABLE_NETDEV_ACTIVE),
       ln ''dnat_rules_v4'' (dnat_rules_v4 b), ln ''snat_rules_v4'' (snat_rules_v4 b), ln ''filter_rules_v4'' (filter_rules_v4 b),
       ln ''fwd_rules_v4'' (fwd_rules_v4 b), ln ''out_filter_rules_v4'' (out_filter_rules_v4 b), ln ''out_nat_rules_v4'' (out_nat_rules_v4 b),
       ln ''dnat_rules_v6'' (dnat_rules_v6 b), ln ''snat_rules_v6'' (snat_rules_v6 b), ln ''filter_rules_v6'' (filter_rules_v6 b),
       ln ''fwd_rules_v6'' (fwd_rules_v6 b), ln ''out_filter_rules_v6'' (out_filter_rules_v6 b), ln ''out_nat_rules_v6'' (out_nat_rules_v6 b),
       ln ''ndv_ingress_policies'' (of_nat (ndv_ingress_policies b)),
       ln ''ndv_ingress_rules'' (of_nat (length (ndv_ingress_rules b))),
       ln ''ndv_ingress_dnat_rules'' (of_nat (length (ndv_ingress_dnat_rules b)))])"

section \<open>Properties\<close>

lemma log_all_defined: "log_all ls \<noteq> None \<longleftrightarrow> (\<forall>l \<in> set ls. l \<noteq> None)"
  by (induction ls) (auto simp: log_all_def split: option.splits)

lemma log_line_defined [simp]:
  "log_text ind key v \<noteq> None \<longleftrightarrow> v \<noteq> None" "log_opt ind key v \<noteq> None" "log_d ind key i \<noteq> None" "log_b ind key b \<noteq> None"
  "log_act ind key a \<noteq> None" "log_if c l \<noteq> None \<longleftrightarrow> (c \<longrightarrow> l \<noteq> None)"
  by (simp_all add: log_text_def log_opt_def log_d_def log_b_def log_act_def log_if_def)

lemma printed_enum [simp]:
  "obj_print_mode m \<noteq> None" "obj_print_proto p \<noteq> None" "obj_print_sched c \<noteq> None" "obj_print_helper h \<noteq> None"
  "obj_print_state v \<noteq> None" "obj_print_switch w \<noteq> None" "obj_print_policy_type t \<noteq> None" "obj_print_policy_route r \<noteq> None"
  "obj_print_family y \<noteq> None \<longleftrightarrow> y \<noteq> VALUE_FAMILY_NETDEV"
proof -
  show "obj_print_mode m \<noteq> None" by (cases m) simp_all
  show "obj_print_proto p \<noteq> None" by (cases p) simp_all
  show "obj_print_sched c \<noteq> None" by (cases c) simp_all
  show "obj_print_helper h \<noteq> None" by (cases h) simp_all
  show "obj_print_state v \<noteq> None" by (cases v) simp_all
  show "obj_print_switch w \<noteq> None" by (cases w) simp_all
  show "obj_print_policy_type t \<noteq> None" by (cases t) simp_all
  show "obj_print_policy_route r \<noteq> None" by (cases r) simp_all
  show "obj_print_family y \<noteq> None \<longleftrightarrow> y \<noteq> VALUE_FAMILY_NETDEV" by (cases y) simp_all
qed

text \<open>
  Nothing of the objects is printed below the level of debugging, and a log that was given an output always
  has one.
\<close>

lemma print_quiet: "u_log_level l < LOG_DEBUG \<Longrightarrow> obj_print l s = Some ls \<Longrightarrow> ls = []"
  by (auto simp: obj_print_def u_log_print_def)

lemma output_heard: "loglevel \<le> u_log_level l \<Longrightarrow> u_log_print (u_log_set_output output l) loglevel text \<noteq> []"
  by (simp add: u_log_print_def u_log_set_output_def flag_def)

text \<open>
  What the print follows: the pointers of the links and of the sessions. It is defined when they are good,
  every family has a name, and timed sessions have their expiration.
\<close>

definition policy_known :: "objs \<Rightarrow> oid \<Rightarrow> bool" where
  "policy_known s pid = (get_policy pid s \<noteq> None)"

definition session_printable :: "farm \<Rightarrow> session \<Rightarrow> bool" where
  "session_printable f se = (session_backend_name f se \<noteq> None)"

definition farm_printable :: "objs \<Rightarrow> farm \<Rightarrow> bool" where
  "farm_printable s f =
     (list_all (policy_known s \<circ> fp_policy) (f_policies f) \<and>
      list_all (session_printable f) (f_static_sessions f) \<and>
      list_all (\<lambda>se. session_printable f se \<and> s_expiration se \<noteq> None) (f_timed_sessions f))"

definition printable :: "objs \<Rightarrow> bool" where
  "printable s =
     (list_all (\<lambda>a. a_family a \<noteq> VALUE_FAMILY_NETDEV) (addresses s) \<and>
      list_all (\<lambda>p. p_family p \<noteq> VALUE_FAMILY_NETDEV) (policies s) \<and>
      list_all (farm_printable s) (farms s))"

lemmas log_defined = log_all_defined list_all_iff

lemma policy_print_defined: "p_family p \<noteq> VALUE_FAMILY_NETDEV \<Longrightarrow> policy_print p \<noteq> None"
  by (simp add: policy_print_def element_s_print_def log_defined del: not_None_eq)

lemma farm_parts_defined:
  "farm_service_print f \<noteq> None" "farm_limits_print f \<noteq> None" "farm_internals_print f \<noteq> None" "backend_s_print f \<noteq> None"
  by (simp_all add: farm_service_print_def farm_limits_print_def farm_internals_print_def backend_s_print_def backend_print_def
      log_defined del: not_None_eq)

lemma session_print_defined:
  "session_printable f se \<Longrightarrow> (timed \<Longrightarrow> s_expiration se \<noteq> None) \<Longrightarrow> session_print f timed se \<noteq> None"
  by (simp add: session_print_def session_printable_def log_defined del: not_None_eq)

lemma farm_print_defined:
  assumes "farm_printable s f"
    and "\<And>fa. fa \<in> set (f_addresses f) \<Longrightarrow> \<exists>a. get_address (fa_address fa) s = Some a \<and> a_family a \<noteq> VALUE_FAMILY_NETDEV"
  shows "farm_print s f \<noteq> None"
proof -
  have links: "farmaddress_print s fa \<noteq> None" if "fa \<in> set (f_addresses f)" for fa
  proof -
    note ex = assms(2) [OF that]
    obtain a where "get_address (fa_address fa) s = Some a" "a_family a \<noteq> VALUE_FAMILY_NETDEV" using ex by blast
    then show ?thesis by (simp add: farmaddress_print_def log_defined del: not_None_eq)
  qed
  have "policy_link_print s (fp_policy fp) act \<noteq> None" if "fp \<in> set (f_policies f)" for fp act
    using assms(1) that by (simp add: policy_link_print_def farm_printable_def policy_known_def log_defined del: not_None_eq)
  then have lists: "farmaddress_s_print s f \<noteq> None" "farmpolicy_s_print s f \<noteq> None"
    using links by (simp_all add: farmaddress_s_print_def farmpolicy_s_print_def log_defined del: not_None_eq)
  have sess: "session_s_print f \<noteq> None"
    using assms(1) by (simp add: session_print_defined session_s_print_def farm_printable_def log_defined ball_Un del: not_None_eq)
  have first: "farm_address_print (Some a) \<noteq> None" if "a_family a \<noteq> VALUE_FAMILY_NETDEV" for a
    using that by (simp add: farm_address_print_def log_defined del: not_None_eq)
  obtain a where a: "(case farmaddress_get_first f of
      None \<Rightarrow> Some None | Some fa \<Rightarrow> map_option Some (get_address (fa_address fa) s)) = Some a" "farm_address_print a \<noteq> None"
  proof (cases "f_addresses f")
    case Nil
    then show thesis by (intro that [of None]) (simp_all add: farmaddress_get_first_def farm_address_print_def)
  next
    case (Cons fa fas)
    then have "\<exists>a. get_address (fa_address fa) s = Some a \<and> a_family a \<noteq> VALUE_FAMILY_NETDEV" by (intro assms(2)) simp
    then obtain a where "get_address (fa_address fa) s = Some a" "a_family a \<noteq> VALUE_FAMILY_NETDEV" by blast
    then show thesis using Cons first by (intro that [of "Some a"]) (simp_all add: farmaddress_get_first_def)
  qed
  show ?thesis
    unfolding farm_print_def a(1) bind.simps
    using a(2) lists sess farm_parts_defined by (simp add: log_defined del: not_None_eq)
qed

text \<open>With exact references, as every reachable state has them, the print never reads a freed address.\<close>

theorem obj_print_defined:
  assumes "addr_refs s" "printable s"
  shows "obj_print l s \<noteq> None"
proof -
  have "farm_print s f \<noteq> None" if "f \<in> set (farms s)" for f
  proof (rule farm_print_defined)
    show "farm_printable s f" using assms(2) that by (simp add: printable_def list_all_iff)
    fix fa assume "fa \<in> set (f_addresses f)"
    then have "fa_address fa \<in> a_id ` set (addresses s)"
      using assms(1) that by (auto simp: addr_refs_def farm_refs_def)
    then obtain a where a: "get_address (fa_address fa) s = Some a"
      unfolding get_address_def using kfind_None_iff [of a_id "fa_address fa" "addresses s"] by auto
    moreover have "a \<in> set (addresses s)" using kfind_Some a unfolding get_address_def by metis
    ultimately show "\<exists>a. get_address (fa_address fa) s = Some a \<and> a_family a \<noteq> VALUE_FAMILY_NETDEV"
      using assms(2) by (auto simp: printable_def list_all_iff)
  qed
  then have "farm_s_print s \<noteq> None" by (simp add: farm_s_print_def log_defined del: not_None_eq)
  moreover have "policies_s_print s \<noteq> None"
    using assms(2) policy_print_defined by (simp add: policies_s_print_def printable_def log_defined del: not_None_eq)
  ultimately show ?thesis by (simp add: obj_print_def log_defined del: not_None_eq)
qed

end
