(* ===== verification/Spec2Isabelle.thy ===== *)
theory Spec2Isabelle
  imports Failover Termination Ports Checksum Reload Reachable HashList Events LogPrint
begin

text \<open>
  A model of nftlb, the nftables load balancer. nftlb keeps farms (virtual services) with their backends,
  virtual addresses, policies and sessions; it is configured by JSON documents from a file or over HTTP,
  and translates what it keeps into commands for nftables. The kernel then balances the packets.

  The parts and how they interact. A request (server.c) or the configuration file (main.c) is parsed
  (config.c) into attributes of objects; \<open>obj_set_attribute\<close> (objects.c) gives each to the object's module
  (farms.c, backends.c, addresses.c, policies.c, elements.c, sessions.c and the links farmaddress.c,
  farmpolicy.c, addresspolicy.c), which changes the object and notes an action on it: start, reload, stop
  or delete. \<open>obj_rulerize\<close> has the objects with pending actions translated (nft.c) into commands that
  libnftables runs, and settles them. Changes of backends (state, weight, a new link-layer address
  reported by network.c) come back to the farm as actions of their own: priorities and counters are
  recomputed, sessions moved, maps regenerated. \<open>obj_recovery\<close> rebuilds everything after a command failed.

  Theories and sources, from the bottom up:

    \<^item> Prelude: C strings, \<open>strstr\<close>, \<open>atoi\<close>, \<open>strtol\<close>, printed numbers; lists of objects addressed by
      key (locale \<open>keyed_list\<close>), codecs of values (locale \<open>value_codec\<close>), loops over identifiers (\<open>foldo\<close>).
    \<^item> Objects: enumerations, masks and structs of include/*.h as datatypes, 32-bit words and records; the
      state \<open>objs\<close> has the lists of objects.c and its globals, current objects of the parser included.
    \<^item> Keys, Values: \<open>config_key\<close>, \<open>config_value\<close> and the printers \<open>obj_print_*\<close> of config.c and objects.c.
    \<^item> Pool: one farm's backends (backends.c): validity, availability, priorities, counters and marks.
    \<^item> Ports: the port array of an address (addresses.c).
    \<^item> Links, PolicyLinks: creation, lookup and deletion of objects and of the links between them, with their
      reference counts and the actions passed along them.
    \<^item> Sessions: static and timed sessions (sessions.c).
    \<^item> Lifecycle, Failover, Termination: the mutually recursive state, action and priority functions of
      farms.c and backends.c; what a backend going down or coming back leads to; that they always return.
    \<^item> Policies: policies and elements (policies.c, elements.c).
    \<^item> Balancer, Nft, NftMaps, NftRules, NftFarm: nft.c and nftst.c, from the scheduler's maps over base
      tables and service maps to whole objects. A command is the text handed to libnftables.
    \<^item> NftSim: relations that all of nft.c keeps because its primitives keep them.
    \<^item> Rulerize: which objects are translated and in which order; recovery; changed neighbours.
    \<^item> FarmAttr, Attributes: the attribute handlers up to \<open>obj_set_attribute\<close>.
    \<^item> Config, ConfigAct, ConfigDump, Reload: documents read, actions by name, documents printed, and
      documents printed and read again (config.c).
    \<^item> Utils: the growing buffer, string copies and status lines (utils/).
    \<^item> Checksum, Network: checksum.c and network.c, the latter over what libmnl and the sockets deliver.
    \<^item> Server: requests and handlers of server.c. Daemon: its settings and clients, the command line, and
      the event loop as a step relation with reachable states.
    \<^item> Store, Reachable: the links and their counts through everything above, up to every reachable state.
    \<^item> LogPrint: the log and the printing of all objects to it.
    \<^item> Events: the watchers of events.c and the listener of neighbour events in memory, and that the listener
      exists while the flag the other theories have for it is set.
    \<^item> ListHead, HashList: the intrusive lists of list.h in memory, and that they are the lists the other
      theories use; its hash lists.

  Conventions. A \<open>char *\<close> that may be NULL is a \<open>string option\<close> (\<open>cptr\<close>). An object is addressed by the
  \<open>oid\<close> of its block of memory; lists of objects are Isabelle lists in the order of the C lists. Functions
  of C that change the program take and return the state (\<open>farm\<close>, \<open>objs\<close> or \<open>nftw\<close>, which adds what
  nft.c keeps: base rules, service counters, the command buffer and the commands run). Return codes are
  integers, kept where the callers look at them. \<open>None\<close> as the result of a function that is total in C is
  undefined behaviour (an access out of bounds, a NULL text where C needs one) or exhausted fuel. Texts are
  of the lengths the buffers of the code allow, below the range of \<open>int\<close>; those that come from outside as
  C strings have no NUL. The functions of nft.c read the fields of a farm when they start.

  Parameters stand for what is not in the sources: \<open>netenv\<close> has the answers of the kernel about
  interfaces, neighbours and the contents of nft sets, \<open>nftenv\<close> adds whether libnftables accepts a command
  and the recovery that \<open>exec_cmd\<close> starts when it does not (\<open>obj_recovery\<close> is defined after nft.c, so it is
  passed to it), \<open>jansson\<close> has the parser of documents and what can be printed, \<open>netlib\<close> libmnl and the
  resolver. Hypotheses about them are stated in the theorems that need them.

  Fuel. \<open>backend_set_state\<close>, \<open>farm_set_action\<close>, \<open>backend_s_gen_priority\<close>, \<open>farm_set_netinfo\<close> and
  \<open>backend_s_validate\<close> call each other; each call of \<open>backend_set_state\<close> takes one unit. On a farm whose
  backends are configured one unit more than the farm has backends is enough (Failover); on any farm with
  \<open>k\<close> backends \<open>6 * k * k + 8 * k + 3\<close> are (Termination), since every nested call that changes a state
  brings the farm nearer to a settled one. The functions above take the fuel and pass it on.
  Every other loop has a measure, or is an \<open>option\<close> where the code may not end (ListHead).

  What the lemmas show, by group: values and documents survive printing and parsing (Values, Reload,
  Sessions, Policies, Ports); pools, counters, priorities and marks are what the definitions of the
  manual ask for (Pool, Failover, Balancer); lists, buffers, watchers and clients never dangle (ListHead,
  HashList, Utils, Events, Daemon), and links of farms to addresses and policies do not in any state the daemon reaches (Links and
  PolicyLinks show it of the operations on links, Store and Reachable of all that use them; the links of
  addresses to policies do dangle, as Store shows); chains, maps and counters of nft.c follow the objects (Nft, NftMaps), the
  translation changes no configuration, settles what is pending and does not depend on serialisation
  (NftSim); what can not be translated is not (Rulerize); the server serves nobody without the key and
  everybody with it (Server, Daemon); echo requests are accepted and neighbours found (Checksum, Network).
  Some theorems state what the code does where that is not what it means to do: ports out of range
  (Ports), services of IPv6 addresses (NftMaps), misplaced sections (Config), long keys (Server), values of ten
  keys refused (Values), neighbours in a later part of a reply (Network).

  Not modelled. The messages that functions log on their way, the backtrace (u_backtrace.c), the usage
  text, the signal handlers and the setup of netlink headers have no effect on what is modelled; \<open>loop_run\<close> only
  enters libev, whose callbacks are the step relation of Daemon. A failed allocation ends most functions early and is not followed, except
  where a client is accepted, a host looked up or a watcher allocated. \<open>nft_rulerize_*\<close> always report success, so the
  branches of the server for a failed translation are never taken. \<open>farmaddress_s_set_attribute\<close> is not
  called. The current session is looked for in the current farm; that of a farm read before, to which the
  code still points when the backend of a session comes before its client, is not.
\<close>

end
